(* ===== verification/Prelude.thy ===== *)
theory Prelude
  imports Main "HOL-Library.Word"
begin

text \<open>
  Shared vocabulary of the development: the machine integers of the Go code, the
  collections of rewrite rules the component theories fill, and the facts on lists,
  maps, sums and bounded searches that more than one component needs.

  Errors of the code are values: an operation that can fail returns \<open>'e + 'a\<close>, with
  \<open>Inl\<close> for Go's non-nil \<^verbatim>\<open>error\<close>. Time is an \<open>int\<close> of nanoseconds, as
  \<^verbatim>\<open>time.Duration\<close> counts them.
\<close>

unbundle bit_operations_syntax

section \<open>Types\<close>

type_synonym u8 = "8 word"
type_synonym u32 = "32 word"
type_synonym u64 = "64 word"

text \<open>Instants and durations, in nanoseconds.\<close>

type_synonym time = int

definition second :: time where
  "second = 1000000000"

definition minute :: time where
  "minute = 60 * second"

definition hour :: time where
  "hour = 60 * minute"

lemma second_pos [simp]: "0 < second"
  by (simp add: second_def)

lemma minute_pos [simp]: "0 < minute"
  by (simp add: minute_def)

text \<open>Go's \<^verbatim>\<open>int64\<close> arithmetic wraps.\<close>

definition wrap64 :: "int \<Rightarrow> int" where
  "wrap64 x = (x + 2 ^ 63) mod 2 ^ 64 - 2 ^ 63"

lemma wrap64_id: "- (2 ^ 63) \<le> x \<Longrightarrow> x < 2 ^ 63 \<Longrightarrow> wrap64 x = x"
  by (simp add: wrap64_def)

section \<open>Collections of rules\<close>

named_theorems go_simps \<open>evaluation of the Go library functions the code calls\<close>
named_theorems table_simps \<open>how each database operation changes each table\<close>
named_theorems inv_intros \<open>an operation keeps its component's invariant\<close>

section \<open>Bounded searches\<close>

text \<open>
  The code has several loops \<^verbatim>\<open>for i := lo; i <= hi; i++ { if ok(i) { return i } }\<close>.
  They are \<open>find\<close> over the interval: the answer is the least hit, and there is none
  only if the whole interval misses.
\<close>

definition first_from :: "nat \<Rightarrow> nat \<Rightarrow> (nat \<Rightarrow> bool) \<Rightarrow> nat option" where
  "first_from lo hi ok = find ok [lo ..< Suc hi]"

lemma first_from_Some:
  assumes "first_from lo hi ok = Some i"
  shows "lo \<le> i" and "i \<le> hi" and "ok i" and "\<And>j. lo \<le> j \<Longrightarrow> j < i \<Longrightarrow> \<not> ok j"
proof -
  from assms obtain k where k: "k < length [lo ..< Suc hi]" "ok ([lo ..< Suc hi] ! k)"
      "i = [lo ..< Suc hi] ! k" and least: "\<And>j. j < k \<Longrightarrow> \<not> ok ([lo ..< Suc hi] ! j)"
    unfolding first_from_def by (auto simp: find_Some_iff)
  from k have i: "i = lo + k" "k < Suc hi - lo"
    by (auto simp del: upt_Suc)
  then show "lo \<le> i" "i \<le> hi" by auto
  from k show "ok i" by simp
  fix j assume j: "lo \<le> j" "j < i"
  with i have "j - lo < k" by simp
  from least [OF this] j i show "\<not> ok j" by (simp del: upt_Suc)
qed

lemma first_from_None: "first_from lo hi ok = None \<longleftrightarrow> (\<forall>i. lo \<le> i \<and> i \<le> hi \<longrightarrow> \<not> ok i)"
  by (auto simp: first_from_def find_None_iff simp del: upt_Suc)

text \<open>
  A search that avoids a finite set of taken candidates succeeds as long as the set is
  smaller than the interval.
\<close>

lemma first_from_avoiding:
  assumes "inj_on f {lo..hi}" and "finite U" and "card U < Suc hi - lo"
  shows "\<exists>i. first_from lo hi (\<lambda>i. f i \<notin> U) = Some i"
proof (rule ccontr)
  assume "\<not> ?thesis"
  then have "first_from lo hi (\<lambda>i. f i \<notin> U) = None" by simp
  then have "f ` {lo..hi} \<subseteq> U" by (auto simp: first_from_None)
  with assms(2) have "card (f ` {lo..hi}) \<le> card U" by (rule card_mono)
  with assms(1) have "card {lo..hi} \<le> card U" by (simp add: card_image)
  with assms(3) show False by simp
qed

section \<open>Maps\<close>

text \<open>Adding a binding with a fresh value, or dropping one, keeps a map injective.\<close>

definition inj_map :: "('k \<rightharpoonup> 'v) \<Rightarrow> bool" where
  "inj_map m \<longleftrightarrow> (\<forall>k l v. m k = Some v \<longrightarrow> m l = Some v \<longrightarrow> k = l)"

lemma inj_mapD: "inj_map m \<Longrightarrow> m k = Some v \<Longrightarrow> m l = Some v \<Longrightarrow> k = l"
  by (auto simp: inj_map_def)

lemma inj_map_empty [simp]: "inj_map Map.empty"
  by (simp add: inj_map_def)

lemma inj_map_upd: "inj_map m \<Longrightarrow> v \<notin> ran m \<Longrightarrow> inj_map (m(k \<mapsto> v))"
  by (auto simp: inj_map_def ran_def)

lemma inj_map_del: "inj_map m \<Longrightarrow> inj_map (m(k := None))"
  by (auto simp: inj_map_def)

lemma ran_upd_subset: "ran (m(k \<mapsto> v)) \<subseteq> insert v (ran m)"
  by (auto simp: ran_def)

lemma ran_del_subset: "ran (m(k := None)) \<subseteq> ran m"
  by (auto simp: ran_def)

lemma ran_del_inj: "inj_map m \<Longrightarrow> m k = Some v \<Longrightarrow> ran (m(k := None)) = ran m - {v}"
  unfolding ran_def inj_map_def by (auto split: if_splits) (metis option.inject)

section \<open>Lists of rows\<close>

text \<open>An update of the rows that match, as SQL's \<^verbatim>\<open>UPDATE ... WHERE\<close> does.\<close>

definition map_where :: "('a \<Rightarrow> bool) \<Rightarrow> ('a \<Rightarrow> 'a) \<Rightarrow> 'a list \<Rightarrow> 'a list" where
  "map_where p f xs = map (\<lambda>x. if p x then f x else x) xs"

lemma map_where_simps [simp]:
  "map_where p f [] = []"
  "map_where p f (x # xs) = (if p x then f x else x) # map_where p f xs"
  by (simp_all add: map_where_def)

lemma length_map_where [simp]: "length (map_where p f xs) = length xs"
  by (simp add: map_where_def)

lemma set_map_where: "set (map_where p f xs) = f ` {x \<in> set xs. p x} \<union> {x \<in> set xs. \<not> p x}"
  by (auto simp: map_where_def)

lemma map_map_where:
  assumes "\<And>x. g (f x) = g x"
  shows "map g (map_where p f xs) = map g xs"
  by (simp add: map_where_def assms)

lemma filter_map_where_id:
  assumes "\<And>x. p x \<Longrightarrow> q (f x) = q x" and "\<And>x. p x \<Longrightarrow> q x \<Longrightarrow> False"
  shows "filter q (map_where p f xs) = filter q xs"
  by (induction xs) (auto simp: assms(1) dest: assms(2))

lemma find_map_where:
  assumes "\<And>x. q (f x) = q x"
  shows "find q (map_where p f xs) = map_option (\<lambda>x. if p x then f x else x) (find q xs)"
  by (induction xs) (auto simp: assms)

lemma find_SomeD: "find p xs = Some x \<Longrightarrow> x \<in> set xs \<and> p x"
  by (auto simp: find_Some_iff)

lemma distinct_map_filterI: "distinct (map f xs) \<Longrightarrow> distinct (map f (filter p xs))"
  by (simp add: distinct_map_filter)

end
