(* ===== verification/GoNet.thy ===== *)
theory GoNet
  imports GoStrings
begin

text \<open>
  The part of Go's \<^verbatim>\<open>net\<close> package the program relies on: textual IP addresses
  (\<^verbatim>\<open>net.ParseIP\<close>, \<^verbatim>\<open>IP.String\<close>), CIDR blocks (\<^verbatim>\<open>net.ParseCIDR\<close>, \<^verbatim>\<open>IPNet.Contains\<close>),
  address classes, and \<^verbatim>\<open>host:port\<close> strings. An address is an IPv4 word or an IPv6 word;
  an IPv4-mapped IPv6 address stays an IPv6 value and \<open>to4\<close> reads it as IPv4, as
  \<^verbatim>\<open>IP.To4\<close> does. The main lemma is the print/parse round trip \<open>parse_ip_ip4_string\<close>.
\<close>

section \<open>IPv4\<close>

definition octet :: "nat \<Rightarrow> u32 \<Rightarrow> nat" where
  "octet k w = (unat w div 256 ^ k) mod 256"

definition ip4_of_octets :: "nat \<Rightarrow> nat \<Rightarrow> nat \<Rightarrow> nat \<Rightarrow> u32" where
  "ip4_of_octets a b c d = of_nat (((a * 256 + b) * 256 + c) * 256 + d)"

definition dotted :: "nat \<Rightarrow> nat \<Rightarrow> nat \<Rightarrow> nat \<Rightarrow> string" where
  "dotted a b c d =
     itoa_nat a @ CHR ''.'' # itoa_nat b @ CHR ''.'' # itoa_nat c @ CHR ''.'' # itoa_nat d"

definition ip4_string :: "u32 \<Rightarrow> string" where
  "ip4_string w = dotted (octet 3 w) (octet 2 w) (octet 1 w) (octet 0 w)"

text \<open>A decimal octet: no leading zero, at most 255.\<close>

definition parse_octet :: "string \<Rightarrow> nat option" where
  "parse_octet s =
     (if digits_only s \<and> (length s = 1 \<or> hd s \<noteq> CHR ''0'') \<and> dec_val s \<le> 255
      then Some (dec_val s) else None)"

definition parse_ipv4 :: "string \<Rightarrow> u32 option" where
  "parse_ipv4 s =
     (case map parse_octet (split_on (CHR ''.'') s) of
        [Some a, Some b, Some c, Some d] \<Rightarrow> Some (ip4_of_octets a b c d)
      | _ \<Rightarrow> None)"

lemma octet_less: "octet k w < 256"
  by (simp add: octet_def)

lemma parse_octet_itoa: "n \<le> 255 \<Longrightarrow> parse_octet (itoa_nat n) = Some n"
proof (cases "n = 0")
  case True
  then show ?thesis by (simp add: parse_octet_def itoa_nat.simps [of 0] digits_only_def dec_val_def)
next
  case False
  then show "n \<le> 255 \<Longrightarrow> ?thesis"
    by (simp add: parse_octet_def itoa_nat_no_leading_zero)
qed

lemma split_dotted: "split_on (CHR ''.'') (dotted a b c d) = [itoa_nat a, itoa_nat b, itoa_nat c, itoa_nat d]"
  by (simp add: dotted_def split_on_first split_on_none itoa_nat_notin)

lemma octets_recombine:
  fixes n :: nat
  assumes "n < 4294967296"
  shows "((n div 256 ^ 3 mod 256 * 256 + n div 256 ^ 2 mod 256) * 256 + n div 256 ^ 1 mod 256) * 256
     + n div 256 ^ 0 mod 256 = n"
proof -
  have d: "n div 256 ^ 2 = n div 256 div 256" "n div 256 ^ 3 = n div 256 div 256 div 256"
    by (simp_all flip: div_mult2_eq)
  have "n div 256 div 256 div 256 < 256" using assms by (simp flip: div_mult2_eq add: div_less_iff_less_mult)
  then have "n div 256 div 256 div 256 mod 256 = n div 256 div 256 div 256" by simp
  then show ?thesis unfolding d by simp
qed

lemma ip4_of_octets_octet: "ip4_of_octets (octet 3 w) (octet 2 w) (octet 1 w) (octet 0 w) = w"
proof -
  have n: "unat w < 4294967296"
    using unsigned_less [of w, where ?'a = nat] by simp
  have "((octet 3 w * 256 + octet 2 w) * 256 + octet 1 w) * 256 + octet 0 w = unat w"
    unfolding octet_def by (rule octets_recombine [OF n])
  then have "ip4_of_octets (octet 3 w) (octet 2 w) (octet 1 w) (octet 0 w) = of_nat (unat w)"
    by (simp only: ip4_of_octets_def)
  then show ?thesis by simp
qed

lemma parse_ipv4_dotted:
  "a \<le> 255 \<Longrightarrow> b \<le> 255 \<Longrightarrow> c \<le> 255 \<Longrightarrow> d \<le> 255 \<Longrightarrow>
     parse_ipv4 (dotted a b c d) = Some (ip4_of_octets a b c d)"
  by (simp add: parse_ipv4_def split_dotted parse_octet_itoa)

lemma octet_le: "octet k w \<le> 255"
  using octet_less [of k w] by simp

lemma parse_ipv4_ip4_string: "parse_ipv4 (ip4_string w) = Some w"
  unfolding ip4_string_def
  by (simp only: parse_ipv4_dotted octet_le ip4_of_octets_octet)

lemma ip4_string_inj: "ip4_string v = ip4_string w \<longleftrightarrow> v = w"
  by (metis option.inject parse_ipv4_ip4_string)

lemma ip4_string_notin: "CHR ''/'' \<notin> set (ip4_string w)" "CHR '':'' \<notin> set (ip4_string w)"
  by (simp_all add: ip4_string_def dotted_def itoa_nat_notin)

section \<open>IPv6\<close>

definition is_hex :: "char \<Rightarrow> bool" where
  "is_hex c \<longleftrightarrow> is_digit c \<or> (97 \<le> code c \<and> code c \<le> 102) \<or> (65 \<le> code c \<and> code c \<le> 70)"

definition hex_digit_val :: "char \<Rightarrow> nat" where
  "hex_digit_val c =
     (if is_digit c then code c - 48 else if is_lower c then code c - 87 else code c - 55)"

definition hex_val :: "string \<Rightarrow> nat" where
  "hex_val s = foldl (\<lambda>v c. v * 16 + hex_digit_val c) 0 s"

text \<open>
  The loop of \<^verbatim>\<open>netip.parseIPv6\<close>: the bytes so far, the position of the \<^verbatim>\<open>::\<close> if it was
  seen, and the rest of the text.
\<close>

function v6_loop :: "string \<Rightarrow> nat list \<Rightarrow> nat option \<Rightarrow> (nat list \<times> nat option \<times> string) option" where
  "v6_loop s bs ell =
     (if 16 \<le> length bs then Some (bs, ell, s)
      else let ds = takeWhile is_hex s; r = dropWhile is_hex s in
        if ds = [] \<or> 4 < length ds then None
        else if r \<noteq> [] \<and> hd r = CHR ''.'' then
          (if ell = None \<and> length bs \<noteq> 12 \<or> 16 < length bs + 4 then None
           else map_option (\<lambda>w. (bs @ [octet 3 w, octet 2 w, octet 1 w, octet 0 w], ell, []))
                  (parse_ipv4 s))
        else let bs' = bs @ [hex_val ds div 256, hex_val ds mod 256] in
          if r = [] then Some (bs', ell, [])
          else if hd r \<noteq> CHR '':'' \<or> tl r = [] then None
          else if hd (tl r) \<noteq> CHR '':'' then v6_loop (tl r) bs' ell
          else if ell \<noteq> None then None
          else if tl (tl r) = [] then Some (bs', Some (length bs'), [])
          else v6_loop (tl (tl r)) bs' (Some (length bs')))"
  by pat_completeness auto
termination
  by (relation "measure (\<lambda>(s, bs, ell). 16 - length bs)") auto

declare v6_loop.simps [simp del]

definition v6_bytes :: "string \<Rightarrow> nat list option" where
  "v6_bytes s =
     (let lead = has_prefix s ''::'' in
      if lead \<and> length s = 2 then Some (replicate 16 0)
      else case v6_loop (if lead then drop 2 s else s) [] (if lead then Some 0 else None) of
        None \<Rightarrow> None
      | Some (bs, ell, rest) \<Rightarrow>
          if rest \<noteq> [] then None
          else case ell of
            None \<Rightarrow> if length bs = 16 then Some bs else None
          | Some e \<Rightarrow> if length bs < 16
                       then Some (take e bs @ replicate (16 - length bs) 0 @ drop e bs) else None)"

definition parse_ipv6 :: "string \<Rightarrow> 128 word option" where
  "parse_ipv6 s = map_option (foldl (\<lambda>w b. w * 256 + of_nat b) 0) (v6_bytes s)"

section \<open>Addresses\<close>

datatype ip = IP4 u32 | IP6 "128 word"

text \<open>\<^verbatim>\<open>net.ParseIP\<close>: the first of \<^verbatim>\<open>.\<close> and \<^verbatim>\<open>:\<close> selects the syntax; zones are refused.\<close>

definition parse_ip :: "string \<Rightarrow> ip option" where
  "parse_ip s =
     (if CHR ''%'' \<in> set s then None
      else case find (\<lambda>c. c = CHR ''.'' \<or> c = CHR '':'') s of
        None \<Rightarrow> None
      | Some c \<Rightarrow> if c = CHR ''.'' then map_option IP4 (parse_ipv4 s)
                   else map_option IP6 (parse_ipv6 s))"

fun to4 :: "ip \<Rightarrow> u32 option" where
  "to4 (IP4 w) = Some w"
| "to4 (IP6 v) = (if drop_bit 32 v = 0xFFFF then Some (ucast v) else None)"

lemma find_append_first: "\<forall>x \<in> set xs. \<not> p x \<Longrightarrow> p c \<Longrightarrow> find p (xs @ c # ys) = Some c"
  by (induction xs) auto

lemma find_dot_ip4_string:
  "find (\<lambda>c. c = CHR ''.'' \<or> c = CHR '':'') (ip4_string w) = Some (CHR ''.'')"
  unfolding ip4_string_def dotted_def
  by (rule find_append_first) (auto simp: itoa_nat_notin)

lemma percent_notin_itoa: "CHR ''%'' \<notin> set (itoa_nat n)"
  using itoa_nat_digits [of n] by (auto simp: list_all_iff dest!: not_digit_char)

lemma percent_notin_ip4_string: "CHR ''%'' \<notin> set (ip4_string w)"
  by (simp add: ip4_string_def dotted_def percent_notin_itoa)

lemma parse_ip_ip4_string [go_simps]: "parse_ip (ip4_string w) = Some (IP4 w)"
  by (simp add: parse_ip_def find_dot_ip4_string percent_notin_ip4_string parse_ipv4_ip4_string)

text \<open>\<^verbatim>\<open>IP.String\<close>: dotted decimal when \<open>to4\<close> applies, else the shortest IPv6 form.\<close>

fun hex_nat :: "nat \<Rightarrow> string" where
  "hex_nat n = (if n < 16 then [char_of (if n < 10 then 48 + n else 87 + n)]
                else hex_nat (n div 16) @ hex_nat (n mod 16))"

declare hex_nat.simps [simp del]

definition v6_groups :: "128 word \<Rightarrow> nat list" where
  "v6_groups v = map (\<lambda>k. (unat v div 65536 ^ (7 - k)) mod 65536) [0 ..< 8]"

fun join_with :: "string \<Rightarrow> string list \<Rightarrow> string" where
  "join_with sep [] = []"
| "join_with sep [s] = s"
| "join_with sep (s # t # ts) = s @ sep @ join_with sep (t # ts)"

definition zero_run :: "nat list \<Rightarrow> nat \<times> nat" where
  "zero_run gs =
     foldl (\<lambda>(st, ln) i. let l = length (takeWhile (\<lambda>g. g = 0) (drop i gs))
                         in if 2 \<le> l \<and> ln < l then (i, l) else (st, ln)) (0, 0) [0 ..< length gs]"

definition ip6_string :: "128 word \<Rightarrow> string" where
  "ip6_string v =
     (let gs = v6_groups v; (st, ln) = zero_run gs; hex = (\<lambda>xs. join_with '':'' (map hex_nat xs))
      in if ln = 0 then hex gs else hex (take st gs) @ ''::'' @ hex (drop (st + ln) gs))"

definition ip_string :: "ip \<Rightarrow> string" where
  "ip_string a = (case to4 a of Some w \<Rightarrow> ip4_string w
                  | None \<Rightarrow> (case a of IP6 v \<Rightarrow> ip6_string v | IP4 w \<Rightarrow> ip4_string w))"

section \<open>Address classes\<close>

definition v6_byte :: "nat \<Rightarrow> 128 word \<Rightarrow> nat" where
  "v6_byte k v = (unat v div 256 ^ (15 - k)) mod 256"

definition is_loopback :: "ip \<Rightarrow> bool" where
  "is_loopback a = (case to4 a of Some w \<Rightarrow> octet 3 w = 127
                    | None \<Rightarrow> (case a of IP6 v \<Rightarrow> v = 1 | IP4 w \<Rightarrow> False))"

definition is_private :: "ip \<Rightarrow> bool" where
  "is_private a =
     (case to4 a of
        Some w \<Rightarrow> octet 3 w = 10 \<or> (octet 3 w = 172 \<and> octet 2 w div 16 = 1)
                  \<or> (octet 3 w = 192 \<and> octet 2 w = 168)
      | None \<Rightarrow> (case a of IP6 v \<Rightarrow> v6_byte 0 v div 2 = 126 | IP4 w \<Rightarrow> False))"

definition is_link_local_unicast :: "ip \<Rightarrow> bool" where
  "is_link_local_unicast a =
     (case to4 a of
        Some w \<Rightarrow> octet 3 w = 169 \<and> octet 2 w = 254
      | None \<Rightarrow> (case a of IP6 v \<Rightarrow> v6_byte 0 v = 254 \<and> v6_byte 1 v div 64 = 2 | IP4 w \<Rightarrow> False))"

definition is_link_local_multicast :: "ip \<Rightarrow> bool" where
  "is_link_local_multicast a =
     (case to4 a of
        Some w \<Rightarrow> octet 3 w = 224 \<and> octet 2 w = 0 \<and> octet 1 w = 0
      | None \<Rightarrow> (case a of IP6 v \<Rightarrow> v6_byte 0 v = 255 \<and> v6_byte 1 v mod 16 = 2 | IP4 w \<Rightarrow> False))"

definition is_unspecified :: "ip \<Rightarrow> bool" where
  "is_unspecified a = (case to4 a of Some w \<Rightarrow> w = 0
                       | None \<Rightarrow> (case a of IP6 v \<Rightarrow> v = 0 | IP4 w \<Rightarrow> False))"

section \<open>Blocks\<close>

text \<open>An \<^verbatim>\<open>IPNet\<close>: a network address and the number of leading one bits of its mask.\<close>

record ipnet =
  net_ip :: ip
  net_ones :: nat

definition mask_to :: "nat \<Rightarrow> 'a::len word \<Rightarrow> 'a word" where
  "mask_to n w = w AND NOT (mask (LENGTH('a) - n))"

definition parse_cidr :: "string \<Rightarrow> (ip \<times> ipnet) option" where
  "parse_cidr s =
     (case cut s (CHR ''/'') of
        None \<Rightarrow> None
      | Some (addr, m) \<Rightarrow>
          (case parse_ip addr of
             None \<Rightarrow> None
           | Some (IP4 w) \<Rightarrow>
               if digits_only m \<and> dec_val m \<le> 32
               then Some (IP4 w, \<lparr>net_ip = IP4 (mask_to (dec_val m) w), net_ones = dec_val m\<rparr>)
               else None
           | Some (IP6 v) \<Rightarrow>
               if digits_only m \<and> dec_val m \<le> 128
               then Some (IP6 v, \<lparr>net_ip = IP6 (mask_to (dec_val m) v), net_ones = dec_val m\<rparr>)
               else None))"

text \<open>The pair \<^verbatim>\<open>Mask.Size()\<close> returns: leading ones and total bits.\<close>

definition mask_size :: "ipnet \<Rightarrow> nat \<times> nat" where
  "mask_size n = (net_ones n, (case net_ip n of IP4 _ \<Rightarrow> 32 | IP6 _ \<Rightarrow> 128))"

definition net_contains :: "ipnet \<Rightarrow> ip \<Rightarrow> bool" where
  "net_contains n a =
     (case (to4 (net_ip n), to4 a) of
        (Some b, Some w) \<Rightarrow>
          (let ones = (case net_ip n of IP4 _ \<Rightarrow> net_ones n | IP6 _ \<Rightarrow> net_ones n - 96)
           in drop_bit (32 - ones) w = drop_bit (32 - ones) b)
      | (None, None) \<Rightarrow>
          (case (net_ip n, a) of
             (IP6 b, IP6 v) \<Rightarrow> drop_bit (128 - net_ones n) v = drop_bit (128 - net_ones n) b
           | _ \<Rightarrow> False)
      | _ \<Rightarrow> False)"

definition net_string :: "ipnet \<Rightarrow> string" where
  "net_string n = ip_string (net_ip n) @ CHR ''/'' # itoa_nat (net_ones n)"

text \<open>A single host: the \<^verbatim>\<open>/32\<close> block of an IPv4 address.\<close>

definition host_net :: "u32 \<Rightarrow> ipnet" where
  "host_net w = \<lparr>net_ip = IP4 w, net_ones = 32\<rparr>"

lemma mask_to_full [simp]: "mask_to 32 (w :: u32) = w"
  by (simp add: mask_to_def)

lemma digits_32: "digits_only ''32''" "dec_val ''32'' = 32"
  by (simp_all add: digits_only_def is_digit_def code_def dec_val_def digit_val_def)

lemma parse_cidr_host [go_simps]:
  "parse_cidr (ip4_string w @ ''/32'') = Some (IP4 w, host_net w)"
  using cut_first [OF ip4_string_notin(1) [of w], of "''32''"]
  by (simp add: parse_cidr_def parse_ip_ip4_string digits_32 host_net_def)

lemma parse_cidr_v4 [go_simps]:
  "n \<le> 32 \<Longrightarrow> parse_cidr (ip4_string w @ CHR ''/'' # itoa_nat n) =
     Some (IP4 w, \<lparr>net_ip = IP4 (mask_to n w), net_ones = n\<rparr>)"
  using cut_first [OF ip4_string_notin(1) [of w], of "itoa_nat n"]
  by (simp add: parse_cidr_def parse_ip_ip4_string)

text \<open>Evaluation of the address parsers on literals.\<close>

lemmas net_eval = parse_cidr_def parse_ip_def parse_ipv4_def parse_octet_def ip4_of_octets_def
  digits_only_def is_digit_def code_def dec_val_def digit_val_def mask_to_def mask_eq_exp_minus_1

section \<open>host:port\<close>

definition split_host_port :: "string \<Rightarrow> (string \<times> string) option" where
  "split_host_port hp =
     (case last_index_byte hp (CHR '':'') of
        None \<Rightarrow> None
      | Some i \<Rightarrow>
          if hd hp = CHR ''['' then
            (case index_byte hp (CHR '']'') of
               None \<Rightarrow> None
             | Some e \<Rightarrow>
                 if e + 1 \<noteq> i then None
                 else if CHR ''['' \<in> set (drop 1 hp) \<or> CHR '']'' \<in> set (drop (e + 1) hp) then None
                 else Some (drop 1 (take e hp), drop (i + 1) hp))
          else
            (if CHR '':'' \<in> set (take i hp) then None
             else if CHR ''['' \<in> set hp \<or> CHR '']'' \<in> set hp then None
             else Some (take i hp, drop (i + 1) hp)))"

definition join_host_port :: "string \<Rightarrow> string \<Rightarrow> string" where
  "join_host_port h p = (if CHR '':'' \<in> set h then CHR ''['' # h @ '']:'' @ p else h @ CHR '':'' # p)"

lemma index_byte_first: "c \<notin> set s \<Longrightarrow> index_byte (s @ c # t) c = Some (length s)"
  by (induction s) auto

lemma last_index_byte_last: "c \<notin> set t \<Longrightarrow> last_index_byte (s @ c # t) c = Some (length s)"
  using index_byte_first [of c "rev t" "rev s"] by (simp add: last_index_byte_def)

text \<open>Splitting undoes joining, for hosts and ports without brackets.\<close>

lemma split_join_host_port:
  assumes "set h \<inter> {CHR ''['', CHR '']''} = {}" and "set p \<inter> {CHR ''['', CHR '']'', CHR '':''} = {}"
  shows "split_host_port (join_host_port h p) = Some (h, p)"
proof (cases "CHR '':'' \<in> set h")
  case True
  have i: "last_index_byte (CHR ''['' # h @ '']:'' @ p) (CHR '':'') = Some (length h + 2)"
    using last_index_byte_last [of "CHR '':''" p "CHR ''['' # h @ [CHR '']'']"] assms by simp
  have e: "index_byte (CHR ''['' # h @ '']:'' @ p) (CHR '']'') = Some (length h + 1)"
    using index_byte_first [of "CHR '']''" "CHR ''['' # h" "CHR '':'' # p"] assms by auto
  from True i e assms show ?thesis
    by (auto simp: join_host_port_def split_host_port_def)
next
  case False
  have i: "last_index_byte (h @ CHR '':'' # p) (CHR '':'') = Some (length h)"
    using last_index_byte_last [of "CHR '':''" p h] assms by simp
  from False assms have "hd (h @ CHR '':'' # p) \<noteq> CHR ''[''" by (cases h) auto
  with False i assms show ?thesis
    by (auto simp: join_host_port_def split_host_port_def)
qed

end
