(* ===== verification/IPPool.thy ===== *)
theory IPPool
  imports GoNet
begin

text \<open>
  \<^verbatim>\<open>internal/ippool/pool.go\<close>: the allocator of tunnel addresses. A pool is a bitset over the
  host offsets of one IPv4 block, a counter of the bits set and a hint below which every
  offset is taken. The abstraction is the set \<open>used\<close> of taken offsets: the lemmas show that
  each operation on words does to that set what its name says, that the scan of
  \<open>allocate\<close> returns (no wrap-around is ever needed) and that it picks the lowest free
  offset. The locale \<open>address_allocator\<close> is the contract clients rely on.
\<close>

section \<open>State\<close>

datatype pool_err =
    ErrPoolExhausted
  | ErrIPAlreadyUsed
  | ErrIPNotFound
  | ErrInvalidCIDR string
  | ErrOnlyIPv4
  | ErrNotInNetwork string
  | IndexPanic

record pool =
  pool_network :: ipnet
  pool_base :: u32
  pool_max :: u32
  pool_bits :: "u64 list"
  pool_count :: u32
  pool_next :: u32

section \<open>Operations\<close>

definition new_pool :: "string \<Rightarrow> pool_err + pool" where
  "new_pool cidr =
     (case parse_cidr cidr of
        None \<Rightarrow> Inl (ErrInvalidCIDR cidr)
      | Some (_, network) \<Rightarrow>
          (let (ones, b) = mask_size network in
           if b \<noteq> 32 then Inl ErrOnlyIPv4
           else let base = the (to4 (net_ip network));
                    max_host = push_bit (b - ones) 1 - 1;
                    words = (max_host + 64) div 64;
                    bs = replicate (unat words) 0
                in if bs = [] then Inl IndexPanic
                   else Inr \<lparr>pool_network = network, pool_base = base, pool_max = max_host,
                             pool_bits = bs[0 := bs ! 0 OR 3], pool_count = 2, pool_next = 2\<rparr>))"

definition offset_to_ip :: "pool \<Rightarrow> u32 \<Rightarrow> string" where
  "offset_to_ip p off = ip4_string (pool_base p + off)"

definition ip_to_offset :: "pool \<Rightarrow> string \<Rightarrow> u32 option" where
  "ip_to_offset p s =
     (case parse_ip s of
        None \<Rightarrow> None
      | Some a \<Rightarrow>
          (case to4 a of
             None \<Rightarrow> None
           | Some v \<Rightarrow> if v < pool_base p \<or> pool_base p + pool_max p < v then None
                       else Some (v - pool_base p)))"

definition strip_mask :: "string \<Rightarrow> string" where
  "strip_mask s = takeWhile (\<lambda>c. c \<noteq> CHR ''/'') s"

text \<open>The bit of an offset: word \<open>off / 64\<close>, bit \<open>off % 64\<close>.\<close>

definition word_ix :: "u32 \<Rightarrow> nat" where
  "word_ix off = unat (off div 64)"

definition bit_mask :: "u32 \<Rightarrow> u64" where
  "bit_mask off = push_bit (unat (off mod 64)) 1"

partial_function (option) scan :: "pool \<Rightarrow> u32 \<Rightarrow> ((pool_err + string) \<times> pool) option" where
  "scan p off0 =
     (let off = (if pool_max p \<le> off0 then 2 else off0) in
      if length (pool_bits p) \<le> word_ix off then Some (Inl IndexPanic, p)
      else if pool_bits p ! word_ix off AND bit_mask off = 0
      then Some (Inr (offset_to_ip p off @ ''/32''),
                 p\<lparr>pool_bits := (pool_bits p)[word_ix off := pool_bits p ! word_ix off OR bit_mask off],
                   pool_count := pool_count p + 1, pool_next := off + 1\<rparr>)
      else if off + 1 = pool_next p then Some (Inl ErrPoolExhausted, p)
      else scan p (off + 1))"

declare scan.simps [code]

definition allocate :: "pool \<Rightarrow> ((pool_err + string) \<times> pool) option" where
  "allocate p =
     (let usable = pool_max p - 1 in
      if usable < pool_count p then Some (Inl ErrPoolExhausted, p)
      else scan p (pool_next p))"

definition release :: "string \<Rightarrow> pool \<Rightarrow> (pool_err + unit) \<times> pool" where
  "release s p =
     (case ip_to_offset p (strip_mask s) of
        None \<Rightarrow> (Inl ErrIPNotFound, p)
      | Some off \<Rightarrow>
          if length (pool_bits p) \<le> word_ix off then (Inl IndexPanic, p)
          else if pool_bits p ! word_ix off AND bit_mask off = 0 then (Inl ErrIPNotFound, p)
          else (Inr (),
                p\<lparr>pool_bits := (pool_bits p)[word_ix off := pool_bits p ! word_ix off AND NOT (bit_mask off)],
                  pool_count := pool_count p - 1,
                  pool_next := (if off < pool_next p then off else pool_next p)\<rparr>))"

definition reserve :: "string \<Rightarrow> pool \<Rightarrow> (pool_err + unit) \<times> pool" where
  "reserve s p =
     (case ip_to_offset p (strip_mask s) of
        None \<Rightarrow> (Inl (ErrNotInNetwork (strip_mask s)), p)
      | Some off \<Rightarrow>
          if length (pool_bits p) \<le> word_ix off then (Inl IndexPanic, p)
          else if pool_bits p ! word_ix off AND bit_mask off \<noteq> 0 then (Inl ErrIPAlreadyUsed, p)
          else (Inr (),
                p\<lparr>pool_bits := (pool_bits p)[word_ix off := pool_bits p ! word_ix off OR bit_mask off],
                  pool_count := pool_count p + 1\<rparr>))"

definition gateway_ip :: "pool \<Rightarrow> string" where
  "gateway_ip p = offset_to_ip p 1 @ ''/16''"

definition assigned_count :: "pool \<Rightarrow> int" where
  "assigned_count p = uint (pool_count p)"

text \<open>\<^verbatim>\<open>bits.OnesCount64\<close>.\<close>

definition ones_count :: "u64 \<Rightarrow> nat" where
  "ones_count w = length (filter (bit w) [0 ..< 64])"

definition free_count :: "pool \<Rightarrow> int" where
  "free_count p =
     (uint (pool_max p) - 1) - (int (sum_list (map ones_count (pool_bits p))) - 2)"

section \<open>Abstraction and invariant\<close>

text \<open>The taken offsets.\<close>

definition used :: "pool \<Rightarrow> nat set" where
  "used p = {k. k < 64 * length (pool_bits p) \<and> bit (pool_bits p ! (k div 64)) (k mod 64)}"

definition pool_ok :: "pool \<Rightarrow> bool" where
  "pool_ok p \<longleftrightarrow>
     1 \<le> unat (pool_max p) \<and> unat (pool_base p) + unat (pool_max p) < 2 ^ 32 \<and>
     unat (pool_max p) < 2 ^ 31 \<and>
     length (pool_bits p) = (unat (pool_max p) + 64) div 64 \<and>
     used p \<subseteq> {..unat (pool_max p)} \<and>
     unat (pool_count p) = card (used p) \<and>
     {..<unat (pool_next p)} \<subseteq> used p"

text \<open>The address of an offset, as the pool prints it.\<close>

definition addr :: "pool \<Rightarrow> nat \<Rightarrow> string" where
  "addr p k = ip4_string (pool_base p + of_nat k) @ ''/32''"

text \<open>The block a pool serves does not change.\<close>

definition same_block :: "pool \<Rightarrow> pool \<Rightarrow> bool" where
  "same_block p q \<longleftrightarrow> pool_network q = pool_network p \<and> pool_base q = pool_base p \<and>
     pool_max q = pool_max p"

section \<open>Bits\<close>

lemma word_ix_nat: "word_ix off = unat off div 64"
  by (simp add: word_ix_def unat_div)

lemma bit_mask_nat: "bit_mask off = push_bit (unat off mod 64) 1"
  by (simp add: bit_mask_def unat_mod)

lemma test_bit_mask: "w AND bit_mask off = 0 \<longleftrightarrow> \<not> bit w (unat off mod 64)"
  by (simp add: bit_mask_nat bit_iff_and_push_bit_not_eq_0)

lemma bit_or_mask: "j < 64 \<Longrightarrow> bit (w OR bit_mask off) j \<longleftrightarrow> bit w j \<or> j = unat off mod 64"
  by (auto simp: bit_mask_nat bit_simps)

lemma bit_and_not_mask: "j < 64 \<Longrightarrow> bit (w AND NOT (bit_mask off)) j \<longleftrightarrow> bit w j \<and> j \<noteq> unat off mod 64"
  by (auto simp: bit_mask_nat bit_simps)

lemma div_mod_64: "k div 64 = n div 64 \<Longrightarrow> k mod 64 = n mod (64 :: nat) \<Longrightarrow> k = n"
  by (metis div_mult_mod_eq)

lemma used_set:
  assumes "word_ix off < length (pool_bits p)"
  shows "used (p\<lparr>pool_bits := (pool_bits p)[word_ix off := pool_bits p ! word_ix off OR bit_mask off]\<rparr>)
           = insert (unat off) (used p)"
  using assms
  by (auto simp: used_def word_ix_nat nth_list_update bit_or_mask dest: div_mod_64)

lemma used_clear:
  assumes "word_ix off < length (pool_bits p)"
  shows "used (p\<lparr>pool_bits := (pool_bits p)[word_ix off := pool_bits p ! word_ix off AND NOT (bit_mask off)]\<rparr>)
           = used p - {unat off}"
  using assms
  by (auto simp: used_def word_ix_nat nth_list_update bit_and_not_mask dest: div_mod_64)

lemma used_cong: "pool_bits q = pool_bits p \<Longrightarrow> used q = used p"
  by (simp add: used_def)

lemma used_test:
  "word_ix off < length (pool_bits p) \<Longrightarrow>
     pool_bits p ! word_ix off AND bit_mask off = 0 \<longleftrightarrow> unat off \<notin> used p"
  by (auto simp: used_def test_bit_mask word_ix_nat)

lemma used_finite [simp]: "finite (used p)"
  by (rule finite_subset [of _ "{..< 64 * length (pool_bits p)}"]) (auto simp: used_def)

lemma word_ix_bound:
  "pool_ok p \<Longrightarrow> unat off \<le> unat (pool_max p) \<Longrightarrow> word_ix off < length (pool_bits p)"
  by (auto simp: pool_ok_def word_ix_nat)

section \<open>A fresh pool\<close>

lemma mask_to_push: "mask_to n (w :: u32) = push_bit (32 - n) (drop_bit (32 - n) w)"
  by (rule bit_word_eqI) (auto simp: mask_to_def bit_simps)

lemma unat_mask_to: "unat (mask_to n (w :: u32)) + 2 ^ (32 - n) \<le> 2 ^ 32"
proof -
  let ?k = "32 - n"
  have d: "unat w div 2 ^ ?k < 2 ^ (32 - ?k)"
    using unsigned_less [of w, where ?'a = nat]
    by (simp add: div_less_iff_less_mult flip: power_add)
  have "(unat w div 2 ^ ?k) * 2 ^ ?k \<le> unat w" by simp
  then have "(unat w div 2 ^ ?k) * 2 ^ ?k < 2 ^ 32"
    using unsigned_less [of w, where ?'a = nat] by (simp del: div_times_less_eq_dividend)
  then have "unat (mask_to n w) = (unat w div 2 ^ ?k) * 2 ^ ?k"
    unfolding mask_to_push unsigned_push_bit_eq unat_drop_bit_eq
    by (simp add: take_bit_eq_mod drop_bit_eq_div push_bit_eq_mult)
  moreover have "(unat w div 2 ^ ?k + 1) * 2 ^ ?k \<le> 2 ^ (32 - ?k) * 2 ^ ?k"
    using d by (intro mult_le_mono1) simp
  then have "(unat w div 2 ^ ?k) * 2 ^ ?k + 2 ^ ?k \<le> 2 ^ 32"
    by (simp add: algebra_simps flip: power_add)
  ultimately show ?thesis by simp
qed

lemma unat_block_size: 
  assumes "k < 32" shows "unat (push_bit k 1 - 1 :: u32) = 2 ^ k - 1"
proof -
  have p: "unat (push_bit k 1 :: u32) = 2 ^ k"
    unfolding unsigned_push_bit_eq using assms power_strict_increasing [of k 32 "2 :: nat"]
    by (simp add: push_bit_eq_mult take_bit_eq_mod)
  then have "1 \<le> (push_bit k 1 :: u32)" by (simp add: word_le_nat_alt)
  with p show ?thesis by (simp add: unat_sub)
qed

lemma bit_three: "j < 64 \<Longrightarrow> bit (3 :: u64) j \<longleftrightarrow> j = 0 \<or> j = 1"
proof -
  assume j: "j < 64"
  have three: "(3 :: u64) = mask 2" by (simp add: mask_eq_exp_minus_1)
  show ?thesis unfolding three bit_mask_iff using j by auto
qed

lemma used_fresh:
  assumes "pool_bits p = (replicate n 0)[0 := replicate n 0 ! 0 OR 3]" and "0 < n"
  shows "used p = {0, 1}"
proof -
  have "k \<in> used p \<longleftrightarrow> k = 0 \<or> k = 1" for k
  proof (cases "k < 64")
    case True
    with assms have "k \<in> used p \<longleftrightarrow> bit (3 :: u64) k" by (simp add: used_def)
    then show ?thesis using bit_three [OF True] by simp
  next
    case False
    then have "k div 64 \<noteq> 0" by (simp add: div_eq_0_iff)
    with False assms show ?thesis by (auto simp: used_def nth_list_update)
  qed
  then show ?thesis by blast
qed

lemma unat_add_small: "unat a + unat b < 2 ^ 32 \<Longrightarrow> unat (a + b :: u32) = unat a + unat b"
  using unat_add_lem [of a b] by simp

lemma unat_words:
  assumes "unat (m :: u32) < 2 ^ 31"
  shows "unat ((m + 64) div 64) = (unat m + 64) div 64"
  using assms by (simp add: unat_div unat_add_small)
lemma fresh_pool_ok:
  assumes "unat m < 2 ^ 31" and "1 \<le> unat m" and "unat (pool_base p) + unat m < 2 ^ 32"
    and "pool_max p = m" and "pool_count p = 2" and "pool_next p = 2"
    and bs: "pool_bits p = (replicate w 0)[0 := replicate w 0 ! 0 OR 3]" and w: "w = unat ((m + 64) div 64)"
  shows "pool_ok p" and "used p = {0, 1}"
proof -
  have w': "w = (unat m + 64) div 64" unfolding w using assms(1) by (rule unat_words)
  then have "0 < w" by simp
  then show u: "used p = {0, 1}" by (rule used_fresh [OF bs])
  have "length (pool_bits p) = (unat m + 64) div 64" using bs w' by simp
  moreover have "used p \<subseteq> {..unat m}" using u assms(2) by simp
  moreover have "{..<unat (pool_next p)} \<subseteq> used p"
    using u assms(6) by (simp add: subset_iff less_2_cases_iff)
  moreover have "unat (pool_count p) = card (used p)" using u assms(5) by simp
  ultimately show "pool_ok p" using assms(1-4) by (simp only: pool_ok_def simp_thms)
qed

lemma parse_cidr_ip4:
  assumes "parse_cidr s = Some (a, n)" and "net_ip n = IP4 b"
  obtains v where "b = mask_to (net_ones n) v"
  using assms by (auto simp: parse_cidr_def split: option.splits ip.splits if_splits prod.splits)

lemma new_pool_block:
  assumes cidr: "parse_cidr cidr = Some (a, n)" and v4: "net_ip n = IP4 b"
    and ones: "1 \<le> net_ones n" "net_ones n \<le> 31"
  obtains p where "new_pool cidr = Inr p" and "pool_ok p" and "used p = {0, 1}"
    and "unat (pool_max p) = 2 ^ (32 - net_ones n) - 1" and "pool_base p = b" and "pool_network p = n"
proof -
  let ?k = "32 - net_ones n"
  obtain m :: u32 where mdef: "m = push_bit ?k 1 - 1" by simp
  obtain w where wdef: "w = unat ((m + 64) div 64)" by simp
  let ?p = "\<lparr>pool_network = n, pool_base = b, pool_max = m,
    pool_bits = (replicate w 0)[0 := replicate w 0 ! 0 OR 3], pool_count = 2, pool_next = 2\<rparr>"
  have m: "unat m = 2 ^ ?k - 1" unfolding mdef by (rule unat_block_size) (use ones in simp)
  have k31: "(2 :: nat) ^ ?k \<le> 2 ^ 31" using ones by (intro power_increasing) auto
  have k2: "(2 :: nat) ^ 1 \<le> 2 ^ ?k" using ones by (intro power_increasing) auto
  have m31: "unat m < 2 ^ 31" using k31 unfolding m by simp
  have m1: "1 \<le> unat m" using k2 unfolding m by simp
  obtain v where b: "b = mask_to (net_ones n) v" using parse_cidr_ip4 [OF cidr v4] .
  have base: "unat b + unat m < 2 ^ 32"
    unfolding m b using unat_mask_to [of "net_ones n" v] k2 by simp
  have ok: "pool_ok ?p" and u: "used ?p = {0, 1}"
    using fresh_pool_ok [OF m31 m1, of ?p w] base wdef by simp_all
  have "w = (unat m + 64) div 64" unfolding wdef using m31 by (rule unat_words)
  then have "0 < w" by simp
  then have "new_pool cidr = Inr ?p"
    unfolding new_pool_def mask_size_def Let_def cidr
    by (simp only: option.case prod.case v4 ip.case to4.simps option.sel mdef [symmetric] wdef [symmetric])
       simp
  with ok u m show thesis by (intro that [of ?p]) simp_all
qed

section \<open>The scan\<close>

definition taken :: "pool \<Rightarrow> u32 \<Rightarrow> pool" where
  "taken p off =
     p\<lparr>pool_bits := (pool_bits p)[word_ix off := pool_bits p ! word_ix off OR bit_mask off],
       pool_count := pool_count p + 1, pool_next := off + 1\<rparr>"

lemma scan_least:
  assumes ok: "pool_ok p" and f: "unat f < unat (pool_max p)" "unat f \<notin> used p"
    and below: "\<And>k. k < unat f \<Longrightarrow> k \<in> used p"
    and off: "unat (pool_next p) \<le> unat off" "unat off \<le> unat f"
  shows "scan p off = Some (Inr (offset_to_ip p f @ ''/32''), taken p f)"
  using off
proof (induction "unat f - unat off" arbitrary: off)
  case 0
  then have "off = f" by (simp add: word_unat_eq_iff)
  moreover have "\<not> pool_max p \<le> f" using f(1) by (simp add: word_le_nat_alt)
  moreover have "word_ix f < length (pool_bits p)" by (rule word_ix_bound [OF ok]) (use f(1) in simp)
  ultimately show ?case using used_test [of f p] f(2)
    by (subst scan.simps) (simp add: taken_def)
next
  case (Suc d)
  then have lt: "unat off < unat f" by simp
  have ix: "word_ix off < length (pool_bits p)" by (rule word_ix_bound [OF ok]) (use f(1) lt in simp)
  have "\<not> pool_max p \<le> off" using f(1) lt by (simp add: word_le_nat_alt)
  moreover have "pool_bits p ! word_ix off AND bit_mask off \<noteq> 0"
    using used_test [OF ix] below [OF lt] by simp
  moreover have s: "unat (off + 1) = unat off + 1"
    using unat_add_small [of off 1] lt unsigned_less [of f, where ?'a = nat] by simp
  then have "off + 1 \<noteq> pool_next p" using Suc.prems(1) by auto
  moreover have "scan p (off + 1) = Some (Inr (offset_to_ip p f @ ''/32''), taken p f)"
    by (rule Suc.hyps) (use s Suc.hyps(2) Suc.prems lt in simp_all)
  ultimately show ?case using ix by (subst scan.simps) simp
qed

lemma used_taken:
  assumes "pool_ok p" and "unat f \<le> unat (pool_max p)"
  shows "used (taken p f) = insert (unat f) (used p)"
  using used_set [OF word_ix_bound [OF assms]] by (simp add: taken_def used_def)

lemma card_used_bound: "pool_ok p \<Longrightarrow> card (used p) \<le> unat (pool_max p) + 1"
  using card_mono [of "{..unat (pool_max p)}" "used p"] by (auto simp: pool_ok_def)

lemma unat_plus_one: "unat c < 2 ^ 31 + 1 \<Longrightarrow> unat (c + 1 :: u32) = unat c + 1"
  using unat_add_small [of c 1] by simp

lemma unat_count_bound: "pool_ok p \<Longrightarrow> unat (pool_count p) \<le> unat (pool_max p) + 1"
  using card_used_bound [of p] by (simp add: pool_ok_def)

text \<open>The lowest free offset.\<close>

definition lowest_free :: "pool \<Rightarrow> nat" where
  "lowest_free p = (LEAST k. k \<notin> used p)"

lemma lowest_free:
  shows "lowest_free p \<notin> used p" and "k < lowest_free p \<Longrightarrow> k \<in> used p"
proof -
  obtain k where "k \<notin> used p" using ex_new_if_finite [OF infinite_UNIV_nat used_finite [of p]] by blast
  then show "lowest_free p \<notin> used p" unfolding lowest_free_def by (rule LeastI)
next
  assume "k < lowest_free p"
  then show "k \<in> used p" unfolding lowest_free_def using not_less_Least by blast
qed

lemma lowest_free_bound:
  assumes ok: "pool_ok p" and room: "unat (pool_count p) < unat (pool_max p)"
  shows "lowest_free p < unat (pool_max p)" and "unat (pool_next p) \<le> lowest_free p"
proof -
  show "lowest_free p < unat (pool_max p)"
  proof (rule ccontr)
    assume "\<not> ?thesis"
    then have "{..<unat (pool_max p)} \<subseteq> used p" using lowest_free(2) [of _ p] by auto
    then have "card {..<unat (pool_max p)} \<le> card (used p)" by (intro card_mono) auto
    with ok room show False by (simp add: pool_ok_def)
  qed
  show "unat (pool_next p) \<le> lowest_free p"
  proof (rule ccontr)
    assume "\<not> ?thesis"
    then have "lowest_free p \<in> used p" using ok by (auto simp: pool_ok_def)
    with lowest_free(1) show False by blast
  qed
qed

lemma taken_ok:
  assumes ok: "pool_ok p" and f: "unat f \<le> unat (pool_max p)" "unat f \<notin> used p"
    and below: "\<And>k. k < unat f \<Longrightarrow> k \<in> used p"
  shows "pool_ok (taken p f)"
proof -
  have u: "used (taken p f) = insert (unat f) (used p)" by (rule used_taken [OF ok f(1)])
  have "card (insert (unat f) (used p)) \<le> card {..unat (pool_max p)}"
    using ok f(1) by (intro card_mono) (auto simp: pool_ok_def)
  then have "card (used p) \<le> unat (pool_max p)" using f(2) by simp
  then have c: "unat (pool_count p + 1) = card (used p) + 1"
    using ok by (subst unat_plus_one) (auto simp: pool_ok_def)
  have n: "unat (f + 1) = unat f + 1"
    using ok f(1) by (intro unat_plus_one) (simp add: pool_ok_def)
  have "{..<unat f + 1} \<subseteq> insert (unat f) (used p)" using below by (auto simp: less_Suc_eq)
  then show ?thesis using ok f u c n by (simp add: pool_ok_def taken_def)
qed

lemma allocate_cases:
  assumes ok: "pool_ok p"
  shows "allocate p =
     (if unat (pool_max p) \<le> unat (pool_count p) then Some (Inl ErrPoolExhausted, p)
      else Some (Inr (addr p (lowest_free p)), taken p (of_nat (lowest_free p))))"
proof -
  have "unat (pool_max p - 1) = unat (pool_max p) - 1"
    using ok by (subst unat_sub) (auto simp: pool_ok_def word_le_nat_alt)
  then have full: "pool_max p - 1 < pool_count p \<longleftrightarrow> unat (pool_max p) \<le> unat (pool_count p)"
    using ok by (auto simp: word_less_nat_alt pool_ok_def)
  show ?thesis
  proof (cases "unat (pool_max p) \<le> unat (pool_count p)")
    case True
    then show ?thesis using full by (simp add: allocate_def)
  next
    case False
    let ?f = "of_nat (lowest_free p) :: u32"
    note b = lowest_free_bound [OF ok, OF False [unfolded not_le]]
    have uf: "unat ?f = lowest_free p"
      using b(1) unsigned_less [of "pool_max p", where ?'a = nat]
      by (simp add: unsigned_of_nat take_bit_eq_mod)
    have "scan p (pool_next p) = Some (Inr (offset_to_ip p ?f @ ''/32''), taken p ?f)"
      using b lowest_free(1) [of p] lowest_free(2) [of _ p] by (intro scan_least [OF ok]) (simp_all add: uf)
    with False full show ?thesis by (simp add: allocate_def addr_def offset_to_ip_def)
  qed
qed

section \<open>Release and reserve\<close>

lemma strip_mask_slash: "CHR ''/'' \<notin> set s \<Longrightarrow> strip_mask (s @ CHR ''/'' # t) = s"
  by (induction s) (auto simp: strip_mask_def)

lemma strip_mask_none: "CHR ''/'' \<notin> set s \<Longrightarrow> strip_mask s = s"
  by (induction s) (auto simp: strip_mask_def)

lemma ip_to_offset_v4:
  "ip_to_offset p (ip4_string v) =
     (if v < pool_base p \<or> pool_base p + pool_max p < v then None else Some (v - pool_base p))"
  by (simp add: ip_to_offset_def parse_ip_ip4_string)

lemma unat_top: "pool_ok p \<Longrightarrow> unat (pool_base p + pool_max p) = unat (pool_base p) + unat (pool_max p)"
  by (rule unat_add_small) (simp add: pool_ok_def)

lemma ip_to_offset_le:
  assumes "pool_ok p" and "ip_to_offset p s = Some off"
  shows "unat off \<le> unat (pool_max p)"
  using assms unat_top [OF assms(1)]
  by (auto simp: ip_to_offset_def unat_sub word_le_nat_alt word_less_nat_alt split: option.splits if_splits)

lemma ip_to_offset_sound:
  assumes "ip_to_offset p s = Some off"
  shows "\<exists>a. parse_ip s = Some a \<and> to4 a = Some (pool_base p + off)"
  using assms by (auto simp: ip_to_offset_def split: option.splits if_splits)

definition dropped :: "pool \<Rightarrow> u32 \<Rightarrow> pool" where
  "dropped p off =
     p\<lparr>pool_bits := (pool_bits p)[word_ix off := pool_bits p ! word_ix off AND NOT (bit_mask off)],
       pool_count := pool_count p - 1,
       pool_next := (if off < pool_next p then off else pool_next p)\<rparr>"

lemma release_cases:
  assumes ok: "pool_ok p"
  shows "release s p =
     (case ip_to_offset p (strip_mask s) of
        None \<Rightarrow> (Inl ErrIPNotFound, p)
      | Some off \<Rightarrow> if unat off \<in> used p then (Inr (), dropped p off) else (Inl ErrIPNotFound, p))"
proof (cases "ip_to_offset p (strip_mask s)")
  case None
  then show ?thesis by (simp add: release_def)
next
  case (Some off)
  have ix: "word_ix off < length (pool_bits p)"
    by (rule word_ix_bound [OF ok ip_to_offset_le [OF ok Some]])
  with Some used_test [OF ix] show ?thesis by (simp add: release_def dropped_def)
qed

lemma used_dropped:
  assumes "pool_ok p" and "unat off \<le> unat (pool_max p)"
  shows "used (dropped p off) = used p - {unat off}"
  using used_clear [OF word_ix_bound [OF assms]] by (simp add: dropped_def used_def)

lemma dropped_ok:
  assumes ok: "pool_ok p" and off: "unat off \<in> used p"
  shows "pool_ok (dropped p off)"
proof -
  have le: "unat off \<le> unat (pool_max p)" using ok off by (auto simp: pool_ok_def)
  note u = used_dropped [OF ok le]
  have "0 < card (used p)" using off by (auto simp: card_gt_0_iff)
  then have c: "unat (pool_count p - 1) = card (used p) - 1"
    using ok by (subst unat_sub) (auto simp: pool_ok_def word_le_nat_alt)
  have "{..<unat (if off < pool_next p then off else pool_next p)} \<subseteq> used p - {unat off}"
    using ok by (auto simp: pool_ok_def word_less_nat_alt)
  with ok off u c show ?thesis by (auto simp: pool_ok_def dropped_def card_Diff_singleton)
qed

definition marked :: "pool \<Rightarrow> u32 \<Rightarrow> pool" where
  "marked p off =
     p\<lparr>pool_bits := (pool_bits p)[word_ix off := pool_bits p ! word_ix off OR bit_mask off],
       pool_count := pool_count p + 1\<rparr>"

lemma reserve_cases:
  assumes ok: "pool_ok p"
  shows "reserve s p =
     (case ip_to_offset p (strip_mask s) of
        None \<Rightarrow> (Inl (ErrNotInNetwork (strip_mask s)), p)
      | Some off \<Rightarrow> if unat off \<in> used p then (Inl ErrIPAlreadyUsed, p) else (Inr (), marked p off))"
proof (cases "ip_to_offset p (strip_mask s)")
  case None
  then show ?thesis by (simp add: reserve_def)
next
  case (Some off)
  have ix: "word_ix off < length (pool_bits p)"
    by (rule word_ix_bound [OF ok ip_to_offset_le [OF ok Some]])
  with Some used_test [OF ix] show ?thesis by (simp add: reserve_def marked_def)
qed

lemma used_marked:
  assumes "pool_ok p" and "unat off \<le> unat (pool_max p)"
  shows "used (marked p off) = insert (unat off) (used p)"
  using used_set [OF word_ix_bound [OF assms]] by (simp add: marked_def used_def)

lemma marked_ok:
  assumes ok: "pool_ok p" and off: "unat off \<le> unat (pool_max p)" "unat off \<notin> used p"
  shows "pool_ok (marked p off)"
proof -
  note u = used_marked [OF ok off(1)]
  have "card (insert (unat off) (used p)) \<le> card {..unat (pool_max p)}"
    using ok off(1) by (intro card_mono) (auto simp: pool_ok_def)
  then have "card (used p) \<le> unat (pool_max p)" using off(2) by simp
  then have c: "unat (pool_count p + 1) = card (used p) + 1"
    using ok by (subst unat_plus_one) (auto simp: pool_ok_def)
  show ?thesis using ok off u c by (auto simp: pool_ok_def marked_def)
qed

section \<open>The operations keep the invariant\<close>

lemma allocate_ok [inv_intros]:
  assumes ok: "pool_ok p" and a: "allocate p = Some (r, q)"
  shows "pool_ok q" and "same_block p q"
proof -
  have "pool_ok q \<and> same_block p q"
  proof (cases "unat (pool_max p) \<le> unat (pool_count p)")
    case True
    with ok a show ?thesis by (simp add: allocate_cases same_block_def)
  next
    case False
    let ?f = "of_nat (lowest_free p) :: u32"
    note b = lowest_free_bound [OF ok, OF False [unfolded not_le]]
    have uf: "unat ?f = lowest_free p"
      using b(1) unsigned_less [of "pool_max p", where ?'a = nat]
      by (simp add: unsigned_of_nat take_bit_eq_mod)
    have "pool_ok (taken p ?f)"
      by (rule taken_ok [OF ok]) (use b lowest_free(1) [of p] lowest_free(2) [of _ p] uf in simp_all)
    with False a allocate_cases [OF ok] show ?thesis by (auto simp: same_block_def taken_def)
  qed
  then show "pool_ok q" and "same_block p q" by simp_all
qed

lemma release_ok [inv_intros]: "pool_ok p \<Longrightarrow> pool_ok (snd (release s p))"
  by (simp add: release_cases dropped_ok split: option.split)

lemma reserve_ok [inv_intros]: "pool_ok p \<Longrightarrow> pool_ok (snd (reserve s p))"
  by (simp add: reserve_cases marked_ok ip_to_offset_le split: option.split)

lemma release_block: "same_block p (snd (release s p))"
  by (simp add: release_def same_block_def Let_def split: option.split)

lemma reserve_block: "same_block p (snd (reserve s p))"
  by (simp add: reserve_def same_block_def Let_def split: option.split)

section \<open>Addresses\<close>

text \<open>The addresses of the block, the ones outside it, and the ones handed out.\<close>

definition host_str :: "u32 \<Rightarrow> string" where
  "host_str w = ip4_string w @ ''/32''"

definition inside :: "pool \<Rightarrow> u32 \<Rightarrow> bool" where
  "inside p w \<longleftrightarrow> pool_base p \<le> w \<and> w \<le> pool_base p + pool_max p"

definition held :: "pool \<Rightarrow> string set" where
  "held p = {host_str w |w. inside p w \<and> unat (w - pool_base p) \<in> used p}"

definition foreign :: "pool \<Rightarrow> string set" where
  "foreign p = {host_str w |w. \<not> inside p w}"

lemma host_str_inj: "host_str v = host_str w \<longleftrightarrow> v = w"
  by (simp add: host_str_def ip4_string_inj)

lemma host_str_held: "host_str w \<in> held p \<longleftrightarrow> inside p w \<and> unat (w - pool_base p) \<in> used p"
  by (auto simp: held_def host_str_inj)

lemma host_str_foreign: "host_str w \<in> foreign p \<longleftrightarrow> \<not> inside p w"
  by (auto simp: foreign_def host_str_inj)

lemma held_foreign: "a \<in> held p \<Longrightarrow> a \<notin> foreign p"
  by (auto simp: held_def host_str_foreign)

lemma foreign_block: "same_block p q \<Longrightarrow> foreign q = foreign p"
  by (simp add: foreign_def inside_def same_block_def)

lemma inside_block: "same_block p q \<Longrightarrow> inside q w = inside p w"
  by (simp add: inside_def same_block_def)

lemma strip_host [simp]: "strip_mask (host_str w) = ip4_string w" "strip_mask (ip4_string w) = ip4_string w"
  by (simp_all add: host_str_def strip_mask_slash strip_mask_none ip4_string_notin)

lemma ip_to_offset_inside:
  "ip_to_offset p (ip4_string w) = (if inside p w then Some (w - pool_base p) else None)"
  by (auto simp: ip_to_offset_v4 inside_def not_less not_le)

lemma addr_host: "addr p k = host_str (pool_base p + of_nat k)"
  by (simp add: addr_def host_str_def)

lemma inside_addr:
  assumes ok: "pool_ok p" and k: "k \<le> unat (pool_max p)"
  shows "inside p (pool_base p + of_nat k)" and "unat (pool_base p + of_nat k - pool_base p) = k"
proof -
  have u: "unat (of_nat k :: u32) = k"
    using k ok by (simp add: unsigned_of_nat take_bit_eq_mod pool_ok_def)
  then show "unat (pool_base p + of_nat k - pool_base p) = k" by simp
  have "unat (pool_base p + of_nat k) = unat (pool_base p) + k"
    using k ok u unat_add_small [of "pool_base p" "of_nat k"] by (simp add: pool_ok_def)
  then show "inside p (pool_base p + of_nat k)"
    using k unat_top [OF ok] by (simp add: inside_def word_le_nat_alt)
qed

lemma addr_held: "pool_ok p \<Longrightarrow> k \<le> unat (pool_max p) \<Longrightarrow> addr p k \<in> held p \<longleftrightarrow> k \<in> used p"
  unfolding addr_host host_str_held using inside_addr [of p k] by metis

lemma unat_diff_inj: "unat (a - b) = unat (w - b) \<Longrightarrow> a = (w :: u32)"
  by (metis diff_add_cancel word_unat_eq_iff)

lemma held_mono:
  assumes b: "same_block p q" and u: "used p \<subseteq> used q"
  shows "held p \<subseteq> held q"
proof
  fix a assume "a \<in> held p"
  then obtain w where w: "a = host_str w" "inside p w" "unat (w - pool_base p) \<in> used p"
    unfolding held_def by blast
  have "pool_base q = pool_base p" using b by (simp add: same_block_def)
  with w u inside_block [OF b, of w] show "a \<in> held q" by (auto simp: host_str_held)
qed

lemma held_change:
  assumes "same_block p q" and "used q = insert (unat (w - pool_base p)) (used p)" and "inside p w"
  shows "held q = insert (host_str w) (held p)"
proof -
  note i = inside_block [OF assms(1)] and d = unat_diff_inj [of _ "pool_base p" w]
  have b: "pool_base q = pool_base p" using assms(1) by (simp add: same_block_def)
  show ?thesis unfolding held_def i b assms(2) using assms(3) d by blast
qed

lemma held_drop:
  assumes "same_block p q" and "used q = used p - {unat (w - pool_base p)}" and "inside p w"
  shows "held q = held p - {host_str w}"
proof -
  note i = inside_block [OF assms(1)] and d = unat_diff_inj [of _ "pool_base p" w]
  have b: "pool_base q = pool_base p" using assms(1) by (simp add: same_block_def)
  show ?thesis unfolding held_def i b assms(2) using d by (auto simp: host_str_inj)
qed

text \<open>What an allocation returns, as a change of the set of addresses held.\<close>

lemma allocate_held:
  assumes ok: "pool_ok p" and a: "allocate p = Some (Inr s, q)"
  shows "s \<notin> held p" and "held q = insert s (held p)" and "\<exists>w. s = host_str w \<and> inside p w"
proof -
  have room: "unat (pool_count p) < unat (pool_max p)" and s: "s = addr p (lowest_free p)"
    and q: "q = taken p (of_nat (lowest_free p))"
    using a allocate_cases [OF ok] by (auto split: if_splits)
  note b = lowest_free_bound [OF ok room]
  have uf: "unat (of_nat (lowest_free p) :: u32) = lowest_free p"
    using b(1) unsigned_less [of "pool_max p", where ?'a = nat]
    by (simp add: unsigned_of_nat take_bit_eq_mod)
  have le: "lowest_free p \<le> unat (pool_max p)" using b(1) by simp
  note ins = inside_addr [OF ok le]
  show "s \<notin> held p" using addr_held [OF ok le] lowest_free(1) s by simp
  show "\<exists>w. s = host_str w \<and> inside p w" using ins(1) s addr_host by blast
  have "used q = insert (lowest_free p) (used p)"
    unfolding q using used_taken [OF ok, of "of_nat (lowest_free p)"] le uf by simp
  then show "held q = insert s (held p)"
    unfolding s addr_host using ins allocate_ok(2) [OF ok a] by (intro held_change) simp_all
qed

lemma release_held:
  assumes ok: "pool_ok p" and s: "s \<in> held p"
  shows "fst (release s p) = Inr ()" and "held (snd (release s p)) = held p - {s}"
proof -
  from s obtain w where w: "s = host_str w" "inside p w" "unat (w - pool_base p) \<in> used p"
    by (auto simp: held_def)
  have r: "release s p = (Inr (), dropped p (w - pool_base p))"
    using w by (simp add: release_cases [OF ok] ip_to_offset_inside)
  have le: "unat (w - pool_base p) \<le> unat (pool_max p)" using w(3) ok by (auto simp: pool_ok_def)
  show "fst (release s p) = Inr ()" by (simp add: r)
  have "same_block p (dropped p (w - pool_base p))" using release_block [of p s] r by simp
  then show "held (snd (release s p)) = held p - {s}"
    using w used_dropped [OF ok le] r by (simp add: held_drop)
qed

lemma release_foreign: "pool_ok p \<Longrightarrow> s \<in> foreign p \<Longrightarrow> release s p = (Inl ErrIPNotFound, p)"
  by (auto simp: foreign_def release_cases ip_to_offset_inside)

lemma reserve_foreign: "pool_ok p \<Longrightarrow> s \<in> foreign p \<Longrightarrow> snd (reserve s p) = p"
  by (auto simp: foreign_def reserve_cases ip_to_offset_inside)

lemma reserve_held:
  assumes ok: "pool_ok p" and w: "inside p w"
  shows "held (snd (reserve (host_str w) p)) = insert (host_str w) (held p)"
proof (cases "unat (w - pool_base p) \<in> used p")
  case True
  then have "host_str w \<in> held p" using w by (simp add: host_str_held)
  with True w show ?thesis by (auto simp: reserve_cases [OF ok] ip_to_offset_inside)
next
  case False
  have r: "reserve (host_str w) p = (Inr (), marked p (w - pool_base p))"
    using w False by (simp add: reserve_cases [OF ok] ip_to_offset_inside)
  have le: "unat (w - pool_base p) \<le> unat (pool_max p)"
    by (rule ip_to_offset_le [OF ok, of "ip4_string w"]) (simp add: ip_to_offset_inside w)
  have "same_block p (marked p (w - pool_base p))" using reserve_block [of p "host_str w"] r by simp
  then show ?thesis using w used_marked [OF ok le] r by (simp add: held_change)
qed

lemma reserve_unmasked: "reserve (ip4_string w) p = reserve (host_str w) p"
  by (simp add: reserve_def split: option.split)

section \<open>The contract of the allocator\<close>

text \<open>
  What a client that leases addresses relies on: \<open>holds\<close> is the set of addresses out,
  \<open>outside\<close> the addresses the allocator does not manage.
\<close>

locale address_allocator =
  fixes ok :: "'s \<Rightarrow> bool"
    and holds :: "'s \<Rightarrow> 'a set"
    and outside :: "'s \<Rightarrow> 'a set"
    and alloc :: "'s \<Rightarrow> (('e + 'a) \<times> 's) option"
    and free :: "'a \<Rightarrow> 's \<Rightarrow> ('e + unit) \<times> 's"
    and claim :: "'a \<Rightarrow> 's \<Rightarrow> ('e + unit) \<times> 's"
  assumes alloc_total: "ok s \<Longrightarrow> \<exists>r. alloc s = Some r"
    and alloc_step: "ok s \<Longrightarrow> alloc s = Some (r, t) \<Longrightarrow> ok t \<and> outside t = outside s"
    and alloc_new: "ok s \<Longrightarrow> alloc s = Some (Inr a, t) \<Longrightarrow>
        a \<notin> holds s \<and> a \<notin> outside s \<and> holds t = insert a (holds s)"
    and alloc_fail: "ok s \<Longrightarrow> alloc s = Some (Inl e, t) \<Longrightarrow> t = s"
    and free_step: "ok s \<Longrightarrow> ok (snd (free a s)) \<and> outside (snd (free a s)) = outside s"
    and free_held: "ok s \<Longrightarrow> a \<in> holds s \<Longrightarrow> holds (snd (free a s)) = holds s - {a}"
    and free_outside: "ok s \<Longrightarrow> a \<in> outside s \<Longrightarrow> snd (free a s) = s"
    and claim_step: "ok s \<Longrightarrow> ok (snd (claim a s)) \<and> outside (snd (claim a s)) = outside s"
    and claim_held: "ok s \<Longrightarrow> holds s \<subseteq> holds (snd (claim a s))"
begin

text \<open>
  A client's lease table: distinct holders have distinct addresses, and each address is
  held or not the allocator's.
\<close>

definition leases :: "('k \<rightharpoonup> 'a) \<Rightarrow> 's \<Rightarrow> bool" where
  "leases m s \<longleftrightarrow> ok s \<and> inj_map m \<and> ran m \<subseteq> holds s \<union> outside s"

lemma leases_empty: "ok s \<Longrightarrow> leases Map.empty s"
  by (simp add: leases_def)

lemma leases_alloc:
  assumes "leases m s" and "alloc s = Some (Inr a, t)"
  shows "leases (m(k \<mapsto> a)) t"
proof -
  note n = alloc_new [of s a t] alloc_step [of s "Inr a" t]
  have "a \<notin> ran m" using assms n by (auto simp: leases_def)
  then have "inj_map (m(k \<mapsto> a))" using assms by (simp add: leases_def inj_map_upd)
  moreover have "ran (m(k \<mapsto> a)) \<subseteq> holds t \<union> outside t"
    using ran_upd_subset [of m k a] assms n by (auto simp: leases_def)
  ultimately show ?thesis using assms n by (simp add: leases_def)
qed

lemma leases_alloc_only:
  "leases m s \<Longrightarrow> alloc s = Some (r, t) \<Longrightarrow> leases m t"
  using alloc_step [of s r t] alloc_new [of s _ t] alloc_fail [of s _ t]
  by (cases r) (auto simp: leases_def)

lemma leases_undo:
  assumes "leases m s" and "alloc s = Some (Inr a, t)"
  shows "leases m (snd (free a t))"
proof -
  have t: "ok t" "holds t = insert a (holds s)" "a \<notin> holds s" "a \<notin> outside s" "outside t = outside s"
    using assms alloc_new [of s a t] alloc_step [of s "Inr a" t] by (auto simp: leases_def)
  have "holds (snd (free a t)) = holds s" using free_held [of t a] t by simp
  then show ?thesis using free_step [of t a] t assms by (simp add: leases_def)
qed

lemma leases_free:
  assumes l: "leases m s" and k: "m k = Some a"
  shows "leases (m(k := None)) (snd (free a s))"
proof -
  have inj: "inj_map m" and ok: "ok s" and r: "ran m \<subseteq> holds s \<union> outside s"
    using l by (auto simp: leases_def)
  have "a \<in> ran m" using k by (rule ranI)
  have "ran (m(k := None)) \<subseteq> holds (snd (free a s)) \<union> outside (snd (free a s))"
  proof (cases "a \<in> holds s")
    case True
    then show ?thesis
      using ran_del_inj [OF inj k] free_held [OF ok True] free_step [OF ok, of a] r by auto
  next
    case False
    then have "a \<in> outside s" using \<open>a \<in> ran m\<close> r by auto
    then show ?thesis using free_outside [OF ok] ran_del_subset [of m k] r by auto
  qed
  then show ?thesis using free_step [OF ok] inj by (simp add: leases_def inj_map_del)
qed

lemma leases_claim:
  assumes l: "leases m s" and a: "a \<notin> ran m" "a \<in> holds (snd (claim a s)) \<union> outside s"
  shows "leases (m(k \<mapsto> a)) (snd (claim a s))"
proof -
  have ok: "ok s" using l by (simp add: leases_def)
  have "ran (m(k \<mapsto> a)) \<subseteq> holds (snd (claim a s)) \<union> outside (snd (claim a s))"
    using ran_upd_subset [of m k a] l a claim_held [OF ok, of a] claim_step [OF ok, of a]
    by (auto simp: leases_def)
  then show ?thesis using l a(1) claim_step [OF ok] by (simp add: leases_def inj_map_upd)
qed

end

interpretation ipam: address_allocator pool_ok held foreign allocate release reserve
proof unfold_locales
  fix s :: pool
  assume ok: "pool_ok s"
  show "\<exists>r. allocate s = Some r" using allocate_cases [OF ok] by auto
  fix a
  show "pool_ok (snd (release a s)) \<and> foreign (snd (release a s)) = foreign s"
    using release_ok [OF ok] foreign_block [OF release_block] by simp
  show "pool_ok (snd (reserve a s)) \<and> foreign (snd (reserve a s)) = foreign s"
    using reserve_ok [OF ok] foreign_block [OF reserve_block] by simp
  show "a \<in> held s \<Longrightarrow> held (snd (release a s)) = held s - {a}" by (rule release_held [OF ok])
  show "a \<in> foreign s \<Longrightarrow> snd (release a s) = s" by (simp add: release_foreign [OF ok])
  show "held s \<subseteq> held (snd (reserve a s))"
  proof -
    have "used s \<subseteq> used (snd (reserve a s))"
      using used_marked [OF ok] ip_to_offset_le [OF ok]
      by (auto simp: reserve_cases [OF ok] split: option.split)
    then show ?thesis by (rule held_mono [OF reserve_block])
  qed
next
  fix s t :: pool and r
  assume "pool_ok s" and "allocate s = Some (r, t)"
  then show "pool_ok t \<and> foreign t = foreign s" using allocate_ok foreign_block by blast
next
  fix s t :: pool and a
  assume "pool_ok s" and "allocate s = Some (Inr a, t)"
  then show "a \<notin> held s \<and> a \<notin> foreign s \<and> held t = insert a (held s)"
    using allocate_held [of s a t] by (auto simp: host_str_foreign)
next
  fix s t :: pool and e
  assume "pool_ok s" and "allocate s = Some (Inl e, t)"
  then show "t = s" by (auto simp: allocate_cases split: if_splits)
qed

section \<open>Counting\<close>

lemma used_words_card:
  "card {k. k < 64 * length bs \<and> bit (bs ! (k div 64)) (k mod 64)} = sum_list (map ones_count bs)"
proof (induction bs rule: rev_induct)
  case Nil
  then show ?case by simp
next
  case (snoc w bs)
  let ?A = "{k. k < 64 * length bs \<and> bit (bs ! (k div 64)) (k mod 64)}"
  let ?J = "{j. j < 64 \<and> bit w j}"
  have split: "{k. k < 64 * length (bs @ [w]) \<and> bit ((bs @ [w]) ! (k div 64)) (k mod 64)}
      = ?A \<union> (\<lambda>j. 64 * length bs + j) ` ?J" (is "?L = ?R")
  proof (rule set_eqI)
    fix k
    show "k \<in> ?L \<longleftrightarrow> k \<in> ?R"
    proof (cases "k < 64 * length bs")
      case True
      then have "k div 64 < length bs" by (simp add: less_mult_imp_div_less mult.commute)
      with True show ?thesis by (auto simp: nth_append)
    next
      case False
      then obtain j where k: "k = 64 * length bs + j" by (auto simp: not_less le_iff_add)
      then show ?thesis by (auto simp: nth_append)
    qed
  qed
  have "card ?L = card ?A + card ((\<lambda>j. 64 * length bs + j) ` ?J)"
    unfolding split by (intro card_Un_disjoint) (auto intro: finite_subset [of _ "{..<64 * length bs}"])
  also have "card ((\<lambda>j. 64 * length bs + j) ` ?J) = card ?J" by (rule card_image) (simp add: inj_on_def)
  also have "card ?J = ones_count w"
  proof -
    have "?J = set (filter (bit w) [0 ..< 64])" by auto
    then show ?thesis unfolding ones_count_def by (metis distinct_card distinct_filter distinct_upt)
  qed
  finally show ?case using snoc by simp
qed

lemma free_count_eq: "free_count p = uint (pool_max p) + 1 - int (card (used p))"
  using used_words_card [of "pool_bits p"] by (simp add: free_count_def used_def)

lemma cidr_29: "parse_cidr ''10.8.0.0/29'' = Some (IP4 0x0A080000, \<lparr>net_ip = IP4 0x0A080000, net_ones = 29\<rparr>)"
  by (simp add: net_eval)

lemma used_below_broadcast:
  assumes "pool_ok p" and "unat (pool_max p) \<notin> used p"
  shows "used p \<subseteq> {..<unat (pool_max p)}"
proof
  fix k assume k: "k \<in> used p"
  then have "k \<le> unat (pool_max p)" using assms(1) unfolding pool_ok_def by blast
  moreover have "k \<noteq> unat (pool_max p)" using k assms(2) by blast
  ultimately show "k \<in> {..<unat (pool_max p)}" by simp
qed

section \<open>The allocator is correct\<close>

text \<open>C20: \<^verbatim>\<open>New\<close> on any IPv4 block of prefix length 1 to 31 returns a pool that satisfies the
  invariant, has exactly the network and gateway offsets taken, and spans the block.\<close>

theorem new_pool_ok:
  assumes "parse_cidr cidr = Some (a, n)" and "net_ip n = IP4 b" and "1 \<le> net_ones n" and "net_ones n \<le> 31"
  shows "\<exists>p. new_pool cidr = Inr p \<and> pool_ok p \<and> used p = {0, 1} \<and> pool_base p = b \<and>
           unat (pool_max p) = 2 ^ (32 - net_ones n) - 1 \<and> pool_network p = n"
  using new_pool_block [OF assms] by metis

theorem new_pool_ok_witness:
  "\<exists>p. new_pool ''10.8.0.0/29'' = Inr p \<and> pool_ok p \<and> used p = {0, 1} \<and> pool_base p = 0x0A080000 \<and>
     unat (pool_max p) = 2 ^ (32 - 29) - 1 \<and> pool_network p = \<lparr>net_ip = IP4 0x0A080000, net_ones = 29\<rparr>"
  using new_pool_ok [OF cidr_29] by simp

lemma pool_29:
  obtains p where "new_pool ''10.8.0.0/29'' = Inr p" and "pool_ok p" and "used p = {0, 1}"
    and "pool_base p = 0x0A080000" and "unat (pool_max p) = 7"
proof (rule new_pool_block [OF cidr_29, where b = "0x0A080000"])
  fix p assume "new_pool ''10.8.0.0/29'' = Inr p" and "pool_ok p" and "used p = {0, 1}"
    and "unat (pool_max p) = 2 ^ (32 - net_ones \<lparr>net_ip = IP4 0x0A080000, net_ones = 29\<rparr>) - 1"
    and "pool_base p = 0x0A080000"
  then show thesis by (intro that) simp_all
qed simp_all

lemma least_free_2: "(LEAST k. k \<notin> {0, 1 :: nat}) = 2"
  by (rule Least_equality) auto

text \<open>C7: \<^verbatim>\<open>Allocate\<close> always returns. It reports exhaustion, leaving the pool as it was, exactly when
  as many offsets are taken as the block has below its broadcast address; otherwise it returns
  the lowest free address, which lies below the broadcast address, and marks only that one.\<close>

theorem allocate_lowest_free:
  assumes "pool_ok p"
  shows "if unat (pool_max p) \<le> card (used p) then allocate p = Some (Inl ErrPoolExhausted, p)
    else \<exists>q. allocate p = Some (Inr (addr p (LEAST k. k \<notin> used p)), q) \<and> pool_ok q \<and>
           used q = insert (LEAST k. k \<notin> used p) (used p) \<and> (LEAST k. k \<notin> used p) < unat (pool_max p)"
proof (cases "unat (pool_max p) \<le> card (used p)")
  case True
  then show ?thesis using allocate_cases [OF assms] assms by (simp add: pool_ok_def)
next
  case False
  then have room: "unat (pool_count p) < unat (pool_max p)" using assms by (simp add: pool_ok_def)
  note b = lowest_free_bound [OF assms room]
  have uf: "unat (of_nat (lowest_free p) :: u32) = lowest_free p"
    using b(1) unsigned_less [of "pool_max p", where ?'a = nat]
    by (simp add: unsigned_of_nat take_bit_eq_mod)
  have a: "allocate p = Some (Inr (addr p (lowest_free p)), taken p (of_nat (lowest_free p)))"
    using allocate_cases [OF assms] room by simp
  have u: "used (taken p (of_nat (lowest_free p))) = insert (lowest_free p) (used p)"
    using used_taken [OF assms, of "of_nat (lowest_free p)"] b(1) uf by simp
  with a b(1) allocate_ok(1) [OF assms a] False show ?thesis
    by (simp flip: lowest_free_def)
qed

theorem allocate_lowest_free_witness:
  "\<exists>p q. new_pool ''10.8.0.0/29'' = Inr p \<and> allocate p = Some (Inr (addr p 2), q) \<and> used q = {0, 1, 2}"
proof (rule pool_29)
  fix p assume p: "new_pool ''10.8.0.0/29'' = Inr p" "pool_ok p" "used p = {0, 1}" "unat (pool_max p) = 7"
  show ?thesis using allocate_lowest_free [OF p(2)] p(1) unfolding p(3,4) least_free_2
    by (auto simp: insert_commute)
qed

text \<open>C21: releasing an address that was just allocated restores the set of taken offsets, and
  releasing it again is an error that changes nothing.\<close>

theorem allocate_release:
  assumes "pool_ok p" and "allocate p = Some (Inr a, q)"
  shows "\<exists>r. release a q = (Inr (), r) \<and> pool_ok r \<and> used r = used p \<and> release a r = (Inl ErrIPNotFound, r)"
proof -
  have room: "unat (pool_count p) < unat (pool_max p)" and a: "a = addr p (lowest_free p)"
    and q: "q = taken p (of_nat (lowest_free p))"
    using assms(2) allocate_cases [OF assms(1)] by (auto split: if_splits)
  note b = lowest_free_bound [OF assms(1) room]
  let ?f = "of_nat (lowest_free p) :: u32"
  have le: "lowest_free p \<le> unat (pool_max p)" using b(1) by simp
  have uf: "unat ?f = lowest_free p"
    using b(1) unsigned_less [of "pool_max p", where ?'a = nat]
    by (simp add: unsigned_of_nat take_bit_eq_mod)
  have uq: "used q = insert (lowest_free p) (used p)"
    unfolding q using used_taken [OF assms(1), of ?f] le uf by simp
  have ok: "pool_ok q" and blk: "same_block p q" using allocate_ok [OF assms] by simp_all
  have off: "ip_to_offset r (strip_mask a) = Some ?f" if "same_block p r" for r
    using inside_addr [OF assms(1) le] that
    by (simp add: a addr_host ip_to_offset_inside inside_block [OF that]) (simp add: same_block_def)
  have r: "release a q = (Inr (), dropped q ?f)"
    using off [OF blk] uq uf by (simp add: release_cases [OF ok])
  have "used (dropped q ?f) = used p"
    using used_dropped [OF ok, of ?f] blk le uf uq lowest_free(1) [of p] by (auto simp: same_block_def)
  moreover have okr: "pool_ok (dropped q ?f)" using release_ok [OF ok, of a] r by simp
  moreover have "same_block p (dropped q ?f)" using blk by (simp add: same_block_def dropped_def)
  ultimately show ?thesis
    using r off [of "dropped q ?f"] lowest_free(1) [of p] uf by (auto simp: release_cases [OF okr])
qed

theorem allocate_release_witness:
  "\<exists>p a q r. new_pool ''10.8.0.0/29'' = Inr p \<and> allocate p = Some (Inr a, q) \<and>
     release a q = (Inr (), r) \<and> used r = {0, 1}"
proof (rule pool_29)
  fix p assume p: "new_pool ''10.8.0.0/29'' = Inr p" "pool_ok p" "used p = {0, 1}" "unat (pool_max p) = 7"
  have "unat (pool_count p) = 2" using p by (simp add: pool_ok_def)
  then obtain a q where a: "allocate p = Some (Inr a, q)" using allocate_cases [OF p(2)] p(4) by auto
  show ?thesis using allocate_release [OF p(2) a] a p by blast
qed

text \<open>\<^verbatim>\<open>FreeCount\<close> is one more than the number of addresses \<^verbatim>\<open>Allocate\<close> can still hand out: it
  counts the broadcast address as free.\<close>

lemma free_count_off_by_one:
  assumes "pool_ok p" and "{0, 1} \<subseteq> used p" and "unat (pool_max p) \<notin> used p"
  shows "free_count p = int (card {k. k < unat (pool_max p) \<and> k \<notin> used p}) + 1"
proof -
  note sub = used_below_broadcast [OF assms(1,3)]
  have "{k. k < unat (pool_max p) \<and> k \<notin> used p} = {..<unat (pool_max p)} - used p" by auto
  then have "card {k. k < unat (pool_max p) \<and> k \<notin> used p} = unat (pool_max p) - card (used p)"
    using sub by (simp add: card_Diff_subset)
  moreover have "card (used p) \<le> unat (pool_max p)" using card_mono [OF _ sub] by simp
  ultimately show ?thesis by (simp add: free_count_eq of_nat_diff)
qed

text \<open>C38: nothing protects the network and gateway addresses: \<^verbatim>\<open>Release\<close> of one of them succeeds, and
  the next \<^verbatim>\<open>Allocate\<close> hands it to a peer.\<close>

theorem reserved_not_protected:
  assumes "pool_ok p" and "unat (pool_max p) \<notin> used p" and "k \<le> 1" and "{0, 1} \<subseteq> used p"
  shows "\<exists>q r. release (addr p k) p = (Inr (), q) \<and> allocate q = Some (Inr (addr p k), r)"
proof -
  have le: "k \<le> unat (pool_max p)" using assms(1,3) by (simp add: pool_ok_def)
  have uk: "unat (of_nat k :: u32) = k" using assms(3) by (simp add: unsigned_of_nat take_bit_eq_mod)
  have k: "k \<in> used p" using assms(3,4) by (auto simp: le_Suc_eq)
  let ?q = "dropped p (of_nat k)"
  have r: "release (addr p k) p = (Inr (), ?q)"
    using inside_addr [OF assms(1) le] k uk
    by (simp add: release_cases [OF assms(1)] addr_host ip_to_offset_inside)
  have ok: "pool_ok ?q" using release_ok [OF assms(1), of "addr p k"] r by simp
  have uq: "used ?q = used p - {k}" using used_dropped [OF assms(1), of "of_nat k"] uk le by simp
  from card_mono [OF _ used_below_broadcast [OF assms(1,2)]] have "card (used p) \<le> unat (pool_max p)" by simp
  moreover have "0 < card (used p)" using k by (auto simp: card_gt_0_iff)
  moreover have "pool_max ?q = pool_max p" by (simp add: dropped_def)
  ultimately have "card (used ?q) < unat (pool_max ?q)" using k by (simp only: uq) simp
  then have room: "\<not> unat (pool_max ?q) \<le> unat (pool_count ?q)" using ok by (simp add: pool_ok_def)
  have "lowest_free ?q = k" unfolding lowest_free_def uq
    by (rule Least_equality) (use assms(3,4) in \<open>auto simp: le_Suc_eq intro!: Suc_leI gr0I\<close>)
  then have "allocate ?q = Some (Inr (addr ?q k), taken ?q (of_nat k))"
    using allocate_cases [OF ok] room by simp
  with r show ?thesis by (simp add: addr_def dropped_def)
qed

theorem reserved_not_protected_witness:
  "\<exists>p q r. new_pool ''10.8.0.0/29'' = Inr p \<and> release (addr p 1) p = (Inr (), q) \<and>
     allocate q = Some (Inr (addr p 1), r)"
proof (rule pool_29)
  fix p assume p: "new_pool ''10.8.0.0/29'' = Inr p" "pool_ok p" "used p = {0, 1}" "unat (pool_max p) = 7"
  show ?thesis using reserved_not_protected [OF p(2), of 1] p by auto
qed

end
