(* ===== verification/GoBase64.thy ===== *)
theory GoBase64
  imports GoStrings
begin

text \<open>
  Go's \<^verbatim>\<open>base64.StdEncoding\<close>, which the program uses for WireGuard keys and proxy
  credentials. Decoding drops carriage returns and newlines, requires padding, and ignores
  the unused low bits of the last group, so it is not injective; \<open>b64_decode_encode\<close> is the
  round trip.
\<close>

definition b64_alphabet :: string where
  "b64_alphabet = ''ABCDEFGHIJKLMNOPQRSTUVWXYZabcdefghijklmnopqrstuvwxyz0123456789+/''"

definition b64_char :: "nat \<Rightarrow> char" where
  "b64_char n = b64_alphabet ! n"

definition b64_val :: "char \<Rightarrow> nat option" where
  "b64_val c = index_byte b64_alphabet c"

fun b64_encode :: "u8 list \<Rightarrow> string" where
  "b64_encode [] = []"
| "b64_encode [a] =
     [b64_char (unat a div 4), b64_char (unat a mod 4 * 16), CHR ''='', CHR ''='']"
| "b64_encode [a, b] =
     [b64_char (unat a div 4), b64_char (unat a mod 4 * 16 + unat b div 16),
      b64_char (unat b mod 16 * 4), CHR ''='']"
| "b64_encode (a # b # c # r) =
     b64_char (unat a div 4) # b64_char (unat a mod 4 * 16 + unat b div 16) #
     b64_char (unat b mod 16 * 4 + unat c div 64) # b64_char (unat c mod 64) # b64_encode r"

fun b64_groups :: "string \<Rightarrow> u8 list option" where
  "b64_groups [] = Some []"
| "b64_groups (p # q # r # s # rest) =
     (case (b64_val p, b64_val q) of
        (Some x, Some y) \<Rightarrow>
          if r = CHR ''='' \<and> s = CHR ''='' \<and> rest = [] then Some [of_nat (x * 4 + y div 16)]
          else (case b64_val r of
                  None \<Rightarrow> None
                | Some z \<Rightarrow>
                    if s = CHR ''='' \<and> rest = []
                    then Some [of_nat (x * 4 + y div 16), of_nat (y mod 16 * 16 + z div 4)]
                    else (case (b64_val s, b64_groups rest) of
                            (Some w, Some bs) \<Rightarrow>
                              Some (of_nat (x * 4 + y div 16) # of_nat (y mod 16 * 16 + z div 4) #
                                    of_nat (z mod 4 * 64 + w) # bs)
                          | _ \<Rightarrow> None))
      | _ \<Rightarrow> None)"
| "b64_groups _ = None"

definition b64_decode :: "string \<Rightarrow> u8 list option" where
  "b64_decode s = b64_groups (filter (\<lambda>c. c \<noteq> CHR 0x0A \<and> c \<noteq> CHR 0x0D) s)"

lemma b64_alphabet_props:
  "list_all (\<lambda>n. b64_val (b64_char n) = Some n \<and> b64_char n \<noteq> CHR ''='' \<and> b64_char n \<noteq> CHR 0x0A \<and>
      b64_char n \<noteq> CHR 0x0D \<and> \<not> is_space (b64_char n)) [0 ..< 64]"
  by code_simp

lemma b64_char:
  assumes "n < 64"
  shows "b64_val (b64_char n) = Some n" and "b64_char n \<noteq> CHR ''=''" and "b64_char n \<noteq> CHR 0x0A"
    and "b64_char n \<noteq> CHR 0x0D" and "\<not> is_space (b64_char n)"
  using assms b64_alphabet_props by (simp_all add: list_all_iff)

lemma u8_lt: "unat (a :: u8) < 256"
  using unsigned_less [of a, where ?'a = nat] by simp

lemma b64_bounds:
  "unat (a :: u8) div 4 < 64" "unat a mod 4 * 16 < 64" "unat a mod 4 * 16 + unat (b :: u8) div 16 < 64"
  "unat b mod 16 * 4 < 64" "unat b mod 16 * 4 + unat (c :: u8) div 64 < 64" "unat c mod 64 < 64"
  using u8_lt [of a] u8_lt [of b] u8_lt [of c]
  by (simp_all add: div_less_iff_less_mult)

lemma b64_bytes:
  "unat (a :: u8) div 4 * 4 + (unat a mod 4 * 16 + unat (b :: u8) div 16) div 16 = unat a"
  "(unat a mod 4 * 16 + unat b div 16) mod 16 * 16 + (unat b mod 16 * 4 + unat (c :: u8) div 64) div 4 = unat b"
  "(unat b mod 16 * 4 + unat c div 64) mod 4 * 64 + unat c mod 64 = unat c"
proof -
  have "unat b div 16 < 16" "unat c div 64 < 4"
    using u8_lt [of b] u8_lt [of c] by (simp_all add: div_less_iff_less_mult)
  then have "(unat a mod 4 * 16 + unat b div 16) div 16 = unat a mod 4"
    "(unat a mod 4 * 16 + unat b div 16) mod 16 = unat b div 16"
    "(unat b mod 16 * 4 + unat c div 64) div 4 = unat b mod 16"
    "(unat b mod 16 * 4 + unat c div 64) mod 4 = unat c div 64"
    by simp_all
  then show "unat a div 4 * 4 + (unat a mod 4 * 16 + unat b div 16) div 16 = unat a"
    "(unat a mod 4 * 16 + unat b div 16) mod 16 * 16 + (unat b mod 16 * 4 + unat c div 64) div 4 = unat b"
    "(unat b mod 16 * 4 + unat c div 64) mod 4 * 64 + unat c mod 64 = unat c"
    by (simp_all only: div_mult_mod_eq)
qed

lemma b64_last:
  "unat (a :: u8) div 4 * 4 + (unat a mod 4 * 16) div 16 = unat a"
  "(unat a mod 4 * 16 + unat (b :: u8) div 16) mod 16 * 16 + (unat b mod 16 * 4) div 4 = unat b"
  using b64_bytes(1) [of a 0] b64_bytes(2) [of a b 0] by simp_all

lemma b64_decode_encode_groups: "b64_groups (b64_encode bs) = Some bs"
proof (induction bs rule: b64_encode.induct)
  case 1
  then show ?case by simp
next
  case (2 a)
  have "b64_groups (b64_encode [a]) = Some [of_nat (unat a div 4 * 4 + (unat a mod 4 * 16) div 16)]"
    by (simp only: b64_encode.simps b64_groups.simps b64_char b64_bounds) simp
  then show ?case unfolding b64_last by (simp del: b64_encode.simps)
next
  case (3 a b)
  have "b64_groups (b64_encode [a, b]) =
    Some [of_nat (unat a div 4 * 4 + (unat a mod 4 * 16 + unat b div 16) div 16),
          of_nat ((unat a mod 4 * 16 + unat b div 16) mod 16 * 16 + (unat b mod 16 * 4) div 4)]"
    by (simp only: b64_encode.simps b64_groups.simps b64_char b64_bounds) (simp add: b64_char b64_bounds)
  then show ?case unfolding b64_last b64_bytes by (simp del: b64_encode.simps)
next
  case (4 a b c r)
  have "b64_groups (b64_encode (a # b # c # r)) =
    Some (of_nat (unat a div 4 * 4 + (unat a mod 4 * 16 + unat b div 16) div 16) #
          of_nat ((unat a mod 4 * 16 + unat b div 16) mod 16 * 16 + (unat b mod 16 * 4 + unat c div 64) div 4) #
          of_nat ((unat b mod 16 * 4 + unat c div 64) mod 4 * 64 + unat c mod 64) # r)"
    by (simp only: b64_encode.simps b64_groups.simps b64_char b64_bounds 4) (simp add: b64_char b64_bounds)
  then show ?case unfolding b64_bytes by (simp del: b64_encode.simps)
qed

lemma b64_encode_alphabet: "set (b64_encode bs) \<subseteq> insert (CHR ''='') (b64_char ` {..<64})"
proof (induction bs rule: b64_encode.induct)
  case 1
  then show ?case by simp
next
  case (2 a)
  then show ?case using b64_bounds(1,2) [of a] by simp
next
  case (3 a b)
  then show ?case using b64_bounds(1) [of a] b64_bounds(3) [of a b] b64_bounds(4) [of b] by simp
next
  case (4 a b c r)
  then show ?case
    using b64_bounds(1) [of a] b64_bounds(3) [of a b] b64_bounds(5) [of b c] b64_bounds(6) [of c] by simp
qed

lemma b64_encode_chars:
  assumes "c \<in> set (b64_encode bs)"
  shows "\<not> is_space c \<and> c \<noteq> CHR 0x0A \<and> c \<noteq> CHR 0x0D"
proof -
  from assms b64_encode_alphabet [of bs] consider "c = CHR ''=''" | n where "n < 64" "c = b64_char n" by auto
  then show ?thesis
  proof cases
    case 1
    then show ?thesis by (simp add: is_space_def code_def)
  next
    case 2
    then show ?thesis using b64_char(3-5) by simp
  qed
qed

lemma b64_decode_encode [go_simps]: "b64_decode (b64_encode bs) = Some bs"
proof -
  have "filter (\<lambda>c. c \<noteq> CHR 0x0A \<and> c \<noteq> CHR 0x0D) (b64_encode bs) = b64_encode bs"
    using b64_encode_chars by (simp add: filter_id_conv)
  then show ?thesis by (simp add: b64_decode_def b64_decode_encode_groups)
qed

lemma b64_encode_inj: "b64_encode xs = b64_encode ys \<longleftrightarrow> xs = ys"
  by (metis b64_decode_encode option.inject)

end
