(* ===== verification/WGKeys.thy ===== *)
theory WGKeys
  imports GoBase64
begin

text \<open>
  WireGuard keys: \<^verbatim>\<open>internal/crypto/keypair.go\<close> (generation and clamping), the validity test
  of \<^verbatim>\<open>internal/control/handler.go\<close>, and the copy of decoded bytes into a 32-byte
  \<^verbatim>\<open>wgtypes.Key\<close> that every operation of the manager starts with. Random bytes and the
  curve are arguments: \<^verbatim>\<open>crypto/rand\<close> and \<^verbatim>\<open>x/crypto/curve25519\<close> are not this program's.
\<close>

type_synonym key = "u8 list"

record keypair =
  kp_private :: string
  kp_public :: string

definition keypair_string :: "keypair \<Rightarrow> string" where
  "keypair_string kp = ''Keypair{pub='' @ kp_public kp @ ''}''"

definition clamp :: "key \<Rightarrow> key" where
  "clamp k =
     (let k1 = k[0 := k ! 0 AND 248];
          k2 = k1[31 := k1 ! 31 AND 127]
      in k2[31 := k2 ! 31 OR 64])"

definition basepoint :: key where
  "basepoint = 9 # replicate 31 0"

text \<open>\<open>rnd\<close> is what \<^verbatim>\<open>rand.Read\<close> filled in, \<open>x25519\<close> the curve; either may fail.\<close>

definition generate_keypair :: "(key \<Rightarrow> key \<Rightarrow> string + key) \<Rightarrow> string + key \<Rightarrow> string + keypair" where
  "generate_keypair x25519 rnd =
     (case rnd of
        Inl e \<Rightarrow> Inl e
      | Inr bs \<Rightarrow>
          let priv = clamp bs in
          case x25519 priv basepoint of
            Inl e \<Rightarrow> Inl e
          | Inr pub \<Rightarrow> Inr \<lparr>kp_private = b64_encode priv, kp_public = b64_encode pub\<rparr>)"

definition is_valid_wg_key :: "string \<Rightarrow> bool" where
  "is_valid_wg_key k = (case b64_decode k of None \<Rightarrow> False | Some bs \<Rightarrow> length bs = 32)"

text \<open>\<^verbatim>\<open>var pubKey wgtypes.Key; copy(pubKey[:], bytes)\<close>.\<close>

definition to_key :: "u8 list \<Rightarrow> key" where
  "to_key bs = take 32 bs @ replicate (32 - length bs) 0"

lemma length_to_key [simp]: "length (to_key bs) = 32"
  by (simp add: to_key_def)

lemma to_key_id [simp]: "length bs = 32 \<Longrightarrow> to_key bs = bs"
  by (simp add: to_key_def)

lemma length_clamp [simp]: "length (clamp k) = length k"
  by (simp add: clamp_def Let_def)

lemma clamp_nth:
  assumes "length k = 32" and "i < 32"
  shows "clamp k ! i = (if i = 0 then k ! 0 AND 248 else if i = 31 then k ! 31 AND 127 OR 64 else k ! i)"
  using assms by (simp add: clamp_def Let_def nth_list_update)

lemma clamp_low: "((b :: u8) AND 248) AND 7 = 0"
  by (simp add: and.assoc)

lemma clamp_idem_bytes: "((b :: u8) AND 248) AND 248 = b AND 248"
  by (simp add: and.assoc)

lemma clamp_high_bytes: "((b :: u8) AND 127 OR 64) AND 127 OR 64 = b AND 127 OR 64"
  by (rule bit_word_eqI) (auto simp: bit_simps)

lemma and_or_absorb: "((b :: u8) AND c) OR c = c"
  by (rule bit_word_eqI) (auto simp: bit_simps)

lemma clamp_top: "((b :: u8) AND 127 OR 64) AND 192 = 64"
  using and_or_absorb [of b 64] by (simp add: bit.conj_disj_distrib2 and.assoc)

section \<open>Keys are correct\<close>

text \<open>A generated key pair carries the base64 form of a 32-byte private key whose three low
  bits and top bit are clear and whose second-highest bit is set, as Curve25519 requires; the
  public key is the curve applied to exactly that private key; and clamping again changes nothing.\<close>

lemma generate_keypair_clamped:
  assumes "length bs = 32" and "x25519 (clamp bs) basepoint = Inr pub"
  shows "\<exists>kp priv. generate_keypair x25519 (Inr bs) = Inr kp \<and> b64_decode (kp_private kp) = Some priv \<and>
     b64_decode (kp_public kp) = Some pub \<and> is_valid_wg_key (kp_private kp) \<and> clamp priv = priv \<and>
     priv ! 0 AND 7 = 0 \<and> priv ! 31 AND 192 = 64 \<and> (\<forall>i. 0 < i \<and> i < 31 \<longrightarrow> priv ! i = bs ! i)"
proof (intro exI conjI allI impI)
  let ?kp = "\<lparr>kp_private = b64_encode (clamp bs), kp_public = b64_encode pub\<rparr>"
  show "generate_keypair x25519 (Inr bs) = Inr ?kp" using assms by (simp add: generate_keypair_def)
  show "b64_decode (kp_private ?kp) = Some (clamp bs)" "b64_decode (kp_public ?kp) = Some pub"
    by (simp_all add: b64_decode_encode)
  show "is_valid_wg_key (kp_private ?kp)" using assms by (simp add: is_valid_wg_key_def b64_decode_encode)
  show "clamp (clamp bs) = clamp bs"
    by (rule nth_equalityI) (use assms in \<open>auto simp: clamp_nth clamp_idem_bytes clamp_high_bytes\<close>)
  show "clamp bs ! 0 AND 7 = 0" using assms clamp_low [of "bs ! 0"] by (simp only: clamp_nth if_True simp_thms)
  show "clamp bs ! 31 AND 192 = 64" using assms clamp_top by (simp add: clamp_nth)
  fix i :: nat
  assume "0 < i \<and> i < 31"
  then show "clamp bs ! i = bs ! i" using assms by (simp add: clamp_nth)
qed

end
