(* ===== verification/GoURL.thy ===== *)
theory GoURL
  imports GoNet
begin

text \<open>
  Go's \<^verbatim>\<open>net/url\<close> as the program uses it: \<^verbatim>\<open>url.Parse\<close> and \<^verbatim>\<open>url.ParseRequestURI\<close> with
  the checks they make on the scheme, the authority, the port and the escapes,
  \<^verbatim>\<open>Hostname\<close>/\<^verbatim>\<open>Port\<close>, \<^verbatim>\<open>URL.String\<close>, and the escaping functions. \<open>unescape_escape\<close>
  is the round trip for path segments.
\<close>

section \<open>Escaping\<close>

datatype enc = EncPath | EncPathSegment | EncHost | EncZone | EncUserPassword | EncQuery | EncFragment

definition should_escape :: "char \<Rightarrow> enc \<Rightarrow> bool" where
  "should_escape c m =
     (if is_lower c \<or> is_upper c \<or> is_digit c then False
      else if (m = EncHost \<or> m = EncZone) \<and> c \<in> set ''!$&()*+,;=:[]<>'' \<union> {CHR 0x27, CHR 0x22} then False
      else if c \<in> set ''-_.~'' then False
      else if c \<in> set ''$&+,/:;=?@'' \<and> m = EncPath then c = CHR ''?''
      else if c \<in> set ''$&+,/:;=?@'' \<and> m = EncPathSegment then c \<in> set ''/;,?''
      else if c \<in> set ''$&+,/:;=?@'' \<and> m = EncUserPassword then c \<in> set ''@/?:''
      else if c \<in> set ''$&+,/:;=?@'' \<and> m = EncQuery then True
      else if c \<in> set ''$&+,/:;=?@'' \<and> m = EncFragment then False
      else \<not> (m = EncFragment \<and> c \<in> set ''!()*''))"

definition hex_upper :: "nat \<Rightarrow> char" where
  "hex_upper n = char_of (if n < 10 then 48 + n else 55 + n)"

fun escape :: "enc \<Rightarrow> string \<Rightarrow> string" where
  "escape m [] = []"
| "escape m (c # s) =
     (if should_escape c m
      then if c = CHR '' '' \<and> m = EncQuery then CHR ''+'' # escape m s
           else CHR ''%'' # hex_upper (code c div 16) # hex_upper (code c mod 16) # escape m s
      else c # escape m s)"

fun unescape :: "enc \<Rightarrow> string \<Rightarrow> string option" where
  "unescape m [] = Some []"
| "unescape m (c # s) =
     (if c = CHR ''%'' then
        (case s of
           h # l # r \<Rightarrow>
             if \<not> is_hex h \<or> \<not> is_hex l then None
             else let v = char_of (hex_digit_val h * 16 + hex_digit_val l) in
               if m = EncHost \<and> hex_digit_val h < 8 \<and> [h, l] \<noteq> ''25'' then None
               else if m = EncZone \<and> [h, l] \<noteq> ''25'' \<and> v \<noteq> CHR '' '' \<and> should_escape v EncHost then None
               else map_option (\<lambda>t. v # t) (unescape m r)
         | _ \<Rightarrow> None)
      else if (m = EncHost \<or> m = EncZone) \<and> code c < 128 \<and> should_escape c m then None
      else map_option (\<lambda>t. (if c = CHR ''+'' \<and> m = EncQuery then CHR '' '' else c) # t) (unescape m s))"

definition path_escape :: "string \<Rightarrow> string" where
  "path_escape s = escape EncPathSegment s"

definition path_unescape :: "string \<Rightarrow> string option" where
  "path_unescape s = unescape EncPathSegment s"

definition query_escape :: "string \<Rightarrow> string" where
  "query_escape s = escape EncQuery s"

section \<open>URLs\<close>

record url =
  url_scheme :: string
  url_opaque :: string
  url_user :: "(string \<times> string option) option"
  url_host :: string
  url_path :: string
  url_raw_query :: string
  url_fragment :: string

text \<open>\<^verbatim>\<open>getScheme\<close>: an error is \<open>None\<close>.\<close>

definition get_scheme :: "string \<Rightarrow> (string \<times> string) option" where
  "get_scheme raw =
     (let pre = takeWhile (\<lambda>c. is_lower c \<or> is_upper c \<or> is_digit c \<or> c \<in> set ''+-.'') raw;
          rest = drop (length pre) raw
      in if rest \<noteq> [] \<and> hd rest = CHR '':'' then
           (if pre = [] then None
            else if is_lower (hd pre) \<or> is_upper (hd pre) then Some (pre, tl rest)
            else Some ([], raw))
         else Some ([], raw))"

definition valid_optional_port :: "string \<Rightarrow> bool" where
  "valid_optional_port p \<longleftrightarrow> p = [] \<or> (hd p = CHR '':'' \<and> list_all is_digit (tl p))"

definition parse_host :: "string \<Rightarrow> string option" where
  "parse_host h =
     (if has_prefix h ''['' then
        (case last_index_byte h (CHR '']'') of
           None \<Rightarrow> None
         | Some i \<Rightarrow>
             if \<not> valid_optional_port (drop (i + 1) h) then None
             else (case index_of (take i h) ''%25'' of
                     Some z \<Rightarrow>
                       (case (unescape EncHost (take z h), unescape EncZone (drop z (take i h)),
                              unescape EncHost (drop i h)) of
                          (Some a, Some b, Some c) \<Rightarrow> Some (a @ b @ c)
                        | _ \<Rightarrow> None)
                   | None \<Rightarrow> unescape EncHost h))
      else (case last_index_byte h (CHR '':'') of
              None \<Rightarrow> unescape EncHost h
            | Some i \<Rightarrow> if valid_optional_port (drop i h) then unescape EncHost h else None))"

definition valid_userinfo :: "string \<Rightarrow> bool" where
  "valid_userinfo s \<longleftrightarrow>
     list_all (\<lambda>c. is_lower c \<or> is_upper c \<or> is_digit c \<or> c \<in> insert (CHR 0x27) (set ''-._:~!$&()*+,;=%@'')) s"

definition parse_authority :: "string \<Rightarrow> ((string \<times> string option) option \<times> string) option" where
  "parse_authority a =
     (case last_index_byte a (CHR ''@'') of
        None \<Rightarrow> map_option (\<lambda>h. (None, h)) (parse_host a)
      | Some i \<Rightarrow>
          (case parse_host (drop (i + 1) a) of
             None \<Rightarrow> None
           | Some h \<Rightarrow>
               let ui = take i a in
               if \<not> valid_userinfo ui then None
               else case cut ui (CHR '':'') of
                 None \<Rightarrow> map_option (\<lambda>u. (Some (u, None), h)) (unescape EncUserPassword ui)
               | Some (u, p) \<Rightarrow>
                   (case (unescape EncUserPassword u, unescape EncUserPassword p) of
                      (Some u', Some p') \<Rightarrow> Some (Some (u', Some p'), h)
                    | _ \<Rightarrow> None)))"

definition url_with_path :: "string \<Rightarrow> string \<Rightarrow> (string \<times> string option) option \<times> string \<Rightarrow> string \<Rightarrow> url option" where
  "url_with_path scheme query auth rest =
     map_option (\<lambda>p. \<lparr>url_scheme = scheme, url_opaque = [], url_user = fst auth, url_host = snd auth,
        url_path = p, url_raw_query = query, url_fragment = []\<rparr>) (unescape EncPath rest)"

text \<open>The unexported \<^verbatim>\<open>parse(rawURL, viaRequest)\<close>.\<close>

definition parse_raw :: "string \<Rightarrow> bool \<Rightarrow> url option" where
  "parse_raw raw via =
     (if list_ex (\<lambda>c. code c < 32 \<or> code c = 127) raw then None
      else if raw = [] \<and> via then None
      else if raw = ''*'' then
        Some \<lparr>url_scheme = [], url_opaque = [], url_user = None, url_host = [], url_path = ''*'',
              url_raw_query = [], url_fragment = []\<rparr>
      else case get_scheme raw of
        None \<Rightarrow> None
      | Some (s0, rest0) \<Rightarrow>
          let scheme = to_lower s0;
              (rest, query) =
                (if has_suffix rest0 ''?'' \<and> count_byte rest0 (CHR ''?'') = 1
                 then (take (length rest0 - 1) rest0, [])
                 else case cut rest0 (CHR ''?'') of None \<Rightarrow> (rest0, []) | Some (a, b) \<Rightarrow> (a, b))
          in if \<not> has_prefix rest ''/'' \<and> scheme \<noteq> [] then
               Some \<lparr>url_scheme = scheme, url_opaque = rest, url_user = None, url_host = [], url_path = [],
                     url_raw_query = query, url_fragment = []\<rparr>
             else if \<not> has_prefix rest ''/'' \<and> via then None
             else if \<not> has_prefix rest ''/'' \<and> CHR '':'' \<in> set (takeWhile (\<lambda>c. c \<noteq> CHR ''/'') rest) then None
             else if (scheme \<noteq> [] \<or> \<not> via \<and> \<not> has_prefix rest ''///'') \<and> has_prefix rest ''//'' then
               (let auth = takeWhile (\<lambda>c. c \<noteq> CHR ''/'') (drop 2 rest);
                    path = dropWhile (\<lambda>c. c \<noteq> CHR ''/'') (drop 2 rest)
                in case parse_authority auth of
                     None \<Rightarrow> None
                   | Some a \<Rightarrow> url_with_path scheme query a path)
             else url_with_path scheme query (None, []) rest)"

definition url_parse :: "string \<Rightarrow> url option" where
  "url_parse raw =
     (let u = takeWhile (\<lambda>c. c \<noteq> CHR ''#'') raw; frag = drop (Suc (length u)) raw in
      case parse_raw u False of
        None \<Rightarrow> None
      | Some v \<Rightarrow>
          if frag = [] then Some v
          else map_option (\<lambda>f. v\<lparr>url_fragment := f\<rparr>) (unescape EncFragment frag))"

definition url_parse_request :: "string \<Rightarrow> url option" where
  "url_parse_request raw = parse_raw raw True"

text \<open>\<^verbatim>\<open>u.Hostname()\<close> and \<^verbatim>\<open>u.Port()\<close>.\<close>

definition host_and_port :: "string \<Rightarrow> string \<times> string" where
  "host_and_port hp =
     (let (h, p) = (case last_index_byte hp (CHR '':'') of
                      None \<Rightarrow> (hp, [])
                    | Some i \<Rightarrow> if valid_optional_port (drop i hp) then (take i hp, drop (i + 1) hp) else (hp, []))
      in (if has_prefix h ''['' \<and> has_suffix h '']'' then take (length h - 2) (drop 1 h) else h, p))"

definition hostname :: "url \<Rightarrow> string" where
  "hostname u = fst (host_and_port (url_host u))"

definition url_port :: "url \<Rightarrow> string" where
  "url_port u = snd (host_and_port (url_host u))"

text \<open>\<^verbatim>\<open>u.String()\<close>.\<close>

definition userinfo_string :: "string \<times> string option \<Rightarrow> string" where
  "userinfo_string ui =
     (if fst ui = [] \<and> snd ui \<in> {None, Some []} then []
      else escape EncUserPassword (fst ui) @
           (case snd ui of None \<Rightarrow> [] | Some p \<Rightarrow> CHR '':'' # escape EncUserPassword p))"

definition url_string :: "url \<Rightarrow> string" where
  "url_string u =
     (let pre = (if url_scheme u \<noteq> [] then url_scheme u @ '':'' else []);
          path = (if url_path u = ''*'' then ''*'' else escape EncPath (url_path u));
          hier =
            (if url_scheme u \<noteq> [] \<or> url_host u \<noteq> [] \<or> url_user u \<noteq> None then
               (if url_host u \<noteq> [] \<or> url_path u \<noteq> [] \<or> url_user u \<noteq> None then ''//'' else []) @
               (case url_user u of None \<Rightarrow> [] | Some ui \<Rightarrow> userinfo_string ui @ ''@'') @
               escape EncHost (url_host u)
             else []) @
            (if path \<noteq> [] \<and> hd path \<noteq> CHR ''/'' \<and> url_host u \<noteq> [] then ''/'' else []) @ path
      in pre @ (if url_opaque u \<noteq> [] then url_opaque u else hier) @
         (if url_raw_query u \<noteq> [] then CHR ''?'' # url_raw_query u else []) @
         (if url_fragment u \<noteq> [] then CHR ''#'' # escape EncFragment (url_fragment u) else []))"

section \<open>Round trip\<close>

lemma hex_upper:
  assumes "n < 16"
  shows "is_hex (hex_upper n)" and "hex_digit_val (hex_upper n) = n"
proof -
  have "code (hex_upper n) = (if n < 10 then 48 + n else 55 + n)"
    using assms by (simp add: hex_upper_def code_char_of)
  then show "is_hex (hex_upper n)" and "hex_digit_val (hex_upper n) = n"
    using assms by (auto simp: is_hex_def is_digit_def is_lower_def hex_digit_val_def)
qed

lemma char_of_code [simp]: "char_of (code c) = c"
  by (simp add: code_def)

lemma percent_escaped: "should_escape (CHR ''%'') EncPathSegment"
  by code_simp

lemma unescape_escape: "unescape EncPathSegment (escape EncPathSegment s) = Some s"
proof (induction s)
  case (Cons c s)
  have "code c div 16 < 16" using code_less [of c] by (simp add: div_less_iff_less_mult)
  then show ?case using Cons percent_escaped by (auto simp: hex_upper Let_def)
qed simp

text \<open>Evaluation of \<^verbatim>\<open>url.Parse\<close> on literals.\<close>

lemmas url_eval = url_parse_def Let_def parse_raw_def code_def get_scheme_def is_lower_def is_upper_def
  is_digit_def to_lower_def lower_def has_suffix_def has_prefix_def count_byte_def parse_authority_def
  last_index_byte_def parse_host_def should_escape_def url_with_path_def valid_optional_port_def

end
