(* ===== verification/Config.thy ===== *)
theory Config
  imports Complex_Main GoURL
begin

text \<open>
  \<^verbatim>\<open>internal/config/config.go\<close>: the configuration record, its construction from the
  environment with every check that ends the process, the derived Authentik URLs, the
  CORS origin test and the WebSocket limit of a user's groups. The environment is a function
  from names to values, empty for an unset variable, as \<^verbatim>\<open>os.Getenv\<close> returns it;
  \<^verbatim>\<open>log.Fatal\<close> is an \<open>Inl\<close>. The one floating-point setting is a rational read by the
  argument \<open>pf\<close>, in the place of \<^verbatim>\<open>strconv.ParseFloat\<close>.
\<close>

section \<open>The record\<close>

record config =
  AppEnv :: string
  Port :: string
  AuthToken :: string
  CORSAllowedOrigins :: string
  AllowedExtensionOrigins :: string
  PublicBaseURL :: string
  ExtensionCallbackPath :: string
  WGInterface :: string
  WGPort :: int
  Subnet :: string
  ConfigDir :: string
  Endpoint :: string
  DatabaseURL :: string
  RedisURL :: string
  AuthentikIssuer :: string
  AuthentikClientID :: string
  AuthentikClientSecret :: string
  AuthentikJWKSURL :: string
  AuthentikIntrospectionURLOverride :: string
  CoreTLSSkipVerify :: bool
  CoreAllowHTTP :: bool
  CoreAllowedHosts :: string
  RateLimitRPS :: int
  RateLimitBurst :: int
  TrustedProxies :: string
  MaxDevicesPerUser :: int
  ConnectRateLimitRPS :: rat
  ConnectRateLimitBurst :: int
  VpnDNS :: string
  ProxyEnabled :: bool
  ProxyPort :: int
  ProxyMaxConnsPerUser :: int
  WSMaxGlobal :: int
  WSMaxFree :: int
  WSMaxBasic :: int
  WSMaxMedium :: int
  WSMaxPro :: int
  WSMaxAdmin :: int

type_synonym environ = "string \<Rightarrow> string"

section \<open>Environment\<close>

definition get_env :: "environ \<Rightarrow> string \<Rightarrow> string \<Rightarrow> string" where
  "get_env env k d = (if env k \<noteq> [] then env k else d)"

definition get_env_int :: "environ \<Rightarrow> string \<Rightarrow> int \<Rightarrow> int" where
  "get_env_int env k d =
     (if env k = [] then d else case atoi (env k) of None \<Rightarrow> d | Some n \<Rightarrow> n)"

definition get_env_float :: "(string \<Rightarrow> rat option) \<Rightarrow> environ \<Rightarrow> string \<Rightarrow> rat \<Rightarrow> rat" where
  "get_env_float pf env k d =
     (if env k = [] then d else case pf (env k) of None \<Rightarrow> d | Some f \<Rightarrow> f)"

definition get_env_bool :: "environ \<Rightarrow> string \<Rightarrow> bool \<Rightarrow> bool" where
  "get_env_bool env k d =
     (if env k = [] then d
      else if env k \<in> {''1'', ''true'', ''TRUE'', ''True'', ''yes'', ''YES'', ''on'', ''ON''} then True
      else if env k \<in> {''0'', ''false'', ''FALSE'', ''False'', ''no'', ''NO'', ''off'', ''OFF''} then False
      else d)"

definition database_user_info :: "string \<Rightarrow> string \<Rightarrow> string \<times> string option" where
  "database_user_info user password = (if password = [] then (user, None) else (user, Some password))"

definition database_url_from_env :: "environ \<Rightarrow> string" where
  "database_url_from_env env =
     (if get_env env ''DATABASE_URL'' [] \<noteq> [] then get_env env ''DATABASE_URL'' []
      else url_string
        \<lparr>url_scheme = ''postgres'', url_opaque = [],
         url_user = Some (database_user_info (get_env env ''POSTGRES_USER'' ''midori'')
                            (get_env env ''POSTGRES_PASSWORD'' [])),
         url_host = join_host_port (get_env env ''POSTGRES_HOST'' ''postgres'')
                      (itoa (get_env_int env ''POSTGRES_PORT'' 5432)),
         url_path = get_env env ''POSTGRES_DB'' ''midori_vpn'',
         url_raw_query = ''sslmode='' @ query_escape (get_env env ''POSTGRES_SSLMODE'' ''disable''),
         url_fragment = []\<rparr>)"

definition redis_url_from_env :: "environ \<Rightarrow> string" where
  "redis_url_from_env env =
     (if get_env env ''REDIS_URL'' [] \<noteq> [] then get_env env ''REDIS_URL'' []
      else url_string
        \<lparr>url_scheme = ''redis'', url_opaque = [],
         url_user = (if get_env env ''REDIS_PASSWORD'' [] \<noteq> []
                     then Some ([], Some (get_env env ''REDIS_PASSWORD'' [])) else None),
         url_host = join_host_port (get_env env ''REDIS_HOST'' ''redis'')
                      (itoa (get_env_int env ''REDIS_PORT'' 6379)),
         url_path = get_env env ''REDIS_DB'' ''0'',
         url_raw_query = [], url_fragment = []\<rparr>)"

section \<open>Origins\<close>

definition origin_from_url :: "string \<Rightarrow> string option" where
  "origin_from_url raw =
     (case url_parse raw of
        None \<Rightarrow> None
      | Some u \<Rightarrow> if url_scheme u = [] \<or> url_host u = [] then None
                  else Some (url_scheme u @ ''://'' @ url_host u))"

definition origin_matches :: "url \<Rightarrow> string \<Rightarrow> string \<Rightarrow> bool" where
  "origin_matches u origin allowed0 =
     (let allowed = trim_space allowed0 in
      if allowed = [] then False
      else if allowed = origin then True
      else if has_prefix allowed ''https://*.'' \<or> has_prefix allowed ''http://*.'' then
        (let scheme = take (the (index_of allowed ''://'')) allowed;
             suffix = drop (the (index_of allowed ''*.'') + 1) allowed
         in url_scheme u = scheme \<and> has_suffix (url_host u) suffix)
      else False)"

definition origin_allowed :: "string \<Rightarrow> string \<Rightarrow> bool" where
  "origin_allowed origin csv =
     (case url_parse origin of
        None \<Rightarrow> False
      | Some u \<Rightarrow>
          if url_scheme u = [] \<or> url_host u = [] then False
          else list_ex (origin_matches u origin) (split_on (CHR '','') csv))"

section \<open>Loading\<close>

text \<open>\<^verbatim>\<open>^[a-zA-Z0-9_-]{1,15}$\<close>\<close>

definition wg_interface_ok :: "string \<Rightarrow> bool" where
  "wg_interface_ok s \<longleftrightarrow>
     1 \<le> length s \<and> length s \<le> 15 \<and>
     list_all (\<lambda>c. is_lower c \<or> is_upper c \<or> is_digit c \<or> c = CHR ''_'' \<or> c = CHR ''-'') s"

text \<open>The record before validation.\<close>

definition read_config :: "(string \<Rightarrow> rat option) \<Rightarrow> environ \<Rightarrow> config" where
  "read_config pf env =
     (let issuer = trim_right (get_env env ''AUTHENTIK_ISSUER'' []) ''/'';
          jwks0 = get_env env ''AUTHENTIK_JWKS_URL'' [];
          jwks = (if jwks0 = [] \<and> issuer \<noteq> [] then trim_right issuer ''/'' @ ''/jwks/'' else jwks0)
      in \<lparr>AppEnv = get_env env ''APP_ENV'' ''production'',
          Port = get_env env ''VPN_CORE_PORT'' ''8080'',
          AuthToken = get_env env ''VPN_CORE_TOKEN'' [],
          CORSAllowedOrigins = get_env env ''CORS_ALLOWED_ORIGINS'' [],
          AllowedExtensionOrigins = get_env env ''ALLOWED_EXTENSION_ORIGINS'' [],
          PublicBaseURL = trim_right (get_env env ''PUBLIC_BASE_URL'' ''https://vpn.astian.org'') ''/'',
          ExtensionCallbackPath = get_env env ''EXTENSION_CALLBACK_PATH'' ''/extension/callback'',
          WGInterface = get_env env ''WG_INTERFACE'' ''wg0'',
          WGPort = get_env_int env ''WG_PORT'' 51820,
          Subnet = get_env env ''WG_SUBNET'' ''10.8.0.0/16'',
          ConfigDir = get_env env ''WG_CONFIG_DIR'' ''/etc/wireguard'',
          Endpoint = get_env env ''WG_ENDPOINT'' [],
          DatabaseURL = database_url_from_env env,
          RedisURL = redis_url_from_env env,
          AuthentikIssuer = issuer,
          AuthentikClientID = get_env env ''AUTHENTIK_CLIENT_ID'' [],
          AuthentikClientSecret = get_env env ''AUTHENTIK_CLIENT_SECRET'' [],
          AuthentikJWKSURL = jwks,
          AuthentikIntrospectionURLOverride = get_env env ''AUTHENTIK_INTROSPECTION_URL'' [],
          CoreTLSSkipVerify = get_env_bool env ''CORE_TLS_SKIP_VERIFY'' False,
          CoreAllowHTTP = get_env_bool env ''CORE_ALLOW_INSECURE_HTTP'' False,
          CoreAllowedHosts = get_env env ''CORE_ALLOWED_HOSTS'' [],
          RateLimitRPS = get_env_int env ''RATE_LIMIT_RPS'' 20,
          RateLimitBurst = get_env_int env ''RATE_LIMIT_BURST'' 40,
          TrustedProxies = get_env env ''TRUSTED_PROXIES'' [],
          MaxDevicesPerUser = get_env_int env ''MAX_DEVICES_PER_USER'' 5,
          ConnectRateLimitRPS = get_env_float pf env ''CONNECT_RATE_LIMIT_RPS'' (1 / 2),
          ConnectRateLimitBurst = get_env_int env ''CONNECT_RATE_LIMIT_BURST'' 3,
          VpnDNS = get_env env ''VPN_DNS'' ''1.1.1.1, 8.8.8.8'',
          ProxyEnabled = get_env_bool env ''PROXY_ENABLED'' False,
          ProxyPort = get_env_int env ''PROXY_PORT'' 8888,
          ProxyMaxConnsPerUser = get_env_int env ''PROXY_MAX_CONNS_PER_USER'' 20,
          WSMaxGlobal = get_env_int env ''WS_MAX_GLOBAL'' 1000,
          WSMaxFree = get_env_int env ''WS_MAX_FREE'' 1,
          WSMaxBasic = get_env_int env ''WS_MAX_BASIC'' 2,
          WSMaxMedium = get_env_int env ''WS_MAX_MEDIUM'' 3,
          WSMaxPro = get_env_int env ''WS_MAX_PRO'' 5,
          WSMaxAdmin = get_env_int env ''WS_MAX_ADMIN'' 10\<rparr>)"

datatype fatal =
    NoAuthToken | BadInterface | BadIssuer | BadJWKS | BadPublicBase
  | SkipVerifyInProduction | NoAllowedHosts | NoTrustedProxies
  | BadCallbackPath | BadWGPort | BadRPS | BadBurst | BadMaxDevices | BadProxyPort | BadProxyMax
  | BadDNS string

text \<open>A URL that \<^verbatim>\<open>ParseRequestURI\<close> accepts and that names a host.\<close>

definition url_ok :: "string \<Rightarrow> bool" where
  "url_ok s = (case url_parse_request s of None \<Rightarrow> False | Some u \<Rightarrow> url_host u \<noteq> [])"

definition url_scheme_ok :: "string \<Rightarrow> bool" where
  "url_scheme_ok s =
     (case url_parse_request s of None \<Rightarrow> False | Some u \<Rightarrow> url_scheme u \<noteq> [] \<and> url_host u \<noteq> [])"

definition dns_bad :: "string \<Rightarrow> string option" where
  "dns_bad csv = find (\<lambda>e. e \<noteq> [] \<and> parse_ip e = None) (map trim_space (split_on (CHR '','') csv))"

text \<open>The checks before the defaults, in the order of the code.\<close>

definition check_settings :: "config \<Rightarrow> fatal option" where
  "check_settings c =
     (if AuthToken c = [] then Some NoAuthToken
      else if \<not> wg_interface_ok (WGInterface c) then Some BadInterface
      else if AuthentikIssuer c \<noteq> [] \<and> \<not> url_ok (AuthentikIssuer c) then Some BadIssuer
      else if AuthentikJWKSURL c \<noteq> [] \<and> \<not> url_ok (AuthentikJWKSURL c) then Some BadJWKS
      else if PublicBaseURL c \<noteq> [] \<and> \<not> url_scheme_ok (PublicBaseURL c) then Some BadPublicBase
      else if AppEnv c = ''production'' \<and> CoreTLSSkipVerify c then Some SkipVerifyInProduction
      else if AppEnv c = ''production'' \<and> CoreAllowedHosts c = [] then Some NoAllowedHosts
      else if AppEnv c = ''production'' \<and> TrustedProxies c = [] then Some NoTrustedProxies
      else None)"

text \<open>The environment-aware CORS list and the trimmed callback path.\<close>

definition default_cors :: "config \<Rightarrow> string" where
  "default_cors c =
     (if CORSAllowedOrigins c = [] then
        (if AppEnv c = ''development''
         then ''https://*.astian.org,http://localhost:5173,http://localhost:3000''
         else ''https://*.astian.org'')
      else CORSAllowedOrigins c)"

definition default_path :: "config \<Rightarrow> string" where
  "default_path c =
     (if trim_space (ExtensionCallbackPath c) = [] then ''/extension/callback''
      else trim_space (ExtensionCallbackPath c))"

definition apply_defaults :: "config \<Rightarrow> config" where
  "apply_defaults c = c\<lparr>CORSAllowedOrigins := default_cors c, ExtensionCallbackPath := default_path c\<rparr>"

text \<open>The checks after them.\<close>

definition check_ranges :: "config \<Rightarrow> fatal option" where
  "check_ranges c =
     (if \<not> has_prefix (ExtensionCallbackPath c) ''/'' then Some BadCallbackPath
      else if WGPort c < 1 \<or> 65535 < WGPort c then Some BadWGPort
      else if RateLimitRPS c < 0 then Some BadRPS
      else if RateLimitBurst c < 1 \<and> 0 < RateLimitRPS c then Some BadBurst
      else if MaxDevicesPerUser c < 0 then Some BadMaxDevices
      else if ProxyPort c < 1 \<or> 65535 < ProxyPort c then Some BadProxyPort
      else if ProxyMaxConnsPerUser c < 1 then Some BadProxyMax
      else map_option BadDNS (dns_bad (VpnDNS c)))"

definition load_config :: "(string \<Rightarrow> rat option) \<Rightarrow> environ \<Rightarrow> fatal + config" where
  "load_config pf env =
     (let c = read_config pf env in
      case check_settings c of
        Some e \<Rightarrow> Inl e
      | None \<Rightarrow>
          (let d = apply_defaults c in
           case check_ranges d of Some e \<Rightarrow> Inl e | None \<Rightarrow> Inr d))"

section \<open>Derived URLs\<close>

definition authentik_app_url :: "config \<Rightarrow> string" where
  "authentik_app_url c = trim_right (AuthentikIssuer c) ''/''"

definition authentik_origin :: "config \<Rightarrow> string" where
  "authentik_origin c =
     (let app = authentik_app_url c in
      if app = [] then []
      else case origin_from_url app of None \<Rightarrow> app | Some origin \<Rightarrow> origin)"

definition authentik_under_origin :: "config \<Rightarrow> string \<Rightarrow> string" where
  "authentik_under_origin c path =
     (let origin = authentik_origin c in if origin = [] then [] else origin @ path)"

definition authentik_token_issuer :: "config \<Rightarrow> string" where
  "authentik_token_issuer c = authentik_under_origin c ''/''"

definition authentik_authorization_url :: "config \<Rightarrow> string" where
  "authentik_authorization_url c = authentik_under_origin c ''/application/o/authorize/''"

definition authentik_token_url :: "config \<Rightarrow> string" where
  "authentik_token_url c = authentik_under_origin c ''/application/o/token/''"

definition authentik_user_info_url :: "config \<Rightarrow> string" where
  "authentik_user_info_url c = authentik_under_origin c ''/application/o/userinfo/''"

definition authentik_introspection_url :: "config \<Rightarrow> string" where
  "authentik_introspection_url c =
     (if AuthentikIntrospectionURLOverride c \<noteq> [] then AuthentikIntrospectionURLOverride c
      else if authentik_app_url c \<noteq> [] then authentik_app_url c @ ''/introspect/''
      else authentik_under_origin c ''/application/o/introspect/'')"

definition authentik_end_session_url :: "config \<Rightarrow> string" where
  "authentik_end_session_url c =
     (if authentik_app_url c = [] then [] else authentik_app_url c @ ''/end-session/'')"

definition extension_callback_url :: "config \<Rightarrow> string" where
  "extension_callback_url c =
     (if PublicBaseURL c = [] then [] else trim_right (PublicBaseURL c) ''/'' @ ExtensionCallbackPath c)"

section \<open>WebSocket limits\<close>

definition group_limit :: "config \<Rightarrow> string \<Rightarrow> int" where
  "group_limit c g =
     (if g \<in> {''vpn-admins'', ''admins'', ''authentik Admins''} then WSMaxAdmin c
      else if g = ''plan-pro'' then WSMaxPro c
      else if g = ''plan-medium'' then WSMaxMedium c
      else if g = ''plan-basic'' then WSMaxBasic c
      else 0)"

definition ws_max_for_groups :: "config \<Rightarrow> string list \<Rightarrow> int" where
  "ws_max_for_groups c gs =
     foldl (\<lambda>m g. if m < group_limit c g then group_limit c g else m) (WSMaxFree c) gs"

section \<open>The configuration is correct\<close>

lemma trim_space_id:
  "s \<noteq> [] \<Longrightarrow> \<not> is_space (hd s) \<Longrightarrow> \<not> is_space (last s) \<Longrightarrow> trim_space s = s"
proof -
  assume s: "s \<noteq> []" "\<not> is_space (hd s)" "\<not> is_space (last s)"
  then have "dropWhile is_space s = s" "dropWhile is_space (rev s) = rev s"
    by (simp_all add: dropWhile_eq_self_iff hd_rev)
  then show ?thesis by (simp add: trim_space_def trim_left_by_def trim_right_by_def)
qed

lemma load_config_phases:
  assumes "load_config pf env = Inr d"
  obtains c where "check_settings c = None" and "d = apply_defaults c" and "check_ranges d = None"
  using assms that by (auto simp: load_config_def Let_def split: option.splits)

lemma apply_defaults_fields:
  "AuthToken (apply_defaults c) = AuthToken c" "WGInterface (apply_defaults c) = WGInterface c"
  "AppEnv (apply_defaults c) = AppEnv c" "CoreTLSSkipVerify (apply_defaults c) = CoreTLSSkipVerify c"
  "CoreAllowedHosts (apply_defaults c) = CoreAllowedHosts c" "TrustedProxies (apply_defaults c) = TrustedProxies c"
  "CORSAllowedOrigins (apply_defaults c) = default_cors c"
  by (simp_all add: apply_defaults_def)

lemma check_settings_None:
  "check_settings c = None \<Longrightarrow> AuthToken c \<noteq> [] \<and> wg_interface_ok (WGInterface c) \<and>
     (AppEnv c = ''production'' \<longrightarrow> \<not> CoreTLSSkipVerify c \<and> CoreAllowedHosts c \<noteq> [] \<and> TrustedProxies c \<noteq> [])"
  by (simp add: check_settings_def split: if_splits)

lemma check_ranges_None:
  "check_ranges c = None \<Longrightarrow> 1 \<le> WGPort c \<and> WGPort c \<le> 65535 \<and> 1 \<le> ProxyPort c \<and> ProxyPort c \<le> 65535 \<and>
     1 \<le> ProxyMaxConnsPerUser c \<and> 0 \<le> RateLimitRPS c \<and> 0 \<le> MaxDevicesPerUser c \<and>
     (RateLimitRPS c = 0 \<or> 1 \<le> RateLimitBurst c) \<and> has_prefix (ExtensionCallbackPath c) ''/'' \<and>
     dns_bad (VpnDNS c) = None"
  by (simp add: check_ranges_def split: if_splits) linarith

lemma dns_bad_None:
  "dns_bad csv = None \<Longrightarrow> e \<in> set (split_on (CHR '','') csv) \<Longrightarrow>
     trim_space e = [] \<or> parse_ip (trim_space e) \<noteq> None"
  by (auto simp: dns_bad_def find_None_iff)

lemma default_cors_nonempty: "default_cors c \<noteq> []"
  by (simp add: default_cors_def)

lemma wg_interface_chars:
  assumes "wg_interface_ok s"
  shows "1 \<le> length s \<and> length s \<le> 15 \<and> CHR ''/'' \<notin> set s \<and> CHR ''.'' \<notin> set s"
  using assms by (auto simp: wg_interface_ok_def list_all_iff is_lower_def is_upper_def is_digit_def code_def)

text \<open>C27: a configuration that loads has a core token, an interface name that cannot leave the
  configuration directory, numeric settings in range, only parseable DNS servers, a rooted
  callback path, and, in production, verified core TLS and non-empty host and proxy allow-lists.\<close>

theorem load_config_checked:
  assumes "load_config pf env = Inr c"
  shows "AuthToken c \<noteq> [] \<and> 1 \<le> length (WGInterface c) \<and> length (WGInterface c) \<le> 15 \<and>
     CHR ''/'' \<notin> set (WGInterface c) \<and> CHR ''.'' \<notin> set (WGInterface c) \<and>
     1 \<le> WGPort c \<and> WGPort c \<le> 65535 \<and> 1 \<le> ProxyPort c \<and> ProxyPort c \<le> 65535 \<and>
     1 \<le> ProxyMaxConnsPerUser c \<and> 0 \<le> RateLimitRPS c \<and> 0 \<le> MaxDevicesPerUser c \<and>
     (RateLimitRPS c = 0 \<or> 1 \<le> RateLimitBurst c) \<and>
     (\<forall>e. e \<in> set (split_on (CHR '','') (VpnDNS c)) \<longrightarrow> trim_space e = [] \<or> parse_ip (trim_space e) \<noteq> None) \<and>
     has_prefix (ExtensionCallbackPath c) ''/'' \<and> CORSAllowedOrigins c \<noteq> [] \<and>
     (AppEnv c = ''production'' \<longrightarrow>
        \<not> CoreTLSSkipVerify c \<and> CoreAllowedHosts c \<noteq> [] \<and> TrustedProxies c \<noteq> [])"
proof -
  obtain r where r: "check_settings r = None" "c = apply_defaults r" "check_ranges c = None"
    by (rule load_config_phases [OF assms])
  note f = apply_defaults_fields [of r, folded r(2)]
  note a = check_settings_None [OF r(1), folded f(1-6)] and b = check_ranges_None [OF r(3)]
  have w: "wg_interface_ok (WGInterface c)" and v: "dns_bad (VpnDNS c) = None" using a b by simp_all
  show ?thesis
    using a b wg_interface_chars [OF w] dns_bad_None [OF v] default_cors_nonempty [of r] f(7) by auto
qed

definition dev_env :: environ where
  "dev_env k = (if k = ''VPN_CORE_TOKEN'' then ''s3cret'' else if k = ''APP_ENV'' then ''development''
     else if k = ''PUBLIC_BASE_URL'' then ''/'' else if k = ''VPN_DNS'' then '','' else [])"

lemma dev_env_loads: "\<exists>c. load_config (\<lambda>s. None) dev_env = Inr c"
proof -
  have "check_settings (read_config (\<lambda>s. None) dev_env) = None"
    by (simp add: check_settings_def read_config_def get_env_def dev_env_def get_env_bool_def Let_def
        trim_right_def trim_right_by_def wg_interface_ok_def is_lower_def is_upper_def is_digit_def code_def)
  moreover have "check_ranges (apply_defaults (read_config (\<lambda>s. None) dev_env)) = None"
    by (simp add: check_ranges_def read_config_def get_env_def dev_env_def get_env_int_def Let_def
        apply_defaults_def default_path_def dns_bad_def trim_space_def trim_left_by_def trim_right_by_def
        is_space_def code_def has_prefix_def)
  ultimately show ?thesis by (simp add: load_config_def)
qed

theorem load_config_checked_witness:
  "\<exists>c. load_config (\<lambda>s. None) dev_env = Inr c \<and> 1 \<le> WGPort c \<and> CHR ''/'' \<notin> set (WGInterface c)"
proof -
  obtain c where c: "load_config (\<lambda>s. None) dev_env = Inr c" using dev_env_loads by blast
  with load_config_checked [OF c] show ?thesis by blast
qed

text \<open>The WebSocket limit of a user is the largest limit among the free plan and the groups:
  it does not depend on the order of the groups or on repetitions.\<close>

lemma ws_max_for_groups_Max:
  "ws_max_for_groups c gs = Max (insert (WSMaxFree c) (group_limit c ` set gs))"
proof -
  have "foldl (\<lambda>m g. if m < group_limit c g then group_limit c g else m) a gs
      = fold max (map (group_limit c) gs) a" for a
    by (induction gs arbitrary: a) (simp_all add: max_def not_less less_le_not_le)
  then show ?thesis
    using Max.set_eq_fold [of "WSMaxFree c" "map (group_limit c) gs"] by (simp add: ws_max_for_groups_def)
qed

text \<open>Against a single wildcard entry, an origin is allowed exactly when it is the entry itself
  or parses to the entry's scheme with a host that ends in a dot and the entry's domain; so the
  bare domain and a look-alike without the dot are refused.\<close>

lemma origin_allowed_wildcard:
  assumes "url_parse origin = Some u" and "url_scheme u \<noteq> []" and "url_host u \<noteq> []"
    and "d \<noteq> []" and "list_all (\<lambda>c. is_lower c \<or> c = CHR ''.'') d"
  shows "origin_allowed origin (''https://*.'' @ d) \<longleftrightarrow>
     origin = ''https://*.'' @ d \<or> (url_scheme u = ''https'' \<and> has_suffix (url_host u) (CHR ''.'' # d))"
proof -
  have "last d \<in> set d" using assms(4) by simp
  then have l: "\<not> is_space (last d)" "CHR '','' \<notin> set (''https://*.'' @ d)"
    using assms(5) by (auto simp: list_all_iff is_lower_def is_space_def code_def)
  then have t: "trim_space (''https://*.'' @ d) = ''https://*.'' @ d"
    using assms(4) by (intro trim_space_id) (simp_all add: is_space_def code_def)
  have p: "has_prefix (''https://*.'' @ d) ''https://*.''" by (simp add: has_prefix_def)
  have i: "index_of (''https://*.'' @ d) ''://'' = Some 5" "index_of (''https://*.'' @ d) ''*.'' = Some 8"
    by (simp_all add: has_prefix_def)
  have m: "origin_matches u origin (''https://*.'' @ d) \<longleftrightarrow>
     origin = ''https://*.'' @ d \<or> (url_scheme u = ''https'' \<and> has_suffix (url_host u) (CHR ''.'' # d))"
    by (simp only: origin_matches_def Let_def t p i option.sel) auto
  have "split_on (CHR '','') (''https://*.'' @ d) = [''https://*.'' @ d]" by (rule split_on_none [OF l(2)])
  then show ?thesis using assms(1-3) m by (simp add: origin_allowed_def)
qed

end
