(* ===== verification/WGManager.thy ===== *)
theory WGManager
  imports IPPool WGKeys Config
begin

text \<open>
  \<^verbatim>\<open>internal/wg/manager.go\<close>: the manager of the WireGuard interface. Its state is the
  address pool, the tunnel address and the mesh address of each peer, and the server key;
  the mutex makes each public operation one step. The kernel device, \<^verbatim>\<open>exec\<close>, the file
  system and the random source are the record \<open>os\<close> of operations on a world \<open>'w\<close>, an
  argument of every definition. The saved configuration is text: \<open>render_conf\<close> writes it,
  \<open>parse_conf\<close> reads it back. Log messages are left out.
\<close>

section \<open>The device and the operating system\<close>

record peer_config =
  pc_key :: key
  pc_remove :: bool
  pc_update_only :: bool
  pc_allowed :: "ipnet option list"
  pc_replace :: bool
  pc_keepalive :: "int option"

record wg_config =
  wc_private :: "key option"
  wc_port :: "int option"
  wc_peers :: "peer_config list"

record wg_peer =
  wp_key :: key
  wp_allowed :: "ipnet list"
  wp_keepalive :: int
  wp_handshake :: "time option"
  wp_tx :: int
  wp_rx :: int
  wp_endpoint :: "string option"

record wg_device =
  dv_private :: key
  dv_public :: key
  dv_port :: int
  dv_peers :: "wg_peer list"

text \<open>
  \<^verbatim>\<open>wgctrl\<close>'s \<^verbatim>\<open>Device\<close> and \<^verbatim>\<open>ConfigureDevice\<close>, \<^verbatim>\<open>exec.Command(..).CombinedOutput()\<close> (\<open>Inl\<close> of
  the output when the command fails), the files, random bytes, the curve, and
  \<^verbatim>\<open>Key.PublicKey\<close>.
\<close>

record 'w os =
  os_device :: "string \<Rightarrow> 'w \<Rightarrow> string + wg_device"
  os_configure :: "string \<Rightarrow> wg_config \<Rightarrow> 'w \<Rightarrow> (string + unit) \<times> 'w"
  os_exec :: "string list \<Rightarrow> 'w \<Rightarrow> (string + string) \<times> 'w"
  os_exists :: "string \<Rightarrow> 'w \<Rightarrow> bool"
  os_read :: "string \<Rightarrow> 'w \<Rightarrow> string + string"
  os_mkdir :: "string \<Rightarrow> 'w \<Rightarrow> (string + unit) \<times> 'w"
  os_write :: "string \<Rightarrow> string \<Rightarrow> 'w \<Rightarrow> (string + unit) \<times> 'w"
  os_rename :: "string \<Rightarrow> string \<Rightarrow> 'w \<Rightarrow> (string + unit) \<times> 'w"
  os_random :: "'w \<Rightarrow> (string + key) \<times> 'w"
  os_x25519 :: "key \<Rightarrow> key \<Rightarrow> string + key"
  os_public :: "key \<Rightarrow> key"

datatype wg_error =
    DeviceError string
  | PeerExists
  | BadPublicKey
  | AllocationFailed pool_err
  | BadStoredIP string
  | ConfigureFailed string
  | PeerNotFound
  | BadMeshIP string
  | CommandFailed string
  | KeypairFailed string
  | PoolFailed pool_err

section \<open>State\<close>

record manager =
  m_cfg :: config
  m_pool :: pool
  m_peers :: "string \<rightharpoonup> string"
  m_mesh :: "string \<rightharpoonup> string"
  m_key :: key

definition conf_path :: "config \<Rightarrow> string" where
  "conf_path c = ConfigDir c @ ''/'' @ WGInterface c @ ''.conf''"

text \<open>\<^verbatim>\<open>time.Duration(n) * time.Second\<close>, on 64 bits.\<close>

definition seconds :: "int \<Rightarrow> time" where
  "seconds n = wrap64 (n * second)"

definition public_key :: "'w os \<Rightarrow> manager \<Rightarrow> string" where
  "public_key os m = b64_encode (os_public os (m_key m))"

section \<open>The saved configuration\<close>

definition peer_lines :: "wg_peer \<Rightarrow> string list" where
  "peer_lines p =
     [''[Peer]'', ''PublicKey = '' @ b64_encode (wp_key p)] @
     map (\<lambda>n. ''AllowedIPs = '' @ net_string n) (wp_allowed p) @
     (if 0 < wp_keepalive p then [''PersistentKeepalive = '' @ itoa (wp_keepalive p div second)] else []) @
     [[]]"

definition conf_lines :: "manager \<Rightarrow> wg_device \<Rightarrow> string list" where
  "conf_lines m dev =
     [''[Interface]'', ''PrivateKey = '' @ b64_encode (m_key m),
      ''ListenPort = '' @ itoa (WGPort (m_cfg m)), ''Address = '' @ gateway_ip (m_pool m), []] @
     concat (map peer_lines (dv_peers dev))"

definition unlines :: "string list \<Rightarrow> string" where
  "unlines ls = concat (map (\<lambda>l. l @ [CHR 0x0A]) ls)"

definition render_conf :: "manager \<Rightarrow> wg_device \<Rightarrow> string" where
  "render_conf m dev = unlines (conf_lines m dev)"

definition persist_config :: "'w os \<Rightarrow> manager \<Rightarrow> 'w \<Rightarrow> 'w" where
  "persist_config os m w =
     (case os_mkdir os (ConfigDir (m_cfg m)) w of
        (Inl _, w1) \<Rightarrow> w1
      | (Inr _, w1) \<Rightarrow>
          (case os_device os (WGInterface (m_cfg m)) w1 of
             Inl _ \<Rightarrow> w1
           | Inr dev \<Rightarrow>
               (case os_write os (conf_path (m_cfg m) @ ''.tmp'') (render_conf m dev) w1 of
                  (Inl _, w2) \<Rightarrow> w2
                | (Inr _, w2) \<Rightarrow>
                    snd (os_rename os (conf_path (m_cfg m) @ ''.tmp'') (conf_path (m_cfg m)) w2))))"

record conf_peer =
  cp_key :: key
  cp_allowed :: "ipnet list"
  cp_keepalive :: time

text \<open>The parser's variables: the private key found, the finished peers, the current one.\<close>

record conf_state =
  cs_key :: "key option"
  cs_peers :: "conf_peer list"
  cs_cur :: "conf_peer option"

definition empty_peer :: conf_peer where
  "empty_peer = \<lparr>cp_key = replicate 32 0, cp_allowed = [], cp_keepalive = 0\<rparr>"

definition flush_peer :: "conf_state \<Rightarrow> conf_state" where
  "flush_peer st =
     (case cs_cur st of None \<Rightarrow> st | Some p \<Rightarrow> st\<lparr>cs_peers := cs_peers st @ [p], cs_cur := None\<rparr>)"

text \<open>A \<^verbatim>\<open>key = value\<close> line of the interface section, and of a peer section.\<close>

definition interface_kv :: "conf_state \<Rightarrow> string \<Rightarrow> string \<Rightarrow> conf_state" where
  "interface_kv st k v =
     (if k = ''PrivateKey'' then
        (case b64_decode v of
           Some raw \<Rightarrow> if length raw = 32 then st\<lparr>cs_key := Some raw\<rparr> else st
         | None \<Rightarrow> st)
      else st)"

definition parsed_nets :: "string \<Rightarrow> ipnet list" where
  "parsed_nets v =
     List.map_filter (\<lambda>c. map_option snd (parse_cidr (trim_space c))) (split_on (CHR '','') v)"

definition peer_kv :: "conf_state \<Rightarrow> conf_peer \<Rightarrow> string \<Rightarrow> string \<Rightarrow> conf_state" where
  "peer_kv st p k v =
     (if k = ''PublicKey'' then
        (case b64_decode v of
           Some raw \<Rightarrow> if length raw = 32 then st\<lparr>cs_cur := Some (p\<lparr>cp_key := raw\<rparr>)\<rparr>
                       else st\<lparr>cs_cur := None\<rparr>
         | None \<Rightarrow> st\<lparr>cs_cur := None\<rparr>)
      else if k = ''AllowedIPs'' then
        st\<lparr>cs_cur := Some (p\<lparr>cp_allowed := cp_allowed p @ parsed_nets v\<rparr>)\<rparr>
      else if k = ''PersistentKeepalive'' then
        (case atoi v of Some n \<Rightarrow> st\<lparr>cs_cur := Some (p\<lparr>cp_keepalive := seconds n\<rparr>)\<rparr> | None \<Rightarrow> st)
      else st)"

definition conf_line :: "conf_state \<Rightarrow> string \<Rightarrow> conf_state" where
  "conf_line st raw =
     (let line = trim_space raw in
      if line = [] \<or> has_prefix line ''#'' then st
      else if line = ''[Interface]'' then flush_peer st
      else if line = ''[Peer]'' then (flush_peer st)\<lparr>cs_cur := Some empty_peer\<rparr>
      else case cut line (CHR ''='') of
        None \<Rightarrow> st
      | Some (a, b) \<Rightarrow>
          (let k = trim_space a; v = trim_space b in
           case cs_cur st of None \<Rightarrow> interface_kv st k v | Some p \<Rightarrow> peer_kv st p k v))"

definition parse_conf :: "string \<Rightarrow> key option \<times> conf_peer list" where
  "parse_conf text =
     (let st = flush_peer (foldl conf_line \<lparr>cs_key = None, cs_peers = [], cs_cur = None\<rparr>
                             (split_on (CHR 0x0A) text))
      in (cs_key st, cs_peers st))"

section \<open>The interface\<close>

definition mesh_subnet :: string where
  "mesh_subnet = ''10.200.0.0/16''"

definition mesh_net :: ipnet where
  "mesh_net = snd (the (parse_cidr mesh_subnet))"

text \<open>One rule: check, and add it if the check fails; \<open>Inl\<close> if adding fails.\<close>

definition ensure_rule :: "'w os \<Rightarrow> string list \<Rightarrow> string list \<Rightarrow> 'w \<Rightarrow> (string + unit) \<times> 'w" where
  "ensure_rule os check add w =
     (case os_exec os check w of
        (Inr _, w1) \<Rightarrow> (Inr (), w1)
      | (Inl _, w1) \<Rightarrow>
          (case os_exec os add w1 of
             (Inl out, w2) \<Rightarrow> (Inl out, w2)
           | (Inr _, w2) \<Rightarrow> (Inr (), w2)))"

definition masquerade :: "string \<Rightarrow> string \<Rightarrow> string list" where
  "masquerade act net =
     [''iptables'', ''-t'', ''nat'', act, ''POSTROUTING'', ''-s'', net, ''-j'', ''MASQUERADE'']"

definition forward :: "string \<Rightarrow> string \<Rightarrow> string \<Rightarrow> string list" where
  "forward act dir iface = [''iptables'', act, ''FORWARD'', dir, iface, ''-j'', ''ACCEPT'']"

text \<open>The two MASQUERADE rules are best effort; a FORWARD rule that cannot be added is an error.\<close>

definition ensure_nat_rules :: "'w os \<Rightarrow> config \<Rightarrow> 'w \<Rightarrow> (wg_error + unit) \<times> 'w" where
  "ensure_nat_rules os c w =
     (let w1 = snd (ensure_rule os (masquerade ''-C'' (Subnet c)) (masquerade ''-A'' (Subnet c)) w);
          w2 = snd (ensure_rule os (masquerade ''-C'' mesh_subnet) (masquerade ''-A'' mesh_subnet) w1);
          i = WGInterface c
      in case ensure_rule os (forward ''-C'' ''-i'' i) (forward ''-A'' ''-i'' i) w2 of
           (Inl e, w3) \<Rightarrow> (Inl (CommandFailed e), w3)
         | (Inr _, w3) \<Rightarrow>
             (case ensure_rule os (forward ''-C'' ''-o'' i) (forward ''-A'' ''-o'' i) w3 of
                (Inl e, w4) \<Rightarrow> (Inl (CommandFailed e), w4)
              | (Inr _, w4) \<Rightarrow> (Inr (), w4)))"

definition create_network_interface :: "'w os \<Rightarrow> manager \<Rightarrow> 'w \<Rightarrow> (wg_error + unit) \<times> 'w" where
  "create_network_interface os m w =
     (let i = WGInterface (m_cfg m) in
      case os_exec os [''ip'', ''link'', ''add'', ''dev'', i, ''type'', ''wireguard''] w of
        (Inl e, w1) \<Rightarrow> (Inl (CommandFailed e), w1)
      | (Inr _, w1) \<Rightarrow>
          (case os_exec os [''ip'', ''address'', ''add'', ''dev'', i, gateway_ip (m_pool m)] w1 of
             (Inl e, w2) \<Rightarrow> (Inl (CommandFailed e), w2)
           | (Inr _, w2) \<Rightarrow>
               (case os_exec os [''ip'', ''link'', ''set'', ''up'', ''dev'', i] w2 of
                  (Inl e, w3) \<Rightarrow> (Inl (CommandFailed e), w3)
                | (Inr _, w3) \<Rightarrow> ensure_nat_rules os (m_cfg m) w3)))"

definition configure_new_interface :: "'w os \<Rightarrow> manager \<Rightarrow> 'w \<Rightarrow> (wg_error + unit) \<times> manager \<times> 'w" where
  "configure_new_interface os m w =
     (case create_network_interface os m w of
        (Inl e, w1) \<Rightarrow> (Inl e, m, w1)
      | (Inr _, w1) \<Rightarrow>
          (let (rnd, w2) = os_random os w1 in
           case generate_keypair (os_x25519 os) rnd of
             Inl e \<Rightarrow> (Inl (KeypairFailed e), m, w2)
           | Inr kp \<Rightarrow>
               (case b64_decode (kp_private kp) of
                  None \<Rightarrow> (Inl BadPublicKey, m, w2)
                | Some bs \<Rightarrow>
                    let m1 = m\<lparr>m_key := to_key bs\<rparr> in
                    case os_configure os (WGInterface (m_cfg m))
                           \<lparr>wc_private = Some (to_key bs), wc_port = Some (WGPort (m_cfg m)), wc_peers = []\<rparr> w2 of
                      (Inl e, w3) \<Rightarrow> (Inl (ConfigureFailed e), m1, w3)
                    | (Inr _, w3) \<Rightarrow> (Inr (), m1, persist_config os m1 w3))))"

definition restored_peer :: "conf_peer \<Rightarrow> peer_config" where
  "restored_peer p =
     \<lparr>pc_key = cp_key p, pc_remove = False, pc_update_only = False, pc_allowed = map Some (cp_allowed p),
      pc_replace = False, pc_keepalive = (if 0 < cp_keepalive p then Some (cp_keepalive p) else None)\<rparr>"

definition restore_from_config :: "'w os \<Rightarrow> manager \<Rightarrow> string \<Rightarrow> 'w \<Rightarrow> (wg_error + unit) \<times> manager \<times> 'w" where
  "restore_from_config os m path w =
     (case os_read os path w of
        Inl _ \<Rightarrow> configure_new_interface os m w
      | Inr text \<Rightarrow>
          (case parse_conf text of
             (None, _) \<Rightarrow> configure_new_interface os m w
           | (Some priv, peers) \<Rightarrow>
               (case create_network_interface os m w of
                  (Inl e, w1) \<Rightarrow> (Inl e, m, w1)
                | (Inr _, w1) \<Rightarrow>
                    let m1 = m\<lparr>m_key := priv\<rparr> in
                    case os_configure os (WGInterface (m_cfg m))
                           \<lparr>wc_private = Some priv, wc_port = Some (WGPort (m_cfg m)),
                            wc_peers = map restored_peer peers\<rparr> w1 of
                      (Inl e, w2) \<Rightarrow> (Inl (ConfigureFailed e), m1, w2)
                    | (Inr _, w2) \<Rightarrow> (Inr (), m1, w2))))"

definition ensure_interface :: "'w os \<Rightarrow> manager \<Rightarrow> 'w \<Rightarrow> (wg_error + unit) \<times> manager \<times> 'w" where
  "ensure_interface os m w =
     (case os_device os (WGInterface (m_cfg m)) w of
        Inl _ \<Rightarrow>
          if os_exists os (conf_path (m_cfg m)) w
          then restore_from_config os m (conf_path (m_cfg m)) w
          else configure_new_interface os m w
      | Inr dev \<Rightarrow>
          (case ensure_nat_rules os (m_cfg m) w of
             (r, w1) \<Rightarrow> (r, m\<lparr>m_key := dv_private dev\<rparr>, w1)))"

section \<open>Start-up\<close>

text \<open>One allowed address of one peer of the device, in \<^verbatim>\<open>loadExistingPeers\<close>.\<close>

definition load_address :: "manager \<Rightarrow> string \<times> ip \<Rightarrow> manager" where
  "load_address m ka =
     (case ka of (pk, a) \<Rightarrow>
        (let s = ip_string a in
         if net_contains mesh_net a then m\<lparr>m_mesh := (m_mesh m)(pk \<mapsto> s)\<rparr>
         else m\<lparr>m_peers := (m_peers m)(pk \<mapsto> s @ ''/32''), m_pool := snd (reserve s (m_pool m))\<rparr>))"

definition device_addresses :: "wg_device \<Rightarrow> (string \<times> ip) list" where
  "device_addresses dev =
     concat (map (\<lambda>p. map (\<lambda>n. (b64_encode (wp_key p), net_ip n)) (wp_allowed p)) (dv_peers dev))"

definition load_existing_peers :: "'w os \<Rightarrow> manager \<Rightarrow> 'w \<Rightarrow> manager" where
  "load_existing_peers os m w =
     (case os_device os (WGInterface (m_cfg m)) w of
        Inl _ \<Rightarrow> m
      | Inr dev \<Rightarrow> foldl load_address m (device_addresses dev))"

definition new_manager :: "'w os \<Rightarrow> config \<Rightarrow> 'w \<Rightarrow> (wg_error + manager) \<times> 'w" where
  "new_manager os c w =
     (case new_pool (Subnet c) of
        Inl e \<Rightarrow> (Inl (PoolFailed e), w)
      | Inr p \<Rightarrow>
          (case ensure_interface os \<lparr>m_cfg = c, m_pool = p, m_peers = Map.empty, m_mesh = Map.empty,
                                      m_key = replicate 32 0\<rparr> w of
             (Inl e, _, w1) \<Rightarrow> (Inl e, w1)
           | (Inr _, m, w1) \<Rightarrow> (Inr (load_existing_peers os m w1), w1)))"

section \<open>Peers\<close>

definition one_peer :: "peer_config \<Rightarrow> wg_config" where
  "one_peer p = \<lparr>wc_private = None, wc_port = None, wc_peers = [p]\<rparr>"

text \<open>\<open>None\<close> if the allocation does not return.\<close>

definition add_peer :: "'w os \<Rightarrow> string \<Rightarrow> int \<Rightarrow> manager \<Rightarrow> 'w \<Rightarrow> ((wg_error + string) \<times> manager \<times> 'w) option" where
  "add_peer os pk keepalive m w =
     (if m_peers m pk \<noteq> None then Some (Inl PeerExists, m, w)
      else case b64_decode pk of
        None \<Rightarrow> Some (Inl BadPublicKey, m, w)
      | Some bs \<Rightarrow>
          (case allocate (m_pool m) of
             None \<Rightarrow> None
           | Some (Inl e, p) \<Rightarrow> Some (Inl (AllocationFailed e), m\<lparr>m_pool := p\<rparr>, w)
           | Some (Inr tun, p) \<Rightarrow>
               (case parse_cidr tun of
                  None \<Rightarrow> Some (Inl (BadStoredIP tun), m\<lparr>m_pool := snd (release tun p)\<rparr>, w)
                | Some (_, net) \<Rightarrow>
                    (case os_configure os (WGInterface (m_cfg m))
                            (one_peer \<lparr>pc_key = to_key bs, pc_remove = False, pc_update_only = False,
                               pc_allowed = [Some net], pc_replace = False,
                               pc_keepalive = Some (seconds keepalive)\<rparr>) w of
                       (Inl e, w1) \<Rightarrow> Some (Inl (ConfigureFailed e), m\<lparr>m_pool := snd (release tun p)\<rparr>, w1)
                     | (Inr _, w1) \<Rightarrow>
                         (let m1 = m\<lparr>m_pool := p, m_peers := (m_peers m)(pk \<mapsto> tun)\<rparr>
                          in Some (Inr tun, m1, persist_config os m1 w1))))))"

definition remove_peer :: "'w os \<Rightarrow> string \<Rightarrow> manager \<Rightarrow> 'w \<Rightarrow> (wg_error + unit) \<times> manager \<times> 'w" where
  "remove_peer os pk m w =
     (case b64_decode pk of
        None \<Rightarrow> (Inl BadPublicKey, m, w)
      | Some bs \<Rightarrow>
          (case os_configure os (WGInterface (m_cfg m))
                  (one_peer \<lparr>pc_key = to_key bs, pc_remove = True, pc_update_only = False, pc_allowed = [],
                     pc_replace = False, pc_keepalive = None\<rparr>) w of
             (Inl e, w1) \<Rightarrow> (Inl (ConfigureFailed e), m, w1)
           | (Inr _, w1) \<Rightarrow>
               (let m1 = (case m_peers m pk of
                            None \<Rightarrow> m
                          | Some tun \<Rightarrow> m\<lparr>m_pool := snd (release tun (m_pool m)),
                                           m_peers := (m_peers m)(pk := None)\<rparr>)
                in (Inr (), m1, persist_config os m1 w1))))"

definition update_peer :: "'w os \<Rightarrow> string \<Rightarrow> int \<Rightarrow> manager \<Rightarrow> 'w \<Rightarrow> (wg_error + unit) \<times> manager \<times> 'w" where
  "update_peer os pk keepalive m w =
     (case b64_decode pk of
        None \<Rightarrow> (Inl BadPublicKey, m, w)
      | Some bs \<Rightarrow>
          (case m_peers m pk of
             None \<Rightarrow> (Inl PeerNotFound, m, w)
           | Some tun \<Rightarrow>
               (case parse_cidr tun of
                  None \<Rightarrow> (Inl (BadStoredIP tun), m, w)
                | Some (_, net) \<Rightarrow>
                    (case os_configure os (WGInterface (m_cfg m))
                            (one_peer \<lparr>pc_key = to_key bs, pc_remove = False, pc_update_only = True,
                               pc_allowed = [Some net], pc_replace = False,
                               pc_keepalive = Some (seconds keepalive)\<rparr>) w of
                       (Inl e, w1) \<Rightarrow> (Inl (ConfigureFailed e), m, w1)
                     | (Inr _, w1) \<Rightarrow> (Inr (), m, persist_config os m w1)))))"

section \<open>Statistics\<close>

record peer_info =
  pi_key :: string
  pi_allowed :: string
  pi_keepalive :: int
  pi_handshake :: "time option"
  pi_tx :: int
  pi_rx :: int
  pi_endpoint :: string

definition info_of :: "string \<Rightarrow> wg_peer \<Rightarrow> peer_info" where
  "info_of pk p =
     \<lparr>pi_key = pk, pi_allowed = (case wp_allowed p of [] \<Rightarrow> [] | n # _ \<Rightarrow> net_string n), pi_keepalive = 0,
      pi_handshake = wp_handshake p, pi_tx = wp_tx p, pi_rx = wp_rx p,
      pi_endpoint = (case wp_endpoint p of None \<Rightarrow> [] | Some e \<Rightarrow> e)\<rparr>"

definition peer_stats :: "'w os \<Rightarrow> string \<Rightarrow> manager \<Rightarrow> 'w \<Rightarrow> wg_error + peer_info" where
  "peer_stats os pk m w =
     (case os_device os (WGInterface (m_cfg m)) w of
        Inl e \<Rightarrow> Inl (DeviceError e)
      | Inr dev \<Rightarrow>
          (case b64_decode pk of
             None \<Rightarrow> Inl BadPublicKey
           | Some bs \<Rightarrow>
               (case find (\<lambda>p. wp_key p = to_key bs) (dv_peers dev) of
                  None \<Rightarrow> Inl PeerNotFound
                | Some p \<Rightarrow> Inr (info_of pk p))))"

definition list_peers :: "'w os \<Rightarrow> manager \<Rightarrow> 'w \<Rightarrow> wg_error + peer_info list" where
  "list_peers os m w =
     (case os_device os (WGInterface (m_cfg m)) w of
        Inl e \<Rightarrow> Inl (DeviceError e)
      | Inr dev \<Rightarrow> Inr (map (\<lambda>p. info_of (b64_encode (wp_key p)) p) (dv_peers dev)))"

record server_stats =
  ss_interface :: string
  ss_key :: string
  ss_port :: int
  ss_count :: nat
  ss_tx :: int
  ss_rx :: int

text \<open>The totals are \<^verbatim>\<open>int64\<close> sums.\<close>

definition server_stats :: "'w os \<Rightarrow> manager \<Rightarrow> 'w \<Rightarrow> wg_error + server_stats" where
  "server_stats os m w =
     (case os_device os (WGInterface (m_cfg m)) w of
        Inl e \<Rightarrow> Inl (DeviceError e)
      | Inr dev \<Rightarrow>
          Inr \<lparr>ss_interface = WGInterface (m_cfg m), ss_key = b64_encode (dv_public dev), ss_port = dv_port dev,
               ss_count = length (dv_peers dev),
               ss_tx = foldl (\<lambda>t p. wrap64 (t + wp_tx p)) 0 (dv_peers dev),
               ss_rx = foldl (\<lambda>t p. wrap64 (t + wp_rx p)) 0 (dv_peers dev)\<rparr>)"

section \<open>Mesh addresses\<close>

definition add_mesh_ip :: "'w os \<Rightarrow> string \<Rightarrow> string \<Rightarrow> manager \<Rightarrow> 'w \<Rightarrow> (wg_error + unit) \<times> manager \<times> 'w" where
  "add_mesh_ip os pk mesh m w =
     (case b64_decode pk of
        None \<Rightarrow> (Inl BadPublicKey, m, w)
      | Some bs \<Rightarrow>
          (case m_peers m pk of
             None \<Rightarrow> (Inl PeerNotFound, m, w)
           | Some tun \<Rightarrow>
               (case parse_cidr tun of
                  None \<Rightarrow> (Inl (BadStoredIP tun), m, w)
                | Some (_, net) \<Rightarrow>
                    (case parse_ip mesh of
                       None \<Rightarrow> (Inl (BadMeshIP mesh), m, w)
                     | Some a \<Rightarrow>
                         (case os_configure os (WGInterface (m_cfg m))
                                 (one_peer \<lparr>pc_key = to_key bs, pc_remove = False, pc_update_only = True,
                                    pc_allowed = [Some net, map_option host_net (to4 a)],
                                    pc_replace = True, pc_keepalive = None\<rparr>) w of
                            (Inl e, w1) \<Rightarrow> (Inl (ConfigureFailed e), m, w1)
                          | (Inr _, w1) \<Rightarrow>
                              (let m1 = m\<lparr>m_mesh := (m_mesh m)(pk \<mapsto> mesh)\<rparr>
                               in (Inr (), m1, persist_config os m1 w1)))))))"

definition remove_mesh_ip :: "'w os \<Rightarrow> string \<Rightarrow> manager \<Rightarrow> 'w \<Rightarrow> (wg_error + unit) \<times> manager \<times> 'w" where
  "remove_mesh_ip os pk m w =
     (if m_mesh m pk = None then (Inr (), m, w)
      else case b64_decode pk of
        None \<Rightarrow> (Inl BadPublicKey, m, w)
      | Some bs \<Rightarrow>
          (case m_peers m pk of
             None \<Rightarrow> (Inl PeerNotFound, m, w)
           | Some tun \<Rightarrow>
               (case parse_cidr tun of
                  None \<Rightarrow> (Inl (BadStoredIP tun), m, w)
                | Some (_, net) \<Rightarrow>
                    (case os_configure os (WGInterface (m_cfg m))
                            (one_peer \<lparr>pc_key = to_key bs, pc_remove = False, pc_update_only = True,
                               pc_allowed = [Some net], pc_replace = True, pc_keepalive = None\<rparr>) w of
                       (Inl e, w1) \<Rightarrow> (Inl (ConfigureFailed e), m, w1)
                     | (Inr _, w1) \<Rightarrow>
                         (let m1 = m\<lparr>m_mesh := (m_mesh m)(pk := None)\<rparr>
                          in (Inr (), m1, persist_config os m1 w1))))))"

section \<open>Distinct peers have distinct addresses\<close>

text \<open>The peers' tunnel addresses are leases of the pool, in the sense of the contract.\<close>

definition manager_ok :: "manager \<Rightarrow> bool" where
  "manager_ok m \<longleftrightarrow> ipam.leases (m_peers m) (m_pool m)"

lemma manager_okD:
  assumes "manager_ok m"
  shows "pool_ok (m_pool m)" and "inj_map (m_peers m)" and "ran (m_peers m) \<subseteq> held (m_pool m) \<union> foreign (m_pool m)"
  using assms by (simp_all add: manager_ok_def ipam.leases_def)

lemma manager_ok_fields [simp]:
  "manager_ok (m\<lparr>m_key := k\<rparr>) = manager_ok m" "manager_ok (m\<lparr>m_mesh := x\<rparr>) = manager_ok m"
  by (simp_all add: manager_ok_def)

lemma add_peer_ok [inv_intros]:
  assumes m: "manager_ok m" and a: "add_peer os pk ka m w = Some (r, n, v)"
  shows "manager_ok n"
proof (cases "m_peers m pk = None \<and> b64_decode pk \<noteq> None")
  case False
  with m a show ?thesis by (auto simp: add_peer_def split: if_splits option.splits)
next
  case True
  then obtain bs where bs: "b64_decode pk = Some bs" by auto
  obtain x p where al: "allocate (m_pool m) = Some (x, p)"
    using ipam.alloc_total [OF manager_okD(1) [OF m]] by auto
  have l: "ipam.leases (m_peers m) (m_pool m)" using m by (simp add: manager_ok_def)
  show ?thesis
  proof (cases x)
    case (Inl e)
    with al a True bs have "n = m\<lparr>m_pool := p\<rparr>" by (simp add: add_peer_def)
    with ipam.leases_alloc_only [OF l al] show ?thesis by (simp add: manager_ok_def)
  next
    case (Inr t)
    note al = al [unfolded Inr]
    have "ipam.leases (m_peers m) (snd (release t p))" by (rule ipam.leases_undo [OF l al])
    moreover have "ipam.leases ((m_peers m)(pk \<mapsto> t)) p" by (rule ipam.leases_alloc [OF l al])
    moreover have "n = m\<lparr>m_pool := snd (release t p)\<rparr> \<or> n = m\<lparr>m_pool := p, m_peers := (m_peers m)(pk \<mapsto> t)\<rparr>"
      using a True bs al by (auto simp: add_peer_def Let_def split: option.splits prod.splits sum.splits)
    ultimately show ?thesis by (auto simp: manager_ok_def)
  qed
qed

lemma remove_peer_ok [inv_intros]:
  assumes m: "manager_ok m" and a: "remove_peer os pk m w = (r, n, v)"
  shows "manager_ok n"
proof -
  have "n = m \<or> (\<exists>t. m_peers m pk = Some t \<and>
      n = m\<lparr>m_pool := snd (release t (m_pool m)), m_peers := (m_peers m)(pk := None)\<rparr>)"
    using a by (auto simp: remove_peer_def Let_def split: option.splits prod.splits sum.splits)
  then show ?thesis using m ipam.leases_free by (auto simp: manager_ok_def)
qed

lemma update_peer_same: "update_peer os pk ka m w = (r, n, v) \<Longrightarrow> n = m"
  by (auto simp: update_peer_def split: option.splits prod.splits sum.splits)

lemma mesh_ip_same:
  "add_mesh_ip os pk a m w = (r, n, v) \<Longrightarrow> \<exists>x. n = m\<lparr>m_mesh := x\<rparr>"
  "remove_mesh_ip os pk m w = (r, n, v) \<Longrightarrow> \<exists>x. n = m\<lparr>m_mesh := x\<rparr>"
  by (auto simp: add_mesh_ip_def remove_mesh_ip_def Let_def
        split: option.splits prod.splits sum.splits if_splits intro: exI [of _ "m_mesh m"])

text \<open>The steps of a running manager: a public operation, or a change of the world outside.\<close>

inductive mgr_step :: "'w os \<Rightarrow> manager \<times> 'w \<Rightarrow> manager \<times> 'w \<Rightarrow> bool" for os :: "'w os" where
  add: "add_peer os pk ka m w = Some (r, n, v) \<Longrightarrow> mgr_step os (m, w) (n, v)"
| remove: "remove_peer os pk m w = (r, n, v) \<Longrightarrow> mgr_step os (m, w) (n, v)"
| update: "update_peer os pk ka m w = (r, n, v) \<Longrightarrow> mgr_step os (m, w) (n, v)"
| add_mesh: "add_mesh_ip os pk a m w = (r, n, v) \<Longrightarrow> mgr_step os (m, w) (n, v)"
| remove_mesh: "remove_mesh_ip os pk m w = (r, n, v) \<Longrightarrow> mgr_step os (m, w) (n, v)"
| world: "mgr_step os (m, w) (m, v)"

inductive mgr_run :: "'w os \<Rightarrow> manager \<times> 'w \<Rightarrow> manager \<times> 'w \<Rightarrow> bool" for os :: "'w os" where
  start: "mgr_run os s s"
| step: "mgr_run os s t \<Longrightarrow> mgr_step os t u \<Longrightarrow> mgr_run os s u"

inductive_cases mgr_stepE: "mgr_step os (m, w) (n, v)"

lemma mgr_step_ok: "mgr_step os s t \<Longrightarrow> manager_ok (fst s) \<Longrightarrow> manager_ok (fst t)"
proof (induction rule: mgr_step.induct)
  case (add pk ka m w r n v)
  then show ?case using add_peer_ok by simp
next
  case (remove pk m w r n v)
  then show ?case using remove_peer_ok by simp
next
  case (update pk ka m w r n v)
  then show ?case using update_peer_same by fastforce
next
  case (add_mesh pk a m w r n v)
  then show ?case using mesh_ip_same(1) by fastforce
next
  case (remove_mesh pk m w r n v)
  then show ?case using mesh_ip_same(2) by fastforce
qed simp

lemma mgr_run_ok: "mgr_run os s t \<Longrightarrow> manager_ok (fst s) \<Longrightarrow> manager_ok (fst t)"
  by (induction rule: mgr_run.induct) (simp_all add: mgr_step_ok)

section \<open>Start-up\<close>

text \<open>The pool is in order, and no pair of peers shares an address, which are all IPv4.\<close>

definition addresses_ok :: "(string \<times> ip) list \<Rightarrow> bool" where
  "addresses_ok kas \<longleftrightarrow> distinct (map snd kas) \<and> (\<forall>ka \<in> set kas. \<exists>v. snd ka = IP4 v)"

lemma load_address_ok:
  assumes m: "manager_ok m" and a: "a = IP4 v" and new: "host_str v \<notin> ran (m_peers m)"
  shows "manager_ok (load_address m (pk, a))"
proof (cases "net_contains mesh_net a")
  case True
  then show ?thesis using m by (simp add: load_address_def Let_def)
next
  case False
  have s: "ip_string a = ip4_string v" by (simp add: a ip_string_def)
  have ok: "pool_ok (m_pool m)" by (rule manager_okD [OF m])
  have "host_str v \<in> held (snd (reserve (host_str v) (m_pool m))) \<union> foreign (m_pool m)"
    using reserve_held [OF ok, of v] by (cases "inside (m_pool m) v") (simp_all add: host_str_foreign)
  then have "ipam.leases ((m_peers m)(pk \<mapsto> host_str v)) (snd (reserve (host_str v) (m_pool m)))"
    using m new unfolding manager_ok_def by (intro ipam.leases_claim) simp_all
  then show ?thesis using False s by (simp add: load_address_def Let_def manager_ok_def host_str_def
      reserve_unmasked [unfolded host_str_def])
qed

lemma load_address_ran:
  "ran (m_peers (load_address m (pk, IP4 v))) \<subseteq> insert (host_str v) (ran (m_peers m))"
  using ran_upd_subset [of "m_peers m" pk "host_str v"]
  by (auto simp: load_address_def Let_def ip_string_def host_str_def)

lemma load_addresses_ok:
  "manager_ok m \<Longrightarrow> addresses_ok kas \<Longrightarrow> (\<And>pk v. (pk, IP4 v) \<in> set kas \<Longrightarrow> host_str v \<notin> ran (m_peers m)) \<Longrightarrow>
     manager_ok (foldl load_address m kas)"
proof (induction kas arbitrary: m)
  case (Cons ka kas)
  obtain pk v where ka: "ka = (pk, IP4 v)" using Cons.prems(2) by (cases ka) (auto simp: addresses_ok_def)
  have new: "host_str v \<notin> ran (m_peers m)" by (rule Cons.prems(3) [of pk]) (simp add: ka)
  have ok: "manager_ok (load_address m ka)" unfolding ka by (rule load_address_ok [OF Cons.prems(1) refl new])
  have rest: "addresses_ok kas" using Cons.prems(2) by (simp add: addresses_ok_def)
  have "host_str u \<notin> ran (m_peers (load_address m ka))" if u: "(qk, IP4 u) \<in> set kas" for qk u
  proof -
    have "u \<noteq> v" using Cons.prems(2) u unfolding ka addresses_ok_def by force
    moreover have "host_str u \<notin> ran (m_peers m)" by (rule Cons.prems(3) [of qk]) (simp add: u)
    ultimately show ?thesis using load_address_ran [of m pk v] ka by (auto simp: host_str_inj)
  qed
  then show ?case using Cons.IH [OF ok rest] by simp
qed simp

lemma configure_new_interface_fields:
  "configure_new_interface os m w = (r, n, v) \<Longrightarrow> \<exists>k. n = m\<lparr>m_key := k\<rparr>"
  by (auto simp: configure_new_interface_def Let_def split: option.splits prod.splits sum.splits
      intro: exI [of _ "m_key m"])

lemma ensure_interface_fields:
  "ensure_interface os m w = (r, n, v) \<Longrightarrow> \<exists>k. n = m\<lparr>m_key := k\<rparr>"
  by (auto simp: ensure_interface_def restore_from_config_def Let_def split: option.splits prod.splits sum.splits if_splits
      dest: configure_new_interface_fields intro: exI [of _ "m_key m"])

lemma new_manager_ok:
  assumes n: "new_manager os c w = (Inr m, v)" and p: "new_pool (Subnet c) = Inr p" "pool_ok p"
    and dev: "\<And>d. os_device os (WGInterface c) v = Inr d \<Longrightarrow> addresses_ok (device_addresses d)"
  shows "manager_ok m"
proof -
  let ?m0 = "\<lparr>m_cfg = c, m_pool = p, m_peers = Map.empty, m_mesh = Map.empty, m_key = replicate 32 0\<rparr>"
  obtain k where m: "m = load_existing_peers os (?m0\<lparr>m_key := k\<rparr>) v"
    using n p ensure_interface_fields [of os ?m0 w]
    by (fastforce simp: new_manager_def split: prod.splits sum.splits)
  have ok: "manager_ok (?m0\<lparr>m_key := k\<rparr>)" using p by (simp add: manager_ok_def ipam.leases_empty)
  show ?thesis
  proof (cases "os_device os (WGInterface c) v")
    case (Inl e)
    then show ?thesis using m ok by (simp add: load_existing_peers_def)
  next
    case (Inr d)
    have "manager_ok (foldl load_address (?m0\<lparr>m_key := k\<rparr>) (device_addresses d))"
      by (rule load_addresses_ok [OF ok dev [OF Inr]]) simp
    then show ?thesis using m Inr by (simp add: load_existing_peers_def)
  qed
qed

section \<open>The saved configuration is read back\<close>

lemma trim_space_around:
  assumes "s \<noteq> []" and "\<not> is_space (hd s)" and "\<not> is_space (last s)"
  shows "trim_space (s @ '' '') = s" and "trim_space ('' '' @ s) = s"
proof -
  have d: "dropWhile is_space s = s" "dropWhile is_space (rev s) = rev s"
    using assms by (simp_all add: dropWhile_eq_self_iff hd_rev)
  have sp: "is_space (CHR '' '')" by (simp add: is_space_def code_def)
  have "dropWhile is_space (s @ '' '') = s @ '' ''" using assms by (simp add: dropWhile_eq_self_iff)
  then show "trim_space (s @ '' '') = s"
    using d sp by (simp add: trim_space_def trim_left_by_def trim_right_by_def)
  show "trim_space ('' '' @ s) = s"
    using d sp by (simp add: trim_space_def trim_left_by_def trim_right_by_def)
qed

definition word_like :: "string \<Rightarrow> bool" where
  "word_like s \<longleftrightarrow> s \<noteq> [] \<and> (\<forall>c \<in> set s. \<not> is_space c)"

lemma word_like_ends: "word_like s \<Longrightarrow> s \<noteq> [] \<and> \<not> is_space (hd s) \<and> \<not> is_space (last s)"
  by (simp add: word_like_def)

lemma word_like_trim: "word_like s \<Longrightarrow> trim_space s = s"
  using word_like_ends [of s] by (intro trim_space_id) auto

lemma digit_not_space: "is_digit c \<Longrightarrow> \<not> is_space c"
  by (auto simp: is_digit_def is_space_def)

lemma itoa_nat_nospace: "c \<in> set (itoa_nat n) \<Longrightarrow> \<not> is_space c"
  using itoa_nat_digits [of n] by (auto simp: list_all_iff digit_not_space)

lemma literal_nospace [simp]:
  "\<not> is_space (CHR ''.'')" "\<not> is_space (CHR ''/'')" "\<not> is_space (CHR ''-'')"
  "\<not> is_space (CHR ''1'')" "\<not> is_space (CHR ''6'')"
  by (simp_all add: is_space_def code_def)

lemma itoa_nat_word: "word_like (itoa_nat n)"
  by (simp add: word_like_def itoa_nat_nospace)

lemma ip4_string_word: "word_like (ip4_string w)"
  by (auto simp: word_like_def ip4_string_def dotted_def itoa_nat_nospace)

lemma b64_encode_word: "bs \<noteq> [] \<Longrightarrow> word_like (b64_encode bs)"
  using b64_encode_chars [of _ bs] by (cases bs rule: b64_encode.cases) (auto simp: word_like_def)

lemma conf_line_kv:
  assumes k: "word_like k" "CHR ''='' \<notin> set k" "hd k \<noteq> CHR ''#''" "hd k \<noteq> CHR ''[''" and v: "word_like v"
  shows "conf_line st (k @ '' = '' @ v) =
     (case cs_cur st of None \<Rightarrow> interface_kv st k v | Some p \<Rightarrow> peer_kv st p k v)"
proof -
  let ?l = "k @ '' = '' @ v"
  note k' = word_like_ends [OF k(1)] and v' = word_like_ends [OF v]
  have t: "trim_space ?l = ?l" using k' v' by (intro trim_space_id) auto
  have "CHR ''='' \<notin> set (k @ '' '')" using k(2) by simp
  from cut_first [OF this, of "'' '' @ v"] have c: "cut ?l (CHR ''='') = Some (k @ '' '', '' '' @ v)" by simp
  have h: "?l \<noteq> []" "\<not> has_prefix ?l ''#''" "?l \<noteq> ''[Interface]''" "?l \<noteq> ''[Peer]''"
    using k' k(3,4) by (cases k; simp add: has_prefix_def)+
  show ?thesis
    unfolding conf_line_def t Let_def using h c trim_space_around [of k] trim_space_around [of v] k' v'
    by (simp split: option.split)
qed

lemma conf_line_empty: "conf_line st [] = st"
  by (simp add: conf_line_def trim_space_def trim_left_by_def trim_right_by_def)

lemma literal_trims: "trim_space ''[Peer]'' = ''[Peer]''" "trim_space ''[Interface]'' = ''[Interface]''"
  by (rule trim_space_id; simp add: is_space_def code_def)+

lemma conf_line_peer: "conf_line st ''[Peer]'' = (flush_peer st)\<lparr>cs_cur := Some empty_peer\<rparr>"
  by (simp add: conf_line_def literal_trims has_prefix_def)

lemma conf_line_interface: "conf_line st ''[Interface]'' = flush_peer st"
  by (simp add: conf_line_def literal_trims has_prefix_def)

text \<open>A block as \<^verbatim>\<open>net.ParseCIDR\<close> produces it: IPv4, and masked.\<close>

definition clean_net :: "ipnet \<Rightarrow> bool" where
  "clean_net n \<longleftrightarrow> (\<exists>w k. k \<le> 32 \<and> n = \<lparr>net_ip = IP4 (mask_to k w), net_ones = k\<rparr>)"

lemma mask_to_idem [simp]: "mask_to k (mask_to k w) = mask_to k w"
  by (simp add: mask_to_def and.assoc)

lemma net_string_clean:
  assumes "clean_net n"
  shows "parse_cidr (net_string n) = Some (net_ip n, n)" and "word_like (net_string n)"
    and "CHR '','' \<notin> set (net_string n)"
proof -
  obtain w k where n: "k \<le> 32" "n = \<lparr>net_ip = IP4 (mask_to k w), net_ones = k\<rparr>"
    using assms by (auto simp: clean_net_def)
  then have s: "net_string n = ip4_string (mask_to k w) @ CHR ''/'' # itoa_nat k"
    by (simp add: net_string_def ip_string_def)
  show "parse_cidr (net_string n) = Some (net_ip n, n)"
    unfolding s using parse_cidr_v4 [OF n(1), of "mask_to k w"] n(2) by simp
  show "word_like (net_string n)"
    using ip4_string_word [of "mask_to k w"] itoa_nat_word [of k]
    by (auto simp: s word_like_def)
  have "CHR '','' \<notin> set (itoa_nat j)" for j
    using itoa_nat_digits [of j] by (auto simp: list_all_iff is_digit_def code_def)
  then show "CHR '','' \<notin> set (net_string n)" by (simp add: s ip4_string_def dotted_def)
qed

lemma parsed_nets_clean: "clean_net n \<Longrightarrow> parsed_nets (net_string n) = [n]"
  using net_string_clean [of n]
  by (simp add: parsed_nets_def split_on_none word_like_trim List.map_filter_def)

definition saved :: "wg_peer \<Rightarrow> conf_peer" where
  "saved p = \<lparr>cp_key = wp_key p, cp_allowed = wp_allowed p, cp_keepalive = wp_keepalive p\<rparr>"

definition clean_peer :: "wg_peer \<Rightarrow> bool" where
  "clean_peer p \<longleftrightarrow> length (wp_key p) = 32 \<and> list_all clean_net (wp_allowed p) \<and>
     (\<exists>s. wp_keepalive p = int s * second \<and> s \<le> 65535)"

lemma key_words: "word_like ''PrivateKey''" "word_like ''PublicKey''" "word_like ''AllowedIPs''"
  "word_like ''PersistentKeepalive''" "word_like ''ListenPort''" "word_like ''Address''"
  by (simp_all add: word_like_def is_space_def code_def)

lemma allowed_lines:
  assumes "list_all clean_net ns" and "cs_cur st = Some p"
  shows "foldl conf_line st (map (\<lambda>n. ''AllowedIPs = '' @ net_string n) ns) =
     st\<lparr>cs_cur := Some (p\<lparr>cp_allowed := cp_allowed p @ ns\<rparr>)\<rparr>"
  using assms
proof (induction ns arbitrary: st p)
  case (Cons n ns)
  have "conf_line st (''AllowedIPs = '' @ net_string n) =
      st\<lparr>cs_cur := Some (p\<lparr>cp_allowed := cp_allowed p @ [n]\<rparr>)\<rparr>"
    using conf_line_kv [OF key_words(3), of "net_string n" st] net_string_clean [of n] Cons.prems parsed_nets_clean [of n]
    by (simp add: peer_kv_def)
  then show ?case using Cons.IH [of "st\<lparr>cs_cur := Some (p\<lparr>cp_allowed := cp_allowed p @ [n]\<rparr>)\<rparr>"] Cons.prems by simp
qed simp

lemma keepalive_line:
  assumes "cs_cur st = Some p" and "0 < s" and "s \<le> 65535"
  shows "conf_line st (''PersistentKeepalive = '' @ itoa (int s)) =
     st\<lparr>cs_cur := Some (p\<lparr>cp_keepalive := int s * second\<rparr>)\<rparr>"
proof -
  have i: "itoa (int s) = itoa_nat s" by (simp add: itoa_def)
  have "seconds (int s) = int s * second"
    unfolding seconds_def second_def using assms by (intro wrap64_id) simp_all
  moreover have "atoi (itoa_nat s) = Some (int s)" using assms by (simp add: atoi_digits)
  ultimately show ?thesis
    using conf_line_kv [OF key_words(4) _ _ _ itoa_nat_word [of s], of st] assms(1)
    by (simp add: i peer_kv_def)
qed

lemma peer_lines_read:
  assumes "clean_peer p"
  shows "foldl conf_line st (peer_lines p) = (flush_peer st)\<lparr>cs_cur := Some (saved p)\<rparr>"
proof -
  obtain s where s: "wp_keepalive p = int s * second" "s \<le> 65535" using assms by (auto simp: clean_peer_def)
  have key: "length (wp_key p) = 32" and nets: "list_all clean_net (wp_allowed p)"
    using assms by (simp_all add: clean_peer_def)
  let ?s0 = "(flush_peer st)\<lparr>cs_cur := Some empty_peer\<rparr>"
  let ?s1 = "(flush_peer st)\<lparr>cs_cur := Some (empty_peer\<lparr>cp_key := wp_key p\<rparr>)\<rparr>"
  let ?s2 = "(flush_peer st)\<lparr>cs_cur := Some (empty_peer\<lparr>cp_key := wp_key p, cp_allowed := wp_allowed p\<rparr>)\<rparr>"
  have "wp_key p \<noteq> []" using key by auto
  then have 1: "conf_line ?s0 (''PublicKey = '' @ b64_encode (wp_key p)) = ?s1"
    using conf_line_kv [OF key_words(2) _ _ _ b64_encode_word, of "wp_key p" ?s0] key
    by (simp add: peer_kv_def b64_decode_encode)
  have 2: "foldl conf_line ?s1 (map (\<lambda>n. ''AllowedIPs = '' @ net_string n) (wp_allowed p)) = ?s2"
    using allowed_lines [OF nets, of ?s1] by (simp add: empty_peer_def)
  have 3: "foldl conf_line ?s2 (if 0 < wp_keepalive p
      then [''PersistentKeepalive = '' @ itoa (wp_keepalive p div second)] else [])
      = (flush_peer st)\<lparr>cs_cur := Some (saved p)\<rparr>"
  proof (cases "s = 0")
    case True
    then show ?thesis using s by (simp add: saved_def empty_peer_def)
  next
    case False
    then have "0 < wp_keepalive p" "wp_keepalive p div second = int s" using s by (simp_all add: second_def)
    then show ?thesis using keepalive_line [of ?s2 _ s] False s
      by (simp add: saved_def empty_peer_def)
  qed
  show ?thesis unfolding peer_lines_def foldl_append using 1 2 3
    by (simp add: conf_line_peer conf_line_empty)
qed

lemma peers_read:
  "list_all clean_peer ps \<Longrightarrow>
     flush_peer (foldl conf_line st (concat (map peer_lines ps))) =
       (flush_peer st)\<lparr>cs_peers := cs_peers (flush_peer st) @ map saved ps\<rparr>"
proof (induction ps arbitrary: st)
  case (Cons p ps)
  then have "foldl conf_line st (peer_lines p) = (flush_peer st)\<lparr>cs_cur := Some (saved p)\<rparr>"
    using peer_lines_read by simp
  with Cons show ?case by (cases st) (auto simp: flush_peer_def split: option.split)
qed (cases st; simp add: flush_peer_def split: option.split)

lemma split_unlines:
  "list_all (\<lambda>l. CHR 0x0A \<notin> set l) ls \<Longrightarrow> split_on (CHR 0x0A) (unlines ls) = ls @ [[]]"
  by (induction ls) (simp_all add: unlines_def split_on_first)

lemma word_no_newline: "word_like s \<Longrightarrow> CHR 0x0A \<notin> set s"
  by (auto simp: word_like_def is_space_def code_def)

lemma itoa_no_newline: "CHR 0x0A \<notin> set (itoa i)"
  using word_no_newline [OF itoa_nat_word] by (simp add: itoa_def)

lemma itoa_word: "word_like (itoa i)"
  using itoa_nat_word by (auto simp: itoa_def word_like_def)

lemma b64_no_newline: "CHR 0x0A \<notin> set (b64_encode bs)"
  using b64_encode_chars by auto

lemma gateway_word: "word_like (gateway_ip p)"
  using ip4_string_word [of "pool_base p + 1"]
  by (auto simp: gateway_ip_def offset_to_ip_def word_like_def)

lemma peer_lines_no_newline: "clean_peer p \<Longrightarrow> list_all (\<lambda>l. CHR 0x0A \<notin> set l) (peer_lines p)"
  using net_string_clean(2) [THEN word_no_newline]
  by (auto simp: peer_lines_def clean_peer_def list_all_iff b64_no_newline itoa_no_newline)

text \<open>C19: the saved configuration reads back to what was saved: for a device whose peers have 32-byte
  keys, IPv4 blocks and whole-second keepalives up to 65535, parsing the rendered text returns the
  server key and, in order, every peer with its key, its allowed addresses and its keepalive.\<close>

theorem parse_render_conf:
  assumes "length (m_key m) = 32" and "list_all clean_peer (dv_peers dev)"
  shows "parse_conf (render_conf m dev) = (Some (m_key m), map saved (dv_peers dev))"
proof -
  let ?i = "\<lparr>cs_key = None, cs_peers = [], cs_cur = None\<rparr>"
  have nl: "list_all (\<lambda>l. CHR 0x0A \<notin> set l) (conf_lines m dev)"
    using assms(2) peer_lines_no_newline word_no_newline [OF gateway_word [of "m_pool m"]]
    by (auto simp: conf_lines_def list_all_iff b64_no_newline itoa_no_newline)
  have "m_key m \<noteq> []" using assms(1) by auto
  then have k: "conf_line ?i (''PrivateKey = '' @ b64_encode (m_key m)) = ?i\<lparr>cs_key := Some (m_key m)\<rparr>"
    using conf_line_kv [OF key_words(1) _ _ _ b64_encode_word, of "m_key m" ?i] assms(1)
    by (simp add: interface_kv_def b64_decode_encode)
  have l: "conf_line st (''ListenPort = '' @ itoa i) = st" if "cs_cur st = None" for st i
    using conf_line_kv [OF key_words(5) _ _ _ itoa_word, of st] that by (simp add: interface_kv_def)
  have a: "conf_line st (''Address = '' @ gateway_ip p) = st" if "cs_cur st = None" for st p
    using conf_line_kv [OF key_words(6) _ _ _ gateway_word, of st] that by (simp add: interface_kv_def)
  have "foldl conf_line ?i (conf_lines m dev) =
      foldl conf_line (?i\<lparr>cs_key := Some (m_key m)\<rparr>) (concat (map peer_lines (dv_peers dev)))"
    using k l a by (simp add: conf_lines_def conf_line_interface flush_peer_def conf_line_empty)
  then have "flush_peer (foldl conf_line ?i (conf_lines m dev)) =
      \<lparr>cs_key = Some (m_key m), cs_peers = map saved (dv_peers dev), cs_cur = None\<rparr>"
    using peers_read [OF assms(2)] by (simp add: flush_peer_def)
  then show ?thesis
    by (simp add: parse_conf_def render_conf_def split_unlines [OF nl] conf_line_empty)
qed

theorem parse_render_conf_witness:
  "\<exists>m p. parse_conf (render_conf m \<lparr>dv_private = [], dv_public = [], dv_port = 1, dv_peers = [p]\<rparr>)
      = (Some (m_key m), [saved p]) \<and> wp_allowed p = [host_net 7] \<and> wp_keepalive p = 25 * second"
proof -
  obtain q where "pool_ok q" by (rule pool_29)
  let ?m = "\<lparr>m_cfg = read_config (\<lambda>s. None) dev_env, m_pool = q, m_peers = Map.empty, m_mesh = Map.empty,
    m_key = replicate 32 7\<rparr>"
  let ?p = "\<lparr>wp_key = replicate 32 9, wp_allowed = [host_net 7], wp_keepalive = 25 * second,
    wp_handshake = None, wp_tx = 0, wp_rx = 0, wp_endpoint = None\<rparr>"
  have "clean_net (host_net 7)"
    unfolding clean_net_def host_net_def by (rule exI [of _ 7], rule exI [of _ 32]) simp
  moreover have "\<exists>s. 25 * second = int s * second \<and> s \<le> 65535" by (rule exI [of _ 25]) simp
  ultimately have "clean_peer ?p" by (simp add: clean_peer_def)
  then show ?thesis
    using parse_render_conf [of ?m "\<lparr>dv_private = [], dv_public = [], dv_port = 1, dv_peers = [?p]\<rparr>"]
    by (intro exI [of _ ?m] exI [of _ ?p]) simp
qed

section \<open>The manager is correct\<close>

text \<open>A device without peers and an environment where every command succeeds, for the witnesses.\<close>

definition quiet_device :: wg_device where
  "quiet_device = \<lparr>dv_private = replicate 32 7, dv_public = replicate 32 9, dv_port = 51820, dv_peers = []\<rparr>"

definition quiet_os :: "unit os" where
  "quiet_os = \<lparr>os_device = (\<lambda>i w. Inr quiet_device), os_configure = (\<lambda>i c w. (Inr (), w)),
     os_exec = (\<lambda>c w. (Inr [], w)), os_exists = (\<lambda>p w. False), os_read = (\<lambda>p w. Inl []),
     os_mkdir = (\<lambda>p w. (Inr (), w)), os_write = (\<lambda>p c w. (Inr (), w)), os_rename = (\<lambda>a b w. (Inr (), w)),
     os_random = (\<lambda>w. (Inr (replicate 32 1), w)), os_x25519 = (\<lambda>k b. Inr k), os_public = (\<lambda>k. k)\<rparr>"

definition quiet_config :: config where
  "quiet_config = (read_config (\<lambda>s. None) dev_env)\<lparr>Subnet := ''10.8.0.0/29''\<rparr>"

lemma quiet_manager:
  obtains m where "new_manager quiet_os quiet_config () = (Inr m, ())" and "manager_ok m"
    and "m_peers m = Map.empty" and "m_mesh m = Map.empty" and "m_key m = replicate 32 7"
    and "used (m_pool m) = {0, 1}" and "unat (pool_max (m_pool m)) = 7"
proof (rule pool_29)
  fix p assume p: "new_pool ''10.8.0.0/29'' = Inr p" "pool_ok p" "used p = {0, 1}" "unat (pool_max p) = 7"
  let ?m = "\<lparr>m_cfg = quiet_config, m_pool = p, m_peers = Map.empty, m_mesh = Map.empty, m_key = replicate 32 7\<rparr>"
  have s: "Subnet quiet_config = ''10.8.0.0/29''" by (simp add: quiet_config_def)
  have n: "new_manager quiet_os quiet_config () = (Inr ?m, ())"
    unfolding new_manager_def s p(1)
    by (simp add: ensure_interface_def quiet_os_def ensure_nat_rules_def ensure_rule_def
        load_existing_peers_def quiet_device_def device_addresses_def)
  have "manager_ok ?m" using p(2) by (simp add: manager_ok_def ipam.leases_empty)
  with n p show thesis by (intro that [of ?m]) simp_all
qed

lemma quiet_add:
  assumes "manager_ok m" and "used (m_pool m) = {0, 1}" and "unat (pool_max (m_pool m)) = 7"
    and "m_peers m = Map.empty"
  obtains t n where "add_peer quiet_os ''AAAA'' 25 m () = Some (Inr t, n, ())"
proof -
  have ok: "pool_ok (m_pool m)" using manager_okD(1) [OF assms(1)] .
  then have c: "unat (pool_count (m_pool m)) = 2" using assms(2) by (simp add: pool_ok_def)
  obtain t q where a: "allocate (m_pool m) = Some (Inr t, q)" using allocate_cases [OF ok] assms(3) c by auto
  obtain w where t: "t = host_str w" using allocate_held(3) [OF ok a] by auto
  have "b64_decode ''AAAA'' = Some [0, 0, 0]" by code_simp
  then show thesis using assms(4) a
    by (intro that [of t "m\<lparr>m_pool := q, m_peers := (m_peers m)(''AAAA'' \<mapsto> t)\<rparr>"])
       (simp add: add_peer_def t host_str_def parse_cidr_host quiet_os_def Let_def)
qed





lemma remove_peer_cases:
  assumes "m_peers m pk = Some t" and r: "remove_peer os pk m w = (r, n, v)"
  shows "(\<exists>e. r = Inl e \<and> n = m) \<or>
    (r = Inr () \<and> n = m\<lparr>m_pool := snd (release t (m_pool m)), m_peers := (m_peers m)(pk := None)\<rparr>)"
proof (cases "b64_decode pk")
  case None
  then show ?thesis using r by (auto simp: remove_peer_def)
next
  case (Some bs)
  let ?c = "one_peer \<lparr>pc_key = to_key bs, pc_remove = True, pc_update_only = False, pc_allowed = [],
    pc_replace = False, pc_keepalive = None\<rparr>"
  obtain c w1 where c: "os_configure os (WGInterface (m_cfg m)) ?c w = (c, w1)" by fastforce
  show ?thesis using r assms(1) c Some by (cases c) (auto simp: remove_peer_def Let_def)
qed



text \<open>C37: keys are compared as text but removed by their bytes: every valid key has another accepted
  spelling, and \<^verbatim>\<open>RemovePeer\<close> of that spelling, whoever asks, makes the device drop the original
  peer while the manager keeps it on record with its address.\<close>

theorem key_alias_removes_peer:
  assumes "length bs = 32" and "m_peers m (b64_encode bs) = Some t" and "m_peers m (b64_encode bs @ [CHR 0x0A]) = None"
  shows "is_valid_wg_key (b64_encode bs @ [CHR 0x0A]) \<and>
     (\<exists>r v. os_configure os (WGInterface (m_cfg m))
               (one_peer \<lparr>pc_key = bs, pc_remove = True, pc_update_only = False, pc_allowed = [],
                  pc_replace = False, pc_keepalive = None\<rparr>) w = (r, v) \<and>
            snd (remove_peer os (b64_encode bs @ [CHR 0x0A]) m w) =
              (m, case r of Inl e \<Rightarrow> v | Inr _ \<Rightarrow> persist_config os m v))"
proof -
  have "filter (\<lambda>c. c \<noteq> CHR 0x0A \<and> c \<noteq> CHR 0x0D) (b64_encode bs) = b64_encode bs"
    using b64_encode_chars by (simp add: filter_id_conv)
  then have d: "b64_decode (b64_encode bs @ [CHR 0x0A]) = Some bs"
    by (simp add: b64_decode_def b64_decode_encode_groups)
  show ?thesis using assms by (auto simp: is_valid_wg_key_def remove_peer_def d split: prod.split sum.split)
qed

theorem key_alias_removes_peer_witness:
  "\<exists>(m :: manager) pk. m_peers m pk \<noteq> None \<and> is_valid_wg_key (pk @ [CHR 0x0A]) \<and>
     snd (remove_peer quiet_os (pk @ [CHR 0x0A]) m ()) = (m, ())"
proof (rule quiet_manager)
  fix m0 :: manager
  let ?k = "replicate 32 (5 :: u8)"
  let ?m = "m0\<lparr>m_peers := [b64_encode ?k \<mapsto> ''10.8.0.2/32'']\<rparr>"
  have "length ?k = 32" "m_peers ?m (b64_encode ?k) = Some ''10.8.0.2/32''"
    "m_peers ?m (b64_encode ?k @ [CHR 0x0A]) = None" by (simp_all only: length_replicate) simp_all
  from key_alias_removes_peer [OF this, of quiet_os "()"]
  have "is_valid_wg_key (b64_encode ?k @ [CHR 0x0A]) \<and> snd (remove_peer quiet_os (b64_encode ?k @ [CHR 0x0A]) ?m ()) = (?m, ())"
    by auto
  moreover have "m_peers ?m (b64_encode ?k) \<noteq> None" by simp
  ultimately show ?thesis by blast
qed

end
