(* ===== verification/CoreAPI.thy ===== *)
theory CoreAPI
  imports WGManager
begin

text \<open>
  \<^verbatim>\<open>internal/respond/respond.go\<close>, \<^verbatim>\<open>internal/core/middleware.go\<close> and
  \<^verbatim>\<open>internal/core/handler.go\<close>: the HTTP face of the WireGuard manager. A response is its
  status with the payload or the error message; a request body is what the JSON decoder
  made of it, \<open>None\<close> if it failed; a path parameter is still escaped. \<open>core_serve\<close> is the
  routing of the core API in \<^verbatim>\<open>internal/api/router.go\<close> behind the token check. The text of
  an error is the argument \<open>txt\<close>.
\<close>

section \<open>Responses\<close>

datatype 'd response = JsonOK 'd nat | JsonError string nat

fun status :: "'d response \<Rightarrow> nat" where
  "status (JsonOK d c) = c"
| "status (JsonError m c) = c"

text \<open>In production the real error stays in the log.\<close>

definition safe_error :: "string \<Rightarrow> string \<Rightarrow> string \<Rightarrow> nat \<Rightarrow> 'd response" where
  "safe_error env msg err c = (if env = ''development'' then JsonError err c else JsonError msg c)"

section \<open>The token check\<close>

definition core_authorized :: "string \<Rightarrow> string \<Rightarrow> bool" where
  "core_authorized token provided \<longleftrightarrow> \<not> (provided = [] \<or> provided \<noteq> token)"

section \<open>Handlers\<close>

datatype core_data =
    HealthData
  | AddedPeer string string string
  | RemovedPeer string
  | UpdatedPeer string
  | PeerData peer_info
  | PeersData "peer_info list"
  | KeypairData keypair
  | StatsData server_stats

record add_peer_request =
  ap_key :: string
  ap_keepalive :: int

type_synonym 'w core_result = "(core_data response \<times> manager \<times> 'w) option"

definition endpoint_of :: "config \<Rightarrow> string" where
  "endpoint_of c = (if Endpoint c \<noteq> [] then Endpoint c @ '':'' @ itoa (WGPort c) else Endpoint c)"

definition add_peer_handler :: "'w os \<Rightarrow> (wg_error \<Rightarrow> string) \<Rightarrow> config \<Rightarrow> add_peer_request option \<Rightarrow>
    manager \<Rightarrow> 'w \<Rightarrow> 'w core_result" where
  "add_peer_handler os txt c body m w =
     (case body of
        None \<Rightarrow> Some (JsonError ''invalid JSON body'' 400, m, w)
      | Some req \<Rightarrow>
          if ap_key req = [] then Some (JsonError ''public_key is required'' 400, m, w)
          else
            let ka = (if ap_keepalive req = 0 then 25 else ap_keepalive req) in
            case add_peer os (ap_key req) ka m w of
              None \<Rightarrow> None
            | Some (Inl e, m1, w1) \<Rightarrow> Some (safe_error (AppEnv c) ''failed to add peer'' (txt e) 500, m1, w1)
            | Some (Inr tun, m1, w1) \<Rightarrow> Some (JsonOK (AddedPeer (ap_key req) tun (endpoint_of c)) 201, m1, w1))"

definition remove_peer_handler :: "'w os \<Rightarrow> (wg_error \<Rightarrow> string) \<Rightarrow> config \<Rightarrow> string \<Rightarrow>
    manager \<Rightarrow> 'w \<Rightarrow> core_data response \<times> manager \<times> 'w" where
  "remove_peer_handler os txt c param m w =
     (case path_unescape param of
        None \<Rightarrow> (JsonError ''invalid pubkey in URL'' 400, m, w)
      | Some pk \<Rightarrow>
          (case remove_peer os pk m w of
             (Inl e, m1, w1) \<Rightarrow> (safe_error (AppEnv c) ''failed to remove peer'' (txt e) 500, m1, w1)
           | (Inr _, m1, w1) \<Rightarrow> (JsonOK (RemovedPeer pk) 200, m1, w1)))"

text \<open>The body of an update: undecodable, or the keepalive, which may be absent.\<close>

definition update_peer_handler :: "'w os \<Rightarrow> (wg_error \<Rightarrow> string) \<Rightarrow> config \<Rightarrow> string \<Rightarrow> int option option \<Rightarrow>
    manager \<Rightarrow> 'w \<Rightarrow> core_data response \<times> manager \<times> 'w" where
  "update_peer_handler os txt c param body m w =
     (case path_unescape param of
        None \<Rightarrow> (JsonError ''invalid pubkey in URL'' 400, m, w)
      | Some pk \<Rightarrow>
          (case body of
             None \<Rightarrow> (JsonError ''invalid JSON body'' 400, m, w)
           | Some ka \<Rightarrow>
               (case update_peer os pk (case ka of None \<Rightarrow> 25 | Some k \<Rightarrow> k) m w of
                  (Inl e, m1, w1) \<Rightarrow> (safe_error (AppEnv c) ''failed to update peer'' (txt e) 500, m1, w1)
                | (Inr _, m1, w1) \<Rightarrow> (JsonOK (UpdatedPeer pk) 200, m1, w1))))"

definition peer_stats_handler :: "'w os \<Rightarrow> (wg_error \<Rightarrow> string) \<Rightarrow> config \<Rightarrow> string \<Rightarrow> manager \<Rightarrow> 'w \<Rightarrow>
    core_data response" where
  "peer_stats_handler os txt c param m w =
     (case path_unescape param of
        None \<Rightarrow> JsonError ''invalid pubkey in URL'' 400
      | Some pk \<Rightarrow>
          (case peer_stats os pk m w of
             Inl e \<Rightarrow> safe_error (AppEnv c) ''peer not found'' (txt e) 404
           | Inr i \<Rightarrow> JsonOK (PeerData i) 200))"

definition list_peers_handler :: "'w os \<Rightarrow> (wg_error \<Rightarrow> string) \<Rightarrow> config \<Rightarrow> manager \<Rightarrow> 'w \<Rightarrow> core_data response" where
  "list_peers_handler os txt c m w =
     (case list_peers os m w of
        Inl e \<Rightarrow> safe_error (AppEnv c) ''failed to list peers'' (txt e) 500
      | Inr ps \<Rightarrow> JsonOK (PeersData ps) 200)"

definition keypair_handler :: "'w os \<Rightarrow> config \<Rightarrow> 'w \<Rightarrow> core_data response \<times> 'w" where
  "keypair_handler os c w =
     (let (rnd, w1) = os_random os w in
      case generate_keypair (os_x25519 os) rnd of
        Inl e \<Rightarrow> (safe_error (AppEnv c) ''failed to generate keypair'' e 500, w1)
      | Inr kp \<Rightarrow> (JsonOK (KeypairData kp) 201, w1))"

definition server_stats_handler :: "'w os \<Rightarrow> (wg_error \<Rightarrow> string) \<Rightarrow> config \<Rightarrow> manager \<Rightarrow> 'w \<Rightarrow> core_data response" where
  "server_stats_handler os txt c m w =
     (case server_stats os m w of
        Inl e \<Rightarrow> safe_error (AppEnv c) ''failed to get server stats'' (txt e) 500
      | Inr s \<Rightarrow> JsonOK (StatsData s) 200)"

section \<open>Routing\<close>

datatype core_request =
    GetHealth
  | PostPeer "add_peer_request option"
  | DeletePeer string
  | PutPeer string "int option option"
  | GetPeerStats string
  | GetPeers
  | PostKeypair
  | GetStats

definition core_dispatch :: "'w os \<Rightarrow> (wg_error \<Rightarrow> string) \<Rightarrow> config \<Rightarrow> core_request \<Rightarrow> manager \<Rightarrow> 'w \<Rightarrow>
    'w core_result" where
  "core_dispatch os txt c req m w =
     (case req of
        GetHealth \<Rightarrow> Some (JsonOK HealthData 200, m, w)
      | PostPeer body \<Rightarrow> add_peer_handler os txt c body m w
      | DeletePeer param \<Rightarrow> Some (remove_peer_handler os txt c param m w)
      | PutPeer param body \<Rightarrow> Some (update_peer_handler os txt c param body m w)
      | GetPeerStats param \<Rightarrow> Some (peer_stats_handler os txt c param m w, m, w)
      | GetPeers \<Rightarrow> Some (list_peers_handler os txt c m w, m, w)
      | PostKeypair \<Rightarrow> (let (r, w1) = keypair_handler os c w in Some (r, m, w1))
      | GetStats \<Rightarrow> Some (server_stats_handler os txt c m w, m, w))"

text \<open>\<^verbatim>\<open>/health\<close> is public; every other route is behind the token.\<close>

definition core_serve :: "'w os \<Rightarrow> (wg_error \<Rightarrow> string) \<Rightarrow> config \<Rightarrow> string \<Rightarrow> core_request \<Rightarrow> manager \<Rightarrow> 'w \<Rightarrow>
    'w core_result" where
  "core_serve os txt c provided req m w =
     (if req \<noteq> GetHealth \<and> \<not> core_authorized (AuthToken c) provided
      then Some (JsonError ''unauthorized'' 401, m, w)
      else core_dispatch os txt c req m w)"

section \<open>The API is correct\<close>

lemma add_peer_handler_ok:
  assumes "manager_ok m" and "add_peer_handler os txt c body m w = Some (r, n, v)"
  shows "manager_ok n"
proof (cases body)
  case None
  then show ?thesis using assms by (simp add: add_peer_handler_def)
next
  case (Some req)
  show ?thesis
  proof (cases "ap_key req = []")
    case True
    then show ?thesis using Some assms by (simp add: add_peer_handler_def)
  next
    case False
    let ?ka = "if ap_keepalive req = 0 then 25 else ap_keepalive req"
    obtain x m1 w1 where a: "add_peer os (ap_key req) ?ka m w = Some (x, m1, w1)"
      using assms(2) Some False by (cases "add_peer os (ap_key req) ?ka m w")
        (auto simp: add_peer_handler_def Let_def)
    then have "n = m1" using assms(2) Some False
      by (cases x) (auto simp: add_peer_handler_def Let_def)
    then show ?thesis using add_peer_ok [OF assms(1) a] by simp
  qed
qed

lemma add_peer_total:
  assumes "manager_ok m"
  obtains r n v where "add_peer os pk ka m w = Some (r, n, v)"
  using ipam.alloc_total [OF manager_okD(1) [OF assms]] that
  by (fastforce simp: add_peer_def Let_def split: option.splits prod.splits sum.splits)

lemma add_peer_handler_total:
  assumes "manager_ok m"
  shows "add_peer_handler os txt c body m w \<noteq> None"
proof (cases body)
  case None
  then show ?thesis by (simp add: add_peer_handler_def)
next
  case (Some req)
  obtain r n v where a: "add_peer os (ap_key req) (if ap_keepalive req = 0 then 25 else ap_keepalive req) m w
      = Some (r, n, v)"
    by (rule add_peer_total [OF assms])
  then show ?thesis using Some by (cases r) (simp_all add: add_peer_handler_def Let_def)
qed

lemma remove_peer_handler_ok:
  assumes "manager_ok m" and "remove_peer_handler os txt c param m w = (r, n, v)"
  shows "manager_ok n"
proof (cases "path_unescape param")
  case None
  then show ?thesis using assms by (simp add: remove_peer_handler_def)
next
  case (Some pk)
  obtain x m1 w1 where a: "remove_peer os pk m w = (x, m1, w1)" by (cases "remove_peer os pk m w") auto
  then have "n = m1" using assms(2) Some by (cases x) (auto simp: remove_peer_handler_def)
  then show ?thesis using remove_peer_ok [OF assms(1) a] by simp
qed

lemma update_peer_handler_same: "update_peer_handler os txt c param body m w = (r, n, v) \<Longrightarrow> n = m"
  by (auto simp: update_peer_handler_def split: option.splits prod.splits sum.splits dest: update_peer_same)

text \<open>C17: the core API behind its token. With a token configured, a request that does not present
  exactly that token is answered 401 on every route but the health check and changes nothing;
  every request is answered; and every answered request keeps the manager's invariant.\<close>

theorem core_api_guarded:
  assumes "manager_ok m" and "AuthToken c \<noteq> []"
  shows "\<exists>r n v. core_serve os txt c provided req m w = Some (r, n, v) \<and> manager_ok n \<and>
     (provided \<noteq> AuthToken c \<longrightarrow> req \<noteq> GetHealth \<longrightarrow> r = JsonError ''unauthorized'' 401 \<and> n = m \<and> v = w)"
proof (cases "req \<noteq> GetHealth \<and> \<not> core_authorized (AuthToken c) provided")
  case True
  then show ?thesis using assms by (simp add: core_serve_def)
next
  case False
  then have prov: "req = GetHealth \<or> provided = AuthToken c" by (auto simp: core_authorized_def)
  have serve: "core_serve os txt c provided req m w = core_dispatch os txt c req m w"
    using False by (auto simp: core_serve_def)
  have "\<exists>r n v. core_dispatch os txt c req m w = Some (r, n, v) \<and> manager_ok n"
  proof (cases req)
    case (PostPeer body)
    have "add_peer_handler os txt c body m w \<noteq> None" by (rule add_peer_handler_total [OF assms(1)])
    then obtain r n v where a: "add_peer_handler os txt c body m w = Some (r, n, v)" by auto
    then show ?thesis using PostPeer add_peer_handler_ok [OF assms(1) a] by (simp add: core_dispatch_def)
  next
    case (DeletePeer param)
    obtain r n v where d: "remove_peer_handler os txt c param m w = (r, n, v)"
      by (cases "remove_peer_handler os txt c param m w") auto
    then show ?thesis using DeletePeer remove_peer_handler_ok [OF assms(1) d] by (simp add: core_dispatch_def)
  next
    case (PutPeer param body)
    obtain r n v where d: "update_peer_handler os txt c param body m w = (r, n, v)"
      by (cases "update_peer_handler os txt c param body m w") auto
    then show ?thesis using PutPeer update_peer_handler_same [OF d] assms(1) by (simp add: core_dispatch_def)
  qed (use assms(1) in \<open>auto simp: core_dispatch_def Let_def split: prod.split\<close>)
  with serve prov show ?thesis by auto
qed

theorem core_api_guarded_witness:
  "\<exists>m. core_serve quiet_os (\<lambda>e. []) quiet_config ''wrong'' (DeletePeer ''AAAA'') m ()
      = Some (JsonError ''unauthorized'' 401, m, ()) \<and> manager_ok m"
proof (rule quiet_manager)
  fix m assume m: "manager_ok m"
  have t: "AuthToken quiet_config = ''s3cret''"
    by (simp add: quiet_config_def read_config_def Let_def get_env_def dev_env_def)
  show ?thesis
    using core_api_guarded [OF m, of quiet_config quiet_os "\<lambda>e. []" "''wrong''" "DeletePeer ''AAAA''" "()"] t m by auto
qed

end
