(* ===== verification/Models.thy ===== *)
theory Models
  imports GoURL
begin

text \<open>
  \<^verbatim>\<open>internal/models\<close>: the records the control plane keeps. An identifier (\<^verbatim>\<open>uuid.UUID\<close>) is a
  natural number, 0 for \<^verbatim>\<open>uuid.Nil\<close>; a nullable column or pointer is an option. The columns
  of \<^verbatim>\<open>mesh_members\<close> that only the exit-node queries read are in the same row record.
\<close>

type_synonym uuid = nat

record user =
  us_id :: uuid
  us_uid :: string
  us_email :: string
  us_name :: string
  us_groups :: "string list"
  us_banned :: bool
  us_banned_at :: "time option"
  us_reason :: string
  us_created :: time
  us_updated :: time

record server =
  sv_id :: uuid
  sv_name :: string
  sv_host :: string
  sv_endpoint :: string
  sv_port :: int
  sv_wg_port :: int
  sv_key :: string
  sv_token :: string
  sv_location :: string
  sv_country :: string
  sv_max :: int
  sv_cur :: int
  sv_active :: bool
  sv_proxy_port :: int
  sv_wireguard :: bool
  sv_proxy :: bool
  sv_exit :: bool
  sv_created :: time
  sv_updated :: time

definition apply_capabilities :: "server \<Rightarrow> server" where
  "apply_capabilities s =
     s\<lparr>sv_wireguard := sv_active s \<and> 0 < sv_wg_port s \<and> sv_key s \<noteq> [],
       sv_proxy := sv_active s \<and> 0 < sv_proxy_port s,
       sv_exit := sv_active s \<and> 0 < sv_proxy_port s\<rparr>"

record peer =
  pe_id :: uuid
  pe_user :: uuid
  pe_server :: uuid
  pe_key :: string
  pe_ip :: string
  pe_active :: bool
  pe_device :: string
  pe_handshake :: "time option"
  pe_sent :: int
  pe_recv :: int
  pe_created :: time
  pe_expires :: "time option"

text \<open>A value of the audit metadata.\<close>

datatype meta = MetaId uuid | MetaText string | MetaInt int

record audit =
  au_user :: "uuid option"
  au_action :: string
  au_meta :: "(string \<times> meta) list"
  au_ip :: string
  au_created :: time

record connection_config =
  cc_peer :: uuid
  cc_ip :: string
  cc_key :: string
  cc_endpoint :: string
  cc_dns :: string
  cc_allowed :: string

record admin_stats =
  as_users :: int
  as_servers :: int
  as_active_servers :: int
  as_peers :: int
  as_active_peers :: int
  as_sent :: int
  as_recv :: int

record mesh =
  me_id :: uuid
  me_name :: string
  me_description :: string
  me_owner :: uuid
  me_subnet :: string
  me_invite :: string
  me_invite_expires :: "time option"
  me_max :: int
  me_active :: bool
  me_count :: nat
  me_country :: string
  me_public_ip :: string
  me_session :: bool
  me_created :: time
  me_updated :: time

record member =
  mm_id :: uuid
  mm_mesh :: uuid
  mm_user :: uuid
  mm_peer :: "uuid option"
  mm_ip :: string
  mm_name :: string
  mm_joined :: time
  mm_exit :: bool
  mm_proxy_port :: int
  mm_proxy_scheme :: string
  mm_tcp :: bool
  mm_udp :: bool

record selection =
  se_user :: uuid
  se_ip :: string
  se_scheme :: string
  se_port :: int
  se_tcp :: bool
  se_udp :: bool
  se_updated :: time

record extension_origin =
  eo_origin :: string
  eo_user :: "uuid option"
  eo_first :: time
  eo_last :: time
  eo_count :: int
  eo_revoked :: bool

text \<open>\<^verbatim>\<open>isAdmin\<close> of the control plane.\<close>

definition admin_groups :: "string set" where
  "admin_groups = {''vpn-admins'', ''admins'', ''authentik Admins''}"

definition is_admin :: "user \<Rightarrow> bool" where
  "is_admin u = list_ex (\<lambda>g. g \<in> admin_groups) (us_groups u)"

end
