(* ===== verification/ServerHost.thy ===== *)
theory ServerHost
  imports Models
begin

text \<open>
  \<^verbatim>\<open>internal/control/server_host.go\<close> and the input validators of
  \<^verbatim>\<open>internal/control/handler.go\<close>: the host and port an administrator types for a server, the
  WireGuard endpoint derived from them, and the device name of a connection.
\<close>

section \<open>Administrator input\<close>

datatype host_error =
    HostRequired | BadHostURL | BadHostScheme | NoURLHost | HostHasPath | HostHasQuery
  | BadURLPort | BadHost | BadPort

text \<open>The host and port written in a URL.\<close>

definition host_of_url :: "string \<Rightarrow> int \<Rightarrow> host_error + string \<times> int" where
  "host_of_url host port =
     (case url_parse host of
        None \<Rightarrow> Inl BadHostURL
      | Some u \<Rightarrow>
          if url_scheme u \<noteq> ''http'' \<and> url_scheme u \<noteq> ''https'' then Inl BadHostScheme
          else if url_host u = [] then Inl NoURLHost
          else if url_path u \<noteq> [] \<and> url_path u \<noteq> ''/'' then Inl HostHasPath
          else if url_raw_query u \<noteq> [] \<or> url_fragment u \<noteq> [] then Inl HostHasQuery
          else let h = trim_space (hostname u) in
            if url_port u = [] then Inr (h, port)
            else case atoi (url_port u) of None \<Rightarrow> Inl BadURLPort | Some p \<Rightarrow> Inr (h, p))"

definition normalize_admin_server_host :: "string \<Rightarrow> int \<Rightarrow> host_error + string \<times> int" where
  "normalize_admin_server_host raw port =
     (let host = trim_space raw in
      if host = [] then Inl HostRequired
      else case (if contains_str host ''://'' then host_of_url host port else Inr (host, port)) of
        Inl e \<Rightarrow> Inl e
      | Inr (h0, p) \<Rightarrow>
          let h = trim_set h0 ''[]'' in
          if h = [] then Inl HostRequired
          else if list_ex (\<lambda>c. c \<in> set ''/?#'') h then Inl BadHost
          else if p < 1 \<or> 65535 < p then Inl BadPort
          else Inr (h, p))"

definition default_admin_server_port :: "bool \<Rightarrow> int" where
  "default_admin_server_port insecure = (if insecure then 8080 else 443)"

definition endpoint_host_from_server_host :: "string \<Rightarrow> string" where
  "endpoint_host_from_server_host raw =
     (let host = trim_space raw;
          plain = (case split_host_port host of
                     Some (h, _) \<Rightarrow> trim_set (trim_space h) ''[]''
                   | None \<Rightarrow> trim_set (trim_space host) ''[]'')
      in if host = [] then []
         else if contains_str host ''://'' then
           (case url_parse host of
              Some u \<Rightarrow> if hostname u \<noteq> [] then trim_space (hostname u) else plain
            | None \<Rightarrow> plain)
         else plain)"

definition wireguard_endpoint_for_server_host :: "string \<Rightarrow> int \<Rightarrow> string" where
  "wireguard_endpoint_for_server_host raw wg_port =
     (let host = endpoint_host_from_server_host raw in
      if host = [] then [] else join_host_port host (itoa wg_port))"

definition is_loopback_server_host :: "string \<Rightarrow> bool" where
  "is_loopback_server_host raw =
     (let host = endpoint_host_from_server_host raw in
      if equal_fold host ''localhost'' then True
      else case parse_ip host of None \<Rightarrow> False | Some a \<Rightarrow> is_loopback a)"

text \<open>\<open>None\<close> is acceptance.\<close>

datatype endpoint_error = EndpointTooLong | EndpointInvalid

definition validate_server_endpoint :: "string \<Rightarrow> endpoint_error option" where
  "validate_server_endpoint ep =
     (if 253 < length ep then Some EndpointTooLong
      else if ep = [] \<or> \<not> list_all (\<lambda>c. is_lower c \<or> is_upper c \<or> is_digit c \<or> c \<in> set ''._[]:-'') ep
      then Some EndpointInvalid else None)"

section \<open>Device names\<close>

definition safe_name_char :: "char \<Rightarrow> bool" where
  "safe_name_char c \<longleftrightarrow> is_lower c \<or> is_upper c \<or> is_digit c \<or> c \<in> set ''._-''"

definition sanitize_device_name :: "string \<Rightarrow> string" where
  "sanitize_device_name name =
     (let n = take 64 (filter safe_name_char name) in if n = [] then ''device'' else n)"

section \<open>Input is normalised\<close>

text \<open>Whatever an administrator types, an accepted host is non-empty and has no slash, question
  mark or hash, and an accepted port is a TCP port; and a device name is always made of 1 to 64
  safe characters, unchanged if it already was.\<close>

lemma accepted_input_is_clean:
  "(case normalize_admin_server_host raw port of
      Inl e \<Rightarrow> True
    | Inr (h, p) \<Rightarrow> h \<noteq> [] \<and> 1 \<le> p \<and> p \<le> 65535 \<and>
        CHR ''/'' \<notin> set h \<and> CHR ''?'' \<notin> set h \<and> CHR ''#'' \<notin> set h) \<and>
   sanitize_device_name name \<noteq> [] \<and> length (sanitize_device_name name) \<le> 64 \<and>
   filter safe_name_char (sanitize_device_name name) = sanitize_device_name name \<and>
   sanitize_device_name (sanitize_device_name name) = sanitize_device_name name"
proof -
  have clean: "filter safe_name_char (sanitize_device_name name) = sanitize_device_name name"
  proof -
    have "filter safe_name_char ''device'' = ''device''"
      by (simp add: safe_name_char_def is_lower_def code_def)
    moreover have "filter safe_name_char (take 64 (filter safe_name_char name)) = take 64 (filter safe_name_char name)"
      by (auto simp: filter_id_conv dest: in_set_takeD)
    ultimately show ?thesis by (simp add: sanitize_device_name_def Let_def)
  qed
  have len: "length (sanitize_device_name name) \<le> 64" "sanitize_device_name name \<noteq> []"
    by (simp_all add: sanitize_device_name_def Let_def)
  then have "sanitize_device_name (sanitize_device_name name) = sanitize_device_name name"
    using clean by (simp add: sanitize_device_name_def [of "sanitize_device_name name"])
  moreover have "case normalize_admin_server_host raw port of
      Inl e \<Rightarrow> True
    | Inr (h, p) \<Rightarrow> h \<noteq> [] \<and> 1 \<le> p \<and> p \<le> 65535 \<and>
        CHR ''/'' \<notin> set h \<and> CHR ''?'' \<notin> set h \<and> CHR ''#'' \<notin> set h"
    by (auto simp: normalize_admin_server_host_def Let_def list_ex_iff split: sum.splits prod.splits if_splits)
  ultimately show ?thesis using clean len by blast
qed

end
