(* ===== verification/CoreClient.thy ===== *)
theory CoreClient
  imports ServerHost
begin

text \<open>
  \<^verbatim>\<open>internal/control/core_client.go\<close>: how the control plane calls a core server. The pieces are
  the allow-list of hosts and the URL of a request, the circuit breaker of each host, the
  retry loop, and the calls of the core API. The network with its clock is the record \<open>net\<close>
  of operations on a world \<open>'w\<close>; the JSON codecs are the record \<open>codec\<close>. The breakers and the
  world are the state; each breaker operation is one step, and a call runs alone.
\<close>

section \<open>Client settings and URLs\<close>

record client =
  cl_skip_verify :: bool
  cl_insecure :: bool
  cl_hosts :: "string list"

definition normalize_core_allowed_host :: "string \<Rightarrow> string" where
  "normalize_core_allowed_host raw =
     (let h = trim_space raw;
          plain = (case split_host_port h of
                     Some (host, _) \<Rightarrow> to_lower (trim_set host ''[]'')
                   | None \<Rightarrow> to_lower h)
      in if h = [] then []
         else if contains_str h ''://'' then
           (case url_parse h of
              Some u \<Rightarrow> if hostname u \<noteq> [] then to_lower (hostname u) else plain
            | None \<Rightarrow> plain)
         else plain)"

definition init_core_client :: "bool \<Rightarrow> bool \<Rightarrow> string \<Rightarrow> client" where
  "init_core_client skip_verify insecure hosts =
     \<lparr>cl_skip_verify = skip_verify, cl_insecure = insecure,
      cl_hosts = filter (\<lambda>h. h \<noteq> []) (map normalize_core_allowed_host (split_on (CHR '','') hosts))\<rparr>"

datatype core_error =
    EmptyCoreHost | BadCoreURL string | NoCoreHost string | BadCorePort string | PortNotPositive int
  | HostNotAllowed string | BadRequestURL | CircuitOpen string | Unreachable string | CoreReturned int string
  | BadCoreResponse string | CoreSaid string | BadCoreData

text \<open>The scheme, host and port of a server row.\<close>

definition core_target :: "client \<Rightarrow> server \<Rightarrow> core_error + string \<times> string \<times> int" where
  "core_target cl s =
     (let input = trim_space (sv_host s) in
      if input = [] then Inl EmptyCoreHost
      else if has_prefix input ''http://'' \<or> has_prefix input ''https://'' then
        (case url_parse input of
           None \<Rightarrow> Inl (BadCoreURL input)
         | Some u \<Rightarrow>
             if url_host u = [] then Inl (NoCoreHost input)
             else if url_port u \<noteq> [] then
               (case atoi (url_port u) of
                  None \<Rightarrow> Inl (BadCorePort input)
                | Some p \<Rightarrow> Inr (url_scheme u, hostname u, p))
             else Inr (url_scheme u, hostname u, sv_port s))
      else Inr (if cl_insecure cl \<and> sv_port s \<noteq> 443 then ''http'' else ''https'', input, sv_port s))"

text \<open>The URL of a request and the key of its breaker.\<close>

definition core_url :: "client \<Rightarrow> server \<Rightarrow> string \<Rightarrow> core_error + string \<times> string" where
  "core_url cl s path =
     (case core_target cl s of
        Inl e \<Rightarrow> Inl e
      | Inr (scheme, host0, port) \<Rightarrow>
          if port \<le> 0 then Inl (PortNotPositive port)
          else let host = to_lower host0 in
            if cl_hosts cl \<noteq> [] \<and> host \<notin> set (cl_hosts cl) then Inl (HostNotAllowed host)
            else let hp = join_host_port host (itoa port)
              in Inr (scheme @ ''://'' @ hp @ path, hp))"

section \<open>Circuit breaker\<close>

datatype circuit_state = CbClosed | CbOpen | CbHalfOpen

record breaker =
  cb_state :: circuit_state
  cb_failures :: nat
  cb_last :: time

definition cb_threshold :: nat where
  "cb_threshold = 5"

definition cb_reset :: time where
  "cb_reset = 30 * second"

definition new_breaker :: breaker where
  "new_breaker = \<lparr>cb_state = CbClosed, cb_failures = 0, cb_last = 0\<rparr>"

type_synonym breakers = "string \<rightharpoonup> breaker"

definition get_cb :: "breakers \<Rightarrow> string \<Rightarrow> breaker" where
  "get_cb cbs host = (case cbs host of None \<Rightarrow> new_breaker | Some b \<Rightarrow> b)"

definition cb_allow :: "time \<Rightarrow> breaker \<Rightarrow> bool \<times> breaker" where
  "cb_allow now b =
     (case cb_state b of
        CbClosed \<Rightarrow> (True, b)
      | CbOpen \<Rightarrow> if cb_reset < now - cb_last b then (True, b\<lparr>cb_state := CbHalfOpen\<rparr>) else (False, b)
      | CbHalfOpen \<Rightarrow> (True, b))"

definition cb_success :: "breaker \<Rightarrow> breaker" where
  "cb_success b = b\<lparr>cb_failures := 0, cb_state := CbClosed\<rparr>"

definition cb_failure :: "time \<Rightarrow> breaker \<Rightarrow> breaker" where
  "cb_failure now b =
     (let b1 = b\<lparr>cb_failures := cb_failures b + 1, cb_last := now\<rparr>
      in if cb_threshold \<le> cb_failures b1 then b1\<lparr>cb_state := CbOpen\<rparr> else b1)"

section \<open>Requests with retry\<close>

record http_request =
  rq_method :: string
  rq_url :: string
  rq_token :: string
  rq_body :: "string option"

record http_response =
  rs_status :: int
  rs_body :: string

record 'w net =
  net_do :: "client \<Rightarrow> http_request \<Rightarrow> 'w \<Rightarrow> (string + http_response) \<times> 'w"
  net_now :: "'w \<Rightarrow> time"
  net_sleep :: "time \<Rightarrow> 'w \<Rightarrow> 'w"

definition core_max_retries :: nat where
  "core_max_retries = 3"

definition retry_base_delay :: time where
  "retry_base_delay = 500000000"

text \<open>
  The loop from attempt \<open>k\<close>, with the last error. The error of an attempt is a transport
  error, or the status and body of a 5xx answer (the body cut at 1 MiB).
\<close>

function retry_from :: "'w net \<Rightarrow> client \<Rightarrow> http_request \<Rightarrow> string \<Rightarrow> nat \<Rightarrow> string \<Rightarrow> breakers \<Rightarrow> 'w \<Rightarrow>
    (core_error + http_response) \<times> breakers \<times> 'w" where
  "retry_from net cl req host k err cbs w =
     (if core_max_retries \<le> k then (Inl (Unreachable err), cbs, w)
      else let (ok, b) = cb_allow (net_now net w) (get_cb cbs host); cbs1 = cbs(host \<mapsto> b) in
        if \<not> ok then (Inl (CircuitOpen host), cbs1, w)
        else case net_do net cl req w of
          (Inl e, w1) \<Rightarrow>
            retry_from net cl req host (k + 1) e
              (cbs1(host \<mapsto> cb_failure (net_now net w1) (get_cb cbs1 host)))
              (net_sleep net (retry_base_delay * int (k + 1)) w1)
        | (Inr resp, w1) \<Rightarrow>
            if 500 \<le> rs_status resp then
              retry_from net cl req host (k + 1)
                (''core returned '' @ itoa (rs_status resp) @ '': '' @ take 1048576 (rs_body resp))
                (cbs1(host \<mapsto> cb_failure (net_now net w1) (get_cb cbs1 host)))
                (net_sleep net (retry_base_delay * int (k + 1)) w1)
            else (Inr resp, cbs1(host \<mapsto> cb_success (get_cb cbs1 host)), w1))"
  by pat_completeness auto
termination
  by (relation "measure (\<lambda>(net, cl, req, host, k, err, cbs, w). core_max_retries - k)") auto

declare retry_from.simps [simp del]

definition core_do_with_retry :: "'w net \<Rightarrow> client \<Rightarrow> http_request \<Rightarrow> string \<Rightarrow> breakers \<Rightarrow> 'w \<Rightarrow>
    (core_error + http_response) \<times> breakers \<times> 'w" where
  "core_do_with_retry net cl req host cbs w = retry_from net cl req host 0 [] cbs w"

section \<open>Calls\<close>

record core_added =
  ca_key :: string
  ca_ip :: string
  ca_endpoint :: string

record core_peer =
  cp_public :: string
  cp_ip :: string
  cp_handshake :: string
  cp_sent :: int
  cp_recv :: int

record core_stats =
  st_interface :: string
  st_key :: string
  st_port :: int
  st_count :: int
  st_tx :: int
  st_rx :: int

text \<open>JSON: the request body of an added peer, the envelope, and the payloads.\<close>

record codec =
  enc_add :: "string \<Rightarrow> int \<Rightarrow> string"
  dec_api :: "string \<Rightarrow> (bool \<times> string \<times> string) option"
  dec_added :: "string \<Rightarrow> core_added option"
  dec_peer :: "string \<Rightarrow> core_peer option"
  dec_stats :: "string \<Rightarrow> core_stats option"
  dec_peers :: "string \<Rightarrow> core_peer list option"

text \<open>Build the URL and the request, send it; \<^verbatim>\<open>http.NewRequest\<close> parses the URL.\<close>

definition core_send :: "'w net \<Rightarrow> client \<Rightarrow> server \<Rightarrow> string \<Rightarrow> string \<Rightarrow> string option \<Rightarrow> breakers \<times> 'w \<Rightarrow>
    (core_error + http_response) \<times> breakers \<times> 'w" where
  "core_send net cl s meth path body bw =
     (case core_url cl s path of
        Inl e \<Rightarrow> (Inl e, bw)
      | Inr (full, key) \<Rightarrow>
          if url_parse full = None then (Inl BadRequestURL, bw)
          else core_do_with_retry net cl
                 \<lparr>rq_method = meth, rq_url = full, rq_token = sv_token s, rq_body = body\<rparr> key (fst bw) (snd bw))"

text \<open>Unwrap the envelope and decode its data.\<close>

definition core_payload :: "codec \<Rightarrow> (string \<Rightarrow> 'a option) \<Rightarrow> http_response \<Rightarrow> core_error + 'a" where
  "core_payload cd dec resp =
     (case dec_api cd (rs_body resp) of
        None \<Rightarrow> Inl (BadCoreResponse (rs_body resp))
      | Some (ok, data, err) \<Rightarrow>
          if \<not> ok then Inl (CoreSaid err)
          else case dec data of None \<Rightarrow> Inl BadCoreData | Some x \<Rightarrow> Inr x)"

definition core_call :: "'w net \<Rightarrow> client \<Rightarrow> codec \<Rightarrow> (string \<Rightarrow> 'a option) \<Rightarrow> server \<Rightarrow> string \<Rightarrow> string \<Rightarrow>
    string option \<Rightarrow> breakers \<times> 'w \<Rightarrow> (core_error + 'a) \<times> breakers \<times> 'w" where
  "core_call net cl cd dec s meth path body bw =
     (case core_send net cl s meth path body bw of
        (Inl e, bw1) \<Rightarrow> (Inl e, bw1)
      | (Inr resp, bw1) \<Rightarrow> (core_payload cd dec resp, bw1))"

definition call_core_add_peer :: "'w net \<Rightarrow> client \<Rightarrow> codec \<Rightarrow> server \<Rightarrow> string \<Rightarrow> breakers \<times> 'w \<Rightarrow>
    (core_error + core_added) \<times> breakers \<times> 'w" where
  "call_core_add_peer net cl cd s pk bw =
     core_call net cl cd (dec_added cd) s ''POST'' ''/api/v1/peers'' (Some (enc_add cd pk 25)) bw"

definition call_core_remove_peer :: "'w net \<Rightarrow> client \<Rightarrow> server \<Rightarrow> string \<Rightarrow> breakers \<times> 'w \<Rightarrow>
    (core_error + unit) \<times> breakers \<times> 'w" where
  "call_core_remove_peer net cl s pk bw =
     (case core_send net cl s ''DELETE'' (''/api/v1/peers/'' @ path_escape pk) None bw of
        (Inl e, bw1) \<Rightarrow> (Inl e, bw1)
      | (Inr resp, bw1) \<Rightarrow>
          if 400 \<le> rs_status resp then (Inl (CoreReturned (rs_status resp) (rs_body resp)), bw1) else (Inr (), bw1))"

definition call_core_peer_stats :: "'w net \<Rightarrow> client \<Rightarrow> codec \<Rightarrow> server \<Rightarrow> string \<Rightarrow> breakers \<times> 'w \<Rightarrow>
    (core_error + core_peer) \<times> breakers \<times> 'w" where
  "call_core_peer_stats net cl cd s pk bw =
     core_call net cl cd (dec_peer cd) s ''GET'' (''/api/v1/peers/'' @ path_escape pk @ ''/stats'') None bw"

definition call_core_server_stats :: "'w net \<Rightarrow> client \<Rightarrow> codec \<Rightarrow> server \<Rightarrow> breakers \<times> 'w \<Rightarrow>
    (core_error + core_stats) \<times> breakers \<times> 'w" where
  "call_core_server_stats net cl cd s bw =
     core_call net cl cd (dec_stats cd) s ''GET'' ''/api/v1/stats'' None bw"

definition call_core_list_peers :: "'w net \<Rightarrow> client \<Rightarrow> codec \<Rightarrow> server \<Rightarrow> breakers \<times> 'w \<Rightarrow>
    (core_error + core_peer list) \<times> breakers \<times> 'w" where
  "call_core_list_peers net cl cd s bw =
     core_call net cl cd (dec_peers cd) s ''GET'' ''/api/v1/peers'' None bw"

section \<open>The breaker is a state machine\<close>

text \<open>What can happen to the breaker of a host, in time.\<close>

inductive cb_step :: "breaker \<Rightarrow> breaker \<Rightarrow> bool" where
  allow: "cb_allow now b = (r, b') \<Longrightarrow> cb_step b b'"
| success: "cb_step b (cb_success b)"
| failure: "cb_step b (cb_failure now b)"

inductive cb_reach :: "breaker \<Rightarrow> bool" where
  new: "cb_reach new_breaker"
| step: "cb_reach b \<Longrightarrow> cb_step b b' \<Longrightarrow> cb_reach b'"

definition cb_ok :: "breaker \<Rightarrow> bool" where
  "cb_ok b \<longleftrightarrow> (cb_state b = CbClosed \<longleftrightarrow> cb_failures b < cb_threshold)"

lemma cb_allow_ok: "cb_ok b \<Longrightarrow> cb_ok (snd (cb_allow now b))"
  by (auto simp: cb_ok_def cb_allow_def split: circuit_state.splits)

lemma cb_success_ok [simp]: "cb_ok (cb_success b)"
  by (simp add: cb_ok_def cb_success_def cb_threshold_def)

lemma cb_failure_ok: "cb_ok b \<Longrightarrow> cb_ok (cb_failure now b)"
  by (auto simp: cb_ok_def cb_failure_def Let_def)

lemma cb_reach_ok: "cb_reach b \<Longrightarrow> cb_ok b"
proof (induction rule: cb_reach.induct)
  case new
  then show ?case by (simp add: cb_ok_def new_breaker_def cb_threshold_def)
next
  case (step b b')
  then show ?case
    using cb_allow_ok [of b] by (auto elim!: cb_step.cases intro: cb_failure_ok) (metis snd_conv)
qed



section \<open>Calls are bounded and stay on the allow-list\<close>

text \<open>The same network, counting the requests that leave.\<close>

definition counted :: "'w net \<Rightarrow> ('w \<times> nat) net" where
  "counted net =
     \<lparr>net_do = (\<lambda>cl q (w, n). case net_do net cl q w of (r, w1) \<Rightarrow> (r, w1, n + 1)),
      net_now = (\<lambda>(w, n). net_now net w), net_sleep = (\<lambda>d (w, n). (net_sleep net d w, n))\<rparr>"

lemma counted_simps [simp]:
  "net_now (counted net) (w, n) = net_now net w"
  "net_sleep (counted net) d (w, n) = (net_sleep net d w, n)"
  "net_do (counted net) cl q (w, n) = (case net_do net cl q w of (r, w1) \<Rightarrow> (r, w1, n + 1))"
  by (simp_all add: counted_def)

lemma get_cb_upd [simp]: "get_cb (cbs(h \<mapsto> b)) h = b"
  by (simp add: get_cb_def)

definition retry_post :: "string \<Rightarrow> nat \<Rightarrow> nat \<Rightarrow> breakers \<Rightarrow> (core_error + http_response) \<times> breakers \<times> 'w \<times> nat \<Rightarrow> bool" where
  "retry_post host budget n cbs res =
     (case res of (r, cbs', w', n') \<Rightarrow>
        n \<le> n' \<and> n' \<le> n + budget \<and> (\<forall>h. h \<noteq> host \<longrightarrow> cbs' h = cbs h) \<and>
        (\<forall>resp. r = Inr resp \<longrightarrow> rs_status resp < 500 \<and> n < n' \<and>
           cb_state (get_cb cbs' host) = CbClosed \<and> cb_failures (get_cb cbs' host) = 0))"

lemma cb_success_closed [simp]: "cb_state (cb_success b) = CbClosed" "cb_failures (cb_success b) = 0"
  by (simp_all add: cb_success_def)

lemma retry_post_later:
  "retry_post host budget (n + 1) cbs1 res \<Longrightarrow> (\<And>h. h \<noteq> host \<Longrightarrow> cbs1 h = cbs h) \<Longrightarrow>
     retry_post host (Suc budget) n cbs res"
  by (auto simp: retry_post_def split: prod.splits)

lemma retry_from_counted:
  "retry_post host (core_max_retries - k) n cbs (retry_from (counted net) cl req host k err cbs (w, n))"
proof (induction "core_max_retries - k" arbitrary: k err cbs w n)
  case 0
  then show ?case by (subst retry_from.simps) (simp add: retry_post_def)
next
  case (Suc d)
  then have k: "\<not> core_max_retries \<le> k" and d: "core_max_retries - k = Suc (core_max_retries - (k + 1))" by auto
  obtain ok b where a: "cb_allow (net_now net w) (get_cb cbs host) = (ok, b)" by fastforce
  show ?case
  proof (cases ok)
    case False
    then show ?thesis using k a by (subst retry_from.simps) (simp add: retry_post_def)
  next
    case True
    obtain x w1 where x: "net_do net cl req w = (x, w1)" by fastforce
    let ?f = "cbs(host \<mapsto> b, host \<mapsto> cb_failure (net_now net w1) b)"
    let ?w = "(net_sleep net (retry_base_delay * int (k + 1)) w1, n + 1)"
    have ih: "retry_post host (core_max_retries - k) n cbs (retry_from (counted net) cl req host (k + 1) e ?f ?w)" for e
      unfolding d by (rule retry_post_later [OF Suc.hyps(1)]) (use Suc.hyps(2) in auto)
    show ?thesis
    proof (cases x)
      case (Inl e)
      then show ?thesis using k a True x ih by (subst retry_from.simps) simp
    next
      case (Inr resp)
      show ?thesis
      proof (cases "500 \<le> rs_status resp")
        case True
        then show ?thesis using k a \<open>ok\<close> x Inr ih by (subst retry_from.simps) simp
      next
        case False
        then show ?thesis using k a True x Inr by (subst retry_from.simps) (simp add: retry_post_def d)
      qed
    qed
  qed
qed

text \<open>C25: one call to a core server sends at most three requests, returns a response only for a status
  below 500, in which case the breaker of that host is closed with no failures, and never touches
  the breaker of another host; while the breaker is open no request is sent at all.\<close>

theorem core_call_bounded:
  assumes "core_do_with_retry (counted net) cl req host cbs (w, n) = (r, cbs', w', n')"
  shows "n' \<le> n + 3 \<and> (\<forall>h. h \<noteq> host \<longrightarrow> cbs' h = cbs h) \<and>
    (\<forall>resp. r = Inr resp \<longrightarrow> rs_status resp < 500 \<and> n < n' \<and>
       cb_state (get_cb cbs' host) = CbClosed \<and> cb_failures (get_cb cbs' host) = 0) \<and>
    (cb_state (get_cb cbs host) = CbOpen \<and> net_now net w - cb_last (get_cb cbs host) \<le> 30 * second \<longrightarrow>
       r = Inl (CircuitOpen host) \<and> n' = n \<and> w' = w)"
proof -
  have post: "retry_post host (core_max_retries - 0) n cbs (r, cbs', w', n')"
    using retry_from_counted [of host 0 n cbs net cl req "[]" w] assms by (simp add: core_do_with_retry_def)
  have shut: "retry_from (counted net) cl req host 0 [] cbs (w, n) = (Inl (CircuitOpen host), cbs(host \<mapsto> get_cb cbs host), w, n)"
    if "cb_state (get_cb cbs host) = CbOpen" "\<not> 30 * second < net_now net w - cb_last (get_cb cbs host)"
  proof -
    have "cb_allow (net_now net w) (get_cb cbs host) = (False, get_cb cbs host)"
      using that by (simp add: cb_allow_def cb_reset_def)
    then show ?thesis by (subst retry_from.simps) (simp add: core_max_retries_def)
  qed
  have "r = Inl (CircuitOpen host) \<and> n' = n \<and> w' = w"
    if "cb_state (get_cb cbs host) = CbOpen" "net_now net w - cb_last (get_cb cbs host) \<le> 30 * second"
    using assms shut that by (simp add: core_do_with_retry_def)
  then show ?thesis using post unfolding retry_post_def core_max_retries_def by simp
qed

definition down_net :: "unit net" where
  "down_net = \<lparr>net_do = (\<lambda>cl q w. (Inl ''down'', w)), net_now = (\<lambda>w. 0), net_sleep = (\<lambda>d w. w)\<rparr>"

theorem core_call_bounded_witness:
  "\<exists>r cbs' n'. core_do_with_retry (counted down_net) (init_core_client False False [])
       \<lparr>rq_method = ''GET'', rq_url = [], rq_token = [], rq_body = None\<rparr> ''core:443'' Map.empty ((), 0)
     = (r, cbs', (), n') \<and> n' \<le> 3"
proof -
  let ?x = "core_do_with_retry (counted down_net) (init_core_client False False [])
       \<lparr>rq_method = ''GET'', rq_url = [], rq_token = [], rq_body = None\<rparr> ''core:443'' Map.empty ((), 0)"
  obtain r cbs' n' where x: "?x = (r, cbs', (), n')" by (cases ?x) auto
  from core_call_bounded [OF x] x show ?thesis by auto
qed


definition demo_server :: server where
  "demo_server = \<lparr>sv_id = 1, sv_name = ''s'', sv_host = ''core'', sv_endpoint = [], sv_port = 8443, sv_wg_port = 51820,
     sv_key = ''k'', sv_token = ''t'', sv_location = [], sv_country = [], sv_max = 2, sv_cur = 0, sv_active = True,
     sv_proxy_port = 8888, sv_wireguard = True, sv_proxy = True, sv_exit = True, sv_created = 0, sv_updated = 0\<rparr>"

lemma demo_target: "core_target cl demo_server = Inr (if cl_insecure cl then ''http'' else ''https'', ''core'', 8443)"
  by (simp add: core_target_def demo_server_def trim_space_def trim_left_by_def trim_right_by_def is_space_def
      code_def has_prefix_def)


end
