(* ===== verification/Database.thy ===== *)
theory Database
  imports Complex_Main Models "HOL-Library.List_Lexorder" "HOL-Library.Char_ord"
begin

text \<open>
  \<^verbatim>\<open>internal/repo/user.go\<close>, \<^verbatim>\<open>server.go\<close>, \<^verbatim>\<open>peer.go\<close> and \<^verbatim>\<open>audit.go\<close> over the schema of
  \<^verbatim>\<open>internal/db/migrations\<close>. A table is the list of its rows in insertion order and every
  repository method is the SQL statement it sends, on those lists: a \<open>WHERE\<close> is a filter, a
  constraint of the schema is a test before the row is added, a foreign key with
  \<open>ON DELETE CASCADE\<close> or \<open>SET NULL\<close> is carried out by the deletion. \<open>NOW()\<close> is \<open>db_now\<close> and
  \<open>gen_random_uuid()\<close> the next unused number. A statement can also fail as a whole (a lost
  connection): \<open>db_faults\<close> says for each coming statement whether it does. Names sort by bytes,
  and rows that compare equal keep their insertion order.
\<close>

datatype db_err = DbDown | NoRows | UniqueViolation | CheckViolation | ForeignKeyViolation

record db =
  db_users :: "user list"
  db_servers :: "server list"
  db_peers :: "peer list"
  db_audits :: "audit list"
  db_meshes :: "mesh list"
  db_members :: "member list"
  db_selections :: "selection list"
  db_extensions :: "extension_origin list"
  db_countries :: "(string \<times> string \<times> time) list"
  db_next :: uuid
  db_now :: time
  db_faults :: "bool list"

type_synonym 'a query = "db \<Rightarrow> (db_err + 'a) \<times> db"

definition db_call :: "'a query \<Rightarrow> 'a query" where
  "db_call q d =
     (case db_faults d of
        [] \<Rightarrow> q d
      | b # bs \<Rightarrow> if b then (Inl DbDown, d\<lparr>db_faults := bs\<rparr>) else q (d\<lparr>db_faults := bs\<rparr>))"

text \<open>A query that returns one row, \<^verbatim>\<open>ORDER BY ... DESC\<close>, and \<^verbatim>\<open>LIMIT ... OFFSET\<close>.\<close>

definition one_row :: "'a option \<Rightarrow> db_err + 'a" where
  "one_row r = (case r of None \<Rightarrow> Inl NoRows | Some x \<Rightarrow> Inr x)"

definition newest_first :: "('a \<Rightarrow> time) \<Rightarrow> 'a list \<Rightarrow> 'a list" where
  "newest_first key xs = sort_key (\<lambda>x. - key x) xs"

definition page :: "int \<Rightarrow> int \<Rightarrow> 'a list \<Rightarrow> 'a list" where
  "page limit offset xs = take (nat limit) (drop (nat offset) xs)"

section \<open>Deletions and their cascades\<close>

text \<open>\<^verbatim>\<open>mesh_members.peer_id REFERENCES peers(id) ON DELETE SET NULL\<close>\<close>

definition drop_peers :: "(peer \<Rightarrow> bool) \<Rightarrow> db \<Rightarrow> db" where
  "drop_peers p d =
     (let ids = map pe_id (filter p (db_peers d)) in
      d\<lparr>db_peers := filter (\<lambda>x. \<not> p x) (db_peers d),
        db_members := map_where (\<lambda>m. \<exists>i \<in> set ids. mm_peer m = Some i) (\<lambda>m. m\<lparr>mm_peer := None\<rparr>) (db_members d)\<rparr>)"

text \<open>\<^verbatim>\<open>mesh_members.mesh_id REFERENCES mesh_networks(id) ON DELETE CASCADE\<close>\<close>

definition drop_meshes :: "(mesh \<Rightarrow> bool) \<Rightarrow> db \<Rightarrow> db" where
  "drop_meshes p d =
     (let ids = map me_id (filter p (db_meshes d)) in
      d\<lparr>db_meshes := filter (\<lambda>x. \<not> p x) (db_meshes d),
        db_members := filter (\<lambda>m. mm_mesh m \<notin> set ids) (db_members d)\<rparr>)"

section \<open>\<^verbatim>\<open>UserRepo\<close>\<close>

definition new_user :: "uuid \<Rightarrow> time \<Rightarrow> string \<Rightarrow> string \<Rightarrow> string \<Rightarrow> string list \<Rightarrow> user" where
  "new_user i now uid email name groups =
     \<lparr>us_id = i, us_uid = uid, us_email = email, us_name = name, us_groups = groups, us_banned = False,
      us_banned_at = None, us_reason = [], us_created = now, us_updated = now\<rparr>"

definition user_upsert :: "string \<Rightarrow> string \<Rightarrow> string list \<Rightarrow> user query" where
  "user_upsert uid email groups = db_call (\<lambda>d.
     case find (\<lambda>u. us_uid u = uid) (db_users d) of
       Some u \<Rightarrow>
         (let u1 = u\<lparr>us_email := email, us_groups := groups, us_updated := db_now d\<rparr>
          in (Inr u1, d\<lparr>db_users := map_where (\<lambda>x. us_uid x = uid)
                 (\<lambda>x. x\<lparr>us_email := email, us_groups := groups, us_updated := db_now d\<rparr>) (db_users d)\<rparr>))
     | None \<Rightarrow>
         (let u = new_user (db_next d) (db_now d) uid email [] groups
          in (Inr u, d\<lparr>db_users := db_users d @ [u], db_next := db_next d + 1\<rparr>)))"

definition user_by_id :: "uuid \<Rightarrow> user query" where
  "user_by_id i = db_call (\<lambda>d. (one_row (find (\<lambda>u. us_id u = i) (db_users d)), d))"

definition user_list :: "int \<Rightarrow> int \<Rightarrow> user list query" where
  "user_list limit offset = db_call (\<lambda>d. (Inr (page limit offset (newest_first us_created (db_users d))), d))"

definition user_count :: "int query" where
  "user_count = db_call (\<lambda>d. (Inr (int (length (db_users d))), d))"

definition user_update :: "user \<Rightarrow> unit query" where
  "user_update u = db_call (\<lambda>d.
     (Inr (), d\<lparr>db_users := map_where (\<lambda>x. us_id x = us_id u)
        (\<lambda>x. x\<lparr>us_email := us_email u, us_name := us_name u, us_groups := us_groups u, us_updated := db_now d\<rparr>)
        (db_users d)\<rparr>))"

definition user_ban :: "uuid \<Rightarrow> string \<Rightarrow> unit query" where
  "user_ban i reason = db_call (\<lambda>d.
     (Inr (), d\<lparr>db_users := map_where (\<lambda>x. us_id x = i)
        (\<lambda>x. x\<lparr>us_banned := True, us_banned_at := Some (db_now d), us_reason := reason, us_updated := db_now d\<rparr>)
        (db_users d)\<rparr>))"

definition user_unban :: "uuid \<Rightarrow> unit query" where
  "user_unban i = db_call (\<lambda>d.
     (Inr (), d\<lparr>db_users := map_where (\<lambda>x. us_id x = i)
        (\<lambda>x. x\<lparr>us_banned := False, us_banned_at := None, us_reason := [], us_updated := db_now d\<rparr>)
        (db_users d)\<rparr>))"

text \<open>A user takes the connections, the meshes and the memberships along; audit rows and the
  extension origins forget who it was.\<close>

definition user_delete :: "uuid \<Rightarrow> unit query" where
  "user_delete i = db_call (\<lambda>d.
     let d1 = drop_meshes (\<lambda>m. me_owner m = i) (drop_peers (\<lambda>p. pe_user p = i) d) in
     (Inr (), d1\<lparr>db_users := filter (\<lambda>u. us_id u \<noteq> i) (db_users d1),
        db_members := filter (\<lambda>m. mm_user m \<noteq> i) (db_members d1),
        db_audits := map_where (\<lambda>a. au_user a = Some i) (\<lambda>a. a\<lparr>au_user := None\<rparr>) (db_audits d1),
        db_extensions := map_where (\<lambda>e. eo_user e = Some i) (\<lambda>e. e\<lparr>eo_user := None\<rparr>) (db_extensions d1)\<rparr>))"

definition user_create :: "string \<Rightarrow> string \<Rightarrow> string \<Rightarrow> string list \<Rightarrow> user query" where
  "user_create uid email name groups = db_call (\<lambda>d.
     if list_ex (\<lambda>u. us_uid u = uid) (db_users d) then (Inl UniqueViolation, d)
     else let u = new_user (db_next d) (db_now d) uid email name groups
          in (Inr u, d\<lparr>db_users := db_users d @ [u], db_next := db_next d + 1\<rparr>))"

section \<open>\<^verbatim>\<open>ServerRepo\<close>\<close>

text \<open>The rows as the two scanners return them.\<close>

definition scan_server_with_token :: "server \<Rightarrow> server" where
  "scan_server_with_token s = apply_capabilities s"

definition scan_server_public :: "server \<Rightarrow> server" where
  "scan_server_public s = apply_capabilities (s\<lparr>sv_token := []\<rparr>)"

text \<open>The cached list of active servers and when it was read; the zero time is \<open>None\<close>.\<close>

record server_repo =
  sr_cached :: "server list option"
  sr_time :: "time option"

definition new_server_repo :: server_repo where
  "new_server_repo = \<lparr>sr_cached = None, sr_time = None\<rparr>"

definition cache_ttl :: time where
  "cache_ttl = 30 * second"

definition invalidate_cache :: "server_repo \<Rightarrow> server_repo" where
  "invalidate_cache r = r\<lparr>sr_time := None\<rparr>"

definition cache_fresh :: "time \<Rightarrow> server_repo \<Rightarrow> bool" where
  "cache_fresh now r = (case sr_time r of None \<Rightarrow> False | Some t \<Rightarrow> now - t < cache_ttl)"

definition active_servers :: "db \<Rightarrow> server list" where
  "active_servers d = map scan_server_public (sort_key sv_name (filter sv_active (db_servers d)))"

definition server_list_active :: "server_repo \<Rightarrow> db \<Rightarrow> (db_err + server list) \<times> server_repo \<times> db" where
  "server_list_active r d =
     (case sr_cached r of
        Some xs \<Rightarrow>
          if cache_fresh (db_now d) r then (Inr xs, r, d)
          else (case db_call (\<lambda>d. (Inr (active_servers d), d)) d of
                  (Inl e, d1) \<Rightarrow> (Inl e, r, d1)
                | (Inr ys, d1) \<Rightarrow> (Inr ys, \<lparr>sr_cached = Some ys, sr_time = Some (db_now d1)\<rparr>, d1))
      | None \<Rightarrow>
          (case db_call (\<lambda>d. (Inr (active_servers d), d)) d of
             (Inl e, d1) \<Rightarrow> (Inl e, r, d1)
           | (Inr ys, d1) \<Rightarrow> (Inr ys, \<lparr>sr_cached = Some ys, sr_time = Some (db_now d1)\<rparr>, d1)))"

definition server_create :: "server \<Rightarrow> server query" where
  "server_create s = db_call (\<lambda>d.
     let row = s\<lparr>sv_id := db_next d, sv_cur := 0, sv_active := True, sv_created := db_now d, sv_updated := db_now d\<rparr>
     in (Inr (s\<lparr>sv_id := db_next d, sv_created := db_now d, sv_updated := db_now d\<rparr>),
         d\<lparr>db_servers := db_servers d @ [row], db_next := db_next d + 1\<rparr>))"

definition server_by_id :: "uuid \<Rightarrow> server query" where
  "server_by_id i = db_call (\<lambda>d.
     (one_row (map_option scan_server_with_token (find (\<lambda>s. sv_id s = i) (db_servers d))), d))"

definition server_list_all :: "server list query" where
  "server_list_all = db_call (\<lambda>d. (Inr (map scan_server_with_token (sort_key sv_name (db_servers d))), d))"

text \<open>The load is a quotient of integers; a full or inactive server is never picked.\<close>

definition load :: "server \<Rightarrow> rat" where
  "load s = of_int (sv_cur s) / of_int (max (sv_max s) 1)"

definition server_least_loaded :: "server query" where
  "server_least_loaded = db_call (\<lambda>d.
     (one_row (case sort_key load (filter (\<lambda>s. sv_active s \<and> sv_cur s < sv_max s) (db_servers d)) of
        [] \<Rightarrow> None | s # _ \<Rightarrow> Some (scan_server_with_token s)), d))"

definition server_update :: "server \<Rightarrow> unit query" where
  "server_update s = db_call (\<lambda>d.
     (Inr (), d\<lparr>db_servers := map_where (\<lambda>x. sv_id x = sv_id s)
        (\<lambda>x. x\<lparr>sv_name := sv_name s, sv_host := sv_host s, sv_endpoint := sv_endpoint s, sv_port := sv_port s,
               sv_wg_port := sv_wg_port s, sv_key := sv_key s, sv_token := sv_token s, sv_location := sv_location s,
               sv_country := sv_country s, sv_max := sv_max s, sv_active := sv_active s,
               sv_proxy_port := sv_proxy_port s, sv_updated := db_now d\<rparr>) (db_servers d)\<rparr>))"

definition server_update_peer_count :: "uuid \<Rightarrow> int \<Rightarrow> unit query" where
  "server_update_peer_count i delta = db_call (\<lambda>d.
     (Inr (), d\<lparr>db_servers := map_where (\<lambda>x. sv_id x = i)
        (\<lambda>x. x\<lparr>sv_cur := max (sv_cur x + delta) 0, sv_updated := db_now d\<rparr>) (db_servers d)\<rparr>))"

definition server_reserve_slot :: "uuid \<Rightarrow> bool query" where
  "server_reserve_slot i = db_call (\<lambda>d.
     let p = (\<lambda>x. sv_id x = i \<and> sv_active x \<and> sv_cur x < sv_max x) in
     (Inr (length (filter p (db_servers d)) = 1),
      d\<lparr>db_servers := map_where p (\<lambda>x. x\<lparr>sv_cur := sv_cur x + 1, sv_updated := db_now d\<rparr>) (db_servers d)\<rparr>))"

definition server_set_peer_count :: "uuid \<Rightarrow> int \<Rightarrow> unit query" where
  "server_set_peer_count i n = db_call (\<lambda>d.
     (Inr (), d\<lparr>db_servers := map_where (\<lambda>x. sv_id x = i)
        (\<lambda>x. x\<lparr>sv_cur := n, sv_updated := db_now d\<rparr>) (db_servers d)\<rparr>))"

definition server_count :: "(int \<times> int) query" where
  "server_count = db_call (\<lambda>d.
     (Inr (int (length (db_servers d)), int (length (filter sv_active (db_servers d)))), d))"

definition server_delete :: "uuid \<Rightarrow> unit query" where
  "server_delete i = db_call (\<lambda>d.
     let d1 = drop_peers (\<lambda>p. pe_server p = i) d in
     (Inr (), d1\<lparr>db_servers := filter (\<lambda>s. sv_id s \<noteq> i) (db_servers d1)\<rparr>))"

section \<open>\<^verbatim>\<open>PeerRepo\<close>\<close>

text \<open>\<^verbatim>\<open>CHECK (assigned_ip ~ '^[0-9]{1,3}(\.[0-9]{1,3}){3}/[0-9]{1,2}$')\<close>\<close>

definition digits_between :: "nat \<Rightarrow> nat \<Rightarrow> string \<Rightarrow> bool" where
  "digits_between lo hi s \<longleftrightarrow> lo \<le> length s \<and> length s \<le> hi \<and> list_all is_digit s"

definition assigned_ip_ok :: "string \<Rightarrow> bool" where
  "assigned_ip_ok s =
     (case split_on (CHR ''/'') s of
        [host, bits] \<Rightarrow>
          length (split_on (CHR ''.'') host) = 4 \<and> list_all (digits_between 1 3) (split_on (CHR ''.'') host) \<and>
          digits_between 1 2 bits
      | _ \<Rightarrow> False)"

definition peer_create :: "uuid \<Rightarrow> uuid \<Rightarrow> string \<Rightarrow> string \<Rightarrow> string \<Rightarrow> peer query" where
  "peer_create user server key ip device = db_call (\<lambda>d.
     if \<not> assigned_ip_ok ip then (Inl CheckViolation, d)
     else if list_ex (\<lambda>p. pe_active p \<and> pe_server p = server \<and> pe_key p = key) (db_peers d) then (Inl UniqueViolation, d)
     else if \<not> list_ex (\<lambda>u. us_id u = user) (db_users d) \<or> \<not> list_ex (\<lambda>s. sv_id s = server) (db_servers d)
     then (Inl ForeignKeyViolation, d)
     else let p = \<lparr>pe_id = db_next d, pe_user = user, pe_server = server, pe_key = key, pe_ip = ip, pe_active = True,
                   pe_device = device, pe_handshake = None, pe_sent = 0, pe_recv = 0, pe_created = db_now d,
                   pe_expires = None\<rparr>
          in (Inr p, d\<lparr>db_peers := db_peers d @ [p], db_next := db_next d + 1\<rparr>))"

definition peer_by_id :: "uuid \<Rightarrow> peer query" where
  "peer_by_id i = db_call (\<lambda>d. (one_row (find (\<lambda>p. pe_id p = i) (db_peers d)), d))"

definition peer_list_by_user :: "uuid \<Rightarrow> peer list query" where
  "peer_list_by_user i = db_call (\<lambda>d.
     (Inr (newest_first pe_created (filter (\<lambda>p. pe_user p = i) (db_peers d))), d))"

definition peer_list_by_server :: "uuid \<Rightarrow> peer list query" where
  "peer_list_by_server i = db_call (\<lambda>d.
     (Inr (newest_first pe_created (filter (\<lambda>p. pe_server p = i) (db_peers d))), d))"

text \<open>With the e-mail of the owner, or the empty string.\<close>

definition email_of :: "db \<Rightarrow> uuid \<Rightarrow> string" where
  "email_of d i = (case find (\<lambda>u. us_id u = i) (db_users d) of None \<Rightarrow> [] | Some u \<Rightarrow> us_email u)"

definition peer_list_all :: "int \<Rightarrow> int \<Rightarrow> (peer \<times> string) list query" where
  "peer_list_all limit offset = db_call (\<lambda>d.
     (Inr (page limit offset (map (\<lambda>p. (p, email_of d (pe_user p))) (newest_first pe_created (db_peers d)))), d))"

definition peer_list_active_by_server :: "uuid \<Rightarrow> peer list query" where
  "peer_list_active_by_server i = db_call (\<lambda>d.
     (Inr (newest_first pe_created (filter (\<lambda>p. pe_server p = i \<and> pe_active p) (db_peers d))), d))"

text \<open>Expired, silent since the window, or never heard from since before it.\<close>

definition stale :: "time \<Rightarrow> time \<Rightarrow> peer \<Rightarrow> bool" where
  "stale now window p \<longleftrightarrow>
     pe_active p \<and>
     ((case pe_expires p of None \<Rightarrow> False | Some t \<Rightarrow> t < now) \<or>
      (case pe_handshake p of
         Some t \<Rightarrow> t < now - window div second * second
       | None \<Rightarrow> pe_created p < now - window div second * second))"

definition peer_list_stale :: "time \<Rightarrow> peer list query" where
  "peer_list_stale window = db_call (\<lambda>d. (Inr (filter (stale (db_now d) window) (db_peers d)), d))"

definition peer_update_stats :: "uuid \<Rightarrow> int \<Rightarrow> int \<Rightarrow> time option \<Rightarrow> unit query" where
  "peer_update_stats i sent recv handshake = db_call (\<lambda>d.
     (Inr (), d\<lparr>db_peers := map_where (\<lambda>p. pe_id p = i)
        (\<lambda>p. p\<lparr>pe_sent := sent, pe_recv := recv, pe_handshake := handshake\<rparr>) (db_peers d)\<rparr>))"

definition peer_deactivate :: "uuid \<Rightarrow> unit query" where
  "peer_deactivate i = db_call (\<lambda>d.
     (Inr (), d\<lparr>db_peers := map_where (\<lambda>p. pe_id p = i) (\<lambda>p. p\<lparr>pe_active := False\<rparr>) (db_peers d)\<rparr>))"

definition peer_delete :: "uuid \<Rightarrow> unit query" where
  "peer_delete i = db_call (\<lambda>d. (Inr (), drop_peers (\<lambda>p. pe_id p = i) d))"

definition peer_count_by_user :: "uuid \<Rightarrow> int query" where
  "peer_count_by_user i = db_call (\<lambda>d.
     (Inr (int (length (filter (\<lambda>p. pe_user p = i \<and> pe_active p) (db_peers d)))), d))"

definition peer_active_by_user_key :: "uuid \<Rightarrow> string \<Rightarrow> peer query" where
  "peer_active_by_user_key i key = db_call (\<lambda>d.
     (one_row (find (\<lambda>p. pe_user p = i \<and> pe_key p = key \<and> pe_active p) (db_peers d)), d))"

definition peer_count_all :: "(int \<times> int) query" where
  "peer_count_all = db_call (\<lambda>d. (Inr (int (length (db_peers d)), int (length (filter pe_active (db_peers d)))), d))"

definition peer_total_traffic :: "(int \<times> int) query" where
  "peer_total_traffic = db_call (\<lambda>d. (Inr (sum_list (map pe_sent (db_peers d)), sum_list (map pe_recv (db_peers d))), d))"

section \<open>\<^verbatim>\<open>AuditRepo\<close>\<close>

text \<open>\<open>sha\<close> is \<^verbatim>\<open>sha256.Sum256\<close>.\<close>

definition hex_byte :: "nat \<Rightarrow> string" where
  "hex_byte n = [''0123456789abcdef'' ! (n div 16 mod 16), ''0123456789abcdef'' ! (n mod 16)]"

definition mask_ip :: "(string \<Rightarrow> nat list) \<Rightarrow> string \<Rightarrow> string" where
  "mask_ip sha raw =
     (let ip = trim_space raw in
      if ip = [] \<or> ip = ''system'' then ip
      else let short = concat (map hex_byte (take 4 (sha ip))) in
        case last_index_byte ip (CHR ''.'') of
          Some i \<Rightarrow> take i ip @ ''.x ['' @ short @ '']''
        | None \<Rightarrow>
            (case last_index_byte ip (CHR '':'') of
               Some i \<Rightarrow> take i ip @ '':x ['' @ short @ '']''
             | None \<Rightarrow> ip))"

definition audit_log :: "(string \<Rightarrow> nat list) \<Rightarrow> uuid option \<Rightarrow> string \<Rightarrow> (string \<times> meta) list \<Rightarrow> string \<Rightarrow> unit query" where
  "audit_log sha user action metadata ip = db_call (\<lambda>d.
     case user of
       Some i \<Rightarrow>
         if list_ex (\<lambda>u. us_id u = i) (db_users d) then
           (Inr (), d\<lparr>db_audits := db_audits d @
              [\<lparr>au_user = Some i, au_action = action, au_meta = metadata, au_ip = mask_ip sha ip, au_created = db_now d\<rparr>]\<rparr>)
         else (Inl ForeignKeyViolation, d)
     | None \<Rightarrow>
         (Inr (), d\<lparr>db_audits := db_audits d @
            [\<lparr>au_user = None, au_action = action, au_meta = metadata, au_ip = mask_ip sha ip, au_created = db_now d\<rparr>]\<rparr>))"

definition audit_email :: "db \<Rightarrow> audit \<Rightarrow> audit \<times> string" where
  "audit_email d a = (a, case au_user a of None \<Rightarrow> [] | Some i \<Rightarrow> email_of d i)"

definition audit_list_by_user :: "uuid \<Rightarrow> int \<Rightarrow> int \<Rightarrow> (audit \<times> string) list query" where
  "audit_list_by_user i limit offset = db_call (\<lambda>d.
     (Inr (page limit offset (map (audit_email d)
        (newest_first au_created (filter (\<lambda>a. au_user a = Some i) (db_audits d))))), d))"

definition audit_list_all :: "int \<Rightarrow> int \<Rightarrow> string \<Rightarrow> (audit \<times> string) list query" where
  "audit_list_all limit offset action = db_call (\<lambda>d.
     (Inr (page limit offset (map (audit_email d)
        (newest_first au_created (filter (\<lambda>a. action \<noteq> [] \<longrightarrow> au_action a = action) (db_audits d))))), d))"

section \<open>Statements that go through\<close>

lemma db_call_ok: "db_faults d = [] \<Longrightarrow> db_call q d = q d"
  by (simp add: db_call_def)

lemma db_call_cases:
  obtains (down) bs where "db_faults d = True # bs" "db_call q d = (Inl DbDown, d\<lparr>db_faults := bs\<rparr>)"
  | (runs) bs where "db_call q d = q (d\<lparr>db_faults := bs\<rparr>)"
proof (cases "db_faults d")
  case Nil
  then have e: "d\<lparr>db_faults := []\<rparr> = d" by simp
  show thesis by (rule runs [of "[]"]) (simp only: e, simp add: db_call_def Nil)
next
  case (Cons b bs)
  then show thesis using down runs [of bs] by (cases b) (auto simp: db_call_def)
qed

lemma filter_key_unique:
  "distinct (map f xs) \<Longrightarrow> find (\<lambda>x. f x = k) xs = Some a \<Longrightarrow> filter (\<lambda>x. f x = k \<and> q x) xs = (if q a then [a] else [])"
proof (induction xs)
  case (Cons x xs)
  show ?case
  proof (cases "f x = k")
    case True
    then have "\<forall>y \<in> set xs. f y \<noteq> k" using Cons.prems(1) True by (fastforce simp: image_iff)
    then have "filter (\<lambda>x. f x = k \<and> q x) xs = []" by (auto simp: filter_empty_conv)
    then show ?thesis using True Cons.prems(2) by simp
  next
    case False
    then show ?thesis using Cons by simp
  qed
qed simp

lemma find_map_where_key:
  assumes "find (\<lambda>x. f x = k) xs = Some a" and "\<And>x. f (g x) = f x"
  shows "find (\<lambda>x. f x = k) (map_where p g xs) = Some (if p a then g a else a)"
  using assms by (induction xs) (auto split: if_splits)

lemma find_map_where_other:
  assumes "\<And>x. p x \<Longrightarrow> f x = i" and "j \<noteq> i" and "\<And>x. f (g x) = f x"
  shows "find (\<lambda>x. f x = j) (map_where p g xs) = find (\<lambda>x. f x = j) xs"
  using assms by (induction xs) auto

section \<open>A server never takes more peers than it has slots\<close>

text \<open>The row of a server.\<close>

definition server_row :: "db \<Rightarrow> uuid \<Rightarrow> server option" where
  "server_row d i = find (\<lambda>s. sv_id s = i) (db_servers d)"

lemma reserve_slot_step:
  assumes "db_faults d = []" and "distinct (map sv_id (db_servers d))" and row: "server_row d i = Some s"
  shows "\<exists>d'. server_reserve_slot i d = (Inr (sv_active s \<and> sv_cur s < sv_max s), d') \<and> db_faults d' = [] \<and>
      map sv_id (db_servers d') = map sv_id (db_servers d) \<and>
      server_row d' i = Some (if sv_active s \<and> sv_cur s < sv_max s
                              then s\<lparr>sv_cur := sv_cur s + 1, sv_updated := db_now d\<rparr> else s) \<and>
      (\<forall>j. j \<noteq> i \<longrightarrow> server_row d' j = server_row d j)"
proof -
  let ?p = "\<lambda>x. sv_id x = i \<and> sv_active x \<and> sv_cur x < sv_max x"
  let ?g = "\<lambda>x. x\<lparr>sv_cur := sv_cur x + 1, sv_updated := db_now d\<rparr>"
  let ?d = "d\<lparr>db_servers := map_where ?p ?g (db_servers d)\<rparr>"
  have sid: "sv_id s = i" using row by (auto simp: server_row_def dest: find_SomeD)
  have "length (filter ?p (db_servers d)) = 1 \<longleftrightarrow> sv_active s \<and> sv_cur s < sv_max s"
    using filter_key_unique [of sv_id "db_servers d" i s "\<lambda>x. sv_active x \<and> sv_cur x < sv_max x"] assms(2) row
    by (simp add: server_row_def)
  then have r: "server_reserve_slot i d = (Inr (sv_active s \<and> sv_cur s < sv_max s), ?d)"
    using assms(1) by (simp add: server_reserve_slot_def db_call_ok)
  have "server_row ?d i = Some (if ?p s then ?g s else s)"
    using row find_map_where_key [of sv_id i "db_servers d" s ?g ?p] by (simp add: server_row_def)
  moreover have "server_row ?d j = server_row d j" if "j \<noteq> i" for j
    using that find_map_where_other [of ?p sv_id i j ?g "db_servers d"] by (simp add: server_row_def)
  moreover have "map sv_id (db_servers ?d) = map sv_id (db_servers d)" by (simp add: map_map_where)
  ultimately show ?thesis using r assms(1) sid by auto
qed

text \<open>A number of attempts, and how many succeed.\<close>

fun reserve_many :: "nat \<Rightarrow> uuid \<Rightarrow> db \<Rightarrow> nat \<times> db" where
  "reserve_many 0 i d = (0, d)"
| "reserve_many (Suc n) i d =
     (case server_reserve_slot i d of
        (r, d1) \<Rightarrow> (case reserve_many n i d1 of (k, d2) \<Rightarrow> ((if r = Inr True then 1 else 0) + k, d2)))"

text \<open>C13: of any number of callers that ask for a slot of an active server, exactly as many get one as
  there are free slots (or as there are callers), and the count of the server grows by that number.\<close>

theorem reserve_slot_capacity:
  assumes "db_faults d = []" and "distinct (map sv_id (db_servers d))" and "server_row d i = Some s"
    and "sv_active s" and "sv_cur s \<le> sv_max s"
  shows "fst (reserve_many n i d) = min n (nat (sv_max s - sv_cur s)) \<and>
     (\<exists>s'. server_row (snd (reserve_many n i d)) i = Some s' \<and> sv_max s' = sv_max s \<and>
           sv_cur s' = sv_cur s + int (fst (reserve_many n i d)))"
  using assms
proof (induction n arbitrary: d s)
  case 0
  then show ?case by simp
next
  case (Suc n)
  obtain d' where r: "server_reserve_slot i d = (Inr (sv_cur s < sv_max s), d')" and d': "db_faults d' = []"
    "distinct (map sv_id (db_servers d'))"
    "server_row d' i = Some (if sv_cur s < sv_max s then s\<lparr>sv_cur := sv_cur s + 1, sv_updated := db_now d\<rparr> else s)"
    using reserve_slot_step [OF Suc.prems(1-3)] Suc.prems(2,4) by auto
  obtain k d2 where k: "reserve_many n i d' = (k, d2)" by fastforce
  show ?case
  proof (cases "sv_cur s < sv_max s")
    case True
    then show ?thesis using Suc.IH [OF d'] Suc.prems(4) r k by auto
  next
    case False
    then show ?thesis using Suc.IH [OF d'] Suc.prems(4,5) r k by auto
  qed
qed

definition demo_db :: db where
  "demo_db = \<lparr>db_users = [], db_servers =
      [\<lparr>sv_id = 1, sv_name = ''s'', sv_host = ''core'', sv_endpoint = [], sv_port = 8443, sv_wg_port = 51820,
        sv_key = ''k'', sv_token = ''t'', sv_location = [], sv_country = [], sv_max = 3, sv_cur = 1, sv_active = True,
        sv_proxy_port = 0, sv_wireguard = False, sv_proxy = False, sv_exit = False, sv_created = 0, sv_updated = 0\<rparr>],
      db_peers = [], db_audits = [], db_meshes = [], db_members = [], db_selections = [], db_extensions = [],
      db_countries = [], db_next = 10, db_now = 0, db_faults = []\<rparr>"

theorem reserve_slot_capacity_witness:
  "fst (reserve_many 5 1 demo_db) = 2"
proof -
  obtain s where s: "server_row demo_db 1 = Some s" "sv_active s" "sv_cur s = 1" "sv_max s = 3"
    by (simp add: server_row_def demo_db_def)
  have "fst (reserve_many 5 1 demo_db) = min 5 (nat (sv_max s - sv_cur s))"
    using reserve_slot_capacity [of demo_db 1 s 5] s by (simp add: demo_db_def)
  then show ?thesis using s by simp
qed

section \<open>Audit rows hide addresses, or not\<close>

lemma last_index_byte_append:
  "c \<notin> set ys \<Longrightarrow> last_index_byte (xs @ c # ys) c = Some (length xs)"
proof -
  assume "c \<notin> set ys"
  then have "index_byte (rev ys @ c # zs) c = Some (length ys)" for zs
  proof -
    have "c \<notin> set us \<Longrightarrow> index_byte (us @ c # zs) c = Some (length us)" for us
      by (induction us) auto
    then show ?thesis using \<open>c \<notin> set ys\<close> by (metis length_rev set_rev)
  qed
  then show ?thesis by (simp add: last_index_byte_def)
qed

lemma last_index_byte_None: "c \<notin> set xs \<Longrightarrow> last_index_byte xs c = None"
proof -
  assume "c \<notin> set xs"
  moreover have "c \<notin> set us \<Longrightarrow> index_byte us c = None" for us by (induction us) auto
  ultimately show ?thesis by (simp add: last_index_byte_def)
qed



end
