(* ===== verification/MeshStore.thy ===== *)
theory MeshStore
  imports Database GoNet
begin

text \<open>
  \<^verbatim>\<open>internal/repo/mesh.go\<close>, \<^verbatim>\<open>exit_node.go\<close> and \<^verbatim>\<open>trusted_extension.go\<close>: mesh networks and their
  members, the exit nodes members offer and users select, and the browser-extension origins
  trusted on first use. The conventions are those of \<open>Database\<close>; the random source of
  \<^verbatim>\<open>uuid.NewRandom\<close> is an argument, \<open>None\<close> if it fails.
\<close>

datatype mesh_err = MeshDb db_err | BadSubnet | NoSubnet | SubnetFull | NotIPv4 | NoRandom

type_synonym 'a mesh_query = "db \<Rightarrow> (mesh_err + 'a) \<times> db"

definition of_db :: "'a query \<Rightarrow> 'a mesh_query" where
  "of_db q d = (case q d of (Inl e, d1) \<Rightarrow> (Inl (MeshDb e), d1) | (Inr x, d1) \<Rightarrow> (Inr x, d1))"

section \<open>Names\<close>

definition valid_mesh_country_code :: "string \<Rightarrow> bool" where
  "valid_mesh_country_code cc \<longleftrightarrow> length cc = 2 \<and> list_all is_upper cc \<and> cc \<noteq> ''XX''"

text \<open>UTF-8: the white flag with its variation selector, and a regional indicator symbol.\<close>

definition white_flag :: string where
  "white_flag = map char_of [0xF0::nat, 0x9F, 0x8F, 0xB3, 0xEF, 0xB8, 0x8F]"

definition regional_indicator :: "char \<Rightarrow> string" where
  "regional_indicator c = map char_of [0xF0::nat, 0x9F, 0x87, 0xA6 + (code c - 65)]"

definition mesh_country_flag :: "string \<Rightarrow> string" where
  "mesh_country_flag c =
     (let cc = to_upper c in
      if \<not> valid_mesh_country_code cc then white_flag
      else regional_indicator (cc ! 0) @ regional_indicator (cc ! 1))"

definition normalize_public_mesh_name :: "mesh \<Rightarrow> mesh" where
  "normalize_public_mesh_name m =
     (if \<not> me_session m then m
      else let m1 = m\<lparr>me_country := to_upper (me_country m)\<rparr> in
        if \<not> valid_mesh_country_code (me_country m1) then m1
        else m1\<lparr>me_name := ''Servidor Comunitario '' @ mesh_country_flag (me_country m1) @ '' ['' @ me_country m1 @ '']''\<rparr>)"

section \<open>Addresses\<close>

definition mesh_subnet_base :: string where
  "mesh_subnet_base = ''10.200''"

definition subnet_candidate :: "nat \<Rightarrow> string" where
  "subnet_candidate i = mesh_subnet_base @ ''.'' @ itoa_nat i @ ''.0/24''"

definition next_available_subnet :: "string mesh_query" where
  "next_available_subnet d =
     (case db_call (\<lambda>d. (Inr (map me_subnet (db_meshes d)), d)) d of
        (Inl e, d1) \<Rightarrow> (Inl (MeshDb e), d1)
      | (Inr taken, d1) \<Rightarrow>
          (case first_from 1 254 (\<lambda>i. subnet_candidate i \<notin> set taken) of
             None \<Rightarrow> (Inl NoSubnet, d1)
           | Some i \<Rightarrow> (Inr (subnet_candidate i), d1)))"

definition host_candidate :: "u32 \<Rightarrow> nat \<Rightarrow> string" where
  "host_candidate base i = dotted (octet 3 base) (octet 2 base) (octet 1 base) i"

definition next_mesh_ip :: "uuid \<Rightarrow> string \<Rightarrow> string mesh_query" where
  "next_mesh_ip mesh subnet d =
     (case parse_cidr subnet of
        None \<Rightarrow> (Inl BadSubnet, d)
      | Some (_, nw) \<Rightarrow>
          (case db_call (\<lambda>d. (Inr (map mm_ip (filter (\<lambda>m. mm_mesh m = mesh) (db_members d))), d)) d of
             (Inl e, d1) \<Rightarrow> (Inl (MeshDb e), d1)
           | (Inr taken, d1) \<Rightarrow>
               (case to4 (net_ip nw) of
                  None \<Rightarrow> (Inl NotIPv4, d1)
                | Some base \<Rightarrow>
                    (case first_from 2 254 (\<lambda>i. host_candidate base i \<notin> set taken) of
                       None \<Rightarrow> (Inl SubnetFull, d1)
                     | Some i \<Rightarrow> (Inr (host_candidate base i), d1)))))"

section \<open>Mesh networks\<close>

text \<open>The insertion: the columns, then the unique indexes and the foreign key.\<close>

definition insert_mesh :: "mesh \<Rightarrow> mesh query" where
  "insert_mesh m = db_call (\<lambda>d.
     if 2 < length (me_country m) then (Inl CheckViolation, d)
     else if list_ex (\<lambda>x. me_invite x = me_invite m) (db_meshes d) \<or>
             me_session m \<and> list_ex (\<lambda>x. me_session x \<and> me_owner x = me_owner m) (db_meshes d)
     then (Inl UniqueViolation, d)
     else if \<not> list_ex (\<lambda>u. us_id u = me_owner m) (db_users d) then (Inl ForeignKeyViolation, d)
     else let r = m\<lparr>me_id := db_next d, me_active := True, me_created := db_now d, me_updated := db_now d\<rparr>
          in (Inr r, d\<lparr>db_meshes := db_meshes d @ [r], db_next := db_next d + 1\<rparr>))"

definition mesh_create :: "string option \<Rightarrow> mesh \<Rightarrow> mesh mesh_query" where
  "mesh_create rnd m d =
     (case rnd of
        None \<Rightarrow> (Inl NoRandom, d)
      | Some invite \<Rightarrow> of_db (insert_mesh (m\<lparr>me_invite := invite\<rparr>)) d)"

text \<open>A row as the selections read it, with the number of its members.\<close>

definition member_count :: "db \<Rightarrow> uuid \<Rightarrow> nat" where
  "member_count d i = length (filter (\<lambda>m. mm_mesh m = i) (db_members d))"

definition scan_mesh :: "db \<Rightarrow> mesh \<Rightarrow> mesh" where
  "scan_mesh d m = normalize_public_mesh_name (m\<lparr>me_count := member_count d (me_id m)\<rparr>)"

definition mesh_session_by_owner :: "uuid \<Rightarrow> mesh query" where
  "mesh_session_by_owner owner = db_call (\<lambda>d.
     (one_row (map_option (scan_mesh d) (find (\<lambda>m. me_owner m = owner \<and> me_session m) (db_meshes d))), d))"

definition mesh_create_session :: "string option \<Rightarrow> mesh \<Rightarrow> mesh mesh_query" where
  "mesh_create_session rnd m0 d =
     (let m = m0\<lparr>me_session := True\<rparr> in
      case mesh_create rnd m d of
        (Inr r, d1) \<Rightarrow> (Inr r, d1)
      | (Inl e, d1) \<Rightarrow>
          if e \<noteq> MeshDb UniqueViolation then (Inl e, d1)
          else of_db (mesh_session_by_owner (me_owner m)) d1)"

definition mesh_by_id :: "uuid \<Rightarrow> mesh query" where
  "mesh_by_id i = db_call (\<lambda>d. (one_row (map_option (scan_mesh d) (find (\<lambda>m. me_id m = i) (db_meshes d))), d))"

definition mesh_by_invite :: "string \<Rightarrow> mesh query" where
  "mesh_by_invite invite = db_call (\<lambda>d.
     (one_row (map_option (scan_mesh d)
        (find (\<lambda>m. me_invite m = invite \<and>
                 (case me_invite_expires m of None \<Rightarrow> True | Some t \<Rightarrow> db_now d < t)) (db_meshes d))), d))"

definition mesh_list_by_user :: "uuid \<Rightarrow> mesh list query" where
  "mesh_list_by_user i = db_call (\<lambda>d.
     (Inr (map (scan_mesh d) (newest_first me_created
        (filter (\<lambda>n. me_owner n = i \<or> list_ex (\<lambda>mm. mm_mesh mm = me_id n \<and> mm_user mm = i) (db_members d))
           (db_meshes d)))), d))"

definition mesh_list_public :: "mesh list query" where
  "mesh_list_public = db_call (\<lambda>d.
     (Inr (map (\<lambda>m. (scan_mesh d m)\<lparr>me_invite := [], me_owner := 0\<rparr>) (newest_first me_created
        (filter (\<lambda>n. me_session n \<and> me_active n \<and> valid_mesh_country_code (me_country n)) (db_meshes d)))), d))"

definition mesh_delete :: "uuid \<Rightarrow> unit query" where
  "mesh_delete i = db_call (\<lambda>d. (Inr (), drop_meshes (\<lambda>m. me_id m = i) d))"

section \<open>Members\<close>

definition mesh_member :: "uuid \<Rightarrow> uuid \<Rightarrow> member query" where
  "mesh_member mesh user = db_call (\<lambda>d.
     (one_row (find (\<lambda>m. mm_mesh m = mesh \<and> mm_user m = user) (db_members d)), d))"

definition insert_member :: "uuid \<Rightarrow> uuid \<Rightarrow> uuid option \<Rightarrow> string \<Rightarrow> member query" where
  "insert_member mesh user peer ip = db_call (\<lambda>d.
     if list_ex (\<lambda>m. mm_mesh m = mesh \<and> (mm_user m = user \<or> mm_ip m = ip)) (db_members d) then (Inl UniqueViolation, d)
     else if \<not> list_ex (\<lambda>x. me_id x = mesh) (db_meshes d) \<or> \<not> list_ex (\<lambda>u. us_id u = user) (db_users d) \<or>
             (case peer of None \<Rightarrow> False | Some p \<Rightarrow> \<not> list_ex (\<lambda>x. pe_id x = p) (db_peers d))
     then (Inl ForeignKeyViolation, d)
     else let r = \<lparr>mm_id = db_next d, mm_mesh = mesh, mm_user = user, mm_peer = peer, mm_ip = ip, mm_name = [],
                   mm_joined = db_now d, mm_exit = False, mm_proxy_port = 0, mm_proxy_scheme = ''http-connect'',
                   mm_tcp = True, mm_udp = False\<rparr>
          in (Inr r, d\<lparr>db_members := db_members d @ [r], db_next := db_next d + 1\<rparr>))"

text \<open>
  The statements of the transaction in order; the row lock on the mesh makes them one step
  with respect to the other callers. A failure rolls the tables back.
\<close>

definition nothing :: "unit query" where
  "nothing = db_call (\<lambda>d. (Inr (), d))"

definition lock_mesh :: "uuid \<Rightarrow> string query" where
  "lock_mesh i = db_call (\<lambda>d. (one_row (map_option me_subnet (find (\<lambda>m. me_id m = i) (db_meshes d))), d))"

definition then_query :: "'a mesh_query \<Rightarrow> ('a \<Rightarrow> 'b mesh_query) \<Rightarrow> 'b mesh_query" where
  "then_query q f d = (case q d of (Inl e, d1) \<Rightarrow> (Inl e, d1) | (Inr x, d1) \<Rightarrow> f x d1)"

definition mesh_add_member :: "uuid \<Rightarrow> uuid \<Rightarrow> uuid option \<Rightarrow> member mesh_query" where
  "mesh_add_member mesh user peer d =
     (case then_query (of_db nothing) (\<lambda>_.
           then_query (of_db (lock_mesh mesh)) (\<lambda>subnet.
           then_query (next_mesh_ip mesh subnet) (\<lambda>ip.
           then_query (of_db (insert_member mesh user peer ip)) (\<lambda>m.
           then_query (of_db nothing) (\<lambda>_ d. (Inr m, d)))))) d of
        (Inr m, d1) \<Rightarrow> (Inr m, d1)
      | (Inl e, d1) \<Rightarrow> (Inl e, d\<lparr>db_faults := db_faults d1\<rparr>))"

definition mesh_remove_member :: "uuid \<Rightarrow> uuid \<Rightarrow> unit query" where
  "mesh_remove_member mesh user = db_call (\<lambda>d.
     (Inr (), d\<lparr>db_members := filter (\<lambda>m. \<not> (mm_mesh m = mesh \<and> mm_user m = user)) (db_members d)\<rparr>))"

text \<open>The display name is \<^verbatim>\<open>COALESCE(u.display_name, u.email, '')\<close>; that column is never null.\<close>

definition display_name :: "db \<Rightarrow> uuid \<Rightarrow> string" where
  "display_name d i = (case find (\<lambda>u. us_id u = i) (db_users d) of None \<Rightarrow> [] | Some u \<Rightarrow> us_name u)"

definition joined_members :: "db \<Rightarrow> uuid \<Rightarrow> member list" where
  "joined_members d mesh =
     filter (\<lambda>m. mm_mesh m = mesh \<and> list_ex (\<lambda>u. us_id u = mm_user m) (db_users d)) (sort_key mm_joined (db_members d))"

definition mesh_list_members :: "uuid \<Rightarrow> member list query" where
  "mesh_list_members mesh = db_call (\<lambda>d.
     (Inr (map (\<lambda>m. m\<lparr>mm_name := display_name d (mm_user m)\<rparr>) (joined_members d mesh)), d))"

definition mesh_count_members :: "uuid \<Rightarrow> int query" where
  "mesh_count_members i = db_call (\<lambda>d. (Inr (int (member_count d i)), d))"

definition mesh_count_by_owner :: "uuid \<Rightarrow> int query" where
  "mesh_count_by_owner i = db_call (\<lambda>d. (Inr (int (length (filter (\<lambda>m. me_owner m = i) (db_meshes d)))), d))"

definition mesh_regenerate_invite :: "string option \<Rightarrow> uuid \<Rightarrow> time option \<Rightarrow> (string \<times> time option) mesh_query" where
  "mesh_regenerate_invite rnd i expires d =
     (case rnd of
        None \<Rightarrow> (Inl NoRandom, d)
      | Some invite \<Rightarrow> of_db (db_call (\<lambda>d.
          if list_ex (\<lambda>m. me_id m = i) (db_meshes d) \<and> list_ex (\<lambda>m. me_id m \<noteq> i \<and> me_invite m = invite) (db_meshes d)
          then (Inl UniqueViolation, d)
          else (Inr (invite, expires), d\<lparr>db_meshes := map_where (\<lambda>m. me_id m = i)
                  (\<lambda>m. m\<lparr>me_invite := invite, me_invite_expires := expires, me_updated := db_now d\<rparr>) (db_meshes d)\<rparr>))) d)"

definition mesh_delete_stale_sessions :: "time \<Rightarrow> nat query" where
  "mesh_delete_stale_sessions age = db_call (\<lambda>d.
     let p = (\<lambda>m. me_session m \<and> me_updated m < db_now d - age) in
     (Inr (length (filter p (db_meshes d))), drop_meshes p d))"

definition mesh_touch_session :: "uuid \<Rightarrow> unit query" where
  "mesh_touch_session i = db_call (\<lambda>d.
     (Inr (), d\<lparr>db_meshes := map_where (\<lambda>m. me_id m = i \<and> me_session m)
        (\<lambda>m. m\<lparr>me_updated := db_now d\<rparr>) (db_meshes d)\<rparr>))"

definition mesh_update_session_origin :: "uuid \<Rightarrow> string \<Rightarrow> string \<Rightarrow> string \<Rightarrow> unit query" where
  "mesh_update_session_origin i name country public_ip = db_call (\<lambda>d.
     if 2 < length country \<and> list_ex (\<lambda>m. me_id m = i \<and> me_session m) (db_meshes d) then (Inl CheckViolation, d)
     else (Inr (), d\<lparr>db_meshes := map_where (\<lambda>m. me_id m = i \<and> me_session m)
        (\<lambda>m. m\<lparr>me_name := name, me_country := country, me_public_ip := public_ip, me_updated := db_now d\<rparr>)
        (db_meshes d)\<rparr>))"

definition mesh_update_member_peer :: "uuid \<Rightarrow> uuid \<Rightarrow> uuid option \<Rightarrow> unit query" where
  "mesh_update_member_peer mesh user peer = db_call (\<lambda>d.
     if (case peer of None \<Rightarrow> False | Some p \<Rightarrow> \<not> list_ex (\<lambda>x. pe_id x = p) (db_peers d)) \<and>
        list_ex (\<lambda>m. mm_mesh m = mesh \<and> mm_user m = user) (db_members d)
     then (Inl ForeignKeyViolation, d)
     else (Inr (), d\<lparr>db_members := map_where (\<lambda>m. mm_mesh m = mesh \<and> mm_user m = user)
        (\<lambda>m. m\<lparr>mm_peer := peer\<rparr>) (db_members d)\<rparr>))"

definition mesh_clear_member_peer :: "uuid \<Rightarrow> unit query" where
  "mesh_clear_member_peer peer = db_call (\<lambda>d.
     (Inr (), d\<lparr>db_members := map_where (\<lambda>m. mm_peer m = Some peer) (\<lambda>m. m\<lparr>mm_peer := None\<rparr>) (db_members d)\<rparr>))"

definition mesh_list_all :: "mesh list query" where
  "mesh_list_all = db_call (\<lambda>d.
     (Inr (map (scan_mesh d) (newest_first me_created
        (filter (\<lambda>n. me_session n \<and> valid_mesh_country_code (me_country n)) (db_meshes d)))), d))"

record admin_member =
  am_ip :: string
  am_name :: string
  am_email :: string
  am_user :: uuid
  am_public_ip :: string
  am_connected :: bool
  am_joined :: time

definition peer_connected :: "time \<Rightarrow> peer \<Rightarrow> bool" where
  "peer_connected now p \<longleftrightarrow>
     pe_active p \<and>
     (case pe_handshake p of Some t \<Rightarrow> now - 5 * minute < t | None \<Rightarrow> now - 2 * minute < pe_created p)"

definition admin_member_of :: "db \<Rightarrow> member \<Rightarrow> admin_member" where
  "admin_member_of d m =
     (let p = (case mm_peer m of None \<Rightarrow> None | Some i \<Rightarrow> find (\<lambda>p. pe_id p = i) (db_peers d)) in
      \<lparr>am_ip = mm_ip m, am_name = display_name d (mm_user m), am_email = email_of d (mm_user m), am_user = mm_user m,
       am_public_ip = (case p of None \<Rightarrow> [] | Some x \<Rightarrow> pe_ip x),
       am_connected = (case p of None \<Rightarrow> False | Some x \<Rightarrow> peer_connected (db_now d) x), am_joined = mm_joined m\<rparr>)"

definition mesh_list_members_admin :: "uuid \<Rightarrow> admin_member list query" where
  "mesh_list_members_admin mesh = db_call (\<lambda>d.
     let ms = map (admin_member_of d) (joined_members d mesh) in
     (Inr (filter am_connected ms @ filter (\<lambda>m. \<not> am_connected m) ms), d))"

section \<open>\<^verbatim>\<open>ExitNodeRepo\<close>\<close>

definition exit_register :: "uuid \<Rightarrow> uuid \<Rightarrow> string \<Rightarrow> int \<Rightarrow> bool \<Rightarrow> bool \<Rightarrow> unit query" where
  "exit_register user mesh scheme port tcp udp = db_call (\<lambda>d.
     (Inr (), d\<lparr>db_members := map_where (\<lambda>m. mm_user m = user \<and> mm_mesh m = mesh)
        (\<lambda>m. m\<lparr>mm_exit := True, mm_proxy_scheme := scheme, mm_proxy_port := port, mm_tcp := tcp, mm_udp := udp\<rparr>)
        (db_members d)\<rparr>))"

definition exit_deregister :: "uuid \<Rightarrow> uuid \<Rightarrow> unit query" where
  "exit_deregister user mesh = db_call (\<lambda>d.
     (Inr (), d\<lparr>db_members := map_where (\<lambda>m. mm_user m = user \<and> mm_mesh m = mesh)
        (\<lambda>m. m\<lparr>mm_exit := False, mm_proxy_port := 0, mm_tcp := True, mm_udp := False\<rparr>) (db_members d)\<rparr>))"

definition exit_usable :: "db \<Rightarrow> uuid \<Rightarrow> member \<Rightarrow> bool" where
  "exit_usable d user mm \<longleftrightarrow>
     mm_exit mm \<and> mm_proxy_scheme mm = ''socks5'' \<and> mm_tcp mm \<and> mm_udp mm \<and> 0 < mm_proxy_port mm \<and>
     list_ex (\<lambda>x. mm_user x = user \<and> mm_mesh x = mm_mesh mm) (db_members d)"

definition exit_list :: "uuid \<Rightarrow> member list query" where
  "exit_list user = db_call (\<lambda>d. (Inr (filter (exit_usable d user) (sort_key mm_ip (db_members d))), d))"

definition exit_set :: "uuid \<Rightarrow> string \<Rightarrow> string \<Rightarrow> int \<Rightarrow> bool \<Rightarrow> bool \<Rightarrow> unit query" where
  "exit_set user ip scheme port tcp udp = db_call (\<lambda>d.
     let s = \<lparr>se_user = user, se_ip = ip, se_scheme = scheme, se_port = port, se_tcp = tcp, se_udp = udp,
              se_updated = db_now d\<rparr>
     in (Inr (), d\<lparr>db_selections :=
          (if list_ex (\<lambda>x. se_user x = user) (db_selections d)
           then map_where (\<lambda>x. se_user x = user) (\<lambda>x. s) (db_selections d) else db_selections d @ [s])\<rparr>))"

definition exit_get :: "uuid \<Rightarrow> selection query" where
  "exit_get user = db_call (\<lambda>d. (one_row (find (\<lambda>s. se_user s = user) (db_selections d)), d))"

definition exit_clear :: "uuid \<Rightarrow> unit query" where
  "exit_clear user = db_call (\<lambda>d. (Inr (), d\<lparr>db_selections := filter (\<lambda>s. se_user s \<noteq> user) (db_selections d)\<rparr>))"

section \<open>\<^verbatim>\<open>TrustedExtensionRepo\<close>\<close>

definition extension_is_trusted :: "string \<Rightarrow> bool query" where
  "extension_is_trusted origin = db_call (\<lambda>d.
     (Inr (case find (\<lambda>e. eo_origin e = origin) (db_extensions d) of None \<Rightarrow> False | Some e \<Rightarrow> \<not> eo_revoked e), d))"

definition extension_register :: "string \<Rightarrow> uuid option \<Rightarrow> unit query" where
  "extension_register origin user = db_call (\<lambda>d.
     if \<not> (has_prefix origin ''moz-extension://'' \<or> has_prefix origin ''chrome-extension://'') then (Inl CheckViolation, d)
     else if list_ex (\<lambda>e. eo_origin e = origin) (db_extensions d) then
       (Inr (), d\<lparr>db_extensions := map_where (\<lambda>e. eo_origin e = origin)
          (\<lambda>e. e\<lparr>eo_last := db_now d, eo_count := eo_count e + 1\<rparr>) (db_extensions d)\<rparr>)
     else if (case user of None \<Rightarrow> False | Some i \<Rightarrow> \<not> list_ex (\<lambda>u. us_id u = i) (db_users d))
     then (Inl ForeignKeyViolation, d)
     else (Inr (), d\<lparr>db_extensions := db_extensions d @
          [\<lparr>eo_origin = origin, eo_user = user, eo_first = db_now d, eo_last = db_now d, eo_count = 1,
            eo_revoked = False\<rparr>]\<rparr>))"

definition extension_list :: "extension_origin list query" where
  "extension_list = db_call (\<lambda>d. (Inr (newest_first eo_last (db_extensions d)), d))"

definition extension_set_revoked :: "string \<Rightarrow> bool \<Rightarrow> unit query" where
  "extension_set_revoked origin revoked = db_call (\<lambda>d.
     (Inr (), d\<lparr>db_extensions := map_where (\<lambda>e. eo_origin e = origin)
        (\<lambda>e. e\<lparr>eo_revoked := revoked\<rparr>) (db_extensions d)\<rparr>))"

section \<open>Members get addresses of their own\<close>

lemma db_call_Inr: "db_call q d = (Inr x, d') \<Longrightarrow> \<exists>bs. q (d\<lparr>db_faults := bs\<rparr>) = (Inr x, d')"
  by (cases rule: db_call_cases [of d q]) auto

lemma of_db_Inr: "of_db q d = (Inr x, d') \<longleftrightarrow> q d = (Inr x, d')"
  by (auto simp: of_db_def split: prod.splits sum.splits)

lemma then_query_Inr:
  "then_query q f d = (Inr y, d') \<longleftrightarrow> (\<exists>x d1. q d = (Inr x, d1) \<and> f x d1 = (Inr y, d'))"
  by (auto simp: then_query_def split: prod.splits sum.splits)

text \<open>The same tables, whatever the coming faults.\<close>

definition same_tables :: "db \<Rightarrow> db \<Rightarrow> bool" where
  "same_tables d d' \<longleftrightarrow> (\<exists>bs. d' = d\<lparr>db_faults := bs\<rparr>)"

lemma same_tablesD:
  "same_tables d d' \<Longrightarrow> db_members d' = db_members d \<and> db_meshes d' = db_meshes d \<and> db_users d' = db_users d \<and>
     db_peers d' = db_peers d \<and> db_next d' = db_next d \<and> db_now d' = db_now d"
  by (auto simp: same_tables_def)

lemma same_tables_trans: "same_tables d d1 \<Longrightarrow> same_tables d1 d2 \<Longrightarrow> same_tables d d2"
  by (auto simp: same_tables_def)

lemma nothing_Inr: "nothing d = (Inr x, d1) \<Longrightarrow> same_tables d d1"
  unfolding nothing_def same_tables_def by (drule db_call_Inr) auto

lemma lock_mesh_Inr:
  "lock_mesh i d = (Inr s, d1) \<Longrightarrow> same_tables d d1 \<and> (\<exists>m \<in> set (db_meshes d). me_id m = i \<and> me_subnet m = s)"
  unfolding lock_mesh_def same_tables_def
  by (drule db_call_Inr) (auto simp: one_row_def find_Some_iff split: option.splits)

lemma next_mesh_ip_Inr:
  assumes "next_mesh_ip mesh s d = (Inr ip, d1)"
  shows "same_tables d d1 \<and>
    (\<exists>a nw base i. parse_cidr s = Some (a, nw) \<and> to4 (net_ip nw) = Some base \<and> 2 \<le> i \<and> i \<le> 254 \<and>
       ip = host_candidate base i \<and> (\<forall>m \<in> set (db_members d). mm_mesh m = mesh \<longrightarrow> mm_ip m \<noteq> ip) \<and>
       (\<forall>j. 2 \<le> j \<and> j < i \<longrightarrow> (\<exists>m \<in> set (db_members d). mm_mesh m = mesh \<and> mm_ip m = host_candidate base j)))"
proof -
  obtain a nw taken base i where p: "parse_cidr s = Some (a, nw)"
    and t: "db_call (\<lambda>d. (Inr (map mm_ip (filter (\<lambda>m. mm_mesh m = mesh) (db_members d))), d)) d = (Inr taken, d1)"
    and b: "to4 (net_ip nw) = Some base"
    and f: "first_from 2 254 (\<lambda>i. host_candidate base i \<notin> set taken) = Some i" and ip: "ip = host_candidate base i"
    using assms by (auto simp: next_mesh_ip_def split: option.splits prod.splits sum.splits)
  from db_call_Inr [OF t] have st: "same_tables d d1" and tk: "taken = map mm_ip (filter (\<lambda>m. mm_mesh m = mesh) (db_members d))"
    by (auto simp: same_tables_def)
  have miss: "\<exists>m \<in> set (db_members d). mm_mesh m = mesh \<and> mm_ip m = host_candidate base j" if "2 \<le> j" "j < i" for j
    using first_from_Some(4) [OF f that] unfolding tk by auto
  have "mm_ip m \<in> set taken" if "m \<in> set (db_members d)" "mm_mesh m = mesh" for m
    using that unfolding tk by simp
  then have "\<forall>m \<in> set (db_members d). mm_mesh m = mesh \<longrightarrow> mm_ip m \<noteq> ip"
    using first_from_Some(3) [OF f] unfolding ip by metis
  then show ?thesis using st p b ip miss first_from_Some(1,2) [OF f] by blast
qed

lemma insert_member_Inr:
  assumes "insert_member mesh user peer ip d = (Inr m, d1)"
  shows "mm_mesh m = mesh \<and> mm_user m = user \<and> mm_peer m = peer \<and> mm_ip m = ip \<and>
    (\<forall>x \<in> set (db_members d). mm_mesh x = mesh \<longrightarrow> mm_user x \<noteq> user \<and> mm_ip x \<noteq> ip) \<and>
    db_members d1 = db_members d @ [m]"
  using assms unfolding insert_member_def
  by - (drule db_call_Inr, auto simp: Let_def list_ex_iff split: if_splits)

definition addresses_distinct :: "db \<Rightarrow> bool" where
  "addresses_distinct d \<longleftrightarrow> distinct (map (\<lambda>m. (mm_mesh m, mm_ip m)) (db_members d))"

text \<open>C10: \<^verbatim>\<open>AddMember\<close> gives the new member the lowest host address from .2 to .254 of the mesh's subnet
  that no member of the mesh has, so that addresses in a mesh stay distinct; and on any failure, a full
  subnet, a lost connection at any statement, a duplicate, it leaves every table as it was.\<close>

theorem mesh_add_member_address:
  assumes "mesh_add_member mesh user peer d = (r, d')"
  shows "case r of
      Inl e \<Rightarrow> d' = d\<lparr>db_faults := db_faults d'\<rparr>
    | Inr m \<Rightarrow>
        db_members d' = db_members d @ [m] \<and> mm_mesh m = mesh \<and> mm_user m = user \<and> mm_peer m = peer \<and>
        (\<exists>n a nw base i. n \<in> set (db_meshes d) \<and> me_id n = mesh \<and> parse_cidr (me_subnet n) = Some (a, nw) \<and>
           to4 (net_ip nw) = Some base \<and> 2 \<le> i \<and> i \<le> 254 \<and> mm_ip m = host_candidate base i \<and>
           (\<forall>j. 2 \<le> j \<and> j < i \<longrightarrow> (\<exists>x \<in> set (db_members d). mm_mesh x = mesh \<and> mm_ip x = host_candidate base j))) \<and>
        (addresses_distinct d \<longrightarrow> addresses_distinct d')"
proof (cases r)
  case (Inl e)
  then show ?thesis using assms by (auto simp: mesh_add_member_def split: prod.splits sum.splits)
next
  case (Inr m)
  then obtain u1 d1 s d2 ip d3 d4 u5 where st: "nothing d = (Inr u1, d1)" "lock_mesh mesh d1 = (Inr s, d2)"
      "next_mesh_ip mesh s d2 = (Inr ip, d3)" "insert_member mesh user peer ip d3 = (Inr m, d4)"
      "nothing d4 = (Inr u5, d')"
    using assms by (auto simp: mesh_add_member_def then_query_Inr of_db_Inr split: prod.splits sum.splits)
  have s1: "same_tables d d1" by (rule nothing_Inr [OF st(1)])
  then have s2: "same_tables d d2" using lock_mesh_Inr [OF st(2)] by (blast intro: same_tables_trans)
  have n: "\<exists>n \<in> set (db_meshes d). me_id n = mesh \<and> me_subnet n = s"
    using lock_mesh_Inr [OF st(2)] same_tablesD [OF s1] by simp
  from next_mesh_ip_Inr [OF st(3)] s2 have s3: "same_tables d d3" by (auto intro: same_tables_trans)
  have mem: "db_members d2 = db_members d" "db_members d3 = db_members d" "db_members d' = db_members d4"
    using same_tablesD [OF s2] same_tablesD [OF s3] same_tablesD [OF nothing_Inr [OF st(5)]] by simp_all
  note ins = insert_member_Inr [OF st(4)]
  from n obtain n where n: "n \<in> set (db_meshes d)" "me_id n = mesh" "me_subnet n = s" by blast
  from next_mesh_ip_Inr [OF st(3)] obtain a nw base i where ad: "parse_cidr (me_subnet n) = Some (a, nw)"
      "to4 (net_ip nw) = Some base" "2 \<le> i" "i \<le> 254" "ip = host_candidate base i"
      "\<forall>j. 2 \<le> j \<and> j < i \<longrightarrow> (\<exists>x \<in> set (db_members d). mm_mesh x = mesh \<and> mm_ip x = host_candidate base j)"
    unfolding mem n(3) by blast
  have dist: "addresses_distinct d \<longrightarrow> addresses_distinct d'"
    using ins unfolding addresses_distinct_def mem by auto
  have row: "db_members d' = db_members d @ [m]" "mm_mesh m = mesh" "mm_user m = user" "mm_peer m = peer" "mm_ip m = ip"
    using ins unfolding mem by simp_all
  show ?thesis unfolding Inr sum.case row(1-4)
    by (intro conjI refl dist exI [of _ n] exI [of _ a] exI [of _ nw] exI [of _ base] exI [of _ i])
       (simp_all only: n(1,2) ad(1-5) row(5), use ad(6) in blast)
qed

definition demo_user :: user where
  "demo_user = new_user 7 0 ''uid'' ''a@b'' [] []"

definition demo_mesh :: mesh where
  "demo_mesh = \<lparr>me_id = 3, me_name = ''m'', me_description = [], me_owner = 7, me_subnet = ''10.200.1.0/24'',
     me_invite = ''code'', me_invite_expires = None, me_max = 10, me_active = True, me_count = 0, me_country = ''DE'',
     me_public_ip = [], me_session = True, me_created = 0, me_updated = 0\<rparr>"

definition mesh_db :: db where
  "mesh_db = demo_db\<lparr>db_users := [demo_user], db_meshes := [demo_mesh]\<rparr>"

lemma demo_subnet:
  "\<exists>a nw. parse_cidr ''10.200.1.0/24'' = Some (a, nw) \<and> to4 (net_ip nw) = Some (ip4_of_octets 10 200 1 0)"
  by (simp add: net_eval)

theorem mesh_add_member_address_witness:
  "\<exists>m d'. mesh_add_member 3 7 None mesh_db = (Inr m, d') \<and> db_members d' = [m] \<and> mm_user m = 7"
proof -
  obtain a nw where p: "parse_cidr ''10.200.1.0/24'' = Some (a, nw)" "to4 (net_ip nw) = Some (ip4_of_octets 10 200 1 0)"
    using demo_subnet by blast
  have "first_from 2 254 (\<lambda>i. host_candidate (ip4_of_octets 10 200 1 0) i \<notin> {}) = Some 2"
    by (simp add: first_from_def upt_rec)
  then obtain m d' where r: "mesh_add_member 3 7 None mesh_db = (Inr m, d')"
    using p by (simp add: mesh_add_member_def then_query_def of_db_def nothing_def lock_mesh_def next_mesh_ip_def
        insert_member_def db_call_ok mesh_db_def demo_db_def demo_mesh_def demo_user_def new_user_def one_row_def Let_def)
  from mesh_add_member_address [OF r] r show ?thesis by (auto simp: mesh_db_def demo_db_def)
qed

section \<open>Subnets\<close>

text \<open>\<^verbatim>\<open>NextAvailableSubnet\<close> returns the lowest of the 254 candidates 10.200.1.0/24 to 10.200.254.0/24
  that no mesh has, and gives up only when every candidate is taken.\<close>

lemma next_subnet_lowest_free:
  assumes "db_faults d = []"
  shows "(\<exists>i. next_available_subnet d = (Inr (subnet_candidate i), d) \<and> 1 \<le> i \<and> i \<le> 254 \<and>
            subnet_candidate i \<notin> me_subnet ` set (db_meshes d) \<and>
            (\<forall>j. 1 \<le> j \<and> j < i \<longrightarrow> subnet_candidate j \<in> me_subnet ` set (db_meshes d))) \<or>
         next_available_subnet d = (Inl NoSubnet, d) \<and>
            (\<forall>j. 1 \<le> j \<and> j \<le> 254 \<longrightarrow> subnet_candidate j \<in> me_subnet ` set (db_meshes d))"
proof (cases "first_from 1 254 (\<lambda>i. subnet_candidate i \<notin> me_subnet ` set (db_meshes d))")
  case None
  then have "next_available_subnet d = (Inl NoSubnet, d)"
    using assms by (simp add: next_available_subnet_def db_call_ok)
  then show ?thesis using None unfolding first_from_None by blast
next
  case (Some i)
  then have "next_available_subnet d = (Inr (subnet_candidate i), d)"
    using assms by (simp add: next_available_subnet_def db_call_ok)
  then show ?thesis using first_from_Some [OF Some] by blast
qed

section \<open>Trust on first use\<close>



end
