(* ===== verification/Control.thy ===== *)
theory Control
  imports CoreAPI CoreClient MeshStore "HOL-Library.State_Monad"
begin

text \<open>
  What the request handlers of \<^verbatim>\<open>internal/control\<close> share: the state they work on (the database,
  the cached server list of their \<^verbatim>\<open>ServerRepo\<close>, the process-wide cache of countries, the messages handed to the
  WebSocket hub and the world beyond), the calls into that world, and the data of their responses. A handler is a
  state transformer; its arguments are the authenticated user, the parsed path parameter and
  body (\<open>None\<close> where \<^verbatim>\<open>uuid.Parse\<close> or the JSON decoder fails) and \<^verbatim>\<open>r.RemoteAddr\<close>.
  \<open>'w backend\<close> has one field per function of \<^verbatim>\<open>core_client.go\<close> the handlers call and per method
  of the local \<^verbatim>\<open>wg.Manager\<close>, and one for the geo-IP service, which answers a status and a body;
  \<open>core_backend\<close> fills it with the models of those functions.
\<close>

section \<open>The world of the handlers\<close>

record 'w backend =
  bk_add_peer :: "server \<Rightarrow> string \<Rightarrow> 'w \<Rightarrow> (core_error + core_added) \<times> 'w"
  bk_remove_peer :: "server \<Rightarrow> string \<Rightarrow> 'w \<Rightarrow> (core_error + unit) \<times> 'w"
  bk_server_stats :: "server \<Rightarrow> 'w \<Rightarrow> (core_error + core_stats) \<times> 'w"
  bk_list_peers :: "server \<Rightarrow> 'w \<Rightarrow> (core_error + core_peer list) \<times> 'w"
  bk_health :: "server \<Rightarrow> 'w \<Rightarrow> (int \<times> int) option \<times> 'w"
  bk_geo :: "string \<Rightarrow> 'w \<Rightarrow> (int \<times> string) option \<times> 'w"
  bk_add_mesh_ip :: "(string \<Rightarrow> string \<Rightarrow> 'w \<Rightarrow> (wg_error + unit) \<times> 'w) option"
  bk_remove_mesh_ip :: "(string \<Rightarrow> 'w \<Rightarrow> (wg_error + unit) \<times> 'w) option"

text \<open>The models of the core client and, where there is one, of the local manager.\<close>

definition with_breakers :: "(breakers \<times> 'w \<Rightarrow> 'r \<times> breakers \<times> 'w) \<Rightarrow> breakers \<times> manager \<times> 'w \<Rightarrow> 'r \<times> breakers \<times> manager \<times> 'w" where
  "with_breakers f x = (case x of (b, m, w) \<Rightarrow> (case f (b, w) of (r, b1, w1) \<Rightarrow> (r, b1, m, w1)))"

definition with_manager :: "(manager \<Rightarrow> 'w \<Rightarrow> 'r \<times> manager \<times> 'w) \<Rightarrow> breakers \<times> manager \<times> 'w \<Rightarrow> 'r \<times> breakers \<times> manager \<times> 'w" where
  "with_manager f x = (case x of (b, m, w) \<Rightarrow> (case f m w of (r, m1, w1) \<Rightarrow> (r, b, m1, w1)))"

text \<open>A health probe: the status and the elapsed milliseconds, without breaker or retries.\<close>

definition health_probe :: "'w net \<Rightarrow> client \<Rightarrow> server \<Rightarrow> breakers \<times> 'w \<Rightarrow> (int \<times> int) option \<times> breakers \<times> 'w" where
  "health_probe net cl s x =
     (case x of (b, w) \<Rightarrow>
        case core_url cl s ''/health'' of
          Inl e \<Rightarrow> (None, b, w)
        | Inr (full, key) \<Rightarrow>
            if url_parse full = None then (None, b, w)
            else case net_do net cl \<lparr>rq_method = ''GET'', rq_url = full, rq_token = [], rq_body = None\<rparr> w of
              (Inl e, w1) \<Rightarrow> (None, b, w1)
            | (Inr resp, w1) \<Rightarrow> (Some (rs_status resp, (net_now net w1 - net_now net w) div 1000000), b, w1))"

definition core_backend :: "'w net \<Rightarrow> client \<Rightarrow> codec \<Rightarrow> 'w os \<Rightarrow> (string \<Rightarrow> 'w \<Rightarrow> (int \<times> string) option \<times> 'w) \<Rightarrow> bool \<Rightarrow> (breakers \<times> manager \<times> 'w) backend" where
  "core_backend net cl cd os geo local =
     \<lparr>bk_add_peer = (\<lambda>s k. with_breakers (call_core_add_peer net cl cd s k)),
      bk_remove_peer = (\<lambda>s k. with_breakers (call_core_remove_peer net cl s k)),
      bk_server_stats = (\<lambda>s. with_breakers (call_core_server_stats net cl cd s)),
      bk_list_peers = (\<lambda>s. with_breakers (call_core_list_peers net cl cd s)),
      bk_health = (\<lambda>s. with_breakers (health_probe net cl s)),
      bk_geo = (\<lambda>ip. with_breakers (\<lambda>(b, w). case geo ip w of (r, w1) \<Rightarrow> (r, b, w1))),
      bk_add_mesh_ip = (if local then Some (\<lambda>k ip. with_manager (add_mesh_ip os k ip)) else None),
      bk_remove_mesh_ip = (if local then Some (\<lambda>k. with_manager (remove_mesh_ip os k)) else None)\<rparr>"

section \<open>State\<close>

datatype ws_message =
    MeshListChanged
  | MeshDeleted uuid
  | MemberLeft uuid uuid
  | StatsMessage admin_stats

datatype hub_event = Broadcast ws_message | BroadcastToUsers "uuid list" ws_message

record 'w sys =
  sy_db :: db
  sy_servers :: server_repo
  sy_countries :: "string \<rightharpoonup> string \<times> time"
  sy_events :: "hub_event list"
  sy_world :: 'w

text \<open>The fixed parts of a handler: its configuration, the backend, the hub if there is one, the
  hash of the audit log.\<close>

record 'w env =
  en_cfg :: config
  en_backend :: "'w backend"
  en_hub :: bool
  en_sha :: "string \<Rightarrow> nat list"

type_synonym ('w, 'a) op = "('w sys, 'a) state"

definition db_op :: "(db \<Rightarrow> 'r \<times> db) \<Rightarrow> ('w, 'r) op" where
  "db_op q = State (\<lambda>s. case q (sy_db s) of (r, d) \<Rightarrow> (r, s\<lparr>sy_db := d\<rparr>))"

text \<open>A writing method of \<^verbatim>\<open>ServerRepo\<close> drops the cached list whatever the outcome.\<close>

definition server_op :: "(db \<Rightarrow> 'r \<times> db) \<Rightarrow> ('w, 'r) op" where
  "server_op q = State (\<lambda>s. case q (sy_db s) of
     (r, d) \<Rightarrow> (r, s\<lparr>sy_db := d, sy_servers := invalidate_cache (sy_servers s)\<rparr>))"

definition list_active :: "('w, db_err + server list) op" where
  "list_active = State (\<lambda>s. case server_list_active (sy_servers s) (sy_db s) of
     (r, c, d) \<Rightarrow> (r, s\<lparr>sy_servers := c, sy_db := d\<rparr>))"

definition world_op :: "('w \<Rightarrow> 'r \<times> 'w) \<Rightarrow> ('w, 'r) op" where
  "world_op f = State (\<lambda>s. case f (sy_world s) of (r, w) \<Rightarrow> (r, s\<lparr>sy_world := w\<rparr>))"

definition emit :: "'w env \<Rightarrow> hub_event \<Rightarrow> ('w, unit) op" where
  "emit env e = State (\<lambda>s. ((), if en_hub env then s\<lparr>sy_events := sy_events s @ [e]\<rparr> else s))"

abbreviation answer :: "'a \<Rightarrow> ('w, 'a) op" where
  "answer \<equiv> State_Monad.return"

text \<open>An audit entry; the handlers ignore its outcome.\<close>

definition audit_entry :: "'w env \<Rightarrow> uuid \<Rightarrow> string \<Rightarrow> (string \<times> meta) list \<Rightarrow> string \<Rightarrow> ('w, unit) op" where
  "audit_entry env user action metadata remote =
     do { _ \<leftarrow> db_op (audit_log (en_sha env) (Some user) action metadata remote); answer () }"

text \<open>Calls to the local manager, if any; outcomes are only logged.\<close>

definition remove_mesh_route :: "'w env \<Rightarrow> string \<Rightarrow> ('w, unit) op" where
  "remove_mesh_route env key =
     (case bk_remove_mesh_ip (en_backend env) of
        None \<Rightarrow> answer ()
      | Some f \<Rightarrow> do { _ \<leftarrow> world_op (f key); answer () })"

section \<open>Responses\<close>

record ping_result =
  pr_server :: uuid
  pr_name :: string
  pr_host :: string
  pr_location :: string
  pr_country :: string
  pr_latency :: int
  pr_available :: bool

record node_status =
  ns_active :: bool
  ns_ip :: string
  ns_mesh :: "uuid option"
  ns_public_ip :: string
  ns_peers :: "(string \<times> string) list"

datatype ctl_data =
    UserData user
  | UsersData "user list"
  | UserDetail user "peer list"
  | KeysData keypair
  | ServerData server
  | ServersData "server list"
  | PingData "ping_result list"
  | ConnectionData connection_config
  | ConnectionsData "peer list"
  | PeersWithEmail "(peer \<times> string) list"
  | ConfigFile string string
  | QRCode string string
  | AuditData "(audit \<times> string) list"
  | DashboardData admin_stats
  | StatusData string
  | DeletedData uuid
  | LeftData uuid
  | MeshesData "mesh list"
  | MeshData mesh
  | MeshDetail mesh "member list"
  | AdminMeshes "(mesh \<times> admin_member list) list"
  | NodeData node_status
  | DeletedCount nat
  | ExitNodes "member list"

section \<open>Operations as relations between states\<close>

text \<open>
  A reflexive and transitive relation that every step of a handler respects holds between the
  states before and after the handler.
\<close>

locale step_relation =
  fixes R :: "'s \<Rightarrow> 's \<Rightarrow> bool"
  assumes R_refl: "R s s"
    and R_trans: "R s t \<Longrightarrow> R t u \<Longrightarrow> R s u"
begin

lemma io_return: "state_io_rel R (State_Monad.return x)"
  by (auto simp: state_io_rel_def R_refl)

lemma io_bind:
  assumes "state_io_rel R m" and "\<And>x. state_io_rel R (f x)"
  shows "state_io_rel R (m \<bind> f)"
  using assms by (auto simp: state_io_rel_def split: prod.split intro: R_trans)

lemma io_traverse:
  assumes "\<And>x. x \<in> set xs \<Longrightarrow> state_io_rel R (f x)"
  shows "state_io_rel R (State_Monad.traverse_list f xs)"
  using assms by (induction xs) (auto intro!: io_return io_bind)

lemma io_run: "state_io_rel R m \<Longrightarrow> run_state m s = (x, t) \<Longrightarrow> R s t"
  by (metis snd_conv state_io_rel_def)

end

lemma run_ops [simp]:
  "run_state (db_op q) s = (case q (sy_db s) of (r, d) \<Rightarrow> (r, s\<lparr>sy_db := d\<rparr>))"
  "run_state (server_op q) s = (case q (sy_db s) of
     (r, d) \<Rightarrow> (r, s\<lparr>sy_db := d, sy_servers := invalidate_cache (sy_servers s)\<rparr>))"
  "run_state (world_op f) s = (case f (sy_world s) of (r, w) \<Rightarrow> (r, s\<lparr>sy_world := w\<rparr>))"
  "run_state (emit env e) s = ((), if en_hub env then s\<lparr>sy_events := sy_events s @ [e]\<rparr> else s)"
  by (simp_all add: db_op_def server_op_def world_op_def emit_def)

end
