(* ===== verification/Connections.thy ===== *)
theory Connections
  imports Control
begin

text \<open>
  The user-facing half of \<^verbatim>\<open>internal/control/handler.go\<close>: profile, key generation, server list and
  ping, the connection life cycle (\<^verbatim>\<open>Connect\<close>, \<^verbatim>\<open>Disconnect\<close>, \<^verbatim>\<open>DeleteConnection\<close>), the exported
  configuration, and the \<^verbatim>\<open>BannedCheck\<close> middleware.
\<close>

section \<open>Middleware and simple reads\<close>

definition banned_check :: "user \<Rightarrow> ('w, ctl_data response) op \<Rightarrow> ('w, ctl_data response) op" where
  "banned_check user next = (if us_banned user then answer (JsonError ''account is banned'' 403) else next)"

definition me :: "user option \<Rightarrow> ctl_data response" where
  "me user = (case user of None \<Rightarrow> JsonError ''not authenticated'' 401 | Some u \<Rightarrow> JsonOK (UserData u) 200)"

definition user_keypair :: "(key \<Rightarrow> key \<Rightarrow> string + key) \<Rightarrow> string + key \<Rightarrow> ctl_data response" where
  "user_keypair x25519 rnd =
     (case generate_keypair x25519 rnd of
        Inl e \<Rightarrow> JsonError ''failed to generate keypair'' 500
      | Inr kp \<Rightarrow> JsonOK (KeysData kp) 201)"

definition list_servers :: "('w, ctl_data response) op" where
  "list_servers =
     do { r \<leftarrow> list_active;
          answer (case r of Inl e \<Rightarrow> JsonError ''failed to list servers'' 500 | Inr xs \<Rightarrow> JsonOK (ServersData xs) 200) }"

text \<open>One probe per server; the goroutines write to separate slots of the result.\<close>

definition ping_server :: "'w env \<Rightarrow> server \<Rightarrow> ('w, ping_result) op" where
  "ping_server env s =
     do { r \<leftarrow> world_op (bk_health (en_backend env) s);
          answer (let p = \<lparr>pr_server = sv_id s, pr_name = sv_name s, pr_host = sv_host s, pr_location = sv_location s,
                           pr_country = sv_country s, pr_latency = 0, pr_available = False\<rparr>
                  in case r of
                       Some (st, ms) \<Rightarrow> if st = 200 then p\<lparr>pr_latency := ms, pr_available := True\<rparr> else p
                     | None \<Rightarrow> p) }"

definition build_server_ping_results :: "'w env \<Rightarrow> server list \<Rightarrow> ('w, ping_result list) op" where
  "build_server_ping_results env xs = State_Monad.traverse_list (ping_server env) xs"

definition ping_servers :: "'w env \<Rightarrow> ('w, ctl_data response) op" where
  "ping_servers env =
     do { r \<leftarrow> list_active;
          case r of
            Inl e \<Rightarrow> answer (JsonError ''failed to list servers'' 500)
          | Inr xs \<Rightarrow> do { ps \<leftarrow> build_server_ping_results env xs; answer (JsonOK (PingData ps) 200) } }"

section \<open>Mesh sessions of a connection\<close>

definition broadcast_mesh_list_changed :: "'w env \<Rightarrow> ('w, unit) op" where
  "broadcast_mesh_list_changed env = emit env (Broadcast MeshListChanged)"

definition is_valid_public_mesh :: "mesh \<Rightarrow> bool" where
  "is_valid_public_mesh m \<longleftrightarrow> me_session m \<and> me_active m \<and> valid_mesh_country_code (me_country m)"

text \<open>One mesh of the user: link the peer, route the mesh address; whether the link was stored.\<close>

definition attach_to_mesh :: "'w env \<Rightarrow> uuid \<Rightarrow> peer \<Rightarrow> mesh \<Rightarrow> ('w, bool) op" where
  "attach_to_mesh env user p m =
     (if \<not> is_valid_public_mesh m then answer False
      else do {
        r \<leftarrow> db_op (mesh_member (me_id m) user);
        case r of
          Inl e \<Rightarrow> answer False
        | Inr mm \<Rightarrow> do {
            u \<leftarrow> db_op (mesh_update_member_peer (me_id m) user (Some (pe_id p)));
            case bk_add_mesh_ip (en_backend env) of
              None \<Rightarrow> answer (u = Inr ())
            | Some f \<Rightarrow> do { _ \<leftarrow> world_op (f (pe_key p) (mm_ip mm)); answer (u = Inr ()) } } })"

definition attach_peer_to_mesh_sessions :: "'w env \<Rightarrow> uuid \<Rightarrow> peer \<Rightarrow> ('w, unit) op" where
  "attach_peer_to_mesh_sessions env user p =
     (if \<not> pe_active p then answer ()
      else do {
        r \<leftarrow> db_op (mesh_list_by_user user);
        case r of
          Inl e \<Rightarrow> answer ()
        | Inr ms \<Rightarrow> do {
            cs \<leftarrow> State_Monad.traverse_list (attach_to_mesh env user p) ms;
            if list_ex id cs then broadcast_mesh_list_changed env else answer () } })"

definition detach_peer_from_mesh_sessions :: "'w env \<Rightarrow> peer \<Rightarrow> ('w, unit) op" where
  "detach_peer_from_mesh_sessions env p =
     do { _ \<leftarrow> remove_mesh_route env (pe_key p);
          r \<leftarrow> db_op (mesh_clear_member_peer (pe_id p));
          if r = Inr () then broadcast_mesh_list_changed env else answer () }"

section \<open>\<^verbatim>\<open>Connect\<close>\<close>

text \<open>The server identifier of a request: absent, unreadable, or an identifier.\<close>

datatype server_choice = AnyServer | BadServerId | ServerId uuid

record connect_request =
  cr_server :: server_choice
  cr_key :: string
  cr_device :: string

definition strip_cidr :: "string \<Rightarrow> string" where
  "strip_cidr s = takeWhile (\<lambda>c. c \<noteq> CHR ''/'') s"

definition server_endpoint :: "server \<Rightarrow> string" where
  "server_endpoint s =
     wireguard_endpoint_for_server_host (if sv_endpoint s = [] then sv_host s else sv_endpoint s) (sv_wg_port s)"

definition core_key :: "core_error + core_stats \<Rightarrow> server \<Rightarrow> string" where
  "core_key r s = (case r of Inl e \<Rightarrow> sv_key s | Inr st \<Rightarrow> if st_key st \<noteq> [] then st_key st else sv_key s)"

definition client_config :: "'w env \<Rightarrow> uuid \<Rightarrow> string \<Rightarrow> string \<Rightarrow> server \<Rightarrow> connection_config" where
  "client_config env i ip key s =
     \<lparr>cc_peer = i, cc_ip = strip_cidr ip, cc_key = key, cc_endpoint = server_endpoint s, cc_dns = VpnDNS (en_cfg env),
      cc_allowed = ''0.0.0.0/0, ::/0''\<rparr>"

text \<open>The same key already active for the user: the answer, unless the lookups fail.\<close>

definition existing_connection :: "'w env \<Rightarrow> user \<Rightarrow> string \<Rightarrow> ('w, ctl_data response option) op" where
  "existing_connection env user key =
     do { r \<leftarrow> db_op (peer_active_by_user_key (us_id user) key);
          case r of
            Inl e \<Rightarrow> answer None
          | Inr p \<Rightarrow> do {
              sr \<leftarrow> db_op (server_by_id (pe_server p));
              case sr of
                Inl e \<Rightarrow> answer None
              | Inr s \<Rightarrow> do {
                  st \<leftarrow> world_op (bk_server_stats (en_backend env) s);
                  answer (Some (JsonOK (ConnectionData (client_config env (pe_id p) (pe_ip p) (core_key st s) s)) 200)) } } }"

definition device_limit :: "'w env \<Rightarrow> user \<Rightarrow> ('w, ctl_data response option) op" where
  "device_limit env user =
     (if MaxDevicesPerUser (en_cfg env) \<le> 0 then answer None
      else do {
        r \<leftarrow> db_op (peer_count_by_user (us_id user));
        answer (case r of
            Inl e \<Rightarrow> Some (JsonError ''failed to check device limit'' 500)
          | Inr n \<Rightarrow>
              if MaxDevicesPerUser (en_cfg env) \<le> n
              then Some (JsonError (''device limit reached (max '' @ itoa (MaxDevicesPerUser (en_cfg env)) @ '')'') 409)
              else None) })"

definition select_server :: "server_choice \<Rightarrow> ('w, ctl_data response + server) op" where
  "select_server c =
     (case c of
        BadServerId \<Rightarrow> answer (Inl (JsonError ''invalid server_id'' 400))
      | ServerId i \<Rightarrow> do {
          r \<leftarrow> db_op (server_by_id i);
          answer (case r of Inl e \<Rightarrow> Inl (JsonError ''server not found'' 404) | Inr s \<Rightarrow> Inr s) }
      | AnyServer \<Rightarrow> do {
          r \<leftarrow> db_op server_least_loaded;
          answer (case r of Inl e \<Rightarrow> Inl (JsonError ''no available servers'' 503) | Inr s \<Rightarrow> Inr s) })"

text \<open>The deferred release of the reserved slot.\<close>

definition release_slot :: "server \<Rightarrow> ('w, unit) op" where
  "release_slot s = do { _ \<leftarrow> server_op (server_update_peer_count (sv_id s) (- 1)); answer () }"

text \<open>Fetch the key of the core, store it if it differs from the row.\<close>

definition refresh_server_key :: "'w env \<Rightarrow> server \<Rightarrow> ('w, string) op" where
  "refresh_server_key env s =
     do { st \<leftarrow> world_op (bk_server_stats (en_backend env) s);
          if core_key st s \<noteq> sv_key s
          then do { _ \<leftarrow> server_op (server_update (s\<lparr>sv_key := core_key st s\<rparr>)); answer (core_key st s) }
          else answer (sv_key s) }"

text \<open>After the slot is reserved.\<close>

definition connect_reserved :: "'w env \<Rightarrow> user \<Rightarrow> connect_request \<Rightarrow> string \<Rightarrow> server \<Rightarrow> ('w, ctl_data response) op" where
  "connect_reserved env user req remote s =
     do { a \<leftarrow> world_op (bk_add_peer (en_backend env) s (cr_key req));
          case a of
            Inl e \<Rightarrow> do { _ \<leftarrow> release_slot s; answer (JsonError ''failed to connect to VPN server'' 502) }
          | Inr added \<Rightarrow> do {
              c \<leftarrow> db_op (peer_create (us_id user) (sv_id s) (cr_key req) (ca_ip added) (sanitize_device_name (cr_device req)));
              case c of
                Inl e \<Rightarrow> do {
                  _ \<leftarrow> world_op (bk_remove_peer (en_backend env) s (cr_key req));
                  _ \<leftarrow> release_slot s;
                  answer (JsonError ''failed to save connection'' 500) }
              | Inr p \<Rightarrow> do {
                  _ \<leftarrow> attach_peer_to_mesh_sessions env (us_id user) p;
                  _ \<leftarrow> audit_entry env (us_id user) ''peer.connect''
                        [(''peer_id'', MetaId (pe_id p)), (''server_id'', MetaId (sv_id s)), (''ip'', MetaText (pe_ip p)),
                         (''device_name'', MetaText (sanitize_device_name (cr_device req)))] remote;
                  key \<leftarrow> refresh_server_key env s;
                  answer (JsonOK (ConnectionData (client_config env (pe_id p) (ca_ip added) key s)) 201) } } }"

definition connect_new :: "'w env \<Rightarrow> user \<Rightarrow> connect_request \<Rightarrow> string \<Rightarrow> ('w, ctl_data response) op" where
  "connect_new env user req remote =
     do { lim \<leftarrow> device_limit env user;
          case lim of
            Some resp \<Rightarrow> answer resp
          | None \<Rightarrow> do {
              sel \<leftarrow> select_server (cr_server req);
              case sel of
                Inl resp \<Rightarrow> answer resp
              | Inr s \<Rightarrow> do {
                  r \<leftarrow> server_op (server_reserve_slot (sv_id s));
                  case r of
                    Inl e \<Rightarrow> answer (JsonError ''failed to reserve server slot'' 500)
                  | Inr ok \<Rightarrow>
                      if \<not> ok then answer (JsonError ''server is full or inactive'' 409)
                      else connect_reserved env user req remote s } } }"

text \<open>\<open>limited\<close> is the verdict of the per-user rate limiter.\<close>

definition connect :: "'w env \<Rightarrow> bool \<Rightarrow> user \<Rightarrow> connect_request option \<Rightarrow> string \<Rightarrow> ('w, ctl_data response) op" where
  "connect env limited user body remote =
     (if limited then answer (JsonError (''too many connection requests '' @ [CHR 0xE2, CHR 0x80, CHR 0x94] @ '' please wait before trying again'') 429)
      else case body of
        None \<Rightarrow> answer (JsonError ''invalid JSON body'' 400)
      | Some req \<Rightarrow>
          if cr_key req = [] then answer (JsonError ''public_key is required'' 400)
          else if \<not> is_valid_wg_key (cr_key req)
          then answer (JsonError ''public_key must be a valid 32-byte base64-encoded WireGuard key'' 400)
          else do {
            ex \<leftarrow> existing_connection env user (cr_key req);
            case ex of Some resp \<Rightarrow> answer resp | None \<Rightarrow> connect_new env user req remote })"

section \<open>Ending a connection\<close>

text \<open>The peer a request names, if the user may touch it.\<close>

definition owned_peer :: "user \<Rightarrow> uuid option \<Rightarrow> ('w, ctl_data response + peer) op" where
  "owned_peer user i =
     (case i of
        None \<Rightarrow> answer (Inl (JsonError ''invalid peer id'' 400))
      | Some i \<Rightarrow> do {
          r \<leftarrow> db_op (peer_by_id i);
          answer (case r of
              Inl e \<Rightarrow> Inl (JsonError ''peer not found'' 404)
            | Inr p \<Rightarrow> if pe_user p \<noteq> us_id user \<and> \<not> is_admin user then Inl (JsonError ''not your peer'' 403) else Inr p) })"

text \<open>Take the peer off its core server and lower the count; outcomes are ignored.\<close>

definition remove_from_core :: "'w env \<Rightarrow> peer \<Rightarrow> ('w, unit) op" where
  "remove_from_core env p =
     do { r \<leftarrow> db_op (server_by_id (pe_server p));
          case r of
            Inl e \<Rightarrow> answer ()
          | Inr s \<Rightarrow> do {
              _ \<leftarrow> world_op (bk_remove_peer (en_backend env) s (pe_key p));
              _ \<leftarrow> server_op (server_update_peer_count (pe_server p) (- 1));
              answer () } }"

definition disconnect_peer :: "'w env \<Rightarrow> peer \<Rightarrow> ('w, unit) op" where
  "disconnect_peer env p =
     do { _ \<leftarrow> remove_from_core env p;
          _ \<leftarrow> detach_peer_from_mesh_sessions env p;
          _ \<leftarrow> db_op (peer_deactivate (pe_id p));
          answer () }"

definition disconnect :: "'w env \<Rightarrow> user \<Rightarrow> uuid option \<Rightarrow> string \<Rightarrow> ('w, ctl_data response) op" where
  "disconnect env user i remote =
     do { o1 \<leftarrow> owned_peer user i;
          case o1 of
            Inl resp \<Rightarrow> answer resp
          | Inr p \<Rightarrow> do {
              _ \<leftarrow> disconnect_peer env p;
              _ \<leftarrow> audit_entry env (us_id user) ''peer.disconnect''
                    [(''peer_id'', MetaId (pe_id p)), (''server_id'', MetaId (pe_server p))] remote;
              answer (JsonOK (StatusData ''disconnected'') 200) } }"

definition delete_connection :: "'w env \<Rightarrow> user \<Rightarrow> uuid option \<Rightarrow> string \<Rightarrow> ('w, ctl_data response) op" where
  "delete_connection env user i remote =
     do { o1 \<leftarrow> owned_peer user i;
          case o1 of
            Inl resp \<Rightarrow> answer resp
          | Inr p \<Rightarrow> do {
              _ \<leftarrow> (if pe_active p then remove_from_core env p else answer ());
              _ \<leftarrow> detach_peer_from_mesh_sessions env p;
              r \<leftarrow> db_op (peer_delete (pe_id p));
              case r of
                Inl e \<Rightarrow> answer (JsonError ''failed to delete device'' 500)
              | Inr _ \<Rightarrow> do {
                  _ \<leftarrow> audit_entry env (us_id user) ''peer.delete''
                        [(''peer_id'', MetaId (pe_id p)), (''server_id'', MetaId (pe_server p))] remote;
                  answer (JsonOK (StatusData ''deleted'') 200) } } }"

section \<open>The exported configuration\<close>

text \<open>One \<^verbatim>\<open>/32\<close> suffix; rows of an old release have two or more.\<close>

lemma has_suffix_nonempty: "has_suffix s p \<Longrightarrow> p \<noteq> [] \<Longrightarrow> s \<noteq> []"
  by (auto simp: has_suffix_def has_prefix_def)

function strip_twice :: "string \<Rightarrow> string" where
  "strip_twice s = (if has_suffix s ''/32/32'' then strip_twice (take (length s - 3) s) else s)"
  by pat_completeness auto
termination
  by (relation "measure length") (auto dest: has_suffix_nonempty)

declare strip_twice.simps [simp del]

definition build_wg_config :: "'w env \<Rightarrow> peer \<Rightarrow> server \<Rightarrow> string" where
  "build_wg_config env p s =
     (let ip0 = strip_twice (pe_ip p);
          ip = (if CHR ''/'' \<in> set ip0 then ip0 else ip0 @ ''/32'')
      in ''[Interface]'' @ [CHR 0x0A] @ ''PrivateKey = <YOUR_PRIVATE_KEY>'' @ [CHR 0x0A] @
         ''Address = '' @ ip @ [CHR 0x0A] @ ''DNS = '' @ VpnDNS (en_cfg env) @ [CHR 0x0A, CHR 0x0A] @
         ''[Peer]'' @ [CHR 0x0A] @ ''PublicKey = '' @ sv_key s @ [CHR 0x0A] @
         ''Endpoint = '' @ server_endpoint s @ [CHR 0x0A] @ ''AllowedIPs = 0.0.0.0/0, ::/0'' @ [CHR 0x0A] @
         ''PersistentKeepalive = 25'' @ [CHR 0x0A])"

definition ensure_server_public_key :: "'w env \<Rightarrow> server \<Rightarrow> ('w, server) op" where
  "ensure_server_public_key env s =
     do { st \<leftarrow> world_op (bk_server_stats (en_backend env) s); answer (s\<lparr>sv_key := core_key st s\<rparr>) }"

definition peer_config_of :: "'w env \<Rightarrow> user \<Rightarrow> uuid option \<Rightarrow> ('w, ctl_data response + peer \<times> string) op" where
  "peer_config_of env user i =
     do { o1 \<leftarrow> owned_peer user i;
          case o1 of
            Inl resp \<Rightarrow> answer (Inl resp)
          | Inr p \<Rightarrow> do {
              sr \<leftarrow> db_op (server_by_id (pe_server p));
              case sr of
                Inl e \<Rightarrow> answer (Inl (JsonError ''server not found'' 404))
              | Inr s \<Rightarrow> do { s1 \<leftarrow> ensure_server_public_key env s; answer (Inr (p, build_wg_config env p s1)) } } }"

definition export_config :: "'w env \<Rightarrow> user \<Rightarrow> uuid option \<Rightarrow> ('w, ctl_data response) op" where
  "export_config env user i =
     do { r \<leftarrow> peer_config_of env user i;
          answer (case r of
              Inl resp \<Rightarrow> resp
            | Inr (p, conf) \<Rightarrow> JsonOK (ConfigFile (''wg-'' @ sanitize_device_name (pe_device p) @ ''.conf'') conf) 200) }"

text \<open>\<open>qr\<close> is \<^verbatim>\<open>qrcode.Encode\<close>.\<close>

definition export_qr :: "'w env \<Rightarrow> (string \<Rightarrow> string option) \<Rightarrow> user \<Rightarrow> uuid option \<Rightarrow> ('w, ctl_data response) op" where
  "export_qr env qr user i =
     do { r \<leftarrow> peer_config_of env user i;
          answer (case r of
              Inl resp \<Rightarrow> resp
            | Inr (p, conf) \<Rightarrow>
                (case qr conf of
                   None \<Rightarrow> JsonError ''failed to generate QR code'' 500
                 | Some png \<Rightarrow> JsonOK (QRCode (''wg-'' @ sanitize_device_name (pe_device p) @ ''.png'') png) 200)) }"

definition list_my_connections :: "user \<Rightarrow> ('w, ctl_data response) op" where
  "list_my_connections user =
     do { r \<leftarrow> db_op (peer_list_by_user (us_id user));
          answer (case r of Inl e \<Rightarrow> JsonError ''failed to list connections'' 500 | Inr ps \<Rightarrow> JsonOK (ConnectionsData ps) 200) }"

definition my_audit_logs :: "user \<Rightarrow> ('w, ctl_data response) op" where
  "my_audit_logs user =
     do { r \<leftarrow> db_op (audit_list_by_user (us_id user) 50 0);
          answer (case r of Inl e \<Rightarrow> JsonError ''failed to list audit logs'' 500 | Inr xs \<Rightarrow> JsonOK (AuditData xs) 200) }"

end
