(* ===== verification/Accounting.thy ===== *)
theory Accounting
  imports Connections
begin

text \<open>
  What the connection handlers do to connections and counts. The frame of a handler, the
  steps that cannot touch a connection or a count, comes from the \<open>step_relation\<close> interface of
  \<open>Control\<close>, interpreted on \<open>quiet\<close> (connections and counts as before) and on \<open>same_db\<close> (reads);
  then each of \<^verbatim>\<open>Connect\<close>, \<^verbatim>\<open>Disconnect\<close> and \<^verbatim>\<open>DeleteConnection\<close> has one lemma for all its answers, and
  the invariant \<open>counts_ok\<close> follows for every sequence of requests.
\<close>

section \<open>What a request leaves alone\<close>

text \<open>The peers counted on a server.\<close>

definition slots :: "db \<Rightarrow> uuid \<Rightarrow> int option" where
  "slots d i = map_option sv_cur (server_row d i)"

text \<open>With a database that answers, connections and counts are as before.\<close>

definition quiet_db :: "db \<Rightarrow> db \<Rightarrow> bool" where
  "quiet_db d d' \<longleftrightarrow> (db_faults d = [] \<longrightarrow>
     db_faults d' = [] \<and> db_peers d' = db_peers d \<and> slots d' = slots d \<and> map sv_id (db_servers d') = map sv_id (db_servers d) \<and>
     db_next d' = db_next d)"

definition quiet :: "'w sys \<Rightarrow> 'w sys \<Rightarrow> bool" where
  "quiet s t \<longleftrightarrow> quiet_db (sy_db s) (sy_db t)"

interpretation calm: step_relation quiet
  by unfold_locales (auto simp: quiet_def quiet_db_def)

lemma quiet_db_op: "(\<And>d. quiet_db d (snd (q d))) \<Longrightarrow> state_io_rel quiet (db_op q)"
  by (auto simp: state_io_rel_def quiet_def split: prod.split) (metis snd_conv)

lemma quiet_server_op: "(\<And>d. quiet_db d (snd (q d))) \<Longrightarrow> state_io_rel quiet (server_op q)"
  by (auto simp: state_io_rel_def quiet_def split: prod.split) (metis snd_conv)

lemma quiet_world_op: "state_io_rel quiet (world_op f)"
  by (auto simp: state_io_rel_def quiet_def quiet_db_def split: prod.split)

lemma quiet_emit: "state_io_rel quiet (emit env e)"
  by (auto simp: state_io_rel_def quiet_def quiet_db_def)

lemma quiet_read: "quiet_db d (snd (db_call (\<lambda>d. (f d, d)) d))"
  by (simp add: quiet_db_def db_call_ok)

lemmas reads_def = peer_active_by_user_key_def server_by_id_def peer_count_by_user_def server_least_loaded_def
  mesh_list_by_user_def mesh_member_def peer_by_id_def

lemma quiet_reads:
  "quiet_db d (snd (peer_active_by_user_key u k d))"
  "quiet_db d (snd (server_by_id i d))"
  "quiet_db d (snd (peer_count_by_user i d))"
  "quiet_db d (snd (server_least_loaded d))"
  "quiet_db d (snd (mesh_list_by_user i d))"
  "quiet_db d (snd (mesh_member m u d))"
  "quiet_db d (snd (peer_by_id i d))"
  unfolding reads_def by (rule quiet_read)+

lemma slots_cong: "db_servers d' = db_servers d \<Longrightarrow> slots d' = slots d"
  by (rule ext) (simp add: slots_def server_row_def)

lemma quiet_writes:
  "quiet_db d (snd (mesh_update_member_peer m u p d))"
  "quiet_db d (snd (mesh_clear_member_peer i d))"
  "quiet_db d (snd (audit_log sha v act metadata ip d))"
  by (auto simp: quiet_db_def mesh_update_member_peer_def mesh_clear_member_peer_def audit_log_def db_call_ok
      intro!: slots_cong split: option.split)

lemma find_map_where_any:
  assumes "\<And>x. f (g x) = f x"
  shows "find (\<lambda>x. f x = k) (map_where p g xs) = map_option (\<lambda>x. if p x then g x else x) (find (\<lambda>x. f x = k) xs)"
  using assms by (induction xs) auto

lemma slots_map_where:
  assumes "\<And>x. sv_id (g x) = sv_id x"
  shows "slots (d\<lparr>db_servers := map_where p g (db_servers d)\<rparr>) i =
    map_option (\<lambda>x. sv_cur (if p x then g x else x)) (server_row d i)"
  by (simp add: slots_def server_row_def find_map_where_any assms option.map_comp o_def)

lemma slots_map_where_same:
  assumes "\<And>x. sv_id (g x) = sv_id x" and "\<And>x. sv_cur (g x) = sv_cur x"
  shows "slots (d\<lparr>db_servers := map_where p g (db_servers d)\<rparr>) = slots d"
proof
  fix i show "slots (d\<lparr>db_servers := map_where p g (db_servers d)\<rparr>) i = slots d i"
    unfolding slots_map_where [OF assms(1)] by (cases "server_row d i") (auto simp: assms slots_def)
qed

lemma quiet_server_update: "quiet_db d (snd (server_update sv d))"
proof -
  let ?g = "\<lambda>x. x\<lparr>sv_name := sv_name sv, sv_host := sv_host sv, sv_endpoint := sv_endpoint sv, sv_port := sv_port sv,
     sv_wg_port := sv_wg_port sv, sv_key := sv_key sv, sv_token := sv_token sv, sv_location := sv_location sv,
     sv_country := sv_country sv, sv_max := sv_max sv, sv_active := sv_active sv,
     sv_proxy_port := sv_proxy_port sv, sv_updated := db_now d\<rparr>"
  have "slots (d\<lparr>db_servers := map_where (\<lambda>x. sv_id x = sv_id sv) ?g (db_servers d)\<rparr>) = slots d"
    by (rule slots_map_where_same) simp_all
  then show ?thesis by (simp add: quiet_db_def server_update_def db_call_ok map_map_where)
qed

lemmas quiet_rules = calm.io_return calm.io_bind calm.io_traverse quiet_world_op quiet_emit
  quiet_db_op [OF quiet_reads(1)] quiet_db_op [OF quiet_reads(2)] quiet_db_op [OF quiet_reads(3)]
  quiet_db_op [OF quiet_reads(4)] quiet_db_op [OF quiet_reads(5)] quiet_db_op [OF quiet_reads(6)]
  quiet_db_op [OF quiet_reads(7)] quiet_db_op [OF quiet_writes(1)] quiet_db_op [OF quiet_writes(2)]
  quiet_db_op [OF quiet_writes(3)] quiet_server_op [OF quiet_server_update]

lemma quiet_audit: "state_io_rel quiet (audit_entry env u act metadata ip)"
  unfolding audit_entry_def by (intro quiet_rules)

lemma quiet_attach: "state_io_rel quiet (attach_peer_to_mesh_sessions env u p)"
  unfolding attach_peer_to_mesh_sessions_def attach_to_mesh_def broadcast_mesh_list_changed_def
  by (auto intro!: quiet_rules split: sum.split option.split)

lemma quiet_detach: "state_io_rel quiet (detach_peer_from_mesh_sessions env p)"
  unfolding detach_peer_from_mesh_sessions_def remove_mesh_route_def broadcast_mesh_list_changed_def
  by (auto intro!: quiet_rules split: option.split)

lemma quiet_parts:
  "state_io_rel quiet (existing_connection env user key)"
  "state_io_rel quiet (device_limit env user)"
  "state_io_rel quiet (select_server c)"
  "state_io_rel quiet (refresh_server_key env sv)"
  "state_io_rel quiet (owned_peer user i)"
  unfolding existing_connection_def device_limit_def select_server_def refresh_server_key_def owned_peer_def
  by (auto intro!: quiet_rules split: sum.split option.split server_choice.split)


section \<open>Slots are accounted for\<close>

definition db_wf :: "db \<Rightarrow> bool" where
  "db_wf d \<longleftrightarrow> db_faults d = [] \<and> distinct (map sv_id (db_servers d)) \<and> (\<forall>s \<in> set (db_servers d). 0 \<le> sv_cur s)"

lemma slots_other_peers: "slots (d\<lparr>db_peers := ps, db_next := n\<rparr>) = slots d"
  by (rule slots_cong) simp

lemma peer_create_cases:
  assumes "db_faults d = []"
  obtains (refused) e where "peer_create u sv k ip dev d = (Inl e, d)"
  | (created) p where "peer_create u sv k ip dev d = (Inr p, d\<lparr>db_peers := db_peers d @ [p], db_next := db_next d + 1\<rparr>)"
      "pe_id p = db_next d" "pe_user p = u" "pe_server p = sv" "pe_key p = k" "pe_ip p = ip" "pe_active p"
      "\<not> list_ex (\<lambda>q. pe_active q \<and> pe_server q = sv \<and> pe_key q = k) (db_peers d)"
proof (cases "assigned_ip_ok ip \<and> \<not> list_ex (\<lambda>q. pe_active q \<and> pe_server q = sv \<and> pe_key q = k) (db_peers d) \<and>
    list_ex (\<lambda>x. us_id x = u) (db_users d) \<and> list_ex (\<lambda>x. sv_id x = sv) (db_servers d)")
  case True
  let ?p = "\<lparr>pe_id = db_next d, pe_user = u, pe_server = sv, pe_key = k, pe_ip = ip, pe_active = True, pe_device = dev,
    pe_handshake = None, pe_sent = 0, pe_recv = 0, pe_created = db_now d, pe_expires = None\<rparr>"
  have "peer_create u sv k ip dev d = (Inr ?p, d\<lparr>db_peers := db_peers d @ [?p], db_next := db_next d + 1\<rparr>)"
    using True assms by (simp add: peer_create_def db_call_ok Let_def)
  then show thesis by (rule created) (use True in simp_all)
next
  case False
  then have "\<exists>e. peer_create u sv k ip dev d = (Inl e, d)"
    using assms by (auto simp: peer_create_def db_call_ok)
  then show thesis using refused by blast
qed

lemma release_slot_slots:
  assumes "db_faults d = []"
  shows "slots (snd (server_update_peer_count i (- 1) d)) = (slots d)(i := map_option (\<lambda>c. max (c - 1) 0) (slots d i))"
    and "db_peers (snd (server_update_peer_count i (- 1) d)) = db_peers d"
    and "db_faults (snd (server_update_peer_count i (- 1) d)) = []"
    and "map sv_id (db_servers (snd (server_update_peer_count i (- 1) d))) = map sv_id (db_servers d)"
    and "db_next (snd (server_update_peer_count i (- 1) d)) = db_next d"
proof -
  have r: "sv_id x = j" if "server_row d j = Some x" for j x
    using that by (auto simp: server_row_def dest: find_SomeD)
  show "slots (snd (server_update_peer_count i (- 1) d)) = (slots d)(i := map_option (\<lambda>c. max (c - 1) 0) (slots d i))"
  proof
    fix j
    have "slots (snd (server_update_peer_count i (- 1) d)) j =
        map_option (\<lambda>x. sv_cur (if sv_id x = i then x\<lparr>sv_cur := max (sv_cur x + - 1) 0, sv_updated := db_now d\<rparr> else x)) (server_row d j)"
      unfolding server_update_peer_count_def db_call_ok [OF assms] snd_conv by (rule slots_map_where) simp
    then show "slots (snd (server_update_peer_count i (- 1) d)) j =
        ((slots d)(i := map_option (\<lambda>c. max (c - 1) 0) (slots d i))) j"
      using r [of j] by (cases "server_row d j") (auto simp: slots_def)
  qed
qed (use assms in \<open>simp_all add: server_update_peer_count_def db_call_ok map_map_where\<close>)

lemma reserve_slot_slots:
  assumes "db_faults d = []" and "distinct (map sv_id (db_servers d))"
  obtains (full) d' where "server_reserve_slot i d = (Inr False, d')" "quiet_db d d'"
  | (taken) r d' where "server_reserve_slot i d = (Inr True, d')" "server_row d i = Some r" "sv_active r"
      "sv_cur r < sv_max r" "slots d' = (slots d)(i \<mapsto> sv_cur r + 1)" "db_faults d' = []" "db_peers d' = db_peers d"
      "map sv_id (db_servers d') = map sv_id (db_servers d)" "db_next d' = db_next d"
proof -
  have peers: "db_peers (snd (server_reserve_slot i d)) = db_peers d" "db_next (snd (server_reserve_slot i d)) = db_next d"
    using assms(1) by (simp_all add: server_reserve_slot_def db_call_ok Let_def)
  show thesis
  proof (cases "server_row d i")
    case None
    then have none: "\<forall>x \<in> set (db_servers d). sv_id x \<noteq> i" by (auto simp: server_row_def find_None_iff)
    let ?p = "\<lambda>x. sv_id x = i \<and> sv_active x \<and> sv_cur x < sv_max x"
    have "filter ?p (db_servers d) = []" using none by (auto simp: filter_empty_conv)
    moreover have "map_where ?p g (db_servers d) = db_servers d" for g
      using none by (auto simp: map_where_def intro!: map_idI)
    ultimately have "server_reserve_slot i d = (Inr False, d)"
      using assms(1) by (simp add: server_reserve_slot_def db_call_ok Let_def)
    then show thesis by (rule full) (simp add: quiet_db_def)
  next
    case (Some r)
    from reserve_slot_step [OF assms Some] obtain d' where d':
        "server_reserve_slot i d = (Inr (sv_active r \<and> sv_cur r < sv_max r), d')" "db_faults d' = []"
        "map sv_id (db_servers d') = map sv_id (db_servers d)"
        "server_row d' i = Some (if sv_active r \<and> sv_cur r < sv_max r
           then r\<lparr>sv_cur := sv_cur r + 1, sv_updated := db_now d\<rparr> else r)"
        "\<And>j. j \<noteq> i \<Longrightarrow> server_row d' j = server_row d j" by auto
    have p: "db_peers d' = db_peers d" "db_next d' = db_next d" using peers d'(1) by simp_all
    show thesis
    proof (cases "sv_active r \<and> sv_cur r < sv_max r")
      case True
      have "slots d' = (slots d)(i \<mapsto> sv_cur r + 1)"
        using d'(4,5) True by (intro ext) (simp add: slots_def)
      then show thesis using taken [of d' r] d' True Some p by simp
    next
      case False
      have "slots d' = slots d"
      proof
        fix j show "slots d' j = slots d j" using d'(4) d'(5) [of j] False Some by (cases "j = i") (simp_all add: slots_def)
      qed
      then show thesis using full [of d'] d' False p by (simp add: quiet_db_def)
    qed
  qed
qed

text \<open>A connection made from a reserved slot keeps it; a failed one gives it back.\<close>

lemma connect_reserved_outcome:
  assumes run: "run_state (connect_reserved env user req remote sv) s = (resp, s')"
    and ok: "db_faults (sy_db s) = []"
  shows "(status resp = 201 \<and> slots (sy_db s') = slots (sy_db s) \<and> db_faults (sy_db s') = [] \<and>
      map sv_id (db_servers (sy_db s')) = map sv_id (db_servers (sy_db s)) \<and> db_next (sy_db s') = db_next (sy_db s) + 1 \<and>
      (\<exists>p. db_peers (sy_db s') = db_peers (sy_db s) @ [p] \<and> pe_id p = db_next (sy_db s) \<and> pe_user p = us_id user \<and> pe_server p = sv_id sv \<and>
           pe_key p = cr_key req \<and> pe_active p \<and>
           \<not> list_ex (\<lambda>q. pe_active q \<and> pe_server q = sv_id sv \<and> pe_key q = cr_key req) (db_peers (sy_db s)))) \<or>
    (status resp \<noteq> 201 \<and> db_faults (sy_db s') = [] \<and> db_peers (sy_db s') = db_peers (sy_db s) \<and>
      map sv_id (db_servers (sy_db s')) = map sv_id (db_servers (sy_db s)) \<and> db_next (sy_db s') = db_next (sy_db s) \<and>
      slots (sy_db s') = (slots (sy_db s))(sv_id sv := map_option (\<lambda>c. max (c - 1) 0) (slots (sy_db s) (sv_id sv))))"
proof -
  let ?d = "sy_db s"
  obtain a w1 where a: "bk_add_peer (en_backend env) sv (cr_key req) (sy_world s) = (a, w1)" by fastforce
  note rel = release_slot_slots [OF ok, of "sv_id sv"]
  show ?thesis
  proof (cases a)
    case (Inl e)
    then show ?thesis using run a rel by (auto simp: connect_reserved_def release_slot_def split: prod.splits)
  next
    case (Inr added)
    show ?thesis
    proof (cases rule: peer_create_cases [OF ok, of "us_id user" "sv_id sv" "cr_key req" "ca_ip added" "sanitize_device_name (cr_device req)", case_names refused created])
      case (refused e)
      then show ?thesis using run a Inr rel
        by (auto simp: connect_reserved_def release_slot_def split: prod.splits)
    next
      case (created p)
      let ?d1 = "?d\<lparr>db_peers := db_peers ?d @ [p], db_next := db_next ?d + 1\<rparr>"
      let ?s1 = "s\<lparr>sy_world := w1, sy_db := ?d1\<rparr>"
      obtain u2 s2 where s2: "run_state (attach_peer_to_mesh_sessions env (us_id user) p) ?s1 = (u2, s2)" by (meson surj_pair)
      obtain u3 s3 where s3: "run_state (audit_entry env (us_id user) ''peer.connect''
          [(''peer_id'', MetaId (pe_id p)), (''server_id'', MetaId (sv_id sv)), (''ip'', MetaText (pe_ip p)),
           (''device_name'', MetaText (sanitize_device_name (cr_device req)))] remote) s2 = (u3, s3)"
        by (meson surj_pair)
      obtain key s4 where s4: "run_state (refresh_server_key env sv) s3 = (key, s4)" by fastforce
      have "quiet ?s1 s'" and st: "status resp = 201"
        using run a Inr created(1) s2 s3 s4 calm.io_run [OF quiet_attach s2] calm.io_run [OF quiet_audit s3]
          calm.io_run [OF quiet_parts(4) s4]
        by (auto simp: connect_reserved_def dest: calm.R_trans)
      then show ?thesis using created ok slots_other_peers [where d = ?d] by (auto simp: quiet_def quiet_db_def)
    qed
  qed
qed

lemma existing_connection_status:
  "run_state (existing_connection env user key) s = (Some resp, t) \<Longrightarrow> status resp = 200"
  by (auto simp: existing_connection_def split: prod.splits sum.splits)

lemma select_server_status:
  "run_state (select_server c) s = (Inl resp, t) \<Longrightarrow> status resp \<noteq> 201"
  by (auto simp: select_server_def split: prod.splits sum.splits server_choice.splits)

definition active_count :: "db \<Rightarrow> uuid \<Rightarrow> int" where
  "active_count d u = int (length (filter (\<lambda>p. pe_user p = u \<and> pe_active p) (db_peers d)))"

lemma device_limit_run:
  assumes "db_faults (sy_db s) = []"
  shows "run_state (device_limit env user) s =
    ((if 0 < MaxDevicesPerUser (en_cfg env) \<and> MaxDevicesPerUser (en_cfg env) \<le> active_count (sy_db s) (us_id user)
      then Some (JsonError (''device limit reached (max '' @ itoa (MaxDevicesPerUser (en_cfg env)) @ '')'') 409) else None), s)"
  using assms by (simp add: device_limit_def peer_count_by_user_def db_call_ok active_count_def)

text \<open>The bookkeeping of a request, whatever it answers.\<close>

definition kept :: "nat \<Rightarrow> db \<Rightarrow> db \<Rightarrow> bool" where
  "kept n d d' \<longleftrightarrow> db_faults d' = [] \<and> map sv_id (db_servers d') = map sv_id (db_servers d) \<and> db_next d' = db_next d + n"

definition connect_post :: "'w env \<Rightarrow> user \<Rightarrow> string \<Rightarrow> db \<Rightarrow> ctl_data response \<Rightarrow> db \<Rightarrow> bool" where
  "connect_post env user key d resp d' \<longleftrightarrow>
     (if status resp = 201 then
        kept 1 d d' \<and>
        (\<exists>p sv. db_peers d' = db_peers d @ [p] \<and> pe_id p = db_next d \<and> pe_user p = us_id user \<and> pe_key p = key \<and> pe_active p \<and>
           server_row d (pe_server p) = Some sv \<and> sv_active sv \<and> sv_cur sv < sv_max sv \<and>
           slots d' = (slots d)(pe_server p \<mapsto> sv_cur sv + 1) \<and>
           \<not> list_ex (\<lambda>q. pe_active q \<and> pe_server q = pe_server p \<and> pe_key q = key) (db_peers d)) \<and>
        (0 < MaxDevicesPerUser (en_cfg env) \<longrightarrow> active_count d' (us_id user) \<le> MaxDevicesPerUser (en_cfg env))
      else kept 0 d d' \<and> db_peers d' = db_peers d \<and> slots d' = slots d)"

lemma connect_post_quiet:
  "status resp \<noteq> 201 \<Longrightarrow> quiet s t \<Longrightarrow> db_faults (sy_db s) = [] \<Longrightarrow> connect_post env user key (sy_db s) resp (sy_db t)"
  by (simp add: connect_post_def kept_def quiet_def quiet_db_def)

lemma server_row_nonneg: "db_wf d \<Longrightarrow> server_row d i = Some r \<Longrightarrow> 0 \<le> sv_cur r"
  by (auto simp: db_wf_def server_row_def dest: find_SomeD)

text \<open>Reads change nothing at all.\<close>

definition same_db :: "'w sys \<Rightarrow> 'w sys \<Rightarrow> bool" where
  "same_db s t \<longleftrightarrow> (db_faults (sy_db s) = [] \<longrightarrow> sy_db t = sy_db s)"

interpretation reading: step_relation same_db
  by unfold_locales (auto simp: same_db_def)

lemma same_db_read:
  assumes "\<And>d. db_faults d = [] \<Longrightarrow> snd (q d) = d"
  shows "state_io_rel same_db (db_op q)"
  using assms by (auto simp: state_io_rel_def same_db_def split: prod.split) (metis snd_conv)

lemma same_db_world: "state_io_rel same_db (world_op f)"
  by (auto simp: state_io_rel_def same_db_def split: prod.split)

lemma same_db_reads:
  "state_io_rel same_db (db_op (peer_active_by_user_key u k))"
  "state_io_rel same_db (db_op (server_by_id i))"
  "state_io_rel same_db (db_op (peer_count_by_user i))"
  "state_io_rel same_db (db_op server_least_loaded)"
  "state_io_rel same_db (db_op (peer_by_id i))"
  by (rule same_db_read, simp add: reads_def db_call_ok)+

lemma same_db_parts:
  "state_io_rel same_db (existing_connection env user key)"
  "state_io_rel same_db (select_server c)"
  "state_io_rel same_db (owned_peer user i)"
  unfolding existing_connection_def select_server_def owned_peer_def
  by (auto intro!: reading.io_return reading.io_bind same_db_world same_db_reads
      split: sum.split option.split server_choice.split)

lemma connect_new_outcome:
  assumes run: "run_state (connect_new env user req remote) s = (resp, t)" and wf: "db_wf (sy_db s)"
  shows "connect_post env user (cr_key req) (sy_db s) resp (sy_db t)"
proof -
  let ?max = "MaxDevicesPerUser (en_cfg env)" and ?d = "sy_db s"
  from wf have ok: "db_faults ?d = []" "distinct (map sv_id (db_servers ?d))" by (auto simp: db_wf_def)
  show ?thesis
  proof (cases "0 < ?max \<and> ?max \<le> active_count ?d (us_id user)")
    case True
    then show ?thesis using run ok by (auto simp: connect_new_def device_limit_run connect_post_def kept_def)
  next
    case False
    then have lim: "run_state (device_limit env user) s = (None, s)" using ok by (simp add: device_limit_run)
    obtain sel s1 where sel: "run_state (select_server (cr_server req)) s = (sel, s1)" by fastforce
    have d1: "sy_db s1 = ?d" using reading.io_run [OF same_db_parts(2) sel] ok by (simp add: same_db_def)
    show ?thesis
    proof (cases sel)
      case (Inl r)
      then show ?thesis using run lim sel d1 select_server_status [of "cr_server req" s r s1]
        ok by (auto simp: connect_new_def connect_post_def kept_def)
    next
      case (Inr sv)
      show ?thesis
      proof (rule reserve_slot_slots [OF ok, of "sv_id sv"])
        fix d' assume f: "server_reserve_slot (sv_id sv) ?d = (Inr False, d')" "quiet_db ?d d'"
        then show ?thesis using run lim sel d1 Inr ok by (auto simp: connect_new_def connect_post_def kept_def quiet_db_def)
      next
        fix r d' assume f: "server_reserve_slot (sv_id sv) ?d = (Inr True, d')" "server_row ?d (sv_id sv) = Some r"
            "sv_active r" "sv_cur r < sv_max r" "slots d' = (slots ?d)(sv_id sv \<mapsto> sv_cur r + 1)" "db_faults d' = []"
            "db_peers d' = db_peers ?d" "map sv_id (db_servers d') = map sv_id (db_servers ?d)" "db_next d' = db_next ?d"
        let ?s2 = "s1\<lparr>sy_db := d', sy_servers := invalidate_cache (sy_servers s1)\<rparr>"
        have run2: "run_state (connect_reserved env user req remote sv) ?s2 = (resp, t)"
          using run lim sel d1 Inr f(1) by (simp add: connect_new_def)
        have undone: "(slots d')(sv_id sv := map_option (\<lambda>c. max (c - 1) 0) (slots d' (sv_id sv))) = slots ?d"
          using f(2,5) server_row_nonneg [OF wf f(2)] by (auto simp: slots_def)
        from connect_reserved_outcome [OF run2] f(6)
        consider (made) p where "status resp = 201" "slots (sy_db t) = slots d'" "db_peers (sy_db t) = db_peers ?d @ [p]"
            "pe_id p = db_next ?d" "kept 1 ?d (sy_db t)" "pe_user p = us_id user" "pe_server p = sv_id sv" "pe_key p = cr_key req" "pe_active p"
            "\<not> list_ex (\<lambda>q. pe_active q \<and> pe_server q = sv_id sv \<and> pe_key q = cr_key req) (db_peers ?d)"
          | (failed) "status resp \<noteq> 201" "kept 0 ?d (sy_db t)" "db_peers (sy_db t) = db_peers ?d" "slots (sy_db t) = slots ?d"
          using f(7-9) undone by (auto simp: kept_def)
        then show ?thesis
        proof cases
          case made
          then have "active_count (sy_db t) (us_id user) = active_count ?d (us_id user) + 1" by (simp add: active_count_def)
          then have lim1: "0 < ?max \<longrightarrow> active_count (sy_db t) (us_id user) \<le> ?max" using False by linarith
          have sl: "slots (sy_db t) = (slots ?d)(pe_server p \<mapsto> sv_cur r + 1)" using made f(5) by simp
          have row: "server_row ?d (pe_server p) = Some r"
              "\<not> list_ex (\<lambda>q. pe_active q \<and> pe_server q = pe_server p \<and> pe_key q = cr_key req) (db_peers ?d)"
            using made(7,10) f(2) by simp_all
          show ?thesis unfolding connect_post_def made(1) if_P [OF refl]
            by (intro conjI exI [of _ p] exI [of _ r] lim1 sl made(3-6,8,9) f(3,4) row)
        next
          case failed
          then show ?thesis by (simp add: connect_post_def)
        qed
      qed
    qed
  qed
qed

lemma connect_outcome:
  assumes "run_state (connect env limited user body remote) s = (resp, t)" and "db_wf (sy_db s)"
  shows "connect_post env user (case body of None \<Rightarrow> [] | Some req \<Rightarrow> cr_key req) (sy_db s) resp (sy_db t) \<and>
    (status resp = 201 \<longrightarrow> body \<noteq> None)"
proof (cases "limited \<or> body = None \<or> cr_key (the body) = [] \<or> \<not> is_valid_wg_key (cr_key (the body))")
  case True
  then show ?thesis using assms(1) assms(2)
    by (cases body) (auto simp: connect_def connect_post_def kept_def db_wf_def split: if_splits)
next
  case False
  then obtain req where req: "body = Some req" by auto
  obtain ex s1 where ex: "run_state (existing_connection env user (cr_key req)) s = (ex, s1)" by fastforce
  have d1: "sy_db s1 = sy_db s"
    using reading.io_run [OF same_db_parts(1) ex] assms(2) by (simp add: same_db_def db_wf_def)
  show ?thesis
  proof (cases ex)
    case None
    then have "run_state (connect_new env user req remote) s1 = (resp, t)"
      using assms(1) False req ex by (simp add: connect_def)
    from connect_new_outcome [OF this] assms(2) have "connect_post env user (cr_key req) (sy_db s) resp (sy_db t)"
      by (simp add: d1)
    then show ?thesis using req by simp
  next
    case (Some r)
    then show ?thesis using assms(1) False req ex existing_connection_status [of env user "cr_key req" s r s1] d1
      assms(2) by (simp add: connect_def connect_post_def kept_def db_wf_def)
  qed
qed


definition demo_backend :: "unit backend" where
  "demo_backend =
     \<lparr>bk_add_peer = (\<lambda>s k w. (Inr \<lparr>ca_key = k, ca_ip = ''10.8.0.2/32'', ca_endpoint = []\<rparr>, w)),
      bk_remove_peer = (\<lambda>s k w. (Inr (), w)), bk_server_stats = (\<lambda>s w. (Inl BadCoreData, w)),
      bk_list_peers = (\<lambda>s w. (Inr [], w)), bk_health = (\<lambda>s w. (None, w)),
      bk_geo = (\<lambda>ip w. (Some (200, ''DE''), w)), bk_add_mesh_ip = None, bk_remove_mesh_ip = None\<rparr>"

definition demo_env :: "unit env" where
  "demo_env = \<lparr>en_cfg = quiet_config\<lparr>MaxDevicesPerUser := 5\<rparr>, en_backend = demo_backend, en_hub = True, en_sha = (\<lambda>s. [1, 2, 3, 4])\<rparr>"

definition demo_sys :: "unit sys" where
  "demo_sys = \<lparr>sy_db = demo_db\<lparr>db_users := [demo_user]\<rparr>, sy_servers = new_server_repo, sy_countries = Map.empty, sy_events = [], sy_world = ()\<rparr>"

definition demo_key :: string where
  "demo_key = b64_encode (replicate 32 0)"

definition demo_connect :: connect_request where
  "demo_connect = \<lparr>cr_server = ServerId 1, cr_key = demo_key, cr_device = ''laptop''\<rparr>"

lemma demo_key_valid: "is_valid_wg_key demo_key" "demo_key \<noteq> []"
proof -
  have d: "b64_decode demo_key = Some (replicate 32 0)" unfolding demo_key_def by (rule b64_decode_encode)
  then show "is_valid_wg_key demo_key" by (simp add: is_valid_wg_key_def)
  show "demo_key \<noteq> []"
  proof
    assume "demo_key = []"
    with d show False by (simp add: b64_decode_def)
  qed
qed

lemma demo_ip_ok: "assigned_ip_ok ''10.8.0.2/32''"
  by (simp add: assigned_ip_ok_def digits_between_def is_digit_def code_def)


section \<open>Ending a connection\<close>

text \<open>One slot less on a server.\<close>

definition one_less :: "uuid \<Rightarrow> (uuid \<Rightarrow> int option) \<Rightarrow> uuid \<Rightarrow> int option" where
  "one_less i f = f(i := map_option (\<lambda>c. max (c - 1) 0) (f i))"

lemma one_less_None: "f i = None \<Longrightarrow> one_less i f = f"
  by (auto simp: one_less_def)

lemma server_by_id_run:
  "db_faults d = [] \<Longrightarrow> server_by_id i d = (one_row (map_option scan_server_with_token (server_row d i)), d)"
  by (simp add: server_by_id_def db_call_ok server_row_def)

lemma remove_from_core_outcome:
  assumes "run_state (remove_from_core env p) s = (u, t)" and ok: "db_faults (sy_db s) = []"
  shows "slots (sy_db t) = one_less (pe_server p) (slots (sy_db s)) \<and> db_peers (sy_db t) = db_peers (sy_db s) \<and>
    kept 0 (sy_db s) (sy_db t)"
proof (cases "server_row (sy_db s) (pe_server p)")
  case None
  then have "slots (sy_db s) (pe_server p) = None" by (simp add: slots_def)
  moreover have "t = s" using assms None by (simp add: remove_from_core_def server_by_id_run one_row_def)
  ultimately show ?thesis using ok by (simp add: one_less_None kept_def)
next
  case (Some r)
  then have "sy_db t = snd (server_update_peer_count (pe_server p) (- 1) (sy_db s))"
    using assms by (auto simp: remove_from_core_def server_by_id_run one_row_def split: prod.splits)
  then show ?thesis using release_slot_slots [OF ok, of "pe_server p"] by (simp add: one_less_def kept_def)
qed

lemma quiet_kept: "quiet s t \<Longrightarrow> db_faults (sy_db s) = [] \<Longrightarrow>
    kept 0 (sy_db s) (sy_db t) \<and> db_peers (sy_db t) = db_peers (sy_db s) \<and> slots (sy_db t) = slots (sy_db s)"
  by (simp add: quiet_def quiet_db_def kept_def)

lemma kept_trans: "kept m a b \<Longrightarrow> kept n b c \<Longrightarrow> kept (m + n) a c"
  by (simp add: kept_def)

lemma peer_deactivate_run:
  "db_faults d = [] \<Longrightarrow> peer_deactivate i d =
     (Inr (), d\<lparr>db_peers := map_where (\<lambda>p. pe_id p = i) (\<lambda>p. p\<lparr>pe_active := False\<rparr>) (db_peers d)\<rparr>)"
  by (simp add: peer_deactivate_def db_call_ok)

lemma slots_peers [simp]: "slots (d\<lparr>db_peers := ps\<rparr>) = slots d"
  by (rule slots_cong) simp

lemma disconnect_peer_outcome:
  assumes run: "run_state (disconnect_peer env p) s = (u, t)" and ok: "db_faults (sy_db s) = []"
  shows "slots (sy_db t) = one_less (pe_server p) (slots (sy_db s)) \<and> kept 0 (sy_db s) (sy_db t) \<and>
    db_peers (sy_db t) = map_where (\<lambda>q. pe_id q = pe_id p) (\<lambda>q. q\<lparr>pe_active := False\<rparr>) (db_peers (sy_db s))"
proof -
  obtain u1 s1 where s1: "run_state (remove_from_core env p) s = (u1, s1)" by (meson surj_pair)
  obtain u2 s2 where s2: "run_state (detach_peer_from_mesh_sessions env p) s1 = (u2, s2)" by (meson surj_pair)
  note r1 = remove_from_core_outcome [OF s1 ok]
  then have ok1: "db_faults (sy_db s1) = []" by (simp add: kept_def)
  note r2 = quiet_kept [OF calm.io_run [OF quiet_detach s2] ok1]
  then have ok2: "db_faults (sy_db s2) = []" by (simp add: kept_def)
  have "sy_db t = (sy_db s2)\<lparr>db_peers :=
      map_where (\<lambda>q. pe_id q = pe_id p) (\<lambda>q. q\<lparr>pe_active := False\<rparr>) (db_peers (sy_db s2))\<rparr>"
    using run s1 s2 ok2 by (auto simp: disconnect_peer_def peer_deactivate_run)
  then show ?thesis using r1 r2 by (simp add: kept_def)
qed

text \<open>The peer a request names.\<close>

lemma owned_peer_run:
  assumes "db_faults (sy_db s) = []"
  shows "run_state (owned_peer user (Some i)) s =
    ((case find (\<lambda>p. pe_id p = i) (db_peers (sy_db s)) of
        None \<Rightarrow> Inl (JsonError ''peer not found'' 404)
      | Some p \<Rightarrow> if pe_user p \<noteq> us_id user \<and> \<not> is_admin user then Inl (JsonError ''not your peer'' 403) else Inr p), s)"
  using assms by (simp add: owned_peer_def peer_by_id_def db_call_ok one_row_def split: option.split)

lemma owned_peer_Inl: "run_state (owned_peer user i) s = (Inl r, t) \<Longrightarrow> status r \<noteq> 200"
  by (auto simp: owned_peer_def split: option.splits prod.splits sum.splits if_splits)

text \<open>Whatever it answers, \<^verbatim>\<open>Disconnect\<close> either leaves connections and counts, or takes the named peer down.\<close>

lemma disconnect_outcome:
  assumes run: "run_state (disconnect env user i remote) s = (resp, t)" and ok: "db_faults (sy_db s) = []"
  shows "kept 0 (sy_db s) (sy_db t) \<and>
    (if status resp = 200 then
       (\<exists>p. i = Some (pe_id p) \<and> find (\<lambda>q. pe_id q = pe_id p) (db_peers (sy_db s)) = Some p \<and>
          (pe_user p = us_id user \<or> is_admin user) \<and>
          slots (sy_db t) = one_less (pe_server p) (slots (sy_db s)) \<and>
          db_peers (sy_db t) = map_where (\<lambda>q. pe_id q = pe_id p) (\<lambda>q. q\<lparr>pe_active := False\<rparr>) (db_peers (sy_db s)))
     else db_peers (sy_db t) = db_peers (sy_db s) \<and> slots (sy_db t) = slots (sy_db s))"
proof -
  obtain o1 s1 where o: "run_state (owned_peer user i) s = (o1, s1)" by fastforce
  have d1: "sy_db s1 = sy_db s" using reading.io_run [OF same_db_parts(3) o] ok by (simp add: same_db_def)
  show ?thesis
  proof (cases o1)
    case (Inl r)
    then show ?thesis using run o d1 ok owned_peer_Inl [of user i s r s1] by (auto simp: disconnect_def kept_def)
  next
    case (Inr p)
    then obtain j where j: "i = Some j" using o by (cases i) (auto simp: owned_peer_def)
    have p: "find (\<lambda>q. pe_id q = j) (db_peers (sy_db s)) = Some p" "pe_user p = us_id user \<or> is_admin user"
      using o Inr ok j by (auto simp: owned_peer_run split: option.splits if_splits)
    then have pj: "pe_id p = j" by (auto dest: find_SomeD)
    obtain u2 s2 where s2: "run_state (disconnect_peer env p) s1 = (u2, s2)" by (meson surj_pair)
    have ok1: "db_faults (sy_db s1) = []" using d1 ok by simp
    note r2 = disconnect_peer_outcome [OF s2 ok1]
    then have ok2: "db_faults (sy_db s2) = []" by (simp add: kept_def)
    obtain u3 where s3: "run_state (audit_entry env (us_id user) ''peer.disconnect''
        [(''peer_id'', MetaId (pe_id p)), (''server_id'', MetaId (pe_server p))] remote) s2 = (u3, t)"
      and st: "status resp = 200" using run o Inr s2 by (auto simp: disconnect_def split: prod.splits)
    have "kept 0 (sy_db s) (sy_db t) \<and> slots (sy_db t) = one_less (pe_server p) (slots (sy_db s)) \<and>
        db_peers (sy_db t) = map_where (\<lambda>q. pe_id q = pe_id p) (\<lambda>q. q\<lparr>pe_active := False\<rparr>) (db_peers (sy_db s))"
      using quiet_kept [OF calm.io_run [OF quiet_audit s3] ok2] r2 d1 by (simp add: kept_def)
    then show ?thesis using st p pj j by auto
  qed
qed

lemma drop_peers_effect:
  assumes "db_faults d = []"
  shows "kept 0 d (drop_peers q d)" and "slots (drop_peers q d) = slots d"
    and "db_peers (drop_peers q d) = filter (\<lambda>x. \<not> q x) (db_peers d)"
proof -
  show "slots (drop_peers q d) = slots d" by (rule slots_cong) (simp add: drop_peers_def Let_def)
qed (use assms in \<open>simp_all add: drop_peers_def Let_def kept_def\<close>)

text \<open>\<^verbatim>\<open>DeleteConnection\<close> lowers the count only for an active peer.\<close>

lemma delete_connection_outcome:
  assumes run: "run_state (delete_connection env user i remote) s = (resp, t)" and ok: "db_faults (sy_db s) = []"
  shows "kept 0 (sy_db s) (sy_db t) \<and>
    (if status resp = 200 then
       (\<exists>p. i = Some (pe_id p) \<and> find (\<lambda>q. pe_id q = pe_id p) (db_peers (sy_db s)) = Some p \<and>
          (pe_user p = us_id user \<or> is_admin user) \<and>
          slots (sy_db t) = (if pe_active p then one_less (pe_server p) (slots (sy_db s)) else slots (sy_db s)) \<and>
          db_peers (sy_db t) = filter (\<lambda>q. pe_id q \<noteq> pe_id p) (db_peers (sy_db s)))
     else db_peers (sy_db t) = db_peers (sy_db s) \<and> slots (sy_db t) = slots (sy_db s))"
proof -
  obtain o1 s1 where o: "run_state (owned_peer user i) s = (o1, s1)" by fastforce
  have d1: "sy_db s1 = sy_db s" using reading.io_run [OF same_db_parts(3) o] ok by (simp add: same_db_def)
  show ?thesis
  proof (cases o1)
    case (Inl r)
    then show ?thesis using run o d1 ok owned_peer_Inl [of user i s r s1] by (auto simp: delete_connection_def kept_def)
  next
    case (Inr p)
    then obtain j where j: "i = Some j" using o by (cases i) (auto simp: owned_peer_def)
    have p: "find (\<lambda>q. pe_id q = j) (db_peers (sy_db s)) = Some p" "pe_user p = us_id user \<or> is_admin user"
      using o Inr ok j by (auto simp: owned_peer_run split: option.splits if_splits)
    then have pj: "pe_id p = j" by (auto dest: find_SomeD)
    have ok1: "db_faults (sy_db s1) = []" using d1 ok by simp
    let ?rm = "if pe_active p then remove_from_core env p else answer ()"
    obtain u2 s2 where s2: "run_state ?rm s1 = (u2, s2)" by (meson surj_pair)
    have r2: "slots (sy_db s2) = (if pe_active p then one_less (pe_server p) (slots (sy_db s)) else slots (sy_db s)) \<and>
        db_peers (sy_db s2) = db_peers (sy_db s) \<and> kept 0 (sy_db s) (sy_db s2)"
    proof (cases "pe_active p")
      case True
      then show ?thesis using s2 remove_from_core_outcome [of env p s1 u2 s2] ok1 d1 by simp
    next
      case False
      then show ?thesis using s2 d1 ok by (simp add: kept_def)
    qed
    then have ok2: "db_faults (sy_db s2) = []" by (simp add: kept_def)
    obtain u3 s3 where s3: "run_state (detach_peer_from_mesh_sessions env p) s2 = (u3, s3)" by (meson surj_pair)
    note r3 = quiet_kept [OF calm.io_run [OF quiet_detach s3] ok2]
    then have ok3: "db_faults (sy_db s3) = []" by (simp add: kept_def)
    let ?d4 = "drop_peers (\<lambda>q. pe_id q = pe_id p) (sy_db s3)"
    note r4 = drop_peers_effect [OF ok3, of "\<lambda>q. pe_id q = pe_id p"]
    let ?log = "audit_entry env (us_id user) ''peer.delete''
        [(''peer_id'', MetaId (pe_id p)), (''server_id'', MetaId (pe_server p))] remote"
    obtain u4 s5 where s4: "run_state ?log (s3\<lparr>sy_db := ?d4\<rparr>) = (u4, s5)" by (meson surj_pair)
    have "(resp, t) = (JsonOK (StatusData ''deleted'') 200, s5)"
      unfolding run [symmetric] by (simp add: delete_connection_def o Inr s2 s3 s4 ok3 peer_delete_def db_call_ok)
    then have st: "status resp = 200" and t: "t = s5" by simp_all
    have "kept 0 (sy_db s) (sy_db t) \<and>
        slots (sy_db t) = (if pe_active p then one_less (pe_server p) (slots (sy_db s)) else slots (sy_db s)) \<and>
        db_peers (sy_db t) = filter (\<lambda>q. pe_id q \<noteq> pe_id p) (db_peers (sy_db s))"
      using quiet_kept [OF calm.io_run [OF quiet_audit s4]] r2 r3 r4 t by (simp add: kept_def)
    then show ?thesis using st p pj j by auto
  qed
qed

section \<open>Counts match connections\<close>

definition on_server :: "uuid \<Rightarrow> peer list \<Rightarrow> int" where
  "on_server i ps = int (length (filter (\<lambda>p. pe_active p \<and> pe_server p = i) ps))"

lemma on_server_simps [simp]:
  "on_server i [] = 0"
  "on_server i (p # ps) = (if pe_active p \<and> pe_server p = i then 1 else 0) + on_server i ps"
  "on_server i (ps @ qs) = on_server i ps + on_server i qs"
  by (simp_all add: on_server_def)

lemma on_server_nonneg: "0 \<le> on_server i ps"
  by (simp add: on_server_def)

lemma on_server_deactivate:
  assumes "distinct (map pe_id ps)" and "find (\<lambda>q. pe_id q = k) ps = Some p" and "pe_active p"
  shows "on_server i (map_where (\<lambda>q. pe_id q = k) (\<lambda>q. q\<lparr>pe_active := False\<rparr>) ps) =
    on_server i ps - (if pe_server p = i then 1 else 0)"
  using assms
proof (induction ps)
  case (Cons q ps)
  show ?case
  proof (cases "pe_id q = k")
    case True
    then have "\<forall>x \<in> set ps. pe_id x \<noteq> k" using Cons.prems(1) by (fastforce simp: image_iff)
    then have "map_where (\<lambda>q. pe_id q = k) (\<lambda>q. q\<lparr>pe_active := False\<rparr>) ps = ps"
      by (auto simp: map_where_def intro!: map_idI)
    then show ?thesis using True Cons.prems by simp
  next
    case False
    then show ?thesis using Cons by simp
  qed
qed simp

lemma on_server_delete:
  assumes "distinct (map pe_id ps)" and "find (\<lambda>q. pe_id q = k) ps = Some p"
  shows "on_server i (filter (\<lambda>q. pe_id q \<noteq> k) ps) = on_server i ps - (if pe_active p \<and> pe_server p = i then 1 else 0)"
  using assms
proof (induction ps)
  case (Cons q ps)
  show ?case
  proof (cases "pe_id q = k")
    case True
    then have "\<forall>x \<in> set ps. pe_id x \<noteq> k" using Cons.prems(1) by (fastforce simp: image_iff)
    then have "filter (\<lambda>q. pe_id q \<noteq> k) ps = ps" by (simp add: filter_id_conv)
    then show ?thesis using True Cons.prems by simp
  next
    case False
    then show ?thesis using Cons by simp
  qed
qed simp

text \<open>The database is in order: identifiers are unique and every server counts its active peers.\<close>

definition counts_ok :: "db \<Rightarrow> bool" where
  "counts_ok d \<longleftrightarrow>
     db_wf d \<and> distinct (map pe_id (db_peers d)) \<and> (\<forall>p \<in> set (db_peers d). pe_id p < db_next d) \<and>
     (\<forall>i c. slots d i = Some c \<longrightarrow> c = on_server i (db_peers d))"

lemma server_row_of:
  assumes "distinct (map sv_id (db_servers d))" and "x \<in> set (db_servers d)"
  shows "server_row d (sv_id x) = Some x"
proof -
  have "find (\<lambda>y. sv_id y = sv_id x) xs = Some x" if "distinct (map sv_id xs)" "x \<in> set xs" for xs
    using that by (induction xs) auto
  then show ?thesis using assms by (simp add: server_row_def)
qed

lemma counts_okI:
  assumes "counts_ok d" and k: "kept n d d'"
    and "distinct (map pe_id (db_peers d'))" and "\<forall>p \<in> set (db_peers d'). pe_id p < db_next d'"
    and c: "\<And>i c. slots d' i = Some c \<Longrightarrow> c = on_server i (db_peers d')"
  shows "counts_ok d'"
proof -
  have dist: "distinct (map sv_id (db_servers d'))" using assms(1) k by (simp add: counts_ok_def db_wf_def kept_def)
  have "0 \<le> sv_cur x" if "x \<in> set (db_servers d')" for x
    using c [of "sv_id x" "sv_cur x"] server_row_of [OF dist that] on_server_nonneg by (simp add: slots_def)
  then show ?thesis using assms dist by (simp add: counts_ok_def db_wf_def kept_def)
qed

lemma find_in_set: "find q xs = Some x \<Longrightarrow> x \<in> set xs"
  by (auto simp: find_Some_iff)

lemma on_server_pos: "p \<in> set ps \<Longrightarrow> pe_active p \<Longrightarrow> 1 \<le> on_server (pe_server p) ps"
  using on_server_nonneg by (induction ps) (auto simp: add_increasing)

lemma counts_ok_connect:
  assumes ok: "counts_ok (sy_db s)" and run: "run_state (connect env limited user body remote) s = (resp, t)"
  shows "counts_ok (sy_db t)"
proof -
  from ok have wf: "db_wf (sy_db s)" by (simp add: counts_ok_def)
  note post = connect_outcome [OF run wf]
  show ?thesis
  proof (cases "status resp = 201")
    case True
    then obtain p sv where p: "db_peers (sy_db t) = db_peers (sy_db s) @ [p]" "pe_id p = db_next (sy_db s)" "pe_active p"
        "server_row (sy_db s) (pe_server p) = Some sv" "slots (sy_db t) = (slots (sy_db s))(pe_server p \<mapsto> sv_cur sv + 1)"
      and k: "kept 1 (sy_db s) (sy_db t)"
      using post by (auto simp: connect_post_def)
    have row: "sv_cur sv = on_server (pe_server p) (db_peers (sy_db s))"
      using ok p(4) by (simp add: counts_ok_def slots_def)
    show ?thesis
    proof (rule counts_okI [OF ok k])
      show "distinct (map pe_id (db_peers (sy_db t)))" "\<forall>p \<in> set (db_peers (sy_db t)). pe_id p < db_next (sy_db t)"
        using ok p(1,2) k by (fastforce simp: counts_ok_def kept_def)+
      show "c = on_server i (db_peers (sy_db t))" if "slots (sy_db t) i = Some c" for i c
        using that ok p row by (auto simp: counts_ok_def split: if_splits)
    qed
  next
    case False
    then have "kept 0 (sy_db s) (sy_db t)" "db_peers (sy_db t) = db_peers (sy_db s)" "slots (sy_db t) = slots (sy_db s)"
      using post by (simp_all add: connect_post_def)
    with ok show ?thesis by (intro counts_okI [OF ok, of 0]) (simp_all add: counts_ok_def kept_def)
  qed
qed

lemma counts_ok_one_less:
  assumes ok: "counts_ok d" and k: "kept 0 d d'" and p: "p \<in> set (db_peers d)" "pe_active p"
    and s: "slots d' = one_less (pe_server p) (slots d)" and "distinct (map pe_id (db_peers d'))"
    and "\<forall>q \<in> set (db_peers d'). pe_id q < db_next d"
    and cnt: "\<And>i. on_server i (db_peers d') = on_server i (db_peers d) - (if pe_server p = i then 1 else 0)"
  shows "counts_ok d'"
proof (rule counts_okI [OF ok k])
  show "c = on_server i (db_peers d')" if "slots d' i = Some c" for i c
    using that ok on_server_pos [OF p] unfolding s cnt one_less_def
    by (auto simp: counts_ok_def split: if_splits)
qed (use assms in \<open>simp_all add: kept_def\<close>)

lemma counts_ok_delete:
  assumes ok: "counts_ok (sy_db s)" and run: "run_state (delete_connection env user i remote) s = (resp, t)"
  shows "counts_ok (sy_db t)"
proof -
  from ok have "db_faults (sy_db s) = []" by (simp add: counts_ok_def db_wf_def)
  note post = delete_connection_outcome [OF run this]
  show ?thesis
  proof (cases "status resp = 200")
    case True
    then obtain p where p: "find (\<lambda>q. pe_id q = pe_id p) (db_peers (sy_db s)) = Some p"
        "slots (sy_db t) = (if pe_active p then one_less (pe_server p) (slots (sy_db s)) else slots (sy_db s))"
        "db_peers (sy_db t) = filter (\<lambda>q. pe_id q \<noteq> pe_id p) (db_peers (sy_db s))" and k: "kept 0 (sy_db s) (sy_db t)"
      using post by auto
    have dist: "distinct (map pe_id (db_peers (sy_db s)))" using ok by (simp add: counts_ok_def)
    note cnt = on_server_delete [OF dist p(1)]
    have rest: "distinct (map pe_id (db_peers (sy_db t)))" "\<forall>q \<in> set (db_peers (sy_db t)). pe_id q < db_next (sy_db s)"
      using ok p(3) by (auto simp: counts_ok_def distinct_map_filterI)
    show ?thesis
    proof (cases "pe_active p")
      case True
      then show ?thesis using p cnt rest k
        by (intro counts_ok_one_less [OF ok k find_in_set [OF p(1)]]) simp_all
    next
      case False
      show ?thesis
        by (rule counts_okI [OF ok k rest(1)]) (use False ok p cnt k rest in \<open>simp_all add: counts_ok_def kept_def\<close>)
    qed
  next
    case False
    with ok post show ?thesis by (intro counts_okI [OF ok, of 0]) (simp_all add: counts_ok_def kept_def)
  qed
qed

lemma counts_ok_disconnect:
  assumes ok: "counts_ok (sy_db s)" and run: "run_state (disconnect env user i remote) s = (resp, t)"
    and act: "\<forall>p \<in> set (db_peers (sy_db s)). i = Some (pe_id p) \<longrightarrow> pe_active p"
  shows "counts_ok (sy_db t)"
proof -
  from ok have "db_faults (sy_db s) = []" by (simp add: counts_ok_def db_wf_def)
  note post = disconnect_outcome [OF run this]
  show ?thesis
  proof (cases "status resp = 200")
    case True
    then obtain p where p: "i = Some (pe_id p)" "find (\<lambda>q. pe_id q = pe_id p) (db_peers (sy_db s)) = Some p"
        "slots (sy_db t) = one_less (pe_server p) (slots (sy_db s))"
        "db_peers (sy_db t) = map_where (\<lambda>q. pe_id q = pe_id p) (\<lambda>q. q\<lparr>pe_active := False\<rparr>) (db_peers (sy_db s))"
      and k: "kept 0 (sy_db s) (sy_db t)"
      using post by auto
    have dist: "distinct (map pe_id (db_peers (sy_db s)))" using ok by (simp add: counts_ok_def)
    have a: "pe_active p" using act p(1) find_in_set [OF p(2)] by simp
    have ids: "map pe_id (db_peers (sy_db t)) = map pe_id (db_peers (sy_db s))" unfolding p(4) by (simp add: map_map_where)
    have "\<forall>q \<in> set (db_peers (sy_db t)). pe_id q < db_next (sy_db s)"
      unfolding p(4) using ok by (auto simp: counts_ok_def set_map_where)
    then show ?thesis
      using dist ids on_server_deactivate [OF dist p(2) a] p(3,4)
      by (intro counts_ok_one_less [OF ok k find_in_set [OF p(2)] a]) simp_all
  next
    case False
    with ok post show ?thesis by (intro counts_okI [OF ok, of 0]) (simp_all add: counts_ok_def kept_def)
  qed
qed

text \<open>A user-facing request on connections; \<^verbatim>\<open>Disconnect\<close> names a peer that is still active.\<close>

inductive conn_step :: "'w env \<Rightarrow> 'w sys \<Rightarrow> 'w sys \<Rightarrow> bool" for env where
  connect: "run_state (connect env limited user body remote) s = (resp, t) \<Longrightarrow> conn_step env s t"
| delete: "run_state (delete_connection env user i remote) s = (resp, t) \<Longrightarrow> conn_step env s t"
| disconnect: "run_state (disconnect env user i remote) s = (resp, t) \<Longrightarrow>
    \<forall>p \<in> set (db_peers (sy_db s)). i = Some (pe_id p) \<longrightarrow> pe_active p \<Longrightarrow> conn_step env s t"

lemma conn_step_counts: "conn_step env s t \<Longrightarrow> counts_ok (sy_db s) \<Longrightarrow> counts_ok (sy_db t)"
  by (induction rule: conn_step.induct) (blast intro: counts_ok_connect counts_ok_delete counts_ok_disconnect)+


text \<open>A server with no peers and its only user.\<close>

definition fresh_sys :: "unit sys" where
  "fresh_sys = demo_sys\<lparr>sy_db := (sy_db demo_sys)\<lparr>db_servers := map (\<lambda>x. x\<lparr>sv_cur := 0\<rparr>) (db_servers (sy_db demo_sys))\<rparr>\<rparr>"


text \<open>C35: \<^verbatim>\<open>Disconnect\<close> does not look at \<^verbatim>\<open>IsActive\<close>: for a connection that is already down it again asks the
  core server to remove the key and again lowers the count of the server, which then counts one peer
  less than are active on it.\<close>

theorem disconnect_counts_again:
  assumes "counts_ok (sy_db s)" and "find (\<lambda>q. pe_id q = i) (db_peers (sy_db s)) = Some p" and "\<not> pe_active p"
    and "pe_user p = us_id user" and "server_row (sy_db s) (pe_server p) = Some sv" and "0 < sv_cur sv"
    and "run_state (disconnect env user (Some i) remote) s = (resp, t)"
  shows "status resp = 200 \<and> slots (sy_db t) (pe_server p) = Some (on_server (pe_server p) (db_peers (sy_db t)) - 1)"
proof -
  from assms(1) have ok: "db_faults (sy_db s) = []" and dist: "distinct (map pe_id (db_peers (sy_db s)))"
    by (simp_all add: counts_ok_def db_wf_def)
  have pid: "pe_id p = i" using assms(2) by (auto dest: find_SomeD)
  have "status resp = 200"
    using assms(2,4,7) ok by (auto simp: disconnect_def owned_peer_run split: prod.splits)
  then have t: "slots (sy_db t) = one_less (pe_server p) (slots (sy_db s))"
      "db_peers (sy_db t) = map_where (\<lambda>q. pe_id q = i) (\<lambda>q. q\<lparr>pe_active := False\<rparr>) (db_peers (sy_db s))"
    using disconnect_outcome [OF assms(7) ok] assms(2) by auto
  have "map_where (\<lambda>q. pe_id q = i) (\<lambda>q. q\<lparr>pe_active := False\<rparr>) (db_peers (sy_db s)) = db_peers (sy_db s)"
  proof -
    have "q = p" if "q \<in> set (db_peers (sy_db s))" "pe_id q = i" for q
      using that dist pid find_in_set [OF assms(2)] by (metis (no_types, lifting) distinct_map inj_onD)
    then show ?thesis using assms(3) unfolding map_where_def by (intro map_idI) auto
  qed
  then show ?thesis using \<open>status resp = 200\<close> t assms(1,5,6)
    by (simp add: one_less_def slots_def counts_ok_def)
qed

definition ended_peer :: peer where
  "ended_peer = \<lparr>pe_id = 4, pe_user = 7, pe_server = 1, pe_key = ''k'', pe_ip = ''10.8.0.2/32'', pe_active = False,
     pe_device = ''d'', pe_handshake = None, pe_sent = 0, pe_recv = 0, pe_created = 0, pe_expires = None\<rparr>"

definition ended_sys :: "unit sys" where
  "ended_sys = demo_sys\<lparr>sy_db := (sy_db demo_sys)\<lparr>db_peers := [ended_peer, ended_peer\<lparr>pe_id := 5, pe_active := True\<rparr>]\<rparr>\<rparr>"

theorem disconnect_counts_again_witness:
  "\<exists>resp t. run_state (disconnect demo_env demo_user (Some 4) []) ended_sys = (resp, t) \<and>
     slots (sy_db t) 1 = Some (on_server 1 (db_peers (sy_db t)) - 1)"
proof -
  obtain resp t where r: "run_state (disconnect demo_env demo_user (Some 4) []) ended_sys = (resp, t)" by fastforce
  have ok: "counts_ok (sy_db ended_sys)"
    by (auto simp: counts_ok_def db_wf_def ended_sys_def demo_sys_def demo_db_def slots_def server_row_def ended_peer_def)
  have f: "find (\<lambda>q. pe_id q = 4) (db_peers (sy_db ended_sys)) = Some ended_peer"
    by (simp add: ended_sys_def ended_peer_def)
  obtain sv where sv: "server_row (sy_db ended_sys) (pe_server ended_peer) = Some sv" "0 < sv_cur sv"
    by (simp add: ended_sys_def demo_sys_def demo_db_def server_row_def ended_peer_def)
  have "\<not> pe_active ended_peer" "pe_user ended_peer = us_id demo_user" "pe_server ended_peer = 1"
    by (simp_all add: ended_peer_def demo_user_def new_user_def)
  with disconnect_counts_again [OF ok f _ _ sv r] r show ?thesis by auto
qed

section \<open>Other people's connections\<close>

text \<open>The state after a read: only faults may have been used up.\<close>

definition untouched :: "'w sys \<Rightarrow> 'w sys \<Rightarrow> bool" where
  "untouched s t \<longleftrightarrow> (\<exists>bs. t = s\<lparr>sy_db := (sy_db s)\<lparr>db_faults := bs\<rparr>\<rparr>)"

lemma owned_peer_foreign:
  assumes "find (\<lambda>q. pe_id q = i) (db_peers (sy_db s)) = Some p" and "pe_user p \<noteq> us_id user" and "\<not> is_admin user"
  shows "\<exists>r t. run_state (owned_peer user (Some i)) s = (Inl r, t) \<and> status r \<in> {403, 404} \<and> untouched s t"
proof (cases rule: db_call_cases [of "sy_db s" "\<lambda>d. (one_row (find (\<lambda>p. pe_id p = i) (db_peers d)), d)"])
  case (down bs)
  then show ?thesis by (auto simp: owned_peer_def peer_by_id_def untouched_def)
next
  case (runs bs)
  then show ?thesis using assms by (auto simp: owned_peer_def peer_by_id_def one_row_def untouched_def)
qed

text \<open>C9: a user who is not an administrator cannot disconnect, delete or export a connection of somebody
  else: the answer is 403 (or 404 when the lookup fails) and neither the database, nor any core server, nor
  the hub sees anything of the request.\<close>

theorem foreign_connection_refused:
  assumes "find (\<lambda>q. pe_id q = i) (db_peers (sy_db s)) = Some p" and "pe_user p \<noteq> us_id user" and "\<not> is_admin user"
    and "h \<in> {disconnect env user (Some i) remote, delete_connection env user (Some i) remote,
              export_config env user (Some i), export_qr env qr user (Some i)}"
  shows "status (fst (run_state h s)) \<in> {403, 404} \<and> untouched s (snd (run_state h s))"
proof -
  obtain r t where "run_state (owned_peer user (Some i)) s = (Inl r, t)" "status r \<in> {403, 404}" "untouched s t"
    using owned_peer_foreign [OF assms(1-3)] by blast
  then show ?thesis using assms(4)
    by (auto simp: disconnect_def delete_connection_def export_config_def export_qr_def peer_config_of_def)
qed

theorem foreign_connection_refused_witness:
  "status (fst (run_state (disconnect demo_env (demo_user\<lparr>us_id := 8\<rparr>) (Some 4) []) ended_sys)) \<in> {403, 404}"
  by (rule foreign_connection_refused [where p = ended_peer and i = 4 and env = demo_env and remote = "[]"
        and qr = "\<lambda>x. None" and user = "demo_user\<lparr>us_id := 8\<rparr>", THEN conjunct1])
     (simp_all add: ended_sys_def ended_peer_def is_admin_def demo_user_def new_user_def)

section \<open>The address of an exported configuration\<close>

abbreviation suffixes :: "nat \<Rightarrow> string" where
  "suffixes n \<equiv> concat (replicate n ''/32'')"

lemma suffixes_snoc: "suffixes (Suc n) = suffixes n @ ''/32''"
  by (induction n) simp_all

lemma has_suffix_append: "has_suffix s p \<longleftrightarrow> (\<exists>a. s = a @ p)"
proof -
  have "has_prefix (rev s) (rev p) \<longleftrightarrow> (\<exists>a. rev s = rev p @ a)"
    unfolding has_prefix_def by (metis append_eq_conv_conj append_take_drop_id)
  also have "\<dots> \<longleftrightarrow> (\<exists>a. s = a @ p)" by (metis rev_append rev_rev_ident)
  finally show ?thesis by (simp add: has_suffix_def)
qed

lemma strip_twice_splits: "\<exists>n. s = strip_twice s @ suffixes n"
proof (induction s rule: strip_twice.induct)
  case (1 s)
  show ?case
  proof (cases "has_suffix s ''/32/32''")
    case True
    then obtain a where a: "s = a @ ''/32/32''" by (auto simp: has_suffix_append)
    then have t: "take (length s - 3) s = a @ ''/32''" by simp
    obtain n where "a @ ''/32'' = strip_twice (a @ ''/32'') @ suffixes n" using 1 True t by auto
    then have "s = strip_twice (a @ ''/32'') @ suffixes (Suc n)"
      by (simp only: suffixes_snoc append_assoc [symmetric]) (simp add: a)
    moreover have "strip_twice s = strip_twice (a @ ''/32'')" using True t by (simp add: strip_twice.simps [of s])
    ultimately show ?thesis by metis
  next
    case False
    then have "strip_twice s = s" by (simp add: strip_twice.simps [of s])
    then show ?thesis by (intro exI [of _ 0]) simp
  qed
qed

lemma strip_twice_done: "\<not> has_suffix (strip_twice s) ''/32/32''"
proof (induction s rule: strip_twice.induct)
  case (1 s)
  then show ?case by (cases "has_suffix s ''/32/32''") (simp_all add: strip_twice.simps [of s])
qed

lemma strip_twice_plain:
  assumes "CHR ''/'' \<notin> set a"
  shows "strip_twice (a @ suffixes n) = (if n = 0 then a else a @ ''/32'')"
proof (induction n)
  case 0
  have "\<not> has_suffix a ''/32/32''" using assms by (auto simp: has_suffix_append)
  then show ?case by (simp add: strip_twice.simps [of a])
next
  case (Suc n)
  show ?case
  proof (cases n)
    case 0
    have "\<not> has_suffix (a @ ''/32'') ''/32/32''"
    proof
      assume "has_suffix (a @ ''/32'') ''/32/32''"
      then obtain b where "a @ ''/32'' = (b @ ''/32'') @ ''/32''" by (auto simp: has_suffix_append)
      then have "a = b @ ''/32''" by (simp only: append_same_eq)
      then show False using assms by simp
    qed
    then show ?thesis using 0 by (simp add: strip_twice.simps [of "a @ ''/32''"])
  next
    case (Suc m)
    have e: "a @ suffixes (Suc n) = (a @ suffixes m) @ ''/32/32''"
      unfolding Suc suffixes_snoc by simp
    have "strip_twice (a @ suffixes (Suc n)) = strip_twice (take (length (a @ suffixes (Suc n)) - 3) (a @ suffixes (Suc n)))"
      unfolding e by (subst strip_twice.simps) (simp add: has_suffix_append)
    also have "take (length (a @ suffixes (Suc n)) - 3) (a @ suffixes (Suc n)) = a @ suffixes n"
      unfolding suffixes_snoc by simp
    finally show ?thesis using Suc.IH Suc by simp
  qed
qed

text \<open>C33: the loop of \<^verbatim>\<open>buildWGConfig\<close> ends on every address: it removes only whole \<^verbatim>\<open>/32\<close> suffixes, until no doubled one is
  left; so for an address stored with any number of them, none included, the exported text names it with exactly one.\<close>

theorem exported_address_normalised:
  "(\<exists>n. pe_ip p = strip_twice (pe_ip p) @ concat (replicate n ''/32'')) \<and> \<not> has_suffix (strip_twice (pe_ip p)) ''/32/32'' \<and>
   (pe_ip p = a @ concat (replicate n ''/32'') \<and> CHR ''/'' \<notin> set a \<longrightarrow>
    build_wg_config env p s = build_wg_config env (p\<lparr>pe_ip := a @ ''/32''\<rparr>) s \<and>
    (\<exists>pre post. build_wg_config env p s = pre @ ''Address = '' @ a @ ''/32'' @ [CHR 0x0A] @ ''DNS = '' @ post))"
proof -
  have a32: "strip_twice (a @ ''/32'') = a @ ''/32''" if "CHR ''/'' \<notin> set a"
    using strip_twice_plain [OF that, of 1] by simp
  have "build_wg_config env p s = build_wg_config env (p\<lparr>pe_ip := a @ ''/32''\<rparr>) s"
    if "pe_ip p = a @ suffixes n" "CHR ''/'' \<notin> set a"
    using strip_twice_plain [OF that(2), of n] a32 [OF that(2)] that by (simp add: build_wg_config_def Let_def)
  moreover have "\<exists>pre post. build_wg_config env (p\<lparr>pe_ip := a @ ''/32''\<rparr>) s = pre @ ''Address = '' @ a @ ''/32'' @ [CHR 0x0A] @ ''DNS = '' @ post"
    if "CHR ''/'' \<notin> set a"
    by (rule exI [of _ "''[Interface]'' @ [CHR 0x0A] @ ''PrivateKey = <YOUR_PRIVATE_KEY>'' @ [CHR 0x0A]"]) (simp add: build_wg_config_def a32 [OF that])
  ultimately show ?thesis using strip_twice_splits strip_twice_done by metis
qed

definition old_row :: peer where
  "old_row = ended_peer\<lparr>pe_ip := ''10.8.0.2/32/32/32''\<rparr>"

theorem exported_address_normalised_witness:
  "\<exists>pre post. build_wg_config demo_env old_row demo_server = pre @ ''Address = 10.8.0.2/32'' @ [CHR 0x0A] @ ''DNS = '' @ post"
proof -
  have "pe_ip old_row = ''10.8.0.2'' @ concat (replicate 3 ''/32'') \<and> CHR ''/'' \<notin> set ''10.8.0.2''"
    by (simp add: old_row_def numeral_3_eq_3)
  then obtain pre post where "build_wg_config demo_env old_row demo_server = pre @ ''Address = '' @ ''10.8.0.2'' @ ''/32'' @ [CHR 0x0A] @ ''DNS = '' @ post"
    using exported_address_normalised [of old_row "''10.8.0.2''" 3 demo_env demo_server] by blast
  then show ?thesis by (intro exI) simp
qed

end
