(* ===== verification/AdminAPI.thy ===== *)
theory AdminAPI
  imports Accounting
begin

text \<open>
  The administrator's half of \<^verbatim>\<open>internal/control/handler.go\<close> and
  \<^verbatim>\<open>internal/control/admin_mesh_handler.go\<close>: dashboard, users, bans, servers, connections, audit
  log and mesh overview, behind the \<^verbatim>\<open>AdminOnly\<close> middleware.
\<close>

section \<open>Middleware and paging\<close>

definition admin_only :: "user option \<Rightarrow> ('w, ctl_data response) op \<Rightarrow> ('w, ctl_data response) op" where
  "admin_only user next =
     (if (case user of None \<Rightarrow> False | Some u \<Rightarrow> is_admin u) then next
      else answer (JsonError ''admin access required'' 403))"

definition pagination_params :: "string \<Rightarrow> string \<Rightarrow> int \<times> int" where
  "pagination_params limit offset =
     ((case atoi limit of Some l \<Rightarrow> if 0 < l \<and> l \<le> 200 then l else 50 | None \<Rightarrow> 50),
      (case atoi offset of Some off \<Rightarrow> if 0 \<le> off then off else 0 | None \<Rightarrow> 0))"

section \<open>Dashboard\<close>

text \<open>A failed count reads as zero.\<close>

definition or_zero :: "db_err + 'a \<Rightarrow> 'a \<Rightarrow> 'a" where
  "or_zero r z = (case r of Inl e \<Rightarrow> z | Inr x \<Rightarrow> x)"

definition collect_stats :: "('w, admin_stats) op" where
  "collect_stats =
     do { users \<leftarrow> db_op user_count;
          servers \<leftarrow> db_op server_count;
          peers \<leftarrow> db_op peer_count_all;
          traffic \<leftarrow> db_op peer_total_traffic;
          answer \<lparr>as_users = or_zero users 0,
                  as_servers = fst (or_zero servers (0, 0)), as_active_servers = snd (or_zero servers (0, 0)),
                  as_peers = fst (or_zero peers (0, 0)), as_active_peers = snd (or_zero peers (0, 0)),
                  as_sent = fst (or_zero traffic (0, 0)), as_recv = snd (or_zero traffic (0, 0))\<rparr> }"

definition admin_dashboard_stats :: "('w, ctl_data response) op" where
  "admin_dashboard_stats = do { st \<leftarrow> collect_stats; answer (JsonOK (DashboardData st) 200) }"

section \<open>Users\<close>

definition admin_list_users :: "string \<Rightarrow> string \<Rightarrow> ('w, ctl_data response) op" where
  "admin_list_users limit offset =
     do { r \<leftarrow> db_op (user_list (fst (pagination_params limit offset)) (snd (pagination_params limit offset)));
          answer (case r of Inl e \<Rightarrow> JsonError ''failed to list users'' 500 | Inr us \<Rightarrow> JsonOK (UsersData us) 200) }"

definition admin_get_user :: "uuid option \<Rightarrow> ('w, ctl_data response) op" where
  "admin_get_user i =
     (case i of
        None \<Rightarrow> answer (JsonError ''invalid user id'' 400)
      | Some i \<Rightarrow> do {
          r \<leftarrow> db_op (user_by_id i);
          case r of
            Inl e \<Rightarrow> answer (JsonError ''user not found'' 404)
          | Inr u \<Rightarrow> do {
              ps \<leftarrow> db_op (peer_list_by_user i);
              answer (JsonOK (UserDetail u (or_zero ps [])) 200) } })"

record user_request =
  ur_uid :: string
  ur_email :: string
  ur_name :: string
  ur_groups :: "string list option"

definition admin_create_user :: "'w env \<Rightarrow> user \<Rightarrow> user_request option \<Rightarrow> string \<Rightarrow> ('w, ctl_data response) op" where
  "admin_create_user env admin body remote =
     (case body of
        None \<Rightarrow> answer (JsonError ''invalid JSON body'' 400)
      | Some req \<Rightarrow>
          if ur_uid req = [] \<or> ur_email req = [] then answer (JsonError ''authentik_uid and email are required'' 400)
          else do {
            r \<leftarrow> db_op (user_create (ur_uid req) (ur_email req) (ur_name req)
                   (case ur_groups req of None \<Rightarrow> [] | Some gs \<Rightarrow> gs));
            case r of
              Inl e \<Rightarrow> answer (JsonError ''failed to create user'' 500)
            | Inr u \<Rightarrow> do {
                _ \<leftarrow> audit_entry env (us_id admin) ''admin.user.create'' [(''target_user_id'', MetaId (us_id u))] remote;
                answer (JsonOK (UserData u) 201) } })"

definition admin_update_user :: "'w env \<Rightarrow> user \<Rightarrow> uuid option \<Rightarrow> user_request option \<Rightarrow> string \<Rightarrow> ('w, ctl_data response) op" where
  "admin_update_user env admin i body remote =
     (case i of
        None \<Rightarrow> answer (JsonError ''invalid user id'' 400)
      | Some i \<Rightarrow> do {
          r \<leftarrow> db_op (user_by_id i);
          case r of
            Inl e \<Rightarrow> answer (JsonError ''user not found'' 404)
          | Inr u \<Rightarrow>
              (case body of
                 None \<Rightarrow> answer (JsonError ''invalid JSON body'' 400)
               | Some req \<Rightarrow>
                   let u1 = u\<lparr>us_email := (if ur_email req \<noteq> [] then ur_email req else us_email u),
                              us_name := (if ur_name req \<noteq> [] then ur_name req else us_name u),
                              us_groups := (case ur_groups req of None \<Rightarrow> us_groups u | Some gs \<Rightarrow> gs)\<rparr>
                   in do {
                     w \<leftarrow> db_op (user_update u1);
                     case w of
                       Inl e \<Rightarrow> answer (JsonError ''failed to update user'' 500)
                     | Inr _ \<Rightarrow> do {
                         _ \<leftarrow> audit_entry env (us_id admin) ''admin.user.update'' [(''target_user_id'', MetaId i)] remote;
                         answer (JsonOK (UserData u1) 200) } }) })"

definition admin_delete_user :: "'w env \<Rightarrow> user \<Rightarrow> uuid option \<Rightarrow> string \<Rightarrow> ('w, ctl_data response) op" where
  "admin_delete_user env admin i remote =
     (case i of
        None \<Rightarrow> answer (JsonError ''invalid user id'' 400)
      | Some i \<Rightarrow>
          if us_id admin = i then answer (JsonError ''cannot delete your own account'' 403)
          else do {
            r \<leftarrow> db_op (user_delete i);
            case r of
              Inl e \<Rightarrow> answer (JsonError ''failed to delete user'' 500)
            | Inr _ \<Rightarrow> do {
                _ \<leftarrow> audit_entry env (us_id admin) ''admin.user.delete'' [(''target_user_id'', MetaId i)] remote;
                answer (JsonOK (DeletedData i) 200) } })"

text \<open>A ban takes the active connections down one by one.\<close>

definition ban_disconnect :: "'w env \<Rightarrow> peer \<Rightarrow> ('w, unit) op" where
  "ban_disconnect env p = (if \<not> pe_active p then answer () else disconnect_peer env p)"

definition admin_ban_user :: "'w env \<Rightarrow> user \<Rightarrow> uuid option \<Rightarrow> string option \<Rightarrow> string \<Rightarrow> ('w, ctl_data response) op" where
  "admin_ban_user env admin i body remote =
     (case i of
        None \<Rightarrow> answer (JsonError ''invalid user id'' 400)
      | Some i \<Rightarrow>
          if us_id admin = i then answer (JsonError ''cannot ban your own account'' 403)
          else case body of
            None \<Rightarrow> answer (JsonError ''invalid request body'' 400)
          | Some reason \<Rightarrow> do {
              r \<leftarrow> db_op (user_ban i reason);
              case r of
                Inl e \<Rightarrow> answer (JsonError ''failed to ban user'' 500)
              | Inr _ \<Rightarrow> do {
                  ps \<leftarrow> db_op (peer_list_by_user i);
                  _ \<leftarrow> State_Monad.traverse_list (ban_disconnect env) (or_zero ps []);
                  _ \<leftarrow> audit_entry env (us_id admin) ''admin.user.ban''
                        [(''target_user_id'', MetaId i), (''reason'', MetaText reason)] remote;
                  answer (JsonOK (StatusData ''banned'') 200) } })"

definition admin_unban_user :: "'w env \<Rightarrow> user \<Rightarrow> uuid option \<Rightarrow> string \<Rightarrow> ('w, ctl_data response) op" where
  "admin_unban_user env admin i remote =
     (case i of
        None \<Rightarrow> answer (JsonError ''invalid user id'' 400)
      | Some i \<Rightarrow> do {
          r \<leftarrow> db_op (user_unban i);
          case r of
            Inl e \<Rightarrow> answer (JsonError ''failed to unban user'' 500)
          | Inr _ \<Rightarrow> do {
              _ \<leftarrow> audit_entry env (us_id admin) ''admin.user.unban'' [(''target_user_id'', MetaId i)] remote;
              answer (JsonOK (StatusData ''unbanned'') 200) } })"

section \<open>Servers\<close>

definition admin_list_servers :: "('w, ctl_data response) op" where
  "admin_list_servers =
     do { r \<leftarrow> db_op server_list_all;
          answer (case r of Inl e \<Rightarrow> JsonError ''failed to list servers'' 500 | Inr xs \<Rightarrow> JsonOK (ServersData xs) 200) }"

definition admin_ping_servers :: "'w env \<Rightarrow> ('w, ctl_data response) op" where
  "admin_ping_servers env =
     do { r \<leftarrow> db_op server_list_all;
          case r of
            Inl e \<Rightarrow> answer (JsonError ''failed to list servers'' 500)
          | Inr xs \<Rightarrow> do { ps \<leftarrow> build_server_ping_results env xs; answer (JsonOK (PingData ps) 200) } }"

record server_request =
  rs_name :: string
  rs_host :: string
  rs_endpoint :: string
  rs_port :: int
  rs_wg_port :: int
  rs_key :: string
  rs_core_token :: string
  rs_location :: string
  rs_country :: string
  rs_max_peers :: int
  rs_active :: "bool option"
  rs_proxy_port :: "int option"

text \<open>The texts of validation errors are the argument \<open>txt\<close>.\<close>

datatype admin_error = EndpointRefused endpoint_error | HostRefused host_error | LoopbackRefused

definition loopback_refused :: "'w env \<Rightarrow> string \<Rightarrow> bool" where
  "loopback_refused env host \<longleftrightarrow>
     AppEnv (en_cfg env) = ''production'' \<and> \<not> CoreAllowHTTP (en_cfg env) \<and> is_loopback_server_host host"

definition check_endpoint :: "string \<Rightarrow> admin_error option" where
  "check_endpoint ep = (if ep \<noteq> [] then map_option EndpointRefused (validate_server_endpoint ep) else None)"

definition check_host :: "'w env \<Rightarrow> string \<Rightarrow> int \<Rightarrow> admin_error + string \<times> int" where
  "check_host env host port =
     (case normalize_admin_server_host host port of
        Inl e \<Rightarrow> Inl (HostRefused e)
      | Inr (h, p) \<Rightarrow> if loopback_refused env h then Inl LoopbackRefused else Inr (h, p))"

definition server_of_request :: "server_request \<Rightarrow> string \<Rightarrow> int \<Rightarrow> server" where
  "server_of_request req host port =
     \<lparr>sv_id = 0, sv_name = rs_name req, sv_host = host, sv_endpoint = rs_endpoint req, sv_port = port,
      sv_wg_port = (if rs_wg_port req = 0 then 51820 else rs_wg_port req), sv_key = rs_key req,
      sv_token = rs_core_token req, sv_location = rs_location req, sv_country = rs_country req,
      sv_max = (if rs_max_peers req = 0 then 250 else rs_max_peers req), sv_cur = 0, sv_active = False,
      sv_proxy_port = (case rs_proxy_port req of None \<Rightarrow> 0 | Some p \<Rightarrow> p), sv_wireguard = False, sv_proxy = False,
      sv_exit = False, sv_created = 0, sv_updated = 0\<rparr>"

definition admin_create_server :: "'w env \<Rightarrow> (admin_error \<Rightarrow> string) \<Rightarrow> user \<Rightarrow> server_request option \<Rightarrow> string \<Rightarrow>
    ('w, ctl_data response) op" where
  "admin_create_server env txt admin body remote =
     (case body of
        None \<Rightarrow> answer (JsonError ''invalid JSON body'' 400)
      | Some req \<Rightarrow>
          if rs_name req = [] \<or> rs_host req = [] \<or> rs_key req = [] \<or> rs_core_token req = []
          then answer (JsonError ''name, host, public_key and core_token are required'' 400)
          else case check_endpoint (rs_endpoint req) of
            Some e \<Rightarrow> answer (JsonError (txt e) 400)
          | None \<Rightarrow>
              (case check_host env (rs_host req)
                      (if rs_port req = 0 then default_admin_server_port (CoreAllowHTTP (en_cfg env)) else rs_port req) of
                 Inl e \<Rightarrow> answer (JsonError (txt e) 400)
               | Inr (h, p) \<Rightarrow> do {
                   r \<leftarrow> server_op (server_create (server_of_request req h p));
                   case r of
                     Inl e \<Rightarrow> answer (JsonError ''failed to create server'' 500)
                   | Inr s \<Rightarrow> do {
                       _ \<leftarrow> audit_entry env (us_id admin) ''admin.server.create''
                             [(''server_id'', MetaId (sv_id s)), (''name'', MetaText (sv_name s))] remote;
                       answer (JsonOK (ServerData (apply_capabilities s)) 201) } }))"

text \<open>The fields an update request sets; absent ones keep their value, the endpoint is always set.\<close>

definition apply_update :: "server_request \<Rightarrow> server \<Rightarrow> server" where
  "apply_update req s =
     s\<lparr>sv_name := (if rs_name req \<noteq> [] then rs_name req else sv_name s),
       sv_endpoint := rs_endpoint req,
       sv_wg_port := (if rs_wg_port req \<noteq> 0 then rs_wg_port req else sv_wg_port s),
       sv_key := (if rs_key req \<noteq> [] then rs_key req else sv_key s),
       sv_token := (if rs_core_token req \<noteq> [] then rs_core_token req else sv_token s),
       sv_location := (if rs_location req \<noteq> [] then rs_location req else sv_location s),
       sv_country := (if rs_country req \<noteq> [] then rs_country req else sv_country s),
       sv_max := (if rs_max_peers req \<noteq> 0 then rs_max_peers req else sv_max s),
       sv_active := (case rs_active req of None \<Rightarrow> sv_active s | Some b \<Rightarrow> b),
       sv_proxy_port := (case rs_proxy_port req of None \<Rightarrow> sv_proxy_port s | Some p \<Rightarrow> p)\<rparr>"

definition update_host :: "'w env \<Rightarrow> server_request \<Rightarrow> server \<Rightarrow> admin_error + server" where
  "update_host env req s =
     (if rs_host req \<noteq> [] \<or> rs_port req \<noteq> 0 then
        (case check_host env (if rs_host req \<noteq> [] then rs_host req else sv_host s)
                (if rs_port req \<noteq> 0 then rs_port req else sv_port s) of
           Inl e \<Rightarrow> Inl e
         | Inr (h, p) \<Rightarrow> Inr (s\<lparr>sv_host := h, sv_port := p\<rparr>))
      else Inr s)"

definition admin_update_server :: "'w env \<Rightarrow> (admin_error \<Rightarrow> string) \<Rightarrow> user \<Rightarrow> uuid option \<Rightarrow> server_request option \<Rightarrow>
    string \<Rightarrow> ('w, ctl_data response) op" where
  "admin_update_server env txt admin i body remote =
     (case i of
        None \<Rightarrow> answer (JsonError ''invalid server id'' 400)
      | Some i \<Rightarrow> do {
          r \<leftarrow> db_op (server_by_id i);
          case r of
            Inl e \<Rightarrow> answer (JsonError ''server not found'' 404)
          | Inr s \<Rightarrow>
              (case body of
                 None \<Rightarrow> answer (JsonError ''invalid JSON body'' 400)
               | Some req \<Rightarrow>
                   (case check_endpoint (rs_endpoint req) of
                      Some e \<Rightarrow> answer (JsonError (txt e) 400)
                    | None \<Rightarrow>
                        (case update_host env req s of
                           Inl e \<Rightarrow> answer (JsonError (txt e) 400)
                         | Inr s1 \<Rightarrow> do {
                             w \<leftarrow> server_op (server_update (apply_update req s1));
                             case w of
                               Inl e \<Rightarrow> answer (JsonError ''failed to update server'' 500)
                             | Inr _ \<Rightarrow> do {
                                 _ \<leftarrow> audit_entry env (us_id admin) ''admin.server.update'' [(''server_id'', MetaId i)] remote;
                                 answer (JsonOK (ServerData (apply_capabilities (apply_update req s1))) 200) } }))) })"

definition admin_delete_server :: "'w env \<Rightarrow> user \<Rightarrow> uuid option \<Rightarrow> string \<Rightarrow> ('w, ctl_data response) op" where
  "admin_delete_server env admin i remote =
     (case i of
        None \<Rightarrow> answer (JsonError ''invalid server id'' 400)
      | Some i \<Rightarrow> do {
          r \<leftarrow> server_op (server_delete i);
          case r of
            Inl e \<Rightarrow> answer (JsonError ''failed to delete server'' 500)
          | Inr _ \<Rightarrow> do {
              _ \<leftarrow> audit_entry env (us_id admin) ''admin.server.delete'' [(''server_id'', MetaId i)] remote;
              answer (JsonOK (DeletedData i) 200) } })"

section \<open>Connections, audit log, meshes\<close>

definition admin_list_peers :: "string \<Rightarrow> string \<Rightarrow> ('w, ctl_data response) op" where
  "admin_list_peers limit offset =
     do { r \<leftarrow> db_op (peer_list_all (fst (pagination_params limit offset)) (snd (pagination_params limit offset)));
          answer (case r of Inl e \<Rightarrow> JsonError ''failed to list peers'' 500 | Inr ps \<Rightarrow> JsonOK (PeersWithEmail ps) 200) }"

definition admin_force_disconnect_peer :: "'w env \<Rightarrow> user \<Rightarrow> uuid option \<Rightarrow> string \<Rightarrow> ('w, ctl_data response) op" where
  "admin_force_disconnect_peer env admin i remote =
     (case i of
        None \<Rightarrow> answer (JsonError ''invalid peer id'' 400)
      | Some i \<Rightarrow> do {
          r \<leftarrow> db_op (peer_by_id i);
          case r of
            Inl e \<Rightarrow> answer (JsonError ''peer not found'' 404)
          | Inr p \<Rightarrow> do {
              _ \<leftarrow> disconnect_peer env p;
              _ \<leftarrow> audit_entry env (us_id admin) ''admin.peer.disconnect''
                    [(''peer_id'', MetaId i), (''user_id'', MetaId (pe_user p))] remote;
              answer (JsonOK (StatusData ''disconnected'') 200) } })"

definition admin_list_audit_logs :: "string \<Rightarrow> string \<Rightarrow> string \<Rightarrow> ('w, ctl_data response) op" where
  "admin_list_audit_logs limit offset action =
     do { r \<leftarrow> db_op (audit_list_all (fst (pagination_params limit offset)) (snd (pagination_params limit offset)) action);
          answer (case r of Inl e \<Rightarrow> JsonError ''failed to list audit logs'' 500 | Inr xs \<Rightarrow> JsonOK (AuditData xs) 200) }"

text \<open>
  One query per mesh. The goroutine stores the members in a slot that the loop overwrites with
  the mesh itself: a query that answers before the loop has gone on loses its result. \<open>lost\<close>
  says of each mesh whether that happens.
\<close>

definition admin_list_meshes :: "(uuid \<Rightarrow> bool) \<Rightarrow> ('w, ctl_data response) op" where
  "admin_list_meshes lost =
     do { r \<leftarrow> db_op mesh_list_all;
          case r of
            Inl e \<Rightarrow> answer (JsonError ''failed to list mesh networks'' 500)
          | Inr ms \<Rightarrow> do {
              xs \<leftarrow> State_Monad.traverse_list (\<lambda>m. do {
                      mr \<leftarrow> db_op (mesh_list_members_admin (me_id m));
                      answer (m, if lost (me_id m) then [] else or_zero mr []) }) ms;
              answer (JsonOK (AdminMeshes xs) 200) } }"

section \<open>A ban takes the user's connections down\<close>

definition same_users :: "'w sys \<Rightarrow> 'w sys \<Rightarrow> bool" where
  "same_users s t \<longleftrightarrow> db_users (sy_db t) = db_users (sy_db s)"

interpretation users: step_relation same_users
  by unfold_locales (auto simp: same_users_def)

lemma users_db_op: "(\<And>d. db_users (snd (q d)) = db_users d) \<Longrightarrow> state_io_rel same_users (db_op q)"
  by (auto simp: state_io_rel_def same_users_def split: prod.split) (metis snd_conv)+

lemma users_server_op: "(\<And>d. db_users (snd (q d)) = db_users d) \<Longrightarrow> state_io_rel same_users (server_op q)"
  by (auto simp: state_io_rel_def same_users_def split: prod.split) (metis snd_conv)+

lemma users_world_op: "state_io_rel same_users (world_op f)"
  by (auto simp: state_io_rel_def same_users_def split: prod.split)

lemma users_emit: "state_io_rel same_users (emit env e)"
  by (auto simp: state_io_rel_def same_users_def)

lemma users_call: "(\<And>d. db_users (snd (q d)) = db_users d) \<Longrightarrow> db_users (snd (db_call q d)) = db_users d"
  by (cases rule: db_call_cases [of d q]) simp_all

lemma users_queries:
  "db_users (snd (server_by_id i d)) = db_users d"
  "db_users (snd (server_update_peer_count i n d)) = db_users d"
  "db_users (snd (mesh_clear_member_peer i d)) = db_users d"
  "db_users (snd (peer_deactivate i d)) = db_users d"
  "db_users (snd (peer_list_by_user i d)) = db_users d"
  "db_users (snd (audit_log sha u act metadata ip d)) = db_users d"
  unfolding server_by_id_def server_update_peer_count_def mesh_clear_member_peer_def peer_deactivate_def
    peer_list_by_user_def audit_log_def
  by (rule users_call, simp split: option.split)+

lemmas users_rules = users.io_return users.io_bind users.io_traverse users_world_op users_emit
  users_db_op [OF users_queries(1)] users_server_op [OF users_queries(2)] users_db_op [OF users_queries(3)]
  users_db_op [OF users_queries(4)] users_db_op [OF users_queries(5)] users_db_op [OF users_queries(6)]

lemma users_disconnect_peer: "state_io_rel same_users (disconnect_peer env p)"
  unfolding disconnect_peer_def remove_from_core_def detach_peer_from_mesh_sessions_def remove_mesh_route_def
    broadcast_mesh_list_changed_def
  by (auto intro!: users_rules split: sum.split option.split)

lemma users_audit: "state_io_rel same_users (audit_entry env u act metadata ip)"
  unfolding audit_entry_def by (intro users_rules)

text \<open>Rows with unique identifiers: the row found is the row.\<close>

lemma find_by_id:
  assumes "distinct (map pe_id ps)" and "p \<in> set ps"
  shows "find (\<lambda>q. pe_id q = pe_id p) ps = Some p"
  using assms by (induction ps) auto

definition take_down :: "uuid set \<Rightarrow> peer list \<Rightarrow> peer list" where
  "take_down ids ps = map_where (\<lambda>q. pe_id q \<in> ids) (\<lambda>q. q\<lparr>pe_active := False\<rparr>) ps"

lemma take_down_empty [simp]: "take_down {} ps = ps"
  by (simp add: take_down_def map_where_def)

lemma take_down_ids [simp]: "map pe_id (take_down ids ps) = map pe_id ps"
  by (simp add: take_down_def map_map_where)

lemma take_down_insert: "take_down ids (take_down {k} ps) = take_down (insert k ids) ps"
  by (induction ps) (auto simp: take_down_def)

lemma filter_take_down:
  "\<forall>p \<in> set ps. pe_id p \<in> ids \<longrightarrow> pe_user p = i \<Longrightarrow>
     filter (\<lambda>p. pe_user p \<noteq> i) (take_down ids ps) = filter (\<lambda>p. pe_user p \<noteq> i) ps"
  by (induction ps) (simp_all add: take_down_def)

lemma counts_ok_disconnect_peer:
  assumes ok: "counts_ok (sy_db s)" and p: "p \<in> set (db_peers (sy_db s))" "pe_active p"
    and run: "run_state (disconnect_peer env p) s = (u, t)"
  shows "counts_ok (sy_db t)" and "db_peers (sy_db t) = take_down {pe_id p} (db_peers (sy_db s))"
proof -
  from ok have f: "db_faults (sy_db s) = []" and dist: "distinct (map pe_id (db_peers (sy_db s)))"
    by (simp_all add: counts_ok_def db_wf_def)
  note o = disconnect_peer_outcome [OF run f]
  then show td: "db_peers (sy_db t) = take_down {pe_id p} (db_peers (sy_db s))" by (simp add: take_down_def)
  have ids: "map pe_id (db_peers (sy_db t)) = map pe_id (db_peers (sy_db s))" unfolding td by simp
  have "\<forall>q \<in> set (db_peers (sy_db t)). pe_id q < db_next (sy_db s)"
    unfolding td take_down_def using ok by (auto simp: counts_ok_def set_map_where)
  then show "counts_ok (sy_db t)"
    using o dist ids on_server_deactivate [OF dist find_by_id [OF dist p(1)] p(2)]
    by (intro counts_ok_one_less [OF ok _ p]) simp_all
qed

lemma ban_traverse:
  assumes "counts_ok (sy_db s)" and "distinct (map pe_id ps)" and "set ps \<subseteq> set (db_peers (sy_db s))"
    and "run_state (State_Monad.traverse_list (ban_disconnect env) ps) s = (us, t)"
  shows "counts_ok (sy_db t) \<and> db_users (sy_db t) = db_users (sy_db s) \<and>
    db_peers (sy_db t) = take_down (pe_id ` {p \<in> set ps. pe_active p}) (db_peers (sy_db s))"
  using assms
proof (induction ps arbitrary: s us)
  case Nil
  then show ?case by simp
next
  case (Cons p ps)
  obtain u1 s1 where s1: "run_state (ban_disconnect env p) s = (u1, s1)" by (meson surj_pair)
  obtain us2 where s2: "run_state (State_Monad.traverse_list (ban_disconnect env) ps) s1 = (us2, t)"
    using Cons.prems(4) s1 by (auto split: prod.splits)
  show ?case
  proof (cases "pe_active p")
    case True
    then have run: "run_state (disconnect_peer env p) s = (u1, s1)" using s1 by (simp add: ban_disconnect_def)
    have p: "p \<in> set (db_peers (sy_db s))" using Cons.prems(3) by simp
    note c = counts_ok_disconnect_peer [OF Cons.prems(1) p True run]
    have u: "db_users (sy_db s1) = db_users (sy_db s)"
      using users.io_run [OF users_disconnect_peer run] by (simp add: same_users_def)
    have sub: "set ps \<subseteq> set (db_peers (sy_db s1))"
      unfolding c(2) take_down_def using Cons.prems(2,3) by (auto simp: set_map_where image_iff)
    have "{q \<in> set (p # ps). pe_active q} = insert p {q \<in> set ps. pe_active q}" using True by auto
    then show ?thesis using Cons.IH [OF c(1) _ sub s2] Cons.prems(2) u
      by (simp add: c(2) take_down_insert)
  next
    case False
    then have "s1 = s" using s1 by (simp add: ban_disconnect_def)
    moreover have "{q \<in> set (p # ps). pe_active q} = {q \<in> set ps. pe_active q}" using False by auto
    ultimately show ?thesis using Cons.IH [OF Cons.prems(1) _ _ s2 [unfolded \<open>s1 = s\<close>]] Cons.prems(2,3) by simp
  qed
qed

lemma quiet_user_ban: "quiet_db d (snd (user_ban i reason d))"
  by (auto simp: quiet_db_def user_ban_def db_call_ok intro!: slots_cong)

lemma counts_ok_quiet: "counts_ok (sy_db s) \<Longrightarrow> quiet s t \<Longrightarrow> counts_ok (sy_db t)"
proof -
  assume ok: "counts_ok (sy_db s)" and q: "quiet s t"
  then have "db_faults (sy_db s) = []" by (simp add: counts_ok_def db_wf_def)
  from quiet_kept [OF q this] have k: "kept 0 (sy_db s) (sy_db t)" "db_peers (sy_db t) = db_peers (sy_db s)"
    "slots (sy_db t) = slots (sy_db s)" by simp_all
  show ?thesis
    by (rule counts_okI [OF ok k(1)]; (unfold k(2,3))?) (use ok k(1) in \<open>simp_all add: counts_ok_def kept_def\<close>)
qed

lemma user_ban_marks:
  assumes "db_faults d = []" and "u \<in> set (db_users (snd (user_ban i reason d)))" and "us_id u = i"
  shows "us_banned u"
proof -
  from assms(1,2) obtain x where "u = (if us_id x = i then x\<lparr>us_banned := True, us_banned_at := Some (db_now d),
      us_reason := reason, us_updated := db_now d\<rparr> else x)"
    by (auto simp: user_ban_def db_call_ok map_where_def simp del: if_image_distrib)
  with assms(3) show ?thesis by (cases "us_id x = i") simp_all
qed

text \<open>C11: when an administrator bans a user, the account is marked and every one of its connections is
  inactive afterwards, whatever the core servers answer; no connection of another user changes, and
  the servers still count their active connections.\<close>

theorem ban_takes_connections_down:
  assumes ok: "counts_ok (sy_db s)" and "us_id admin \<noteq> i"
    and run: "run_state (admin_ban_user env admin (Some i) (Some reason) remote) s = (resp, t)"
  shows "status resp = 200 \<and> (\<forall>u \<in> set (db_users (sy_db t)). us_id u = i \<longrightarrow> us_banned u) \<and>
    (\<forall>p \<in> set (db_peers (sy_db t)). pe_user p = i \<longrightarrow> \<not> pe_active p) \<and>
    filter (\<lambda>p. pe_user p \<noteq> i) (db_peers (sy_db t)) = filter (\<lambda>p. pe_user p \<noteq> i) (db_peers (sy_db s)) \<and>
    counts_ok (sy_db t)"
proof -
  let ?d = "sy_db s" and ?d1 = "snd (user_ban i reason (sy_db s))"
  let ?s1 = "s\<lparr>sy_db := ?d1\<rparr>"
  let ?mine = "filter (\<lambda>p. pe_user p = i) (db_peers ?d)"
  let ?ps = "newest_first pe_created ?mine"
  from ok have f: "db_faults ?d = []" and dist: "distinct (map pe_id (db_peers ?d))" by (simp_all add: counts_ok_def db_wf_def)
  have ban: "user_ban i reason ?d = (Inr (), ?d1)" "db_peers ?d1 = db_peers ?d" "db_faults ?d1 = []"
    using f by (simp_all add: user_ban_def db_call_ok)
  have ok1: "counts_ok (sy_db ?s1)" using counts_ok_quiet [OF ok, of ?s1] quiet_user_ban by (simp add: quiet_def)
  obtain us2 s2 where s2: "run_state (State_Monad.traverse_list (ban_disconnect env) ?ps) ?s1 = (us2, s2)" by fastforce
  have list: "peer_list_by_user i ?d1 = (Inr ?ps, ?d1)" using ban(2,3) by (simp add: peer_list_by_user_def db_call_ok)
  let ?log = "audit_entry env (us_id admin) ''admin.user.ban'' [(''target_user_id'', MetaId i), (''reason'', MetaText reason)] remote"
  obtain u3 where s3: "run_state ?log s2 = (u3, t)" and st: "status resp = 200"
    using run assms(2) ban(1) list s2 by (auto simp: admin_ban_user_def or_zero_def split: prod.splits)
  have "distinct (map pe_id ?mine)" using dist by (rule distinct_map_filterI)
  then have "distinct (map pe_id ?ps)" by (simp add: newest_first_def distinct_map)
  then have tr: "counts_ok (sy_db s2)" "db_users (sy_db s2) = db_users ?d1"
      "db_peers (sy_db s2) = take_down (pe_id ` {p \<in> set ?mine. pe_active p}) (db_peers ?d)"
    using ban_traverse [OF ok1 _ _ s2] ban(2) by (auto simp: newest_first_def)
  have f2: "db_faults (sy_db s2) = []" using tr(1) by (simp add: counts_ok_def db_wf_def)
  have same: "db_peers (sy_db t) = db_peers (sy_db s2)" "db_users (sy_db t) = db_users ?d1" "counts_ok (sy_db t)"
    using quiet_kept [OF calm.io_run [OF quiet_audit s3] f2] users.io_run [OF users_audit s3] tr(2)
      counts_ok_quiet [OF tr(1) calm.io_run [OF quiet_audit s3]]
    by (simp_all add: same_users_def)
  have "\<not> pe_active p" if "p \<in> set (db_peers (sy_db t))" "pe_user p = i" for p
    using that unfolding same tr(3) take_down_def by (auto simp: set_map_where image_iff)
  moreover have "filter (\<lambda>p. pe_user p \<noteq> i) (db_peers (sy_db t)) = filter (\<lambda>p. pe_user p \<noteq> i) (db_peers ?d)"
  proof -
    have "pe_user p = i" if "p \<in> set (db_peers ?d)" "pe_id p \<in> pe_id ` {p \<in> set ?mine. pe_active p}" for p
      using that dist by (auto simp: distinct_map dest: inj_onD)
    then show ?thesis unfolding same tr(3) by (intro filter_take_down) blast
  qed
  ultimately show ?thesis using st same user_ban_marks [OF f] by simp
qed

theorem ban_takes_connections_down_witness:
  "\<exists>resp t. run_state (admin_ban_user demo_env (demo_user\<lparr>us_id := 2\<rparr>) (Some 7) (Some ''spam'') []) ended_sys = (resp, t) \<and>
     (\<forall>p \<in> set (db_peers (sy_db t)). pe_user p = 7 \<longrightarrow> \<not> pe_active p)"
proof -
  obtain resp t where r: "run_state (admin_ban_user demo_env (demo_user\<lparr>us_id := 2\<rparr>) (Some 7) (Some ''spam'') []) ended_sys = (resp, t)"
    by fastforce
  have ok: "counts_ok (sy_db ended_sys)"
    by (auto simp: counts_ok_def db_wf_def ended_sys_def demo_sys_def demo_db_def slots_def server_row_def ended_peer_def)
  have "us_id (demo_user\<lparr>us_id := 2\<rparr>) \<noteq> 7" by simp
  from ban_takes_connections_down [OF ok this r] r show ?thesis by blast
qed

section \<open>Deleting a user leaves the servers behind\<close>

lemma on_server_filter: "on_server i (filter q ps) \<le> on_server i ps"
  by (induction ps) auto

lemma on_server_filter_less:
  "p \<in> set ps \<Longrightarrow> \<not> q p \<Longrightarrow> pe_active p \<Longrightarrow> on_server (pe_server p) (filter q ps) < on_server (pe_server p) ps"
proof (induction ps)
  case (Cons x ps)
  then show ?case using on_server_filter [of "pe_server p" q ps] by auto
qed simp

lemma user_delete_effect:
  assumes "db_faults d = []"
  shows "fst (user_delete i d) = Inr ()" and "db_faults (snd (user_delete i d)) = []"
    and "db_peers (snd (user_delete i d)) = filter (\<lambda>p. pe_user p \<noteq> i) (db_peers d)"
    and "db_servers (snd (user_delete i d)) = db_servers d"
    and "db_users (snd (user_delete i d)) = filter (\<lambda>u. us_id u \<noteq> i) (db_users d)"
  using assms by (simp_all add: user_delete_def db_call_ok drop_meshes_def drop_peers_def Let_def)

text \<open>C36: deleting a user removes the account and its connections from the database, but tells no core
  server, which keeps the WireGuard peers, and does not lower any count: a server that had an active
  connection of the user counts more connections than there are.\<close>

theorem delete_user_leaves_servers:
  assumes "counts_ok (sy_db s)" and "us_id admin \<noteq> i"
    and run: "run_state (admin_delete_user env admin (Some i) remote) s = (resp, t)"
    and p: "p \<in> set (db_peers (sy_db s))" "pe_user p = i" "pe_active p" "server_row (sy_db s) (pe_server p) = Some sv"
  shows "status resp = 200 \<and> (\<forall>u \<in> set (db_users (sy_db t)). us_id u \<noteq> i) \<and>
    (\<forall>q \<in> set (db_peers (sy_db t)). pe_user q \<noteq> i) \<and> sy_world t = sy_world s \<and>
    slots (sy_db t) = slots (sy_db s) \<and>
    (\<exists>c. slots (sy_db t) (pe_server p) = Some c \<and> on_server (pe_server p) (db_peers (sy_db t)) < c)"
proof -
  let ?d = "sy_db s" and ?d1 = "snd (user_delete i (sy_db s))"
  let ?log = "audit_entry env (us_id admin) ''admin.user.delete'' [(''target_user_id'', MetaId i)] remote"
  from assms(1) have f: "db_faults ?d = []" by (simp add: counts_ok_def db_wf_def)
  note del = user_delete_effect [OF f, of i]
  have ud: "user_delete i ?d = (Inr (), ?d1)" using del(1) by (metis prod.collapse)
  obtain u2 where s2: "run_state ?log (s\<lparr>sy_db := ?d1\<rparr>) = (u2, t)" and st: "status resp = 200"
    using run assms(2) ud by (auto simp: admin_delete_user_def split: prod.splits)
  have w: "sy_world t = sy_world s" using s2 by (auto simp: audit_entry_def split: prod.splits)
  have t: "db_peers (sy_db t) = filter (\<lambda>p. pe_user p \<noteq> i) (db_peers ?d)" "slots (sy_db t) = slots ?d"
      "db_users (sy_db t) = filter (\<lambda>u. us_id u \<noteq> i) (db_users ?d)"
    using quiet_kept [OF calm.io_run [OF quiet_audit s2]] users.io_run [OF users_audit s2] del slots_cong [OF del(4)]
    by (simp_all add: same_users_def)
  have "slots ?d (pe_server p) = Some (on_server (pe_server p) (db_peers ?d))"
    using assms(1) p(4) by (simp add: counts_ok_def slots_def)
  moreover have "on_server (pe_server p) (filter (\<lambda>p. pe_user p \<noteq> i) (db_peers ?d)) < on_server (pe_server p) (db_peers ?d)"
    by (rule on_server_filter_less) (use p in simp_all)
  ultimately show ?thesis using st w t by simp
qed

theorem delete_user_leaves_servers_witness:
  "\<exists>resp t c. run_state (admin_delete_user demo_env (demo_user\<lparr>us_id := 2\<rparr>) (Some 7) []) ended_sys = (resp, t) \<and>
     slots (sy_db t) 1 = Some c \<and> on_server 1 (db_peers (sy_db t)) < c"
proof -
  obtain resp t where r: "run_state (admin_delete_user demo_env (demo_user\<lparr>us_id := 2\<rparr>) (Some 7) []) ended_sys = (resp, t)"
    by fastforce
  have ok: "counts_ok (sy_db ended_sys)"
    by (auto simp: counts_ok_def db_wf_def ended_sys_def demo_sys_def demo_db_def slots_def server_row_def ended_peer_def)
  let ?p = "ended_peer\<lparr>pe_id := 5, pe_active := True\<rparr>"
  have p: "?p \<in> set (db_peers (sy_db ended_sys))" "pe_user ?p = 7" "pe_active ?p" "pe_server ?p = 1"
    by (simp_all add: ended_sys_def ended_peer_def)
  obtain sv where sv: "server_row (sy_db ended_sys) (pe_server ?p) = Some sv"
    by (simp add: ended_sys_def demo_sys_def demo_db_def server_row_def ended_peer_def)
  have "us_id (demo_user\<lparr>us_id := 2\<rparr>) \<noteq> 7" by simp
  from delete_user_leaves_servers [OF ok this r p(1-3) sv] r p(4) show ?thesis by auto
qed

end
