(* ===== verification/Jobs.thy ===== *)
theory Jobs
  imports AdminAPI
begin

text \<open>
  \<^verbatim>\<open>internal/control/jobs.go\<close>: one tick of each background job, on the state the handlers work on. A
  job has a \<^verbatim>\<open>ServerRepo\<close> of its own, so what it writes leaves the cached server list of the handlers
  alone. An expired context fails the database calls that follow, like any other fault; the number of
  WebSocket clients is an argument. \<^verbatim>\<open>time.Parse(time.RFC3339, ...)\<close> is modelled as the library does it:
  an hour may have one digit and the fraction may follow a comma.
\<close>

section \<open>\<^verbatim>\<open>time.Parse\<close> with \<^verbatim>\<open>time.RFC3339\<close>\<close>

definition two_digits :: "string \<Rightarrow> (nat \<times> string) option" where
  "two_digits s = (case s of
     a # b # r \<Rightarrow> if is_digit a \<and> is_digit b then Some (10 * digit_val a + digit_val b, r) else None
   | _ \<Rightarrow> None)"

definition one_or_two_digits :: "string \<Rightarrow> (nat \<times> string) option" where
  "one_or_two_digits s = (case s of
     a # b # r \<Rightarrow> if \<not> is_digit a then None
                  else if is_digit b then Some (10 * digit_val a + digit_val b, r) else Some (digit_val a, b # r)
   | [a] \<Rightarrow> if is_digit a then Some (digit_val a, []) else None
   | [] \<Rightarrow> None)"

definition expect :: "char \<Rightarrow> string \<Rightarrow> string option" where
  "expect c s = (case s of x # r \<Rightarrow> if x = c then Some r else None | [] \<Rightarrow> None)"

text \<open>The digits of a fraction: nine count as nanoseconds, further ones are dropped.\<close>

definition fraction :: "string \<Rightarrow> time \<times> string" where
  "fraction s = (case s of
     c # d # r \<Rightarrow>
       if (c = CHR ''.'' \<or> c = CHR '','') \<and> is_digit d then
         let ds = takeWhile is_digit (d # r) in
         (foldl (\<lambda>n x. 10 * n + int (digit_val x)) 0 (take 9 (ds @ replicate 9 (CHR ''0''))), dropWhile is_digit (d # r))
       else (0, s)
   | _ \<Rightarrow> (0, s))"

text \<open>\<open>Z\<close> or the offset in seconds; nothing may follow.\<close>

definition zone_offset :: "string \<Rightarrow> int option" where
  "zone_offset s = (
     if s = ''Z'' then Some 0
     else case s of
       [] \<Rightarrow> None
     | c # r \<Rightarrow>
         if c \<noteq> CHR ''+'' \<and> c \<noteq> CHR ''-'' then None
         else do {
           (hh, r) \<leftarrow> two_digits r;
           r \<leftarrow> expect (CHR '':'') r;
           (mm, r) \<leftarrow> two_digits r;
           if r \<noteq> [] \<or> 24 < hh \<or> 60 < mm then None
           else Some ((if c = CHR ''-'' then - 1 else 1) * (int hh * 3600 + int mm * 60)) })"

definition leap :: "int \<Rightarrow> bool" where
  "leap y \<longleftrightarrow> y mod 4 = 0 \<and> (y mod 100 \<noteq> 0 \<or> y mod 400 = 0)"

definition month_days :: "int \<Rightarrow> nat \<Rightarrow> int" where
  "month_days y m = (if m = 2 then if leap y then 29 else 28 else if m \<in> {4, 6, 9, 11} then 30 else 31)"

text \<open>Days from the first of January of the year 1.\<close>

definition day_number :: "int \<Rightarrow> nat \<Rightarrow> nat \<Rightarrow> int" where
  "day_number y m d =
     (let p = y - 1 in
      365 * p + p div 4 - p div 100 + p div 400 + sum_list (map (month_days y) [1 ..< m]) + int d - 1)"

text \<open>Seconds from the year 1 to 1970: the zero \<^verbatim>\<open>time.Time\<close> lies that far before the epoch.\<close>

definition zero_time :: time where
  "zero_time = - 62135596800 * second"

definition parse_rfc3339 :: "string \<Rightarrow> time option" where
  "parse_rfc3339 s =
     do { (y1, s) \<leftarrow> two_digits s; (y2, s) \<leftarrow> two_digits s; s \<leftarrow> expect (CHR ''-'') s;
          (m, s) \<leftarrow> two_digits s; s \<leftarrow> expect (CHR ''-'') s; (d, s) \<leftarrow> two_digits s; s \<leftarrow> expect (CHR ''T'') s;
          (hh, s) \<leftarrow> one_or_two_digits s; s \<leftarrow> expect (CHR '':'') s; (mi, s) \<leftarrow> two_digits s;
          s \<leftarrow> expect (CHR '':'') s; (ss, s) \<leftarrow> two_digits s;
          let (ns, s) = fraction s; y = 100 * int y1 + int y2 in
          if m < 1 \<or> 12 < m \<or> d < 1 \<or> month_days y m < int d \<or> 23 < hh \<or> 59 < mi \<or> 59 < ss then None
          else do {
            off \<leftarrow> zone_offset s;
            Some (zero_time + (day_number y m d * 86400 + int hh * 3600 + int mi * 60 + int ss - off) * second + ns) } }"

section \<open>\<^verbatim>\<open>StartStatsSync\<close>\<close>

definition stats_handshake :: "string \<Rightarrow> time option" where
  "stats_handshake s =
     (if s = [] then None
      else case parse_rfc3339 s of None \<Rightarrow> None | Some t \<Rightarrow> if t = zero_time then None else Some t)"

text \<open>\<^verbatim>\<open>peerMap\<close>: the last entry of a key counts.\<close>

definition core_stats_of :: "core_peer list \<Rightarrow> string \<Rightarrow> core_peer option" where
  "core_stats_of cps key = find (\<lambda>c. cp_public c = key) (rev cps)"

definition sync_peer :: "core_peer list \<Rightarrow> peer \<Rightarrow> ('w, unit) op" where
  "sync_peer cps p =
     (case core_stats_of cps (pe_key p) of
        None \<Rightarrow> answer ()
      | Some c \<Rightarrow> do {
          _ \<leftarrow> db_op (peer_update_stats (pe_id p) (cp_sent c) (cp_recv c) (stats_handshake (cp_handshake c)));
          answer () })"

definition sync_server :: "'w env \<Rightarrow> server \<Rightarrow> ('w, unit) op" where
  "sync_server env s =
     (if \<not> sv_active s then answer ()
      else do {
        r \<leftarrow> world_op (bk_list_peers (en_backend env) s);
        case r of
          Inl e \<Rightarrow> answer ()
        | Inr cps \<Rightarrow> do {
            _ \<leftarrow> db_op (server_set_peer_count (sv_id s) (int (length cps)));
            ps \<leftarrow> db_op (peer_list_active_by_server (sv_id s));
            case ps of
              Inl e \<Rightarrow> answer ()
            | Inr ps \<Rightarrow> do { _ \<leftarrow> State_Monad.traverse_list (sync_peer cps) ps; answer () } } })"

definition stats_sync :: "'w env \<Rightarrow> nat \<Rightarrow> ('w, unit) op" where
  "stats_sync env clients =
     do { r \<leftarrow> db_op server_list_all;
          case r of
            Inl e \<Rightarrow> answer ()
          | Inr ss \<Rightarrow> do {
              _ \<leftarrow> State_Monad.traverse_list (sync_server env) ss;
              if en_hub env \<and> 0 < clients
              then do { st \<leftarrow> collect_stats; emit env (Broadcast (StatsMessage st)) }
              else answer () } }"

section \<open>\<^verbatim>\<open>StartSessionMeshCleanup\<close>\<close>

definition session_window :: time where
  "session_window = 2 * hour"

definition session_mesh_cleanup :: "('w, unit) op" where
  "session_mesh_cleanup = do { _ \<leftarrow> db_op (mesh_delete_stale_sessions session_window); answer () }"

section \<open>\<^verbatim>\<open>StartPeerCleanup\<close>\<close>

definition stale_window :: time where
  "stale_window = 30 * minute"

definition cleanup_peer :: "'w env \<Rightarrow> peer \<Rightarrow> ('w, unit) op" where
  "cleanup_peer env p =
     do { r \<leftarrow> db_op (server_by_id (pe_server p));
          _ \<leftarrow> (case r of
                 Inl e \<Rightarrow> answer ()
               | Inr s \<Rightarrow> do {
                   _ \<leftarrow> world_op (bk_remove_peer (en_backend env) s (pe_key p));
                   _ \<leftarrow> db_op (server_update_peer_count (pe_server p) (- 1));
                   answer () });
          _ \<leftarrow> db_op (peer_deactivate (pe_id p));
          audit_entry env (pe_user p) ''peer.cleanup''
            [(''peer_id'', MetaId (pe_id p)), (''server_id'', MetaId (pe_server p)),
             (''reason'', MetaText ''stale_or_expired'')] ''system'' }"

definition peer_cleanup :: "'w env \<Rightarrow> ('w, unit) op" where
  "peer_cleanup env =
     do { r \<leftarrow> db_op (peer_list_stale stale_window);
          case r of
            Inl e \<Rightarrow> answer ()
          | Inr ps \<Rightarrow> do { _ \<leftarrow> State_Monad.traverse_list (cleanup_peer env) ps; answer () } }"

section \<open>A tick of the cleanup\<close>

lemma counts_ok_answers: "counts_ok d \<Longrightarrow> db_faults d = []"
  by (simp add: counts_ok_def db_wf_def)

lemma counts_ok_kept: "quiet s t \<Longrightarrow> counts_ok (sy_db s) \<Longrightarrow> counts_ok (sy_db t) \<and> db_peers (sy_db t) = db_peers (sy_db s)"
  using counts_ok_quiet quiet_kept counts_ok_answers by metis

lemma cleanup_peer_outcome:
  assumes ok: "counts_ok (sy_db s)" and p: "p \<in> set (db_peers (sy_db s))" "pe_active p"
    and run: "run_state (cleanup_peer env p) s = (u, t)"
  shows "counts_ok (sy_db t) \<and> db_peers (sy_db t) = take_down {pe_id p} (db_peers (sy_db s))"
proof -
  let ?d = "sy_db s" and ?down = "take_down {pe_id p} (db_peers (sy_db s))"
  let ?log = "audit_entry env (pe_user p) ''peer.cleanup'' [(''peer_id'', MetaId (pe_id p)),
      (''server_id'', MetaId (pe_server p)), (''reason'', MetaText ''stale_or_expired'')] ''system''"
  from ok have f: "db_faults ?d = []" and dist: "distinct (map pe_id (db_peers ?d))"
    by (simp_all add: counts_ok_def db_wf_def)
  have "\<exists>s2. run_state ?log s2 = (u, t) \<and> kept 0 ?d (sy_db s2) \<and> db_peers (sy_db s2) = ?down \<and>
      slots (sy_db s2) = one_less (pe_server p) (slots ?d)"
  proof (cases "server_row ?d (pe_server p)")
    case None
    then have "slots ?d (pe_server p) = None" by (simp add: slots_def)
    with None run f show ?thesis
      by (intro exI [of _ "s\<lparr>sy_db := ?d\<lparr>db_peers := ?down\<rparr>\<rparr>"])
        (simp add: cleanup_peer_def server_by_id_run one_row_def peer_deactivate_run take_down_def kept_def one_less_None)
  next
    case (Some r)
    obtain d1 where d1: "server_update_peer_count (pe_server p) (- 1) ?d = (Inr (), d1)"
      using f by (simp add: server_update_peer_count_def db_call_ok)
    note rel = release_slot_slots [OF f, of "pe_server p", unfolded d1 snd_conv]
    obtain rr w where w: "bk_remove_peer (en_backend env) (scan_server_with_token r) (pe_key p) (sy_world s) = (rr, w)"
      by fastforce
    let ?s2 = "s\<lparr>sy_world := w, sy_db := d1\<lparr>db_peers := ?down\<rparr>\<rparr>"
    have "run_state (cleanup_peer env p) s = run_state ?log ?s2"
      using Some f d1 w rel by (simp add: cleanup_peer_def server_by_id_run one_row_def peer_deactivate_run take_down_def)
    then show ?thesis using run rel f
      by (intro exI [of _ ?s2]) (simp add: kept_def one_less_def)
  qed
  then obtain s2 where s2: "run_state ?log s2 = (u, t)" "kept 0 ?d (sy_db s2)" "db_peers (sy_db s2) = ?down"
      "slots (sy_db s2) = one_less (pe_server p) (slots ?d)" by blast
  have ids: "map pe_id (db_peers (sy_db s2)) = map pe_id (db_peers ?d)" unfolding s2 by simp
  have "\<forall>q \<in> set (db_peers (sy_db s2)). pe_id q < db_next ?d"
    unfolding s2 take_down_def using ok by (auto simp: counts_ok_def set_map_where)
  then have "counts_ok (sy_db s2)"
    using dist ids on_server_deactivate [OF dist find_by_id [OF dist p(1)] p(2)] s2(2-4)
    by (intro counts_ok_one_less [OF ok _ p]) (simp_all add: take_down_def)
  with counts_ok_kept [OF calm.io_run [OF quiet_audit s2(1)]] show ?thesis by (simp add: s2(3))
qed

lemma cleanup_traverse:
  assumes "counts_ok (sy_db s)" and "distinct (map pe_id ps)" and "set ps \<subseteq> set (db_peers (sy_db s))"
    and "\<forall>p \<in> set ps. pe_active p" and "run_state (State_Monad.traverse_list (cleanup_peer env) ps) s = (us, t)"
  shows "counts_ok (sy_db t) \<and> db_peers (sy_db t) = take_down (pe_id ` set ps) (db_peers (sy_db s))"
  using assms
proof (induction ps arbitrary: s us)
  case Nil
  then show ?case by simp
next
  case (Cons p ps)
  obtain u1 s1 where s1: "run_state (cleanup_peer env p) s = (u1, s1)" by (meson surj_pair)
  obtain us2 where s2: "run_state (State_Monad.traverse_list (cleanup_peer env) ps) s1 = (us2, t)"
    using Cons.prems(5) s1 by (auto split: prod.splits)
  have p: "p \<in> set (db_peers (sy_db s))" "pe_active p" using Cons.prems(3,4) by simp_all
  note c = cleanup_peer_outcome [OF Cons.prems(1) p s1]
  have "set ps \<subseteq> set (db_peers (sy_db s1))"
    using c Cons.prems(2,3) by (auto simp: take_down_def set_map_where image_iff)
  then show ?case using Cons.IH [OF _ _ _ _ s2] c Cons.prems(2,4) by (simp add: take_down_insert)
qed

text \<open>C12: one tick of the peer cleanup deactivates every connection that has expired or has been silent for
  thirty minutes, and only those, whatever the core servers answer; afterwards none is left to clean up,
  and every server still counts exactly its active connections.\<close>

theorem peer_cleanup_clears_stale:
  assumes ok: "counts_ok (sy_db s)" and run: "run_state (peer_cleanup env) s = (u, t)"
  shows "db_peers (sy_db t) =
      map (\<lambda>p. if stale (db_now (sy_db s)) stale_window p then p\<lparr>pe_active := False\<rparr> else p) (db_peers (sy_db s)) \<and>
    filter (stale (db_now (sy_db s)) stale_window) (db_peers (sy_db t)) = [] \<and> counts_ok (sy_db t)"
proof -
  let ?st = "stale (db_now (sy_db s)) stale_window" and ?ps = "db_peers (sy_db s)"
  from ok have f: "db_faults (sy_db s) = []" and dist: "distinct (map pe_id ?ps)" by (simp_all add: counts_ok_def db_wf_def)
  have "peer_list_stale stale_window (sy_db s) = (Inr (filter ?st ?ps), sy_db s)"
    by (simp add: peer_list_stale_def db_call_ok f)
  then obtain us where tr: "run_state (State_Monad.traverse_list (cleanup_peer env) (filter ?st ?ps)) s = (us, t)"
    using run by (auto simp: peer_cleanup_def split: prod.splits)
  have sub: "set (filter ?st ?ps) \<subseteq> set ?ps" "\<forall>p \<in> set (filter ?st ?ps). pe_active p" by (auto simp: stale_def)
  note c = cleanup_traverse [OF ok distinct_map_filterI [OF dist] sub tr]
  have "(pe_id p \<in> pe_id ` set (filter ?st ?ps)) = ?st p" if "p \<in> set ?ps" for p
    using that dist by (auto simp: distinct_map dest: inj_onD)
  then have eq: "db_peers (sy_db t) = map (\<lambda>p. if ?st p then p\<lparr>pe_active := False\<rparr> else p) ?ps"
    unfolding c [THEN conjunct2] take_down_def map_where_def by (intro map_cong) auto
  have "filter ?st (db_peers (sy_db t)) = []" unfolding eq by (auto simp: filter_empty_conv stale_def)
  with eq c show ?thesis by blast
qed

definition silent_peer :: peer where
  "silent_peer = ended_peer\<lparr>pe_active := True, pe_handshake := None, pe_created := - hour\<rparr>"

definition silent_sys :: "unit sys" where
  "silent_sys = demo_sys\<lparr>sy_db := (sy_db demo_sys)\<lparr>db_peers := [silent_peer],
     db_servers := map (\<lambda>x. x\<lparr>sv_cur := 1\<rparr>) (db_servers (sy_db demo_sys))\<rparr>\<rparr>"

theorem peer_cleanup_clears_stale_witness:
  "\<exists>t. run_state (peer_cleanup demo_env) silent_sys = ((), t) \<and> pe_active silent_peer \<and>
     db_peers (sy_db t) = [silent_peer\<lparr>pe_active := False\<rparr>]"
proof -
  obtain t where t: "run_state (peer_cleanup demo_env) silent_sys = ((), t)" by (metis surj_pair old.unit.exhaust)
  have ok: "counts_ok (sy_db silent_sys)"
    by (auto simp: counts_ok_def db_wf_def silent_sys_def silent_peer_def ended_peer_def demo_sys_def demo_db_def slots_def
        server_row_def on_server_def)
  have st: "stale (db_now (sy_db silent_sys)) stale_window silent_peer"
    by (simp add: stale_def silent_sys_def silent_peer_def ended_peer_def demo_sys_def demo_db_def stale_window_def hour_def
        minute_def second_def)
  from peer_cleanup_clears_stale [OF ok t] st
  show ?thesis using t by (auto simp: silent_sys_def silent_peer_def)
qed

end
