(* ===== verification/RateLimit.thy ===== *)
theory RateLimit
  imports Jobs
begin

text \<open>
  The three rate limiters: per address (\<^verbatim>\<open>internal/api/ratelimit.go\<close>), per refresh token
  (\<^verbatim>\<open>internal/api/refresh_ratelimit.go\<close>) and per user (\<^verbatim>\<open>internal/control/user_ratelimit.go\<close>). Each
  keeps a \<^verbatim>\<open>rate.Limiter\<close> of \<^verbatim>\<open>golang.org/x/time/rate\<close>, a parameter here, per key with the time it was last
  asked for, and a goroutine that drops the entries idle for longer than a window. An operation under
  the mutex is one step; asking the address limiter takes the lock, then the limiter, and is one step too.
\<close>

section \<open>The address of a client\<close>

record client_headers =
  ch_remote :: string
  ch_real_ip :: string
  ch_forwarded :: string

definition trusted_entry :: "string \<Rightarrow> ipnet option" where
  "trusted_entry raw =
     (let e = trim_space raw in
      if e = [] then None
      else if CHR ''/'' \<notin> set e then
        (case parse_ip e of
           None \<Rightarrow> None
         | Some a \<Rightarrow> (case to4 a of
             Some w \<Rightarrow> Some \<lparr>net_ip = IP4 w, net_ones = 32\<rparr>
           | None \<Rightarrow> Some \<lparr>net_ip = a, net_ones = 128\<rparr>))
      else map_option snd (parse_cidr e))"

definition parse_trusted_proxies :: "string \<Rightarrow> ipnet list" where
  "parse_trusted_proxies raw = List.map_filter trusted_entry (split_on (CHR '','') raw)"

definition is_trusted_proxy :: "string \<Rightarrow> ipnet list \<Rightarrow> bool" where
  "is_trusted_proxy remote trusted =
     (if trusted = [] then False
      else let host = (case split_host_port remote of Some (h, _) \<Rightarrow> h | None \<Rightarrow> remote) in
        case parse_ip host of
          None \<Rightarrow> False
        | Some a \<Rightarrow> list_ex (\<lambda>n. net_contains n a) trusted)"

definition api_real_ip :: "client_headers \<Rightarrow> ipnet list \<Rightarrow> string" where
  "api_real_ip h trusted =
     (if is_trusted_proxy (ch_remote h) trusted \<and> ch_real_ip h \<noteq> [] then trim_space (ch_real_ip h)
      else if is_trusted_proxy (ch_remote h) trusted \<and> ch_forwarded h \<noteq> []
      then trim_space (last (split_on (CHR '','') (ch_forwarded h)))
      else case split_host_port (ch_remote h) of Some (host, _) \<Rightarrow> host | None \<Rightarrow> ch_remote h)"

section \<open>Limiters by key\<close>

text \<open>\<^verbatim>\<open>rate.NewLimiter\<close> and \<^verbatim>\<open>Limiter.Allow\<close> at an instant.\<close>

record 'b rate_ops =
  rl_new :: "rat \<Rightarrow> int \<Rightarrow> 'b"
  rl_allow :: "time \<Rightarrow> 'b \<Rightarrow> bool \<times> 'b"

type_synonym 'b entries = "string \<rightharpoonup> 'b \<times> time"

record 'b ip_limiter =
  il_limiters :: "'b entries"
  il_rps :: rat
  il_burst :: int

definition new_ip_limiter :: "rat \<Rightarrow> int \<Rightarrow> 'b ip_limiter" where
  "new_ip_limiter rps burst = \<lparr>il_limiters = Map.empty, il_rps = rps, il_burst = burst\<rparr>"

definition get_limiter :: "'b rate_ops \<Rightarrow> time \<Rightarrow> string \<Rightarrow> 'b ip_limiter \<Rightarrow> 'b \<times> 'b ip_limiter" where
  "get_limiter ops now ip l =
     (case il_limiters l ip of
        None \<Rightarrow>
          let limiter = rl_new ops (il_rps l) (il_burst l)
          in (limiter, l\<lparr>il_limiters := (il_limiters l)(ip \<mapsto> (limiter, now))\<rparr>)
      | Some (limiter, seen) \<Rightarrow> (limiter, l\<lparr>il_limiters := (il_limiters l)(ip \<mapsto> (limiter, now))\<rparr>))"

text \<open>\<^verbatim>\<open>limiter.getLimiter(ip).Allow()\<close>: the entry holds the limiter that was asked.\<close>

definition ip_allow :: "'b rate_ops \<Rightarrow> time \<Rightarrow> string \<Rightarrow> 'b ip_limiter \<Rightarrow> bool \<times> 'b ip_limiter" where
  "ip_allow ops now ip l =
     (let (limiter, l1) = get_limiter ops now ip l; (ok, limiter1) = rl_allow ops now limiter
      in (ok, l1\<lparr>il_limiters := (il_limiters l1)(ip \<mapsto> (limiter1, now))\<rparr>))"

definition drop_idle :: "time \<Rightarrow> time \<Rightarrow> 'b entries \<Rightarrow> 'b entries" where
  "drop_idle window now m = (\<lambda>k. case m k of
     None \<Rightarrow> None | Some (b, seen) \<Rightarrow> if window < now - seen then None else Some (b, seen))"

definition ip_window :: time where
  "ip_window = 3 * minute"

definition ip_cleanup :: "time \<Rightarrow> 'b ip_limiter \<Rightarrow> 'b ip_limiter" where
  "ip_cleanup now l = l\<lparr>il_limiters := drop_idle ip_window now (il_limiters l)\<rparr>"

record 'b refresh_limiter =
  fl_entries :: "'b entries"
  fl_rps :: rat
  fl_burst :: int

definition new_refresh_limiter :: "rat \<Rightarrow> int \<Rightarrow> 'b refresh_limiter" where
  "new_refresh_limiter rps burst = \<lparr>fl_entries = Map.empty, fl_rps = rps, fl_burst = burst\<rparr>"

definition refresh_allow :: "'b rate_ops \<Rightarrow> time \<Rightarrow> string \<Rightarrow> 'b refresh_limiter \<Rightarrow> bool \<times> 'b refresh_limiter" where
  "refresh_allow ops now key l =
     (let limiter = (case fl_entries l key of None \<Rightarrow> rl_new ops (fl_rps l) (fl_burst l) | Some (b, _) \<Rightarrow> b);
          (ok, limiter1) = rl_allow ops now limiter
      in (ok, l\<lparr>fl_entries := (fl_entries l)(key \<mapsto> (limiter1, now))\<rparr>))"

definition refresh_window :: time where
  "refresh_window = 30 * minute"

definition refresh_cleanup :: "time \<Rightarrow> 'b refresh_limiter \<Rightarrow> 'b refresh_limiter" where
  "refresh_cleanup now l = l\<lparr>fl_entries := drop_idle refresh_window now (fl_entries l)\<rparr>"

record 'b user_limiter =
  ul_entries :: "'b entries"
  ul_rps :: rat
  ul_burst :: int

definition new_user_limiter :: "rat \<Rightarrow> int \<Rightarrow> 'b user_limiter" where
  "new_user_limiter rps burst = \<lparr>ul_entries = Map.empty, ul_rps = rps, ul_burst = burst\<rparr>"

definition user_allow :: "'b rate_ops \<Rightarrow> time \<Rightarrow> string \<Rightarrow> 'b user_limiter \<Rightarrow> bool \<times> 'b user_limiter" where
  "user_allow ops now user l =
     (let limiter = (case ul_entries l user of None \<Rightarrow> rl_new ops (ul_rps l) (ul_burst l) | Some (b, _) \<Rightarrow> b);
          (ok, limiter1) = rl_allow ops now limiter
      in (ok, l\<lparr>ul_entries := (ul_entries l)(user \<mapsto> (limiter1, now))\<rparr>))"

definition user_window :: time where
  "user_window = 10 * minute"

definition user_cleanup :: "time \<Rightarrow> 'b user_limiter \<Rightarrow> 'b user_limiter" where
  "user_cleanup now l = l\<lparr>ul_entries := drop_idle user_window now (ul_entries l)\<rparr>"

section \<open>Middlewares\<close>

text \<open>\<open>next\<close> is the handler behind the middleware; \<open>out\<close> embeds the middleware's own JSON error into its replies.\<close>

definition rate_limit_middleware ::
    "('d response \<Rightarrow> 'r) \<Rightarrow> 'b rate_ops \<Rightarrow> ipnet list \<Rightarrow> time \<Rightarrow> client_headers \<Rightarrow> ('s \<Rightarrow> 'r \<times> 's) \<Rightarrow>
     'b ip_limiter \<times> 's \<Rightarrow> 'r \<times> 'b ip_limiter \<times> 's" where
  "rate_limit_middleware out ops trusted now h next x =
     (case x of (l, s) \<Rightarrow>
        case ip_allow ops now (api_real_ip h trusted) l of (ok, l1) \<Rightarrow>
          if \<not> ok then (out (JsonError ''rate limit exceeded'' 429), l1, s)
          else case next s of (resp, s1) \<Rightarrow> (resp, l1, s1))"

definition hash_refresh_token :: "(string \<Rightarrow> nat list) \<Rightarrow> string \<Rightarrow> string" where
  "hash_refresh_token sha token = concat (map hex_byte (sha token))"

text \<open>The body as \<^verbatim>\<open>json.Unmarshal\<close> reads it: \<open>None\<close> if it cannot be read or decoded. \<open>next\<close> is already applied to the
  body (the empty one if it could not be read), which the handler decodes on its own: its \<^verbatim>\<open>json.Decoder\<close> stops
  after the first value, while \<^verbatim>\<open>json.Unmarshal\<close> refuses anything behind it.\<close>

definition refresh_rate_limit_middleware ::
    "('d response \<Rightarrow> 'r) \<Rightarrow> 'b rate_ops \<Rightarrow> (string \<Rightarrow> nat list) \<Rightarrow> time \<Rightarrow> string option \<Rightarrow> ('s \<Rightarrow> 'r \<times> 's) \<Rightarrow>
     'b refresh_limiter \<times> 's \<Rightarrow> 'r \<times> 'b refresh_limiter \<times> 's" where
  "refresh_rate_limit_middleware out ops sha now body next x =
     (case x of (l, s) \<Rightarrow>
        if body \<in> {None, Some []} then (case next s of (resp, s1) \<Rightarrow> (resp, l, s1))
        else case refresh_allow ops now (hash_refresh_token sha (the body)) l of (ok, l1) \<Rightarrow>
          if \<not> ok then (out (JsonError ''too many refresh attempts; retry later'' 429), l1, s)
          else case next s of (resp, s1) \<Rightarrow> (resp, l1, s1))"

section \<open>Forgetting idle keys is not observable\<close>

datatype limiter_event = Hit time string | Sweep time

fun event_time :: "limiter_event \<Rightarrow> time" where
  "event_time (Hit now k) = now"
| "event_time (Sweep now) = now"

text \<open>The answers of a limiter to a sequence of requests and sweeps.\<close>

fun answers :: "(time \<Rightarrow> string \<Rightarrow> 'l \<Rightarrow> bool \<times> 'l) \<Rightarrow> (time \<Rightarrow> 'l \<Rightarrow> 'l) \<Rightarrow> limiter_event list \<Rightarrow> 'l \<Rightarrow> bool list" where
  "answers hit sweep [] l = []"
| "answers hit sweep (Hit now k # es) l = fst (hit now k l) # answers hit sweep es (snd (hit now k l))"
| "answers hit sweep (Sweep now # es) l = answers hit sweep es (sweep now l)"

text \<open>The specification: one bucket per key from the start, and none is ever dropped.\<close>

fun bucket_answers :: "(time \<Rightarrow> 'b \<Rightarrow> bool \<times> 'b) \<Rightarrow> limiter_event list \<Rightarrow> (string \<Rightarrow> 'b) \<Rightarrow> bool list" where
  "bucket_answers alw [] f = []"
| "bucket_answers alw (Hit now k # es) f = fst (alw now (f k)) # bucket_answers alw es (f(k := snd (alw now (f k))))"
| "bucket_answers alw (Sweep now # es) f = bucket_answers alw es f"

text \<open>What the package documents: a bucket not used for the window is full again. \<open>since b t\<close> says that
  \<open>b\<close> was not asked after \<open>t\<close>.\<close>

definition refills :: "(time \<Rightarrow> 'b \<Rightarrow> bool \<times> 'b) \<Rightarrow> 'b \<Rightarrow> ('b \<Rightarrow> time \<Rightarrow> bool) \<Rightarrow> time \<Rightarrow> bool" where
  "refills alw fresh since window \<longleftrightarrow>
     (\<forall>b t now. since b t \<and> t \<le> now \<longrightarrow> since (snd (alw now b)) now) \<and> (\<forall>now. since (snd (alw now fresh)) now) \<and>
     (\<forall>b t now. since b t \<and> window < now - t \<longrightarrow> alw now b = alw now fresh)"

locale keyed_limiter =
  fixes entries :: "'l \<Rightarrow> 'b entries" and fresh :: "'l \<Rightarrow> 'b" and alw :: "time \<Rightarrow> 'b \<Rightarrow> bool \<times> 'b"
    and hit :: "time \<Rightarrow> string \<Rightarrow> 'l \<Rightarrow> bool \<times> 'l" and sweep :: "time \<Rightarrow> 'l \<Rightarrow> 'l" and window :: time
  assumes hit_ok: "fst (hit now k l) = fst (alw now (case entries l k of None \<Rightarrow> fresh l | Some (b, _) \<Rightarrow> b))"
    and hit_entries: "entries (snd (hit now k l)) =
       (entries l)(k \<mapsto> (snd (alw now (case entries l k of None \<Rightarrow> fresh l | Some (b, _) \<Rightarrow> b)), now))"
    and hit_fresh: "fresh (snd (hit now k l)) = fresh l"
    and sweep_entries: "entries (sweep now l) = drop_idle window now (entries l)"
    and sweep_fresh: "fresh (sweep now l) = fresh l"
begin

text \<open>An entry holds the bucket of its key; a missing one stands for a bucket that answers like a new one.\<close>

definition stands_for :: "('b \<Rightarrow> time \<Rightarrow> bool) \<Rightarrow> time \<Rightarrow> 'b \<Rightarrow> ('b \<times> time) option \<Rightarrow> 'b \<Rightarrow> bool" where
  "stands_for since now fr e b \<longleftrightarrow>
     (case e of None \<Rightarrow> (\<forall>t \<ge> now. alw t b = alw t fr) | Some (c, seen) \<Rightarrow> c = b \<and> since b seen \<and> seen \<le> now)"

definition simulates :: "('b \<Rightarrow> time \<Rightarrow> bool) \<Rightarrow> time \<Rightarrow> 'l \<Rightarrow> (string \<Rightarrow> 'b) \<Rightarrow> bool" where
  "simulates since now l f \<longleftrightarrow> (\<forall>k. stands_for since now (fresh l) (entries l k) (f k))"

lemma stands_for_later: "stands_for since now fr e b \<Longrightarrow> now \<le> now' \<Longrightarrow> stands_for since now' fr e b"
  by (cases e) (auto simp: stands_for_def)

lemma simulates_later: "simulates since now l f \<Longrightarrow> now \<le> now' \<Longrightarrow> simulates since now' l f"
  unfolding simulates_def by (blast intro: stands_for_later)

lemma stands_for_alw:
  assumes "stands_for since now fr e b"
  shows "alw now (case e of None \<Rightarrow> fr | Some (c, _) \<Rightarrow> c) = alw now b"
  using assms by (cases e) (auto simp: stands_for_def)

lemma stands_for_since:
  assumes "stands_for since now fr e b" and "refills alw fr since window"
  shows "since (snd (alw now b)) now"
  using assms by (cases e) (auto simp: stands_for_def refills_def)

lemma stands_for_swept:
  assumes "stands_for since now fr (m k) b" and "refills alw fr since window"
  shows "stands_for since now fr (drop_idle window now m k) b"
proof (cases "m k")
  case None
  then show ?thesis using assms(1) by (simp add: drop_idle_def)
next
  case (Some e)
  then obtain seen where e: "m k = Some (b, seen)" "since b seen" "seen \<le> now"
    using assms(1) by (cases e) (auto simp: stands_for_def)
  have "alw t b = alw t fr" if "window < now - seen" "now \<le> t" for t
  proof -
    have "window < t - seen" using that by simp
    then show ?thesis using assms(2) e(2) unfolding refills_def by blast
  qed
  then show ?thesis using e by (auto simp: drop_idle_def stands_for_def)
qed

lemma simulates_hit:
  assumes "simulates since now l f" and r: "refills alw (fresh l) since window"
  shows "fst (hit now k l) = fst (alw now (f k))"
    and "simulates since now (snd (hit now k l)) (f(k := snd (alw now (f k))))"
proof -
  have k: "stands_for since now (fresh l) (entries l k) (f k)" using assms(1) by (simp add: simulates_def)
  show "fst (hit now k l) = fst (alw now (f k))" by (simp add: hit_ok stands_for_alw [OF k])
  have "stands_for since now (fresh l) (Some (snd (alw now (f k)), now)) (snd (alw now (f k)))"
    using stands_for_since [OF k r] by (simp add: stands_for_def)
  then show "simulates since now (snd (hit now k l)) (f(k := snd (alw now (f k))))"
    using assms(1) by (simp add: simulates_def hit_entries hit_fresh stands_for_alw [OF k])
qed

lemma simulates_sweep:
  assumes "simulates since now l f" and r: "refills alw (fresh l) since window"
  shows "simulates since now (sweep now l) f"
  using assms by (simp add: simulates_def sweep_entries sweep_fresh stands_for_swept)

lemma answers_refine:
  assumes "refills alw (fresh l) since window" and "simulates since now l f"
    and "sorted (now # map event_time es)"
  shows "answers hit sweep es l = bucket_answers alw es f"
  using assms
proof (induction es arbitrary: l f now)
  case Nil
  then show ?case by simp
next
  case (Cons e es)
  have s: "simulates since (event_time e) l f" using Cons.prems(2,3) by (auto intro: simulates_later)
  have so: "sorted (event_time e # map event_time es)" using Cons.prems(3) by simp
  show ?case
  proof (cases e)
    case (Hit t k)
    then show ?thesis
      using simulates_hit [OF s Cons.prems(1), of k] Cons.IH [OF _ _ so, of "snd (hit t k l)"] Cons.prems(1)
      by (simp add: hit_fresh)
  next
    case (Sweep t)
    then show ?thesis
      using simulates_sweep [OF s Cons.prems(1)] Cons.IH [OF _ _ so, of "sweep t l"] Cons.prems(1)
      by (simp add: sweep_fresh)
  qed
qed

lemma new_simulates: "entries l = Map.empty \<Longrightarrow> simulates since now l (\<lambda>k. fresh l)"
  by (simp add: simulates_def stands_for_def)

lemma forgetting_unobservable:
  assumes "entries l = Map.empty" and "refills alw (fresh l) since window" and "sorted (map event_time es)"
  shows "answers hit sweep es l = bucket_answers alw es (\<lambda>k. fresh l)"
proof (cases es)
  case (Cons e es')
  then show ?thesis
    using answers_refine [OF assms(2) new_simulates [OF assms(1)], of "event_time e" es] assms(3) by simp
qed simp

end

interpretation ip_lim: keyed_limiter il_limiters "\<lambda>l. rl_new ops (il_rps l) (il_burst l)" "rl_allow ops"
    "ip_allow ops" ip_cleanup ip_window
  by unfold_locales (auto simp: ip_allow_def get_limiter_def ip_cleanup_def Let_def split: option.splits prod.splits)

interpretation refresh_lim: keyed_limiter fl_entries "\<lambda>l. rl_new ops (fl_rps l) (fl_burst l)" "rl_allow ops"
    "refresh_allow ops" refresh_cleanup refresh_window
  by unfold_locales (auto simp: refresh_allow_def refresh_cleanup_def Let_def split: option.splits prod.splits)

interpretation user_lim: keyed_limiter ul_entries "\<lambda>l. rl_new ops (ul_rps l) (ul_burst l)" "rl_allow ops"
    "user_allow ops" user_cleanup user_window
  by unfold_locales (auto simp: user_allow_def user_cleanup_def Let_def split: option.splits prod.splits)

lemma refills_mono: "refills alw fr since w \<Longrightarrow> w \<le> w' \<Longrightarrow> refills alw fr since w'"
  unfolding refills_def by (meson order_le_less_trans)


text \<open>A token bucket with those laws: rate per second, capacity, tokens, and when they were counted.\<close>

definition token_bucket :: "(rat \<times> rat \<times> rat \<times> time) rate_ops" where
  "token_bucket =
     \<lparr>rl_new = (\<lambda>rps burst. (rps, of_int burst, of_int burst, zero_time)),
      rl_allow = (\<lambda>now (rps, burst, n, at0).
        let n1 = min burst (n + rps * of_int (max 0 (now - at0)) / of_int second)
        in if 1 \<le> n1 then (True, (rps, burst, n1 - 1, now)) else (False, (rps, burst, n, at0)))\<rparr>"

definition bucket_since :: "rat \<times> rat \<times> rat \<times> time \<Rightarrow> time \<Rightarrow> bool" where
  "bucket_since b t \<longleftrightarrow> (case b of (rps, burst, n, at0) \<Rightarrow> rps = 20 \<and> burst = 40 \<and> 0 \<le> n \<and> n \<le> 40 \<and> at0 \<le> t)"

lemma refilled:
  fixes n :: rat
  assumes "0 \<le> n" and "2 * second \<le> d"
  shows "min 40 (n + 20 * of_int (max 0 d) / of_int second) = 40"
proof -
  have "of_int (2 * second) \<le> (of_int d :: rat)" using assms(2) by (simp only: of_int_le_iff)
  then have "2 \<le> (of_int d :: rat) / of_int second" by (simp add: second_def)
  moreover have "max 0 d = d" using assms(2) by (simp add: second_def)
  ultimately show ?thesis using assms(1) by simp
qed

lemma token_bucket_refills: "refills (rl_allow token_bucket) (rl_new token_bucket 20 40) bucket_since ip_window"
  unfolding refills_def
proof (intro conjI allI impI)
  fix b t now assume "bucket_since b t \<and> t \<le> now"
  then show "bucket_since (snd (rl_allow token_bucket now b)) now"
    by (auto simp: token_bucket_def bucket_since_def Let_def split: prod.split)
next
  fix now show "bucket_since (snd (rl_allow token_bucket now (rl_new token_bucket 20 40))) now"
    by (auto simp: token_bucket_def bucket_since_def Let_def)
next
  fix b t now assume "bucket_since b t \<and> ip_window < now - t"
  then obtain n at0 where b: "b = (20, 40, n, at0)" "0 \<le> n" "n \<le> 40" "2 * second \<le> now - at0"
    by (cases b) (auto simp: bucket_since_def ip_window_def minute_def second_def)
  have "min 40 (40 + 20 * of_int (max 0 (now - zero_time)) / of_int second) = (40 :: rat)"
    by (simp add: min_def second_def)
  then show "rl_allow token_bucket now b = rl_allow token_bucket now (rl_new token_bucket 20 40)"
    using refilled [OF b(2,4)] by (simp add: b(1) token_bucket_def)
qed


section \<open>Headers of strangers\<close>

text \<open>The key of the address limiter comes from a header only for a request from a configured proxy: whatever
  headers a client outside the trusted networks sends, the middleware treats its requests the same, and the
  handler behind runs exactly when the bucket of the client's own address allows it.\<close>

lemma strangers_cannot_pick_a_bucket:
  assumes "\<not> is_trusted_proxy (ch_remote h) trusted" and "ch_remote h' = ch_remote h"
    and "split_host_port (ch_remote h) = Some (host, port)"
  shows "rate_limit_middleware out ops trusted now h next (l, s) = rate_limit_middleware out ops trusted now h' next (l, s) \<and>
    rate_limit_middleware out ops trusted now h next (l, s) =
      (let (ok, l1) = ip_allow ops now host l in
       if ok then (fst (next s), l1, snd (next s)) else (out (JsonError ''rate limit exceeded'' 429), l1, s))"
proof -
  have "api_real_ip h trusted = host" "api_real_ip h' trusted = host"
    using assms by (simp_all add: api_real_ip_def)
  then show ?thesis by (simp add: rate_limit_middleware_def split: prod.split)
qed

end
