(* ===== verification/AuthTokens.thy ===== *)
theory AuthTokens
  imports RateLimit
begin

text \<open>
  \<^verbatim>\<open>internal/auth\<close>: token introspection with its cache (\<^verbatim>\<open>introspection.go\<close>, \<^verbatim>\<open>introspection_cache.go\<close>), the
  key set (\<^verbatim>\<open>jwks.go\<close>) and the middleware and validators that turn a bearer token into a user
  (\<^verbatim>\<open>middleware.go\<close>). The JWT library, JSON decoding, SHA-256, HTTP and the disk are parameters.
\<close>

section \<open>Introspection\<close>

text \<open>A decoded JSON value, as far as the code looks into it; \<open>ClaimStrings\<close> is a Go \<^verbatim>\<open>[]string\<close>.\<close>

datatype claim = ClaimText string | ClaimList "claim list" | ClaimStrings "string list" | ClaimOther

record intro_claims =
  ic_active :: bool
  ic_sub :: string
  ic_iss :: string
  ic_email :: string
  ic_exp :: int
  ic_groups :: claim

datatype intro_error =
    EmptyToken | NoClientID | NoClientSecret | NoIntrospectionURL
  | RequestFailed | BadStatus int | BadClaims | NotActive | TokenExpired

text \<open>The outside world: posting a form, which fails or answers a status and a body, decoding a body, the clock.\<close>

record 'w auth_net =
  an_post :: "string \<Rightarrow> (string \<times> string) list \<Rightarrow> 'w \<Rightarrow> (int \<times> string) option \<times> 'w"
  an_decode :: "string \<Rightarrow> intro_claims option"
  an_now :: "'w \<Rightarrow> time"
  an_sha :: "string \<Rightarrow> nat list"

fun add_url :: "string list \<Rightarrow> string \<Rightarrow> string list" where
  "add_url urls u = (let v = trim_space u in if v = [] \<or> v \<in> set urls then urls else urls @ [v])"

definition introspection_urls :: "config \<Rightarrow> string list" where
  "introspection_urls cfg =
     (let u1 = add_url [] (authentik_introspection_url cfg);
          u2 = (if authentik_app_url cfg \<noteq> [] then add_url u1 (authentik_app_url cfg @ ''/introspect/'') else u1)
      in if authentik_origin cfg \<noteq> [] then add_url u2 (authentik_origin cfg @ ''/application/o/introspect/'') else u2)"

definition do_introspection_request ::
    "'w auth_net \<Rightarrow> string \<Rightarrow> (string \<times> string) list \<Rightarrow> 'w \<Rightarrow> (intro_error + intro_claims) \<times> 'w" where
  "do_introspection_request an endpoint form w =
     (case an_post an endpoint form w of
        (None, w1) \<Rightarrow> (Inl RequestFailed, w1)
      | (Some (st, body), w1) \<Rightarrow>
          if st \<noteq> 200 then (Inl (BadStatus st), w1)
          else case an_decode an body of
            None \<Rightarrow> (Inl BadClaims, w1)
          | Some c \<Rightarrow>
              if \<not> ic_active c then (Inl NotActive, w1)
              else if 0 < ic_exp c \<and> ic_exp c \<le> an_now an w1 div second then (Inl TokenExpired, w1)
              else (Inr c, w1))"

text \<open>Every candidate is tried in turn, whatever the failure was; the last failure is reported.\<close>

fun try_endpoints ::
    "'w auth_net \<Rightarrow> (string \<times> string) list \<Rightarrow> intro_error \<Rightarrow> string list \<Rightarrow> 'w \<Rightarrow> (intro_error + intro_claims) \<times> 'w" where
  "try_endpoints an form e [] w = (Inl e, w)"
| "try_endpoints an form e (u # us) w =
     (case do_introspection_request an u form w of
        (Inr c, w1) \<Rightarrow> (Inr c, w1)
      | (Inl e1, w1) \<Rightarrow> try_endpoints an form e1 us w1)"

definition introspect_token :: "'w auth_net \<Rightarrow> config \<Rightarrow> string \<Rightarrow> 'w \<Rightarrow> (intro_error + intro_claims) \<times> 'w" where
  "introspect_token an cfg token w =
     (if token = [] then (Inl EmptyToken, w)
      else if AuthentikClientID cfg = [] then (Inl NoClientID, w)
      else if AuthentikClientSecret cfg = [] then (Inl NoClientSecret, w)
      else if introspection_urls cfg = [] then (Inl NoIntrospectionURL, w)
      else try_endpoints an [(''token'', token), (''client_id'', AuthentikClientID cfg),
             (''client_secret'', AuthentikClientSecret cfg)] NoIntrospectionURL (introspection_urls cfg) w)"

text \<open>\<^verbatim>\<open>strings.Fields\<close>.\<close>

fun split_space :: "string \<Rightarrow> string list" where
  "split_space [] = [[]]"
| "split_space (c # s) =
     (if is_space c then [] # split_space s
      else case split_space s of w # ws \<Rightarrow> (c # w) # ws | [] \<Rightarrow> [[c]])"

definition fields :: "string \<Rightarrow> string list" where
  "fields s = filter (\<lambda>w. w \<noteq> []) (split_space s)"

fun claim_text :: "claim \<Rightarrow> string option" where
  "claim_text (ClaimText s) = Some s"
| "claim_text c = None"

fun introspection_groups :: "claim \<Rightarrow> string list" where
  "introspection_groups (ClaimList cs) = filter (\<lambda>s. s \<noteq> []) (List.map_filter claim_text cs)"
| "introspection_groups (ClaimStrings ss) = ss"
| "introspection_groups (ClaimText s) = (if s = [] then [] else fields s)"
| "introspection_groups ClaimOther = []"

section \<open>The cache of introspections\<close>

definition max_positive_ttl :: time where
  "max_positive_ttl = 5 * minute"

definition negative_ttl :: time where
  "negative_ttl = 10 * second"

definition exp_leeway :: time where
  "exp_leeway = 30 * second"

record cache_entry =
  ce_result :: "intro_error + intro_claims"
  ce_expires :: time

type_synonym intro_cache = "(string \<times> cache_entry) list"

definition token_cache_key :: "'w auth_net \<Rightarrow> string \<Rightarrow> string" where
  "token_cache_key an token = concat (map hex_byte (an_sha an token))"

definition cache_get :: "time \<Rightarrow> string \<Rightarrow> intro_cache \<Rightarrow> cache_entry option" where
  "cache_get now key c =
     (case map_of c key of None \<Rightarrow> None | Some e \<Rightarrow> if ce_expires e < now then None else Some e)"

definition cache_set :: "time \<Rightarrow> string \<Rightarrow> cache_entry \<Rightarrow> intro_cache \<Rightarrow> intro_cache" where
  "cache_set now key e c =
     (let c1 = (key, e) # filter (\<lambda>(k, _). k \<noteq> key) c in
      if 2048 < length c1 then filter (\<lambda>(_, x). \<not> ce_expires x < now) c1 else c1)"

definition invalidate_introspection :: "'w auth_net \<Rightarrow> string \<Rightarrow> intro_cache \<Rightarrow> intro_cache" where
  "invalidate_introspection an token c =
     (if token = [] then c else filter (\<lambda>(k, _). k \<noteq> token_cache_key an token) c)"

definition positive_ttl :: "time \<Rightarrow> intro_claims \<Rightarrow> time" where
  "positive_ttl now c =
     (if 0 < ic_exp c then min max_positive_ttl (ic_exp c * second - now - exp_leeway) else max_positive_ttl)"

definition introspect_cached ::
    "'w auth_net \<Rightarrow> config \<Rightarrow> string \<Rightarrow> intro_cache \<times> 'w \<Rightarrow> (intro_error + intro_claims) \<times> intro_cache \<times> 'w" where
  "introspect_cached an cfg token x =
     (case x of (c, w) \<Rightarrow>
        if token = [] then (case introspect_token an cfg token w of (r, w1) \<Rightarrow> (r, c, w1))
        else let key = token_cache_key an token in
          case cache_get (an_now an w) key c of
            Some e \<Rightarrow> (ce_result e, c, w)
          | None \<Rightarrow>
              (case introspect_token an cfg token w of
                 (Inl err, w1) \<Rightarrow>
                   (Inl err, cache_set (an_now an w1) key
                      \<lparr>ce_result = Inl err, ce_expires = an_now an w1 + negative_ttl\<rparr> c, w1)
               | (Inr cl, w1) \<Rightarrow>
                   let ttl = positive_ttl (an_now an w1) cl in
                   if ttl \<le> 0 then (Inr cl, c, w1)
                   else (Inr cl, cache_set (an_now an w1) key
                      \<lparr>ce_result = Inr cl, ce_expires = an_now an w1 + ttl\<rparr> c, w1)))"

section \<open>The key set\<close>

record 'k jwks =
  jk_keys :: "'k option"
  jk_fetched :: time
  jk_dir :: string

text \<open>Fetching the key set answers a status and a body or fails; the disk can fail too; \<^verbatim>\<open>jwk.ParseString\<close>.\<close>

record ('w, 'k) key_ops =
  ko_get :: "string \<Rightarrow> 'w \<Rightarrow> (int \<times> string) option \<times> 'w"
  ko_parse :: "string \<Rightarrow> 'k option"
  ko_write :: "string \<Rightarrow> string \<Rightarrow> 'w \<Rightarrow> 'w"
  ko_read :: "string \<Rightarrow> 'w \<Rightarrow> string option"
  ko_sleep :: "time \<Rightarrow> 'w \<Rightarrow> 'w"
  ko_now :: "'w \<Rightarrow> time"

definition jwks_ttl :: time where
  "jwks_ttl = hour"

definition cache_path :: "'k jwks \<Rightarrow> string" where
  "cache_path p = jk_dir p @ ''/jwks_cache.json''"

definition jwks_refresh :: "('w, 'k) key_ops \<Rightarrow> config \<Rightarrow> 'k jwks \<times> 'w \<Rightarrow> bool \<times> 'k jwks \<times> 'w" where
  "jwks_refresh ko cfg x =
     (case x of (p, w) \<Rightarrow>
        case ko_get ko (AuthentikJWKSURL cfg) w of
          (None, w1) \<Rightarrow> (False, p, w1)
        | (Some (st, body), w1) \<Rightarrow>
            if st \<noteq> 200 then (False, p, w1)
            else case ko_parse ko body of
              None \<Rightarrow> (False, p, w1)
            | Some ks \<Rightarrow>
                let p1 = p\<lparr>jk_keys := Some ks, jk_fetched := ko_now ko w1\<rparr>
                in (True, p1, ko_write ko (cache_path p1) body w1))"

definition load_from_disk :: "('w, 'k) key_ops \<Rightarrow> 'k jwks \<times> 'w \<Rightarrow> bool \<times> 'k jwks \<times> 'w" where
  "load_from_disk ko x =
     (case x of (p, w) \<Rightarrow>
        case ko_read ko (cache_path p) w of
          None \<Rightarrow> (False, p, w)
        | Some data \<Rightarrow>
            (case ko_parse ko data of
               None \<Rightarrow> (False, p, w)
             | Some ks \<Rightarrow> (True, p\<lparr>jk_keys := Some ks, jk_fetched := ko_now ko w\<rparr>, w)))"

fun preload :: "('w, 'k) key_ops \<Rightarrow> config \<Rightarrow> nat \<Rightarrow> nat \<Rightarrow> 'k jwks \<times> 'w \<Rightarrow> bool \<times> 'k jwks \<times> 'w" where
  "preload ko cfg 0 attempt x = (False, x)"
| "preload ko cfg (Suc n) attempt x =
     (case jwks_refresh ko cfg x of
        (True, x1) \<Rightarrow> (True, x1)
      | (False, p, w) \<Rightarrow>
          preload ko cfg n (attempt + 1) (p, if attempt < 3 then ko_sleep ko (int attempt * 2 * second) w else w))"

definition new_jwks_provider :: "('w, 'k) key_ops \<Rightarrow> string \<Rightarrow> config \<Rightarrow> 'w \<Rightarrow> 'k jwks option \<times> 'w" where
  "new_jwks_provider ko temp cfg w =
     (let p = \<lparr>jk_keys = None, jk_fetched = zero_time, jk_dir = (if ConfigDir cfg = [] then temp else ConfigDir cfg)\<rparr> in
      case preload ko cfg 3 1 (p, w) of
        (True, p1, w1) \<Rightarrow> (Some p1, w1)
      | (False, p1, w1) \<Rightarrow>
          (case load_from_disk ko (p1, w1) of
             (True, p2, w2) \<Rightarrow> (Some p2, w2)
           | (False, p2, w2) \<Rightarrow> (None, w2)))"

text \<open>\<^verbatim>\<open>KeySet\<close>: the keys at hand, and whether a refresh is started in the background.\<close>

definition key_set :: "time \<Rightarrow> 'k jwks \<Rightarrow> 'k option \<times> bool" where
  "key_set now p = (jk_keys p, jwks_ttl < now - jk_fetched p)"

section \<open>From a bearer token to a user\<close>

record jwt =
  jt_iss :: string
  jt_sub :: string
  jt_claims :: "string \<Rightarrow> claim option"

definition same_issuer :: "string \<Rightarrow> string \<Rightarrow> bool" where
  "same_issuer actual expected \<longleftrightarrow> trim_right actual ''/'' = trim_right expected ''/''"

definition is_jwe :: "string \<Rightarrow> bool" where
  "is_jwe token \<longleftrightarrow> count_byte token (CHR ''.'') = 4"

definition get_string_claim :: "jwt \<Rightarrow> string \<Rightarrow> string" where
  "get_string_claim t key = (case jt_claims t key of Some (ClaimText s) \<Rightarrow> s | _ \<Rightarrow> [])"

definition get_string_slice_claim :: "jwt \<Rightarrow> string \<Rightarrow> string list" where
  "get_string_slice_claim t key =
     (case jt_claims t key of
        Some (ClaimList cs) \<Rightarrow> List.map_filter claim_text cs
      | Some (ClaimStrings ss) \<Rightarrow> ss
      | _ \<Rightarrow> [])"

text \<open>\<open>parse\<close> is \<^verbatim>\<open>jwt.Parse\<close> with the key set, validation and thirty seconds of skew.\<close>

type_synonym jwt_parser = "string \<Rightarrow> jwt option"

text \<open>The subject, email and groups the middleware takes from a token, or its answer.\<close>

definition introspected_identity :: "config \<Rightarrow> intro_error + intro_claims \<Rightarrow> string + string \<times> string \<times> string list" where
  "introspected_identity cfg r =
     (case r of
        Inl e \<Rightarrow> Inl ''invalid token''
      | Inr c \<Rightarrow>
          if ic_iss c \<noteq> [] \<and> \<not> same_issuer (ic_iss c) (authentik_token_issuer cfg) then Inl ''invalid token issuer''
          else Inr (ic_sub c, ic_email c, introspection_groups (ic_groups c)))"

definition token_identity ::
    "'w auth_net \<Rightarrow> config \<Rightarrow> jwt_parser \<Rightarrow> string \<Rightarrow> intro_cache \<times> 'w \<Rightarrow> (string + string \<times> string \<times> string list) \<times> intro_cache \<times> 'w" where
  "token_identity an cfg parse token x =
     (if is_jwe token
      then (case introspect_cached an cfg token x of (r, x1) \<Rightarrow> (introspected_identity cfg r, x1))
      else case parse token of
        None \<Rightarrow> (case introspect_cached an cfg token x of (r, x1) \<Rightarrow> (introspected_identity cfg r, x1))
      | Some t \<Rightarrow>
          (if \<not> same_issuer (jt_iss t) (authentik_token_issuer cfg) then Inl ''invalid token issuer''
           else Inr (jt_sub t, get_string_claim t ''email'', get_string_slice_claim t ''groups''), x))"

text \<open>\<^verbatim>\<open>strings.Cut(authHeader, " ")\<close>, the scheme and the token.\<close>

definition bearer_token :: "string \<Rightarrow> string + string" where
  "bearer_token header =
     (if header = [] then Inl ''missing Authorization header''
      else case cut header (CHR '' '') of
        None \<Rightarrow> Inl ''invalid Authorization format''
      | Some (scheme, token) \<Rightarrow>
          if \<not> equal_fold scheme ''bearer'' \<or> trim_space token = [] then Inl ''invalid Authorization format''
          else Inr (trim_space token))"

definition jwt_middleware ::
    "'w auth_net \<Rightarrow> config \<Rightarrow> jwt_parser \<Rightarrow> string \<Rightarrow> (user \<Rightarrow> ('w, 'd response) op) \<Rightarrow>
     intro_cache \<times> 'w sys \<Rightarrow> 'd response \<times> intro_cache \<times> 'w sys" where
  "jwt_middleware an cfg parse header next x =
     (case x of (c, s) \<Rightarrow>
        case bearer_token header of
          Inl msg \<Rightarrow> (JsonError msg 401, c, s)
        | Inr token \<Rightarrow>
            (case token_identity an cfg parse token (c, sy_world s) of
               (Inl msg, c1, w1) \<Rightarrow> (JsonError msg 401, c1, s\<lparr>sy_world := w1\<rparr>)
             | (Inr (sub, email, groups), c1, w1) \<Rightarrow>
                 let s1 = s\<lparr>sy_world := w1\<rparr> in
                 if sub = [] then (JsonError ''missing sub claim'' 401, c1, s1)
                 else case run_state (db_op (user_upsert sub email groups)) s1 of
                   (Inl e, s2) \<Rightarrow> (JsonError ''user provisioning failed'' 500, c1, s2)
                 | (Inr u, s2) \<Rightarrow> (case run_state (next u) s2 of (resp, s3) \<Rightarrow> (resp, c1, s3))))"

text \<open>The two validators of the WebSocket endpoint repeat the decisions of the middleware.\<close>

definition introspection_accepts :: "config \<Rightarrow> intro_error + intro_claims \<Rightarrow> bool" where
  "introspection_accepts cfg r =
     (case r of
        Inl e \<Rightarrow> False
      | Inr c \<Rightarrow>
          if ic_iss c \<noteq> [] \<and> \<not> same_issuer (ic_iss c) (authentik_token_issuer cfg) then False else ic_sub c \<noteq> [])"

definition validate_token_only ::
    "'w auth_net \<Rightarrow> config \<Rightarrow> jwt_parser \<Rightarrow> string \<Rightarrow> intro_cache \<times> 'w \<Rightarrow> bool \<times> intro_cache \<times> 'w" where
  "validate_token_only an cfg parse token x =
     (if is_jwe token
      then (case introspect_cached an cfg token x of (r, x1) \<Rightarrow> (introspection_accepts cfg r, x1))
      else case parse token of
        None \<Rightarrow> (case introspect_cached an cfg token x of (r, x1) \<Rightarrow> (introspection_accepts cfg r, x1))
      | Some t \<Rightarrow> (if \<not> same_issuer (jt_iss t) (authentik_token_issuer cfg) then False else True, x))"

datatype ws_auth_error = IntrospectionFailed intro_error | InvalidIssuer string | MissingSub

record ws_claims =
  wc_subject :: string
  wc_groups :: "string list"

definition introspected_claims :: "config \<Rightarrow> intro_error + intro_claims \<Rightarrow> ws_auth_error + ws_claims" where
  "introspected_claims cfg r =
     (case r of
        Inl e \<Rightarrow> Inl (IntrospectionFailed e)
      | Inr c \<Rightarrow>
          if ic_iss c \<noteq> [] \<and> \<not> same_issuer (ic_iss c) (authentik_token_issuer cfg) then Inl (InvalidIssuer (ic_iss c))
          else if ic_sub c = [] then Inl MissingSub
          else Inr \<lparr>wc_subject = ic_sub c, wc_groups = introspection_groups (ic_groups c)\<rparr>)"

definition validate_and_extract ::
    "'w auth_net \<Rightarrow> config \<Rightarrow> jwt_parser \<Rightarrow> string \<Rightarrow> intro_cache \<times> 'w \<Rightarrow> (ws_auth_error + ws_claims) \<times> intro_cache \<times> 'w" where
  "validate_and_extract an cfg parse token x =
     (if is_jwe token
      then (case introspect_cached an cfg token x of (r, x1) \<Rightarrow> (introspected_claims cfg r, x1))
      else case parse token of
        None \<Rightarrow> (case introspect_cached an cfg token x of (r, x1) \<Rightarrow> (introspected_claims cfg r, x1))
      | Some t \<Rightarrow>
          (if \<not> same_issuer (jt_iss t) (authentik_token_issuer cfg) then Inl (InvalidIssuer (jt_iss t))
           else if jt_sub t = [] then Inl MissingSub
           else Inr \<lparr>wc_subject = jt_sub t, wc_groups = get_string_slice_claim t ''groups''\<rparr>, x))"

section \<open>Cached answers are live answers\<close>

definition entry_ok :: "cache_entry \<Rightarrow> bool" where
  "entry_ok e \<longleftrightarrow> (case ce_result e of
     Inl _ \<Rightarrow> True
   | Inr c \<Rightarrow> ic_active c \<and> (0 < ic_exp c \<longrightarrow> ce_expires e \<le> ic_exp c * second - exp_leeway))"

definition cache_ok :: "intro_cache \<Rightarrow> bool" where
  "cache_ok c \<longleftrightarrow> (\<forall>(k, e) \<in> set c. entry_ok e)"

lemma cache_ok_set: "cache_ok c \<Longrightarrow> entry_ok e \<Longrightarrow> cache_ok (cache_set now k e c)"
  by (auto simp: cache_ok_def cache_set_def Let_def)

text \<open>Active, and not past its expiry at the given time.\<close>

definition live :: "time \<Rightarrow> intro_claims \<Rightarrow> bool" where
  "live now c \<longleftrightarrow> ic_active c \<and> (0 < ic_exp c \<longrightarrow> now < ic_exp c * second)"

lemma before_expiry: "a div second < e \<Longrightarrow> a < e * second" for a e :: int
proof -
  assume "a div second < e"
  then have "(a div second + 1) * second \<le> e * second" by (intro mult_right_mono) (simp_all add: order_less_imp_le)
  moreover have "a < (a div second + 1) * second"
    using div_mult_mod_eq [of a second] pos_mod_bound [OF second_pos, of a] unfolding distrib_right mult_1_left by linarith
  ultimately show ?thesis by linarith
qed

lemma request_live: "do_introspection_request an u form w = (Inr c, w1) \<Longrightarrow> live (an_now an w1) c"
proof -
  assume "do_introspection_request an u form w = (Inr c, w1)"
  then have a: "ic_active c" "0 < ic_exp c \<longrightarrow> an_now an w1 div second < ic_exp c"
    by (auto simp: do_introspection_request_def split: prod.splits option.splits if_splits)
  then show ?thesis using before_expiry by (simp add: live_def)
qed

lemma endpoints_live: "try_endpoints an form e us w = (Inr c, w1) \<Longrightarrow> live (an_now an w1) c"
  by (induction us arbitrary: e w) (auto split: prod.splits sum.splits dest: request_live)

lemma introspect_live: "introspect_token an cfg token w = (Inr c, w1) \<Longrightarrow> live (an_now an w1) c"
  by (auto simp: introspect_token_def split: if_splits dest: endpoints_live)

lemma positive_entry_ok: "ic_active c \<Longrightarrow> entry_ok \<lparr>ce_result = Inr c, ce_expires = now + positive_ttl now c\<rparr>"
  by (auto simp: entry_ok_def positive_ttl_def)

lemma cached_live:
  assumes "cache_ok c" and "introspect_cached an cfg token (c, w) = (r, c1, w1)"
  shows "cache_ok c1 \<and> (\<forall>cl. r = Inr cl \<longrightarrow> live (an_now an w1) cl)"
proof (cases "cache_get (an_now an w) (token_cache_key an token) c")
  case None
  obtain r0 w0 where i: "introspect_token an cfg token w = (r0, w0)" by fastforce
  then have "r0 = Inr cl \<Longrightarrow> live (an_now an w0) cl" for cl using introspect_live by fast
  moreover from this have "r0 = Inr cl \<Longrightarrow> ic_active cl" for cl by (simp add: live_def)
  ultimately show ?thesis using assms None i
    by (auto simp: introspect_cached_def Let_def entry_ok_def intro!: cache_ok_set positive_entry_ok
        split: if_splits sum.splits)
next
  case (Some e)
  then have e: "entry_ok e" "an_now an w \<le> ce_expires e"
    using assms(1) by (auto simp: cache_get_def cache_ok_def dest!: map_of_SomeD split: option.splits if_splits)
  show ?thesis
  proof (cases "token = []")
    case True
    then show ?thesis using assms by (auto simp: introspect_cached_def introspect_token_def)
  next
    case False
    then have "(r, c1, w1) = (ce_result e, c, w)" using assms(2) Some by (simp add: introspect_cached_def)
    then show ?thesis using assms(1) e by (auto simp: entry_ok_def live_def exp_leeway_def second_def)
  qed
qed

text \<open>What a token must be to stand for a subject.\<close>

definition vouched :: "config \<Rightarrow> jwt_parser \<Rightarrow> string \<Rightarrow> time \<Rightarrow> string \<Rightarrow> bool" where
  "vouched cfg parse token now sub \<longleftrightarrow> sub \<noteq> [] \<and>
     ((\<exists>t. \<not> is_jwe token \<and> parse token = Some t \<and> same_issuer (jt_iss t) (authentik_token_issuer cfg) \<and> jt_sub t = sub) \<or>
      (\<exists>c. live now c \<and> ic_sub c = sub \<and> (ic_iss c = [] \<or> same_issuer (ic_iss c) (authentik_token_issuer cfg))))"

lemma identity_vouched:
  assumes "cache_ok c" and "token_identity an cfg parse token (c, w) = (r, c1, w1)"
  shows "cache_ok c1 \<and> (\<forall>sub email groups. r = Inr (sub, email, groups) \<longrightarrow> sub \<noteq> [] \<longrightarrow>
    vouched cfg parse token (an_now an w1) sub)"
proof -
  obtain r0 c0 w0 where i: "introspect_cached an cfg token (c, w) = (r0, c0, w0)" by (metis prod_cases3)
  note l = cached_live [OF assms(1) i]
  show ?thesis
  proof (cases "is_jwe token \<or> parse token = None")
    case True
    then have "(r, c1, w1) = (introspected_identity cfg r0, c0, w0)"
      using assms(2) i by (auto simp: token_identity_def split: if_splits)
    then show ?thesis using l
      by (auto simp: introspected_identity_def vouched_def split: sum.splits if_splits)
  next
    case False
    then show ?thesis using assms by (auto simp: token_identity_def vouched_def split: if_splits)
  qed
qed

text \<open>Two databases that differ in the users at most.\<close>

definition same_but_users :: "db \<Rightarrow> db \<Rightarrow> bool" where
  "same_but_users d d' \<longleftrightarrow>
     d'\<lparr>db_users := [], db_next := 0, db_faults := []\<rparr> = d\<lparr>db_users := [], db_next := 0, db_faults := []\<rparr>"

lemma same_but_users_refl [simp]: "same_but_users d d"
  by (simp add: same_but_users_def)

lemma same_but_users_peers: "same_but_users d d' \<Longrightarrow> db_peers d' = db_peers d"
  by (cases d; cases d') (simp add: same_but_users_def)

lemma upsert_frame: "same_but_users d (snd (user_upsert uid email groups d))"
  by (cases "db_faults d") (auto simp: user_upsert_def db_call_def same_but_users_def Let_def split: option.split)

lemma upsert_uid: "user_upsert uid email groups d = (Inr u, d1) \<Longrightarrow> us_uid u = uid"
  unfolding user_upsert_def
  by (drule db_call_Inr) (auto simp: Let_def new_user_def split: option.splits, drule find_SomeD, simp)

lemma upsert_fails: "user_upsert uid email groups d = (Inl e, d1) \<Longrightarrow> db_users d1 = db_users d"
  unfolding user_upsert_def
  by (cases rule: db_call_cases [of d "\<lambda>d. case find (\<lambda>u. us_uid u = uid) (db_users d) of
       Some u \<Rightarrow> (let u1 = u\<lparr>us_email := email, us_groups := groups, us_updated := db_now d\<rparr>
          in (Inr u1, d\<lparr>db_users := map_where (\<lambda>x. us_uid x = uid)
                 (\<lambda>x. x\<lparr>us_email := email, us_groups := groups, us_updated := db_now d\<rparr>) (db_users d)\<rparr>))
     | None \<Rightarrow> (let u = new_user (db_next d) (db_now d) uid email [] groups
          in (Inr u, d\<lparr>db_users := db_users d @ [u], db_next := db_next d + 1\<rparr>))"])
    (auto simp: Let_def split: option.splits)

lemma middleware_outcome:
  assumes "cache_ok c" and "jwt_middleware an cfg parse header next (c, s) = (resp, c', t)"
  shows "cache_ok c' \<and>
    ((\<exists>token sub u s2. bearer_token header = Inr token \<and> vouched cfg parse token (an_now an (sy_world s2)) sub \<and>
        us_uid u = sub \<and> run_state (next u) s2 = (resp, t) \<and> same_but_users (sy_db s) (sy_db s2)) \<or>
     (status resp \<in> {401, 500} \<and> db_users (sy_db t) = db_users (sy_db s) \<and> same_but_users (sy_db s) (sy_db t)))"
proof (cases "bearer_token header")
  case (Inl msg)
  then show ?thesis using assms by (auto simp: jwt_middleware_def)
next
  case (Inr token)
  obtain r c1 w1 where i: "token_identity an cfg parse token (c, sy_world s) = (r, c1, w1)" by (metis prod_cases3)
  note v = identity_vouched [OF assms(1) i]
  show ?thesis
  proof (cases r)
    case (Inl msg)
    then show ?thesis using assms(2) Inr i v by (auto simp: jwt_middleware_def)
  next
    case idn: (Inr idn)
    obtain sub email groups where idn: "r = Inr (sub, email, groups)" using idn by (cases idn) auto
    let ?s1 = "s\<lparr>sy_world := w1\<rparr>"
    obtain ur d1 where up: "user_upsert sub email groups (sy_db s) = (ur, d1)" by fastforce
    show ?thesis
    proof (cases "\<exists>u. ur = Inr u \<and> sub \<noteq> []")
      case False
      then consider "sub = []" | e where "sub \<noteq> []" "ur = Inl e" by (cases ur) auto
      then have "status resp \<in> {401, 500} \<and> db_users (sy_db t) = db_users (sy_db s) \<and> same_but_users (sy_db s) (sy_db t) \<and> c' = c1"
      proof cases
        case 1
        then show ?thesis using assms(2) Inr i idn by (auto simp: jwt_middleware_def Let_def)
      next
        case 2
        then show ?thesis using assms(2) Inr i idn up upsert_fails [of sub email groups "sy_db s" e d1] upsert_frame [of "sy_db s" sub email groups]
          by (auto simp: jwt_middleware_def Let_def)
      qed
      then show ?thesis using v by blast
    next
      case True
      then obtain u where u: "ur = Inr u" "sub \<noteq> []" by blast
      let ?s2 = "?s1\<lparr>sy_db := d1\<rparr>"
      have "run_state (next u) ?s2 = (resp, t)" "c' = c1"
        using assms(2) Inr i idn up u by (auto simp: jwt_middleware_def Let_def split: prod.splits)
      moreover have "vouched cfg parse token (an_now an (sy_world ?s2)) sub" using v idn u by simp
      ultimately show ?thesis using Inr v upsert_uid [OF up [unfolded u(1)]] upsert_frame [of "sy_db s" sub email groups] up
        by (intro conjI disjI1 exI [of _ token] exI [of _ sub] exI [of _ u] exI [of _ ?s2]) simp_all
    qed
  qed
qed


text \<open>C24: the two validators of the WebSocket endpoint decide as the middleware does, with the same use of the cache
  and the endpoint: \<^verbatim>\<open>ValidateTokenAndExtractClaims\<close> succeeds exactly when the middleware finds a subject, and
  returns that subject and those groups; \<^verbatim>\<open>ValidateTokenOnly\<close> accepts the same tokens and in addition locally
  verified ones without a subject.\<close>

theorem validators_agree:
  assumes "token_identity an cfg parse token x = (r, x1)"
  shows "\<exists>v b. validate_and_extract an cfg parse token x = (v, x1) \<and> validate_token_only an cfg parse token x = (b, x1) \<and>
    (\<forall>sub groups. v = Inr \<lparr>wc_subject = sub, wc_groups = groups\<rparr> \<longleftrightarrow> sub \<noteq> [] \<and> (\<exists>email. r = Inr (sub, email, groups))) \<and>
    (b \<longleftrightarrow> (\<exists>cl. v = Inr cl) \<or> \<not> is_jwe token \<and> (\<exists>email groups t. parse token = Some t \<and> r = Inr ([], email, groups)))"
proof (cases "is_jwe token \<or> parse token = None")
  case True
  obtain r0 x0 where i: "introspect_cached an cfg token x = (r0, x0)" by (meson surj_pair)
  have "validate_and_extract an cfg parse token x = (introspected_claims cfg r0, x0)"
       "validate_token_only an cfg parse token x = (introspection_accepts cfg r0, x0)"
       "r = introspected_identity cfg r0" "x1 = x0"
    using True i assms
    by (auto simp: validate_and_extract_def validate_token_only_def token_identity_def split: option.splits if_splits)
  then show ?thesis using True
    by (auto simp: introspected_claims_def introspection_accepts_def introspected_identity_def split: sum.splits)
next
  case False
  then show ?thesis using assms
    by (auto simp: validate_and_extract_def validate_token_only_def token_identity_def split: option.splits if_splits)
qed

text \<open>An issuer, a verified token and an introspection endpoint that calls everything inactive.\<close>

definition demo_auth :: "unit auth_net" where
  "demo_auth = \<lparr>an_post = (\<lambda>u f w. (Some (200, ''{}''), w)), an_decode = (\<lambda>b. None), an_now = (\<lambda>w. 0), an_sha = (\<lambda>s. [1, 2])\<rparr>"

definition demo_issuer :: config where
  "demo_issuer = quiet_config\<lparr>AuthentikIssuer := ''https://id''\<rparr>"

definition demo_token :: jwt where
  "demo_token = \<lparr>jt_iss = authentik_token_issuer demo_issuer, jt_sub = ''uid'', jt_claims = (\<lambda>k. None)\<rparr>"

lemma demo_bearer: "bearer_token ''Bearer abc'' = Inr ''abc''" "is_jwe ''abc'' = False"
  by code_simp+


theorem validators_agree_witness:
  "\<exists>v x1. validate_and_extract demo_auth demo_issuer (\<lambda>s. Some demo_token) ''abc'' ([], ()) = (v, x1) \<and>
     v = Inr \<lparr>wc_subject = ''uid'', wc_groups = []\<rparr>"
proof -
  obtain r x1 where i: "token_identity demo_auth demo_issuer (\<lambda>s. Some demo_token) ''abc'' ([], ()) = (r, x1)"
    by (meson surj_pair)
  then have "r = Inr (''uid'', [], [])"
    by (auto simp: token_identity_def demo_bearer same_issuer_def demo_token_def get_string_claim_def get_string_slice_claim_def)
  with validators_agree [OF i] show ?thesis by blast
qed

end
