(* ===== verification/WSHub.thy ===== *)
theory WSHub
  imports AuthTokens
begin

text \<open>
  \<^verbatim>\<open>internal/control/ws_hub.go\<close>: the hub of the WebSocket clients as a state machine. A case of the
  \<^verbatim>\<open>select\<close> of \<^verbatim>\<open>Run\<close> and a method under the mutex are one step each. A client is a number; its buffered
  channel \<^verbatim>\<open>send\<close> is the list of the messages in it. The order in which Go visits the map of the clients
  does not show.
\<close>

section \<open>State and operations\<close>

datatype ws_error = GlobalLimitReached | UserLimitReached

record 'm ws_client =
  cl_id :: nat
  cl_user :: string
  cl_queue :: "'m list"

record 'm hub =
  hb_clients :: "'m ws_client list"
  hb_conns :: "string \<Rightarrow> nat"
  hb_buffer :: "'m list"

definition send_capacity :: nat where
  "send_capacity = 64"

definition broadcast_capacity :: nat where
  "broadcast_capacity = 256"

definition new_hub :: "'m hub" where
  "new_hub = \<lparr>hb_clients = [], hb_conns = (\<lambda>u. 0), hb_buffer = []\<rparr>"

definition has_client :: "nat \<Rightarrow> 'm hub \<Rightarrow> bool" where
  "has_client i h = list_ex (\<lambda>c. cl_id c = i) (hb_clients h)"

definition hub_register :: "'m ws_client \<Rightarrow> 'm hub \<Rightarrow> 'm hub" where
  "hub_register c h =
     h\<lparr>hb_clients := (if has_client (cl_id c) h then hb_clients h else hb_clients h @ [c]),
       hb_conns := (hb_conns h)(cl_user c := hb_conns h (cl_user c) + 1)\<rparr>"

text \<open>A count that would fall to zero is deleted from the map, which reads as zero.\<close>

definition hub_unregister :: "'m ws_client \<Rightarrow> 'm hub \<Rightarrow> 'm hub" where
  "hub_unregister c h =
     (if has_client (cl_id c) h
      then h\<lparr>hb_clients := filter (\<lambda>x. cl_id x \<noteq> cl_id c) (hb_clients h),
             hb_conns := (hb_conns h)(cl_user c := hb_conns h (cl_user c) - 1)\<rparr>
      else h)"

text \<open>A non-blocking send to the chosen clients; one whose channel is full is dead and leaves the map.\<close>

definition is_dead :: "('m ws_client \<Rightarrow> bool) \<Rightarrow> 'm ws_client \<Rightarrow> bool" where
  "is_dead to c \<longleftrightarrow> to c \<and> send_capacity \<le> length (cl_queue c)"

definition send_to :: "('m ws_client \<Rightarrow> bool) \<Rightarrow> 'm \<Rightarrow> 'm ws_client list \<Rightarrow> 'm ws_client list" where
  "send_to to msg cs =
     map (\<lambda>c. if to c then c\<lparr>cl_queue := cl_queue c @ [msg]\<rparr> else c) (filter (\<lambda>c. \<not> is_dead to c) cs)"

definition hub_deliver :: "'m hub \<Rightarrow> 'm hub" where
  "hub_deliver h =
     (case hb_buffer h of
        [] \<Rightarrow> h
      | msg # rest \<Rightarrow> h\<lparr>hb_buffer := rest, hb_clients := send_to (\<lambda>c. True) msg (hb_clients h)\<rparr>)"

definition hub_broadcast :: "'m \<Rightarrow> 'm hub \<Rightarrow> 'm hub" where
  "hub_broadcast msg h =
     (if length (hb_buffer h) < broadcast_capacity then h\<lparr>hb_buffer := hb_buffer h @ [msg]\<rparr> else h)"

definition broadcast_to_users :: "string list \<Rightarrow> 'm \<Rightarrow> 'm hub \<Rightarrow> 'm hub" where
  "broadcast_to_users ids msg h =
     (if ids = [] then h else h\<lparr>hb_clients := send_to (\<lambda>c. cl_user c \<in> set ids) msg (hb_clients h)\<rparr>)"

definition client_count :: "'m hub \<Rightarrow> nat" where
  "client_count h = length (hb_clients h)"

definition can_accept :: "config \<Rightarrow> string \<Rightarrow> string list \<Rightarrow> 'm hub \<Rightarrow> ws_error option" where
  "can_accept cfg user groups h =
     (if 0 < WSMaxGlobal cfg \<and> WSMaxGlobal cfg \<le> int (length (hb_clients h)) then Some GlobalLimitReached
      else if 0 < ws_max_for_groups cfg groups \<and> ws_max_for_groups cfg groups \<le> int (hb_conns h user)
      then Some UserLimitReached
      else None)"

text \<open>The writer goroutine of a client takes the next message off its channel.\<close>

definition hub_write :: "nat \<Rightarrow> 'm hub \<Rightarrow> 'm hub" where
  "hub_write i h = h\<lparr>hb_clients := map (\<lambda>c. if cl_id c = i then c\<lparr>cl_queue := tl (cl_queue c)\<rparr> else c) (hb_clients h)\<rparr>"

text \<open>
  \<^verbatim>\<open>HandleWS\<close> up to the registration, after an accepted upgrade: \<open>first\<close> is the first message, \<open>None\<close> if
  none comes in ten seconds, its token \<open>None\<close> if it does not decode. The close codes are
  \<^verbatim>\<open>StatusPolicyViolation\<close> and \<^verbatim>\<open>StatusTryAgainLater\<close>. When the reader ends, the client is unregistered.
\<close>

datatype ws_outcome = WSClosed nat string | WSServing string

definition handle_ws ::
    "'w auth_net \<Rightarrow> config \<Rightarrow> jwt_parser \<Rightarrow> nat \<Rightarrow> string option option \<Rightarrow> intro_cache \<times> 'w \<times> 'm hub \<Rightarrow> ws_outcome \<times> intro_cache \<times> 'w \<times> 'm hub" where
  "handle_ws an cfg parse i first x =
     (case x of (c, w, h) \<Rightarrow>
        case first of
          None \<Rightarrow> (WSClosed 1008 ''authentication timeout'', c, w, h)
        | Some msg \<Rightarrow>
            if msg \<in> {None, Some []} then (WSClosed 1008 ''invalid auth message'', c, w, h)
            else case validate_and_extract an cfg parse (the msg) (c, w) of
              (Inl e, c1, w1) \<Rightarrow> (WSClosed 1008 ''invalid token'', c1, w1, h)
            | (Inr cl, c1, w1) \<Rightarrow>
                (case can_accept cfg (wc_subject cl) (wc_groups cl) h of
                   Some GlobalLimitReached \<Rightarrow> (WSClosed 1013 ''global WebSocket connection limit reached'', c1, w1, h)
                 | Some UserLimitReached \<Rightarrow> (WSClosed 1013 ''per-user WebSocket connection limit reached'', c1, w1, h)
                 | None \<Rightarrow> (WSServing (wc_subject cl), c1, w1,
                             hub_register \<lparr>cl_id = i, cl_user = wc_subject cl, cl_queue = []\<rparr> h)))"

section \<open>Runs of the hub\<close>

text \<open>An admission is the check followed at once by the registration of a new client.\<close>

inductive hub_step :: "config \<Rightarrow> 'm hub \<Rightarrow> 'm hub \<Rightarrow> bool" for cfg where
  admit: "can_accept cfg (cl_user c) groups h = None \<Longrightarrow> \<not> has_client (cl_id c) h \<Longrightarrow> hub_step cfg h (hub_register c h)"
| leave: "(c \<in> set (hb_clients h) \<or> \<not> has_client (cl_id c) h) \<Longrightarrow> hub_step cfg h (hub_unregister c h)"
| deliver: "hub_step cfg h (hub_deliver h)"
| publish: "hub_step cfg h (hub_broadcast msg h)"
| notify: "hub_step cfg h (broadcast_to_users ids msg h)"
| drain: "hub_step cfg h (hub_write i h)"

inductive_cases hub_stepE: "hub_step cfg h h'"

definition clients_of :: "string \<Rightarrow> 'm hub \<Rightarrow> nat" where
  "clients_of u h = length (filter (\<lambda>c. cl_user c = u) (hb_clients h))"

definition hub_ok :: "config \<Rightarrow> nat \<Rightarrow> 'm hub \<Rightarrow> bool" where
  "hub_ok cfg n h \<longleftrightarrow>
     distinct (map cl_id (hb_clients h)) \<and> (\<forall>u. clients_of u h \<le> hb_conns h u \<and> hb_conns h u \<le> n) \<and>
     (0 < WSMaxGlobal cfg \<longrightarrow> int (client_count h) \<le> WSMaxGlobal cfg)"

lemma send_to_ids: "map cl_id (send_to to msg cs) = map cl_id (filter (\<lambda>c. \<not> is_dead to c) cs)"
  by (induction cs) (auto simp: send_to_def)

lemma send_to_users: "length (filter (\<lambda>c. cl_user c = u) (send_to to msg cs)) =
    length (filter (\<lambda>c. cl_user c = u \<and> \<not> is_dead to c) cs)"
  by (induction cs) (auto simp: send_to_def)

lemma send_to_fewer: "length (filter (\<lambda>c. cl_user c = u) (send_to to msg cs)) \<le> length (filter (\<lambda>c. cl_user c = u) cs)"
  unfolding send_to_users by (induction cs) auto

lemma length_send_to: "length (send_to to msg cs) \<le> length cs"
  by (simp add: send_to_def)

text \<open>Dropping clients keeps the counts as they were.\<close>

lemma hub_ok_send:
  assumes "hub_ok cfg n h" and "hb_clients h' = send_to to msg (hb_clients h)" and "hb_conns h' = hb_conns h"
  shows "hub_ok cfg n h'"
proof -
  have "clients_of u h' \<le> clients_of u h" for u unfolding clients_of_def assms(2) by (rule send_to_fewer)
  then have "clients_of u h' \<le> hb_conns h u" for u using assms(1) by (meson hub_ok_def le_trans)
  moreover have "int (client_count h') \<le> int (client_count h)" by (simp add: client_count_def assms(2) length_send_to)
  ultimately show ?thesis using assms
    by (auto simp: hub_ok_def send_to_ids distinct_map_filterI)
qed

lemma clients_of_remove:
  assumes "distinct (map cl_id (hb_clients h))" and "c \<in> set (hb_clients h)"
  shows "length (filter (\<lambda>x. cl_user x = u) (filter (\<lambda>x. cl_id x \<noteq> cl_id c) (hb_clients h))) =
    clients_of u h - (if u = cl_user c then 1 else 0)" and "clients_of (cl_user c) h \<noteq> 0"
proof -
  have "length (filter (\<lambda>x. cl_user x = u) (filter (\<lambda>x. cl_id x \<noteq> cl_id c) xs)) =
      length (filter (\<lambda>x. cl_user x = u) xs) - (if u = cl_user c then 1 else 0)"
    if "distinct (map cl_id xs)" "c \<in> set xs" for xs
    using that
  proof (induction xs)
    case (Cons x xs)
    show ?case
    proof (cases "x = c")
      case True
      then have "filter (\<lambda>x. cl_id x \<noteq> cl_id c) xs = xs" using Cons.prems(1) by (auto simp: filter_id_conv image_iff)
      then show ?thesis using True by simp
    next
      case False
      then have c: "c \<in> set xs" "cl_id x \<noteq> cl_id c" using Cons.prems by (auto simp: image_iff)
      have "length (filter (\<lambda>x. cl_user x = u) xs) \<noteq> 0" if "u = cl_user c"
        using c(1) that by (auto simp: filter_empty_conv)
      then show ?thesis using Cons.IH Cons.prems(1) c by auto
    qed
  qed simp
  then show "length (filter (\<lambda>x. cl_user x = u) (filter (\<lambda>x. cl_id x \<noteq> cl_id c) (hb_clients h))) =
    clients_of u h - (if u = cl_user c then 1 else 0)" using assms by (simp add: clients_of_def)
  show "clients_of (cl_user c) h \<noteq> 0" using assms(2) by (auto simp: clients_of_def filter_empty_conv)
qed

lemma hub_ok_leave:
  assumes "hub_ok cfg n h" and "c \<in> set (hb_clients h) \<or> \<not> has_client (cl_id c) h"
  shows "hub_ok cfg n (hub_unregister c h)"
proof (cases "c \<in> set (hb_clients h)")
  case True
  then have has: "has_client (cl_id c) h" by (auto simp: has_client_def list_ex_iff)
  have d: "distinct (map cl_id (hb_clients h))" and le: "\<And>u. clients_of u h \<le> hb_conns h u \<and> hb_conns h u \<le> n"
    using assms(1) by (auto simp: hub_ok_def)
  have "clients_of u (hub_unregister c h) = clients_of u h - (if u = cl_user c then 1 else 0)" for u
    using clients_of_remove(1) [OF d True, of u] has by (simp add: clients_of_def hub_unregister_def)
  moreover have "int (client_count (hub_unregister c h)) \<le> int (client_count h)"
    using has by (simp add: client_count_def hub_unregister_def)
  ultimately show ?thesis using assms(1) d le has
    by (auto simp: hub_ok_def hub_unregister_def distinct_map_filterI intro: diff_le_mono le_trans [OF diff_le_self])
next
  case False
  then show ?thesis using assms by (simp add: hub_unregister_def)
qed

lemma hub_ok_admit:
  assumes "hub_ok cfg n h" and "can_accept cfg (cl_user c) gs h = None" and "\<not> has_client (cl_id c) h"
    and "0 < ws_max_for_groups cfg gs \<and> ws_max_for_groups cfg gs \<le> int n"
  shows "hub_ok cfg n (hub_register c h)"
proof -
  have "hb_conns h (cl_user c) < n" using assms(2,4) by (auto simp: can_accept_def split: if_splits)
  moreover have "0 < WSMaxGlobal cfg \<longrightarrow> int (length (hb_clients h)) < WSMaxGlobal cfg"
    using assms(2) by (auto simp: can_accept_def split: if_splits)
  ultimately show ?thesis using assms(1,3)
    by (auto simp: hub_ok_def hub_register_def clients_of_def client_count_def has_client_def list_ex_iff)
qed

lemma hub_write_same:
  "map cl_id (hb_clients (hub_write i h)) = map cl_id (hb_clients h)" "clients_of u (hub_write i h) = clients_of u h"
  "client_count (hub_write i h) = client_count h" "hb_conns (hub_write i h) = hb_conns h"
proof -
  let ?f = "\<lambda>c. if cl_id c = i then c\<lparr>cl_queue := tl (cl_queue c)\<rparr> else c"
  have "length (filter (\<lambda>c. cl_user c = u) (map ?f cs)) = length (filter (\<lambda>c. cl_user c = u) cs)"
    for cs :: "'a ws_client list" by (induction cs) auto
  then show "clients_of u (hub_write i h) = clients_of u h" by (simp only: clients_of_def hub_write_def) simp
  show "map cl_id (hb_clients (hub_write i h)) = map cl_id (hb_clients h)" by (simp add: hub_write_def)
qed (simp_all add: hub_write_def client_count_def)

lemma hub_ok_write: "hub_ok cfg n h \<Longrightarrow> hub_ok cfg n (hub_write i h)"
  unfolding hub_ok_def hub_write_same by blast

lemma hub_ok_step:
  assumes "hub_step cfg h h'" and "hub_ok cfg n h" and "\<And>gs. 0 < ws_max_for_groups cfg gs \<and> ws_max_for_groups cfg gs \<le> int n"
  shows "hub_ok cfg n h'"
  using assms(1)
proof cases
  case (admit c gs)
  then show ?thesis using hub_ok_admit assms by blast
next
  case (leave c)
  then show ?thesis using hub_ok_leave assms by blast
next
  case deliver
  show ?thesis
  proof (cases "hb_buffer h")
    case Nil
    then show ?thesis using deliver assms(2) by (simp add: hub_deliver_def)
  next
    case (Cons msg rest)
    then show ?thesis using deliver by (intro hub_ok_send [OF assms(2)]) (simp_all add: hub_deliver_def)
  qed
next
  case (publish msg)
  then show ?thesis using assms(2) by (simp add: hub_broadcast_def hub_ok_def clients_of_def client_count_def)
next
  case (notify ids msg)
  show ?thesis
  proof (cases "ids = []")
    case True
    then show ?thesis using notify assms(2) by (simp add: broadcast_to_users_def)
  next
    case False
    then show ?thesis using notify by (intro hub_ok_send [OF assms(2)]) (simp_all add: broadcast_to_users_def)
  qed
next
  case (drain i)
  then show ?thesis using hub_ok_write assms(2) by blast
qed

text \<open>The count of a user never falls below the connected clients; the difference only grows.\<close>

definition gap :: "string \<Rightarrow> 'm hub \<Rightarrow> nat" where
  "gap u h = hb_conns h u - clients_of u h"

lemma gap_step:
  assumes "hub_step cfg h h'" and "hub_ok cfg n h"
  shows "gap u h \<le> gap u h'"
  using assms(1)
proof cases
  case (admit c gs)
  then show ?thesis by (auto simp: gap_def hub_register_def clients_of_def)
next
  case (leave c)
  have d: "distinct (map cl_id (hb_clients h))" and le: "clients_of u h \<le> hb_conns h u"
    using assms(2) by (auto simp: hub_ok_def)
  show ?thesis
  proof (cases "c \<in> set (hb_clients h)")
    case True
    then have "has_client (cl_id c) h" by (auto simp: has_client_def list_ex_iff)
    then have "gap u h' = (hb_conns h u - (if u = cl_user c then 1 else 0)) - (clients_of u h - (if u = cl_user c then 1 else 0))"
      unfolding leave gap_def using clients_of_remove(1) [OF d True, of u] by (simp add: clients_of_def hub_unregister_def)
    then show ?thesis using le clients_of_remove(2) [OF d True] by (auto simp: gap_def)
  next
    case False
    then show ?thesis using leave by (simp add: hub_unregister_def)
  qed
next
  case deliver
  then show ?thesis using send_to_fewer [of u "\<lambda>c. True" "hd (hb_buffer h)" "hb_clients h"]
    by (cases "hb_buffer h") (auto simp: gap_def hub_deliver_def clients_of_def intro: diff_le_mono2)
next
  case (publish msg)
  then show ?thesis by (simp add: gap_def hub_broadcast_def clients_of_def)
next
  case (notify ids msg)
  then show ?thesis by (auto simp: gap_def broadcast_to_users_def clients_of_def intro!: diff_le_mono2 send_to_fewer)
next
  case (drain i)
  then show ?thesis by (simp add: gap_def hub_write_same)
qed

lemma ws_max_between:
  assumes "WSMaxFree cfg \<le> n" "WSMaxBasic cfg \<le> n" "WSMaxMedium cfg \<le> n" "WSMaxPro cfg \<le> n" "WSMaxAdmin cfg \<le> n"
    and "0 < WSMaxFree cfg"
  shows "0 < ws_max_for_groups cfg gs \<and> ws_max_for_groups cfg gs \<le> n"
proof -
  have g: "group_limit cfg g \<le> n" for g using assms by (simp add: group_limit_def)
  have "0 < foldl (\<lambda>m g. if m < group_limit cfg g then group_limit cfg g else m) m gs \<and>
        foldl (\<lambda>m g. if m < group_limit cfg g then group_limit cfg g else m) m gs \<le> n" if "0 < m" "m \<le> n" for m
    using that
  proof (induction gs arbitrary: m)
    case (Cons x gs)
    then show ?case using g [of x] by simp
  qed simp
  then show ?thesis using assms(1,6) by (simp add: ws_max_for_groups_def)
qed

lemma hub_ok_run:
  assumes "rtranclp (hub_step cfg) h h'" and "hub_ok cfg n h"
    and "\<And>gs. 0 < ws_max_for_groups cfg gs \<and> ws_max_for_groups cfg gs \<le> int n"
  shows "hub_ok cfg n h' \<and> gap u h \<le> gap u h'"
  using assms
proof (induction rule: rtranclp_induct)
  case (step h1 h2)
  then show ?case using hub_ok_step gap_step le_trans by metis
qed simp


definition one_client :: "string hub" where
  "one_client = hub_register \<lparr>cl_id = 1, cl_user = ''u'', cl_queue = []\<rparr> new_hub"

definition plan_limits :: config where
  "plan_limits = quiet_config\<lparr>WSMaxGlobal := 10, WSMaxFree := 1, WSMaxBasic := 2, WSMaxMedium := 3, WSMaxPro := 5, WSMaxAdmin := 10\<rparr>"

lemma one_client_step: "hub_step plan_limits new_hub one_client"
  unfolding one_client_def
  by (rule admit [of _ _ "[]"]) (simp_all add: can_accept_def plan_limits_def new_hub_def ws_max_for_groups_def has_client_def)


text \<open>C34: a client that a broadcast finds with a full channel is dropped without lowering the count of its user,
  and its own unregistration no longer does: from then on, in every later state, the count stays above the connected
  clients, and once the surplus reaches the limit of the plan the hub refuses the user for ever, even with no client
  connected.\<close>

theorem dropped_client_locks_user_out:
  assumes "hub_ok cfg n h" and "hb_buffer h \<noteq> []" and "c \<in> set (hb_clients h)" and "length (cl_queue c) = 64"
    and "rtranclp (hub_step cfg) (hub_deliver h) h'"
    and "\<forall>gs. 0 < ws_max_for_groups cfg gs \<and> ws_max_for_groups cfg gs \<le> int n"
  shows "gap (cl_user c) h + 1 \<le> gap (cl_user c) h' \<and>
    (ws_max_for_groups cfg gs \<le> int (gap (cl_user c) h') \<longrightarrow> can_accept cfg (cl_user c) gs h' \<noteq> None)"
proof -
  let ?u = "cl_user c"
  obtain msg rest where b: "hb_buffer h = msg # rest" using assms(2) by (cases "hb_buffer h") auto
  have lt: "length (filter (\<lambda>x. cl_user x = ?u \<and> \<not> is_dead (\<lambda>c. True) x) cs) < length (filter (\<lambda>x. cl_user x = ?u) cs)"
    if "c \<in> set cs" for cs
    using that
  proof (induction cs)
    case (Cons x cs)
    have "length (filter (\<lambda>x. cl_user x = ?u \<and> \<not> is_dead (\<lambda>c. True) x) cs) \<le> length (filter (\<lambda>x. cl_user x = ?u) cs)"
      by (induction cs) auto
    then show ?case using Cons assms(4) by (cases "x = c") (auto simp: is_dead_def send_capacity_def)
  qed simp
  have "clients_of ?u (hub_deliver h) < clients_of ?u h"
    using lt [OF assms(3)] by (simp add: clients_of_def hub_deliver_def b send_to_users)
  moreover have "clients_of ?u h \<le> hb_conns h ?u" using assms(1) by (simp add: hub_ok_def)
  ultimately have g: "gap ?u h + 1 \<le> gap ?u (hub_deliver h)" by (simp add: gap_def hub_deliver_def b)
  have ok: "hub_ok cfg n (hub_deliver h)" using hub_ok_step [OF deliver assms(1)] assms(6) by blast
  from hub_ok_run [OF assms(5) ok, of ?u] assms(6) have r: "gap ?u (hub_deliver h) \<le> gap ?u h'" by blast
  have "can_accept cfg ?u gs h' \<noteq> None" if "ws_max_for_groups cfg gs \<le> int (gap ?u h')"
    using that assms(6) by (auto simp: can_accept_def gap_def)
  then show ?thesis using g r by simp
qed

definition full_client :: "string ws_client" where
  "full_client = \<lparr>cl_id = 1, cl_user = ''u'', cl_queue = replicate 64 ''m''\<rparr>"

definition full_hub :: "string hub" where
  "full_hub = \<lparr>hb_clients = [full_client], hb_conns = (\<lambda>u. if u = ''u'' then 1 else 0), hb_buffer = [''m'']\<rparr>"

theorem dropped_client_locks_user_out_witness:
  "hb_clients (hub_unregister full_client (hub_deliver full_hub)) = [] \<and>
   can_accept plan_limits ''u'' [] (hub_unregister full_client (hub_deliver full_hub)) \<noteq> None"
proof -
  have d: "hb_clients (hub_deliver full_hub) = []"
    by (simp add: full_hub_def hub_deliver_def send_to_def is_dead_def full_client_def send_capacity_def)
  have ok: "hub_ok plan_limits 10 full_hub"
    by (simp add: hub_ok_def full_hub_def clients_of_def client_count_def plan_limits_def full_client_def)
  have s: "rtranclp (hub_step plan_limits) (hub_deliver full_hub) (hub_unregister full_client (hub_deliver full_hub))"
    using leave [of full_client "hub_deliver full_hub" plan_limits] d by (auto simp: has_client_def)
  have m: "\<forall>gs. 0 < ws_max_for_groups plan_limits gs \<and> ws_max_for_groups plan_limits gs \<le> int 10"
    by (intro allI ws_max_between) (simp_all add: plan_limits_def)
  have "cl_user full_client = ''u''" "ws_max_for_groups plan_limits [] = 1"
    by (simp_all add: full_client_def ws_max_for_groups_def plan_limits_def)
  with dropped_client_locks_user_out [OF ok _ _ _ s m, of full_client "[]"] d show ?thesis
    by (auto simp: full_hub_def full_client_def hub_unregister_def has_client_def)
qed

end
