(* ===== verification/OAuthFlow.thy ===== *)
theory OAuthFlow
  imports AuthTokens
begin

text \<open>
  \<^verbatim>\<open>internal/control/oauth.go\<close>: the sign-in endpoints in front of Authentik. The check of the origin of a
  request reads the trusted extension origins of the database; the token endpoint, JSON decoding of its
  answers and the revocation request are parameters. The revocation of \<^verbatim>\<open>Logout\<close>, a goroutine whose result
  is only logged, is run where it is started. \<^verbatim>\<open>oa_tofu\<close> says whether there is a repository of trusted
  extension origins. The constant page of \<^verbatim>\<open>ExtensionCallback\<close> is left out.
\<close>

section \<open>Handler and answers\<close>

record oauth =
  oa_cfg :: config
  oa_origins :: "string list"
  oa_extensions :: "string list"
  oa_tofu :: bool

definition comma_list :: "string \<Rightarrow> string list" where
  "comma_list raw = filter (\<lambda>o1. o1 \<noteq> []) (map trim_space (split_on (CHR '','') raw))"

definition new_oauth_handler :: "config \<Rightarrow> bool \<Rightarrow> oauth" where
  "new_oauth_handler cfg tofu =
     \<lparr>oa_cfg = cfg, oa_origins = comma_list (CORSAllowedOrigins cfg),
      oa_extensions = comma_list (AllowedExtensionOrigins cfg), oa_tofu = tofu\<rparr>"

record token_response =
  tr_access :: string
  tr_type :: string
  tr_expires :: int
  tr_refresh :: string
  tr_id :: string

datatype oauth_data = TokensData token_response | OIDCData "(string \<times> string) list" | LoggedOut

text \<open>An answer of the server's own, one with \<^verbatim>\<open>Retry-After\<close>, or the provider's status and body passed on.\<close>

datatype oauth_reply = Reply "oauth_data response" | RetryLater "oauth_data response" string | PassedOn int string

text \<open>Posting a form: no request could be built, none was answered, the body broke off, or an answer.\<close>

datatype post_result = NoRequest | NoResponse | BrokenBody int | Answered int string

record 'w oauth_net =
  on_post :: "string \<Rightarrow> (string \<times> string) list \<Rightarrow> 'w \<Rightarrow> post_result \<times> 'w"
  on_decode :: "string \<Rightarrow> token_response option"

section \<open>Origins\<close>

definition is_extension_origin :: "string \<Rightarrow> bool" where
  "is_extension_origin origin \<longleftrightarrow> has_prefix origin ''moz-extension://'' \<or> has_prefix origin ''chrome-extension://''"

definition oauth_origin_matches :: "url \<Rightarrow> string \<Rightarrow> string \<Rightarrow> bool" where
  "oauth_origin_matches u origin allowed =
     (if allowed = origin then True
      else if has_prefix allowed ''https://*.'' \<or> has_prefix allowed ''http://*.'' then
        (let suffix = drop (the (index_of allowed ''*.'') + 1) allowed;
             scheme = take (the (index_of allowed ''://'')) allowed
         in url_scheme u = scheme \<and> has_suffix (url_host u) suffix)
      else False)"

definition is_allowed_origin :: "oauth \<Rightarrow> string \<Rightarrow> ('w, bool) op" where
  "is_allowed_origin oa origin =
     (if is_extension_origin origin then
        (if oa_extensions oa \<noteq> [] then answer (origin \<in> set (oa_extensions oa))
         else if oa_tofu oa then do {
           r \<leftarrow> db_op (extension_is_trusted origin);
           answer (case r of Inl e \<Rightarrow> False | Inr ok \<Rightarrow> ok) }
         else answer False)
      else case url_parse origin of
        None \<Rightarrow> answer False
      | Some u \<Rightarrow> answer (list_ex (oauth_origin_matches u origin) (oa_origins oa)))"

record browser_headers =
  bh_origin :: string
  bh_referer :: string

definition origin_of_url :: "string \<Rightarrow> string option" where
  "origin_of_url raw = map_option (\<lambda>u. url_scheme u @ ''://'' @ url_host u) (url_parse raw)"

text \<open>The answer of a refused request, or \<open>None\<close>.\<close>

definition csrf_check :: "oauth \<Rightarrow> browser_headers \<Rightarrow> ('w, oauth_data response option) op" where
  "csrf_check oa h =
     (let origin = (if bh_origin h \<noteq> [] then bh_origin h
                    else if bh_referer h = [] then []
                    else case origin_of_url (bh_referer h) of None \<Rightarrow> [] | Some o1 \<Rightarrow> o1) in
      if origin = [] then answer (Some (JsonError ''missing Origin header'' 403))
      else do {
        ok \<leftarrow> is_allowed_origin oa origin;
        answer (if ok then None else Some (JsonError ''origin not allowed'' 403)) })"

definition is_allowed_redirect_uri :: "oauth \<Rightarrow> string \<Rightarrow> ('w, bool) op" where
  "is_allowed_redirect_uri oa uri =
     (if extension_callback_url (oa_cfg oa) \<noteq> [] \<and> uri = extension_callback_url (oa_cfg oa) then answer True
      else case origin_of_url uri of
        None \<Rightarrow> answer False
      | Some origin \<Rightarrow> is_allowed_origin oa origin)"

section \<open>The token endpoint\<close>

record exchange_error =
  xe_message :: string
  xe_status :: nat
  xe_retry :: bool

definition exchange_token ::
    "'w oauth_net \<Rightarrow> oauth \<Rightarrow> (string \<times> string) list \<Rightarrow> ('w, exchange_error + int \<times> string \<times> token_response option) op" where
  "exchange_token on oa form =
     do { r \<leftarrow> world_op (on_post on (authentik_token_url (oa_cfg oa)) form);
          answer (case r of
              NoRequest \<Rightarrow> Inl \<lparr>xe_message = ''token exchange failed'', xe_status = 500, xe_retry = False\<rparr>
            | NoResponse \<Rightarrow> Inl \<lparr>xe_message = ''auth provider temporarily unavailable; retry later'', xe_status = 502, xe_retry = True\<rparr>
            | BrokenBody st \<Rightarrow> Inl \<lparr>xe_message = ''auth provider temporarily unavailable; retry later'', xe_status = 502, xe_retry = True\<rparr>
            | Answered st body \<Rightarrow>
                if st \<noteq> 200 then Inr (st, body, None)
                else case on_decode on body of
                  None \<Rightarrow> Inl \<lparr>xe_message = ''invalid token response'', xe_status = 502, xe_retry = False\<rparr>
                | Some t \<Rightarrow> Inr (st, body, Some t)) }"

definition exchange_error_reply :: "exchange_error \<Rightarrow> oauth_reply" where
  "exchange_error_reply e =
     (if xe_retry e then RetryLater (JsonError (xe_message e) (xe_status e)) ''30''
      else Reply (JsonError (xe_message e) (xe_status e)))"

definition with_secret :: "config \<Rightarrow> (string \<times> string) list" where
  "with_secret cfg = (if AuthentikClientSecret cfg \<noteq> [] then [(''client_secret'', AuthentikClientSecret cfg)] else [])"

section \<open>Handlers\<close>

definition oidc_config :: "oauth \<Rightarrow> oauth_reply" where
  "oidc_config oa = (let c = oa_cfg oa in Reply (JsonOK (OIDCData
     [(''issuer'', authentik_token_issuer c), (''authorization_endpoint'', authentik_authorization_url c),
      (''token_endpoint'', authentik_token_url c), (''userinfo_endpoint'', authentik_user_info_url c),
      (''end_session_endpoint'', authentik_end_session_url c), (''jwks_uri'', AuthentikJWKSURL c),
      (''client_id'', AuthentikClientID c)]) 200))"

definition refresh :: "'w oauth_net \<Rightarrow> oauth \<Rightarrow> browser_headers \<Rightarrow> string option \<Rightarrow> ('w, oauth_reply) op" where
  "refresh on oa h body =
     do { refused \<leftarrow> csrf_check oa h;
          case refused of
            Some resp \<Rightarrow> answer (Reply resp)
          | None \<Rightarrow>
              (case body of
                 None \<Rightarrow> answer (Reply (JsonError ''invalid request body'' 400))
               | Some token \<Rightarrow>
                   if token = [] then answer (Reply (JsonError ''refresh_token is required'' 400))
                   else do {
                     r \<leftarrow> exchange_token on oa
                            ([(''grant_type'', ''refresh_token''), (''refresh_token'', token),
                              (''client_id'', AuthentikClientID (oa_cfg oa))] @ with_secret (oa_cfg oa));
                     answer (case r of
                         Inl e \<Rightarrow> exchange_error_reply e
                       | Inr (st, body, None) \<Rightarrow> PassedOn st body
                       | Inr (st, body, Some t) \<Rightarrow> Reply (JsonOK (TokensData t) 200)) }) }"

record callback_request =
  cb_code :: string
  cb_redirect :: string
  cb_verifier :: string

definition callback_form :: "oauth \<Rightarrow> callback_request \<Rightarrow> (string \<times> string) list" where
  "callback_form oa req =
     [(''grant_type'', ''authorization_code''), (''code'', cb_code req), (''redirect_uri'', cb_redirect req),
      (''client_id'', AuthentikClientID (oa_cfg oa))] @ with_secret (oa_cfg oa) @
     (if cb_verifier req \<noteq> [] then [(''code_verifier'', cb_verifier req)] else [])"

text \<open>Trust on first use, after the provider confirmed the code.\<close>

definition trust_origin :: "oauth \<Rightarrow> string \<Rightarrow> ('w, unit) op" where
  "trust_origin oa origin =
     (if oa_tofu oa \<and> oa_extensions oa = [] \<and> is_extension_origin origin
      then do { _ \<leftarrow> db_op (extension_register origin None); answer () }
      else answer ())"

definition exchange_code :: "'w oauth_net \<Rightarrow> oauth \<Rightarrow> browser_headers \<Rightarrow> callback_request \<Rightarrow> ('w, oauth_reply) op" where
  "exchange_code on oa h req =
     do { r \<leftarrow> exchange_token on oa (callback_form oa req);
          case r of
            Inl e \<Rightarrow> answer (exchange_error_reply e)
          | Inr (st, body, None) \<Rightarrow> answer (PassedOn st body)
          | Inr (st, body, Some t) \<Rightarrow> do {
              _ \<leftarrow> trust_origin oa (bh_origin h);
              answer (Reply (JsonOK (TokensData t) 200)) } }"

definition callback :: "'w oauth_net \<Rightarrow> oauth \<Rightarrow> browser_headers \<Rightarrow> callback_request option \<Rightarrow> ('w, oauth_reply) op" where
  "callback on oa h body =
     (case body of
        None \<Rightarrow> answer (Reply (JsonError ''invalid request body'' 400))
      | Some req \<Rightarrow> do {
          refused \<leftarrow> (if cb_verifier req = [] then csrf_check oa h else answer None);
          case refused of
            Some resp \<Rightarrow> answer (Reply resp)
          | None \<Rightarrow>
              if cb_code req = [] \<or> cb_redirect req = []
              then answer (Reply (JsonError ''code and redirect_uri are required'' 400))
              else do {
                ok \<leftarrow> is_allowed_redirect_uri oa (cb_redirect req);
                if \<not> ok then answer (Reply (JsonError ''redirect_uri not allowed'' 400))
                else exchange_code on oa h req } })"

record logout_request =
  lo_access :: string
  lo_refresh :: string

definition revoke_url :: "config \<Rightarrow> string" where
  "revoke_url cfg = trim_right (AuthentikIssuer cfg) ''/'' @ ''/application/o/revoke-token/''"

definition revoke :: "'w oauth_net \<Rightarrow> oauth \<Rightarrow> string \<Rightarrow> ('w, unit) op" where
  "revoke on oa token =
     (if token \<noteq> [] \<and> AuthentikClientID (oa_cfg oa) \<noteq> []
      then do {
        _ \<leftarrow> world_op (on_post on (revoke_url (oa_cfg oa))
               ([(''token'', token), (''token_type_hint'', ''refresh_token''),
                 (''client_id'', AuthentikClientID (oa_cfg oa))] @ with_secret (oa_cfg oa)));
        answer () }
      else answer ())"

text \<open>\<^verbatim>\<open>Logout\<close> also works on the cache of introspections.\<close>

definition logout ::
    "'w auth_net \<Rightarrow> 'w oauth_net \<Rightarrow> oauth \<Rightarrow> browser_headers \<Rightarrow> logout_request option \<Rightarrow> intro_cache \<times> 'w sys \<Rightarrow>
     oauth_reply \<times> intro_cache \<times> 'w sys" where
  "logout an on oa h body x =
     (case x of (c, s) \<Rightarrow>
        case run_state (csrf_check oa h) s of
          (Some resp, s1) \<Rightarrow> (Reply resp, c, s1)
        | (None, s1) \<Rightarrow>
            (case body of
               None \<Rightarrow> (Reply (JsonError ''invalid request body'' 400), c, s1)
             | Some req \<Rightarrow>
                 (case run_state (revoke on oa (lo_refresh req)) s1 of
                    (u, s2) \<Rightarrow> (Reply (JsonOK LoggedOut 200), invalidate_introspection an (lo_access req) c, s2))))"

section \<open>How an extension origin comes to be trusted\<close>

definition trusted_origins :: "'w sys \<Rightarrow> string set" where
  "trusted_origins s = {eo_origin e |e. e \<in> set (db_extensions (sy_db s)) \<and> \<not> eo_revoked e}"

definition keeps_extensions :: "'w sys \<Rightarrow> 'w sys \<Rightarrow> bool" where
  "keeps_extensions s t \<longleftrightarrow> db_extensions (sy_db t) = db_extensions (sy_db s)"

interpretation ke: step_relation keeps_extensions
  by unfold_locales (simp_all add: keeps_extensions_def)

lemma keeps_trusted: "keeps_extensions s t \<Longrightarrow> trusted_origins t = trusted_origins s"
  by (simp add: keeps_extensions_def trusted_origins_def)

lemma ke_is_trusted: "state_io_rel keeps_extensions (db_op (extension_is_trusted origin))"
  by (simp add: state_io_rel_def db_op_def keeps_extensions_def extension_is_trusted_def db_call_def split: list.splits)

lemma ke_world: "state_io_rel keeps_extensions (world_op f)"
  by (simp add: state_io_rel_def world_op_def keeps_extensions_def split: prod.splits)

lemma ke_allowed_origin: "state_io_rel keeps_extensions (is_allowed_origin oa origin)"
  by (auto simp: is_allowed_origin_def intro!: ke.io_bind ke.io_return ke_is_trusted split: option.split)

lemma ke_csrf: "state_io_rel keeps_extensions (csrf_check oa h)"
  by (auto simp: csrf_check_def Let_def intro!: ke.io_bind ke.io_return ke_allowed_origin)

lemma ke_redirect: "state_io_rel keeps_extensions (is_allowed_redirect_uri oa uri)"
  by (auto simp: is_allowed_redirect_uri_def intro!: ke.io_return ke_allowed_origin split: option.split)

lemma ke_exchange: "state_io_rel keeps_extensions (exchange_token on oa form)"
  by (auto simp: exchange_token_def intro!: ke.io_bind ke.io_return ke_world)

lemma ke_refresh: "state_io_rel keeps_extensions (refresh on oa h body)"
  by (auto simp: refresh_def intro!: ke.io_bind ke.io_return ke_csrf ke_exchange split: option.split)

lemma ke_revoke: "state_io_rel keeps_extensions (revoke on oa token)"
  by (auto simp: revoke_def intro!: ke.io_bind ke.io_return ke_world)

lemma exchange_token_200:
  assumes "run_state (exchange_token on oa form) s = (Inr (st, body, Some t), s1)"
  shows "\<exists>b w. on_post on (authentik_token_url (oa_cfg oa)) form (sy_world s) = (Answered 200 b, w) \<and> on_decode on b = Some t"
  using assms by (auto simp: exchange_token_def split: prod.splits post_result.splits if_splits option.splits)

lemma trust_origin_adds:
  assumes "run_state (trust_origin oa o1) s = (u, t)" and "origin \<in> trusted_origins t" and "origin \<notin> trusted_origins s"
  shows "origin = o1 \<and> oa_tofu oa \<and> oa_extensions oa = [] \<and> is_extension_origin o1"
proof (cases "oa_tofu oa \<and> oa_extensions oa = [] \<and> is_extension_origin o1")
  case True
  have "trusted_origins t \<subseteq> insert o1 (trusted_origins s)"
    using assms(1) True
    by (auto simp: trust_origin_def trusted_origins_def extension_register_def db_call_def map_where_def
        split: prod.splits list.splits if_splits)
  then show ?thesis using assms(2,3) True by auto
next
  case False
  then show ?thesis using assms by (auto simp: trust_origin_def)
qed

lemma exchange_code_trusts:
  assumes "run_state (exchange_code on oa h req) s = (resp, t)"
    and "origin \<in> trusted_origins t" and "origin \<notin> trusted_origins s"
  shows "origin = bh_origin h \<and> is_extension_origin origin \<and> oa_tofu oa \<and> oa_extensions oa = [] \<and>
         (\<exists>b w tok. on_post on (authentik_token_url (oa_cfg oa)) (callback_form oa req) (sy_world s) = (Answered 200 b, w) \<and>
            on_decode on b = Some tok \<and> resp = Reply (JsonOK (TokensData tok) 200))"
proof -
  obtain r s1 where e: "run_state (exchange_token on oa (callback_form oa req)) s = (r, s1)"
    by (meson surj_pair)
  have same: "trusted_origins s1 = trusted_origins s"
    by (rule keeps_trusted [OF ke.io_run [OF ke_exchange e]])
  show ?thesis
  proof (cases "\<exists>st body tok. r = Inr (st, body, Some tok)")
    case True
    then obtain st body tok where r: "r = Inr (st, body, Some tok)" by blast
    obtain u where u: "run_state (trust_origin oa (bh_origin h)) s1 = (u, t)" "resp = Reply (JsonOK (TokensData tok) 200)"
      using assms(1) by (auto simp: exchange_code_def e r split: prod.splits)
    show ?thesis
      using exchange_token_200 [OF e [unfolded r]] trust_origin_adds [OF u(1) assms(2)] assms(3) u(2) same by auto
  next
    case False
    then have "t = s1"
      using assms(1) by (cases r) (auto simp: exchange_code_def e split: option.splits)
    then show ?thesis using assms(2,3) same by simp
  qed
qed

text \<open>C15: an extension origin becomes trusted only as the \<^verbatim>\<open>Origin\<close> header of a callback whose code and redirect
  URI the provider exchanged for tokens, and only when no static list of extension origins is configured; neither a refused
  callback nor a token refresh changes what is trusted.\<close>

theorem trust_needs_exchange:
  assumes "run_state (callback on oa h body) s = (resp, t)"
    and "origin \<in> trusted_origins t" and "origin \<notin> trusted_origins s"
  shows "origin = bh_origin h \<and> is_extension_origin origin \<and> oa_tofu oa \<and> oa_extensions oa = [] \<and>
         (\<exists>req tok b w0 w. body = Some req \<and> cb_code req \<noteq> [] \<and> resp = Reply (JsonOK (TokensData tok) 200) \<and>
            on_post on (authentik_token_url (oa_cfg oa)) (callback_form oa req) w0 = (Answered 200 b, w) \<and>
            on_decode on b = Some tok) \<and>
         trusted_origins (snd (run_state (refresh on oa h token) s)) = trusted_origins s"
proof -
  have fresh: "trusted_origins (snd (run_state (refresh on oa h token) s)) = trusted_origins s"
    using ke_refresh [of on oa h token] by (simp add: state_io_rel_def keeps_trusted)
  obtain req where body: "body = Some req"
    using assms by (cases body) (auto simp: callback_def)
  obtain refused s1 where c: "run_state (if cb_verifier req = [] then csrf_check oa h else answer None) s = (refused, s1)"
    by (meson surj_pair)
  obtain ok s2 where a: "run_state (is_allowed_redirect_uri oa (cb_redirect req)) s1 = (ok, s2)"
    by (meson surj_pair)
  have "state_io_rel keeps_extensions (if cb_verifier req = [] then csrf_check oa h else answer None)"
    by (simp add: ke_csrf ke.io_return)
  then have same: "trusted_origins s1 = trusted_origins s" "trusted_origins s2 = trusted_origins s"
    using keeps_trusted [OF ke.io_run [OF _ c]] keeps_trusted [OF ke.io_run [OF ke_redirect a]] by simp_all
  have "refused = None" "cb_code req \<noteq> [] \<and> cb_redirect req \<noteq> []" "ok"
    using assms same by (auto simp: callback_def body c a split: option.splits if_splits)
  then have "run_state (exchange_code on oa h req) s2 = (resp, t)"
    using assms(1) by (simp add: callback_def body c a)
  from exchange_code_trusts [OF this assms(2)] assms(3) same fresh body \<open>cb_code req \<noteq> [] \<and> cb_redirect req \<noteq> []\<close>
  show ?thesis by blast
qed

definition demo_oauth_net :: "unit oauth_net" where
  "demo_oauth_net = \<lparr>on_post = (\<lambda>u form w. (Answered 200 ''ok'', w)),
     on_decode = (\<lambda>b. Some \<lparr>tr_access = b, tr_type = ''Bearer'', tr_expires = 300, tr_refresh = [], tr_id = []\<rparr>)\<rparr>"

theorem trust_needs_exchange_witness:
  "\<exists>resp t. run_state (callback demo_oauth_net (new_oauth_handler (quiet_config\<lparr>PublicBaseURL := ''https://v'', ExtensionCallbackPath := ''/cb'', AllowedExtensionOrigins := []\<rparr>) True)
        \<lparr>bh_origin = ''moz-extension://a'', bh_referer = []\<rparr>
        (Some \<lparr>cb_code = ''c'', cb_redirect = extension_callback_url (quiet_config\<lparr>PublicBaseURL := ''https://v'', ExtensionCallbackPath := ''/cb'', AllowedExtensionOrigins := []\<rparr>), cb_verifier = ''v''\<rparr>))
       demo_sys = (resp, t) \<and> ''moz-extension://a'' \<in> trusted_origins t \<and> (\<exists>tok. resp = Reply (JsonOK (TokensData tok) 200))"
proof -
  let ?c = "quiet_config\<lparr>PublicBaseURL := ''https://v'', ExtensionCallbackPath := ''/cb'', AllowedExtensionOrigins := []\<rparr>"
  let ?oa = "new_oauth_handler ?c True" and ?h = "\<lparr>bh_origin = ''moz-extension://a'', bh_referer = []\<rparr>"
  let ?req = "\<lparr>cb_code = ''c'', cb_redirect = extension_callback_url ?c, cb_verifier = ''v''\<rparr>"
  have cb: "extension_callback_url ?c \<noteq> []" by (simp add: extension_callback_url_def)
  have oa: "oa_extensions ?oa = []" "oa_tofu ?oa" "oa_cfg ?oa = ?c"
    by (simp_all add: new_oauth_handler_def quiet_config_def comma_list_def trim_space_def trim_left_by_def trim_right_by_def)
  have db: "db_faults (sy_db demo_sys) = []" "db_extensions (sy_db demo_sys) = []"
    by (simp_all add: demo_sys_def demo_db_def)
  obtain resp t where r: "run_state (callback demo_oauth_net ?oa ?h (Some ?req)) demo_sys = (resp, t)" by (meson surj_pair)
  have ext: "has_prefix ''moz-extension://a'' ''moz-extension://''" by (simp add: has_prefix_def)
  have t: "''moz-extension://a'' \<in> trusted_origins t"
    using r by (auto simp: callback_def is_allowed_redirect_uri_def cb oa exchange_code_def exchange_token_def demo_oauth_net_def
        trust_origin_def is_extension_origin_def ext extension_register_def db_call_def db trusted_origins_def)
  have "''moz-extension://a'' \<notin> trusted_origins demo_sys" by (simp add: trusted_origins_def db)
  from trust_needs_exchange [OF r t this, of None] r t show ?thesis by blast
qed

section \<open>The origins agree with the configuration\<close>

lemma comma_list_matches:
  "list_ex (oauth_origin_matches u origin) (comma_list raw) = list_ex (origin_matches u origin) (split_on (CHR '','') raw)"
proof -
  have "list_ex (oauth_origin_matches u origin) (filter (\<lambda>o1. o1 \<noteq> []) (map trim_space xs)) = list_ex (origin_matches u origin) xs" for xs
    by (induction xs) (auto simp: oauth_origin_matches_def origin_matches_def Let_def)
  then show ?thesis by (simp add: comma_list_def)
qed

text \<open>C28: for a web origin, the origin check of the sign-in endpoints is \<^verbatim>\<open>config.OriginAllowed\<close> on the configured list:
  it touches neither database nor world and accepts exactly the same origins.\<close>

theorem origin_checks_agree:
  assumes "url_parse origin = Some u" and "url_scheme u \<noteq> []" and "url_host u \<noteq> []" and "\<not> is_extension_origin origin"
  shows "run_state (is_allowed_origin (new_oauth_handler cfg tofu) origin) s = (origin_allowed origin (CORSAllowedOrigins cfg), s)"
  using assms by (simp add: is_allowed_origin_def new_oauth_handler_def origin_allowed_def comma_list_matches)

theorem origin_checks_agree_witness:
  "fst (run_state (is_allowed_origin (new_oauth_handler (quiet_config\<lparr>CORSAllowedOrigins := ''https://vpn.org''\<rparr>) True) ''https://vpn.org'') demo_sys) =
     origin_allowed ''https://vpn.org'' ''https://vpn.org''"
proof -
  have p: "url_parse ''https://vpn.org'' = Some \<lparr>url_scheme = ''https'', url_opaque = [],
      url_user = None, url_host = ''vpn.org'', url_path = [], url_raw_query = [], url_fragment = []\<rparr>"
    by (simp add: url_eval)
  show ?thesis
    by (subst origin_checks_agree [OF p]) (simp_all add: is_extension_origin_def has_prefix_def)
qed

end
