(* ===== verification/MeshAPI.thy ===== *)
theory MeshAPI
  imports Accounting
begin

text \<open>
  \<^verbatim>\<open>internal/control/mesh_handler.go\<close> and \<^verbatim>\<open>internal/control/exit_node_handler.go\<close>: the session mesh of a
  user (created on activation, named after the country of the caller's address), joining and
  leaving, the public directory, and the exit nodes. The per-user mutex makes \<open>ensure_auto_mesh\<close> one
  step; the goroutine that stores a looked-up country is run where it is started.
\<close>

section \<open>Where a request comes from\<close>

record origin_headers =
  oh_cf :: string
  oh_real_ip :: string
  oh_forwarded :: string
  oh_remote :: string

definition mesh_real_ip :: "origin_headers \<Rightarrow> string" where
  "mesh_real_ip h =
     (let remote = (case split_host_port (oh_remote h) of
                      Some (host, _) \<Rightarrow> if host = [] then oh_remote h else host
                    | None \<Rightarrow> oh_remote h);
          first = trim_space (hd (split_on (CHR '','') (oh_forwarded h)))
      in if trim_space (oh_cf h) \<noteq> [] then trim_space (oh_cf h)
         else if trim_space (oh_real_ip h) \<noteq> [] then trim_space (oh_real_ip h)
         else if oh_forwarded h \<noteq> [] \<and> first \<noteq> [] then first
         else remote)"

definition country_ttl :: time where
  "country_ttl = 30 * 24 * hour"

definition cached_country :: "string \<Rightarrow> ('w, string option) op" where
  "cached_country ip =
     State (\<lambda>s. ((case sy_countries s ip of
                    Some (c, expires) \<Rightarrow> if db_now (sy_db s) < expires then Some c else None
                  | None \<Rightarrow> None), s))"

definition cache_country :: "string \<Rightarrow> string \<Rightarrow> ('w, unit) op" where
  "cache_country ip c =
     State (\<lambda>s. ((), s\<lparr>sy_countries := (sy_countries s)(ip \<mapsto> (c, db_now (sy_db s) + country_ttl))\<rparr>))"

definition select_country :: "string \<Rightarrow> string query" where
  "select_country ip = db_call (\<lambda>d. (one_row (map_option (\<lambda>(_, c, _). c) (find (\<lambda>(i, _). i = ip) (db_countries d))), d))"

definition upsert_country :: "string \<Rightarrow> string \<Rightarrow> unit query" where
  "upsert_country ip c = db_call (\<lambda>d.
     (Inr (), d\<lparr>db_countries := (ip, c, db_now d) # filter (\<lambda>(i, _). i \<noteq> ip) (db_countries d)\<rparr>))"

definition ask_country :: "'w env \<Rightarrow> string \<Rightarrow> ('w, string option) op" where
  "ask_country env ip =
     do { r \<leftarrow> world_op (bk_geo (en_backend env) ip);
          case r of
            None \<Rightarrow> answer None
          | Some (st, body) \<Rightarrow>
              let c = to_upper (trim_space (take 8 body)) in
              if st \<noteq> 200 \<or> \<not> valid_mesh_country_code c then answer None
              else do { _ \<leftarrow> cache_country ip c; _ \<leftarrow> db_op (upsert_country ip c); answer (Some c) } }"

definition country_from_ip :: "'w env \<Rightarrow> string \<Rightarrow> ('w, string option) op" where
  "country_from_ip env ip =
     (case parse_ip ip of
        None \<Rightarrow> answer None
      | Some a \<Rightarrow>
          if is_loopback a \<or> is_private a then answer None
          else do {
            hit \<leftarrow> cached_country ip;
            case hit of
              Some c \<Rightarrow> answer (Some c)
            | None \<Rightarrow> do {
                row \<leftarrow> db_op (select_country ip);
                case row of
                  Inr c \<Rightarrow>
                    if valid_mesh_country_code c then do { _ \<leftarrow> cache_country ip c; answer (Some c) }
                    else ask_country env ip
                | Inl e \<Rightarrow> ask_country env ip } })"

section \<open>The session mesh of a user\<close>

definition mesh_name_for_country :: "string \<Rightarrow> string" where
  "mesh_name_for_country c = ''Servidor Comunitario '' @ mesh_country_flag c @ '' ['' @ c @ '']''"

text \<open>Refresh a session mesh that exists: its origin, if the caller's address changed.\<close>

definition refresh_origin :: "'w env \<Rightarrow> string \<Rightarrow> mesh \<Rightarrow> ('w, mesh) op" where
  "refresh_origin env origin m =
     (if origin = [] \<or> me_public_ip m = origin then answer m
      else do {
        c \<leftarrow> country_from_ip env origin;
        case c of
          None \<Rightarrow> answer m
        | Some cc \<Rightarrow>
            let m1 = m\<lparr>me_country := cc, me_name := mesh_name_for_country cc, me_public_ip := origin\<rparr> in
            do { _ \<leftarrow> db_op (mesh_update_session_origin (me_id m) (me_name m1) cc origin); answer m1 } })"

text \<open>The result of provisioning: an error text, or the mesh, the membership and whether it is new.\<close>

type_synonym provision = "string + mesh \<times> member \<times> bool"

fun reuse_session :: "'w env \<Rightarrow> string \<Rightarrow> user \<Rightarrow> mesh list \<Rightarrow> ('w, provision option) op" where
  "reuse_session env origin u [] = answer None"
| "reuse_session env origin u (m # ms) =
     (if \<not> me_session m \<or> me_owner m \<noteq> us_id u then reuse_session env origin u ms
      else if \<not> is_valid_public_mesh m then
        do { _ \<leftarrow> db_op (mesh_delete (me_id m)); reuse_session env origin u ms }
      else do {
        r \<leftarrow> db_op (mesh_member (me_id m) (us_id u));
        mm \<leftarrow> (case r of
                 Inr mm \<Rightarrow> answer (Inr mm)
               | Inl e \<Rightarrow> db_op (mesh_add_member (me_id m) (us_id u) None));
        case mm of
          Inl e \<Rightarrow> answer (Some (Inl ''failed to initialize mesh''))
        | Inr mm \<Rightarrow> do {
            _ \<leftarrow> db_op (mesh_touch_session (me_id m));
            m1 \<leftarrow> refresh_origin env origin m;
            answer (Some (Inr (m1, mm, False))) } })"

definition new_session :: "user \<Rightarrow> string \<Rightarrow> string \<Rightarrow> string \<Rightarrow> mesh" where
  "new_session u cc subnet origin =
     \<lparr>me_id = 0, me_name = mesh_name_for_country cc, me_description = [], me_owner = us_id u, me_subnet = subnet,
      me_invite = [], me_invite_expires = None, me_max = 50, me_active = False, me_count = 0, me_country = cc,
      me_public_ip = origin, me_session = True, me_created = 0, me_updated = 0\<rparr>"

definition create_session_mesh :: "'w env \<Rightarrow> string option \<Rightarrow> string \<Rightarrow> user \<Rightarrow> ('w, provision) op" where
  "create_session_mesh env rnd origin u =
     do { c \<leftarrow> country_from_ip env origin;
          case c of
            None \<Rightarrow> answer (Inl ''could not determine public origin country'')
          | Some cc \<Rightarrow> do {
              sn \<leftarrow> db_op next_available_subnet;
              case sn of
                Inl e \<Rightarrow> answer (Inl ''no mesh subnets available'')
              | Inr subnet \<Rightarrow> do {
                  mr \<leftarrow> db_op (mesh_create_session rnd (new_session u cc subnet origin));
                  case mr of
                    Inl e \<Rightarrow> answer (Inl ''failed to create session mesh'')
                  | Inr m \<Rightarrow> do {
                      ar \<leftarrow> db_op (mesh_add_member (me_id m) (us_id u) None);
                      case ar of
                        Inl e \<Rightarrow> do { _ \<leftarrow> db_op (mesh_delete (me_id m)); answer (Inl ''failed to initialize mesh'') }
                      | Inr mm \<Rightarrow> answer (Inr (m, mm, True)) } } } }"

definition ensure_auto_mesh :: "'w env \<Rightarrow> string option \<Rightarrow> string \<Rightarrow> user \<Rightarrow> ('w, provision) op" where
  "ensure_auto_mesh env rnd origin u =
     do { r \<leftarrow> db_op (mesh_list_by_user (us_id u));
          found \<leftarrow> (case r of Inl e \<Rightarrow> answer None | Inr ms \<Rightarrow> reuse_session env origin u ms);
          case found of Some p \<Rightarrow> answer p | None \<Rightarrow> create_session_mesh env rnd origin u }"

text \<open>The first active peer the local manager accepts carries the mesh address.\<close>

fun attach_first :: "'w env \<Rightarrow> uuid \<Rightarrow> uuid \<Rightarrow> string \<Rightarrow> peer list \<Rightarrow> ('w, unit) op" where
  "attach_first env user mesh ip [] = answer ()"
| "attach_first env user mesh ip (p # ps) =
     (if \<not> pe_active p then attach_first env user mesh ip ps
      else do {
        r \<leftarrow> (case bk_add_mesh_ip (en_backend env) of
                None \<Rightarrow> answer (Inr ())
              | Some f \<Rightarrow> world_op (f (pe_key p) ip));
        case r of
          Inl e \<Rightarrow> attach_first env user mesh ip ps
        | Inr _ \<Rightarrow> do { _ \<leftarrow> db_op (mesh_update_member_peer mesh user (Some (pe_id p))); answer () } })"

definition attach_member_to_active_peer :: "'w env \<Rightarrow> uuid \<Rightarrow> uuid \<Rightarrow> string \<Rightarrow> ('w, unit) op" where
  "attach_member_to_active_peer env user mesh ip =
     do { r \<leftarrow> db_op (peer_list_by_user user);
          case r of Inl e \<Rightarrow> answer () | Inr ps \<Rightarrow> attach_first env user mesh ip ps }"

definition status_created :: "bool \<Rightarrow> nat" where
  "status_created created = (if created then 201 else 200)"

definition activate_node :: "'w env \<Rightarrow> string option \<Rightarrow> origin_headers \<Rightarrow> user \<Rightarrow> ('w, ctl_data response) op" where
  "activate_node env rnd h u =
     do { p \<leftarrow> ensure_auto_mesh env rnd (mesh_real_ip h) u;
          case p of
            Inl e \<Rightarrow> answer (JsonError e 422)
          | Inr (m, mm, created) \<Rightarrow> do {
              _ \<leftarrow> attach_member_to_active_peer env (us_id u) (me_id m) (mm_ip mm);
              _ \<leftarrow> audit_entry env (us_id u) ''mesh.node.activate''
                    [(''mesh_id'', MetaId (me_id m)), (''mesh_ip'', MetaText (mm_ip mm))] (oh_remote h);
              _ \<leftarrow> (if created then broadcast_mesh_list_changed env else answer ());
              answer (JsonOK (NodeData \<lparr>ns_active = True, ns_ip = mm_ip mm, ns_mesh = Some (me_id m),
                        ns_public_ip = me_public_ip m, ns_peers = []\<rparr>) (status_created created)) } }"

definition auto_mesh :: "'w env \<Rightarrow> string option \<Rightarrow> origin_headers \<Rightarrow> user \<Rightarrow> ('w, ctl_data response) op" where
  "auto_mesh env rnd h u =
     do { p \<leftarrow> ensure_auto_mesh env rnd (mesh_real_ip h) u;
          case p of
            Inl e \<Rightarrow> answer (JsonError e 422)
          | Inr (m, mm, created) \<Rightarrow> do {
              _ \<leftarrow> attach_member_to_active_peer env (us_id u) (me_id m) (mm_ip mm);
              _ \<leftarrow> audit_entry env (us_id u) ''mesh.auto.create''
                    [(''mesh_id'', MetaId (me_id m)), (''country'', MetaText (me_country m))] (oh_remote h);
              _ \<leftarrow> (if created then broadcast_mesh_list_changed env else answer ());
              answer (JsonOK (MeshData m) (status_created created)) } }"

section \<open>Directory and status\<close>

text \<open>What \<^verbatim>\<open>publicMeshNetwork\<close> keeps of a mesh.\<close>

definition to_public_mesh :: "mesh \<Rightarrow> mesh" where
  "to_public_mesh m = m\<lparr>me_owner := 0, me_invite := [], me_invite_expires := None\<rparr>"

definition mesh_disabled :: "string \<Rightarrow> ctl_data response" where
  "mesh_disabled what = JsonError what 410"

definition create_mesh :: "ctl_data response" where
  "create_mesh = mesh_disabled ''manual mesh creation is disabled''"

definition join_mesh :: "ctl_data response" where
  "join_mesh = mesh_disabled ''manual mesh invites are disabled''"

definition regenerate_invite :: "ctl_data response" where
  "regenerate_invite = mesh_disabled ''manual mesh invites are disabled''"

definition list_my_meshes :: "('w, ctl_data response) op" where
  "list_my_meshes =
     do { r \<leftarrow> db_op mesh_list_public;
          answer (case r of
              Inl e \<Rightarrow> JsonError ''failed to list mesh networks'' 500
            | Inr ms \<Rightarrow> JsonOK (MeshesData (map to_public_mesh ms)) 200) }"

definition get_mesh :: "uuid option \<Rightarrow> ('w, ctl_data response) op" where
  "get_mesh i =
     (case i of
        None \<Rightarrow> answer (JsonError ''invalid mesh id'' 400)
      | Some i \<Rightarrow> do {
          r \<leftarrow> db_op (mesh_by_id i);
          case r of
            Inl e \<Rightarrow> answer (JsonError ''mesh not found'' 404)
          | Inr m \<Rightarrow>
              if \<not> is_valid_public_mesh m then answer (JsonError ''mesh not found'' 404)
              else do {
                ms \<leftarrow> db_op (mesh_list_members i);
                answer (JsonOK (MeshDetail (to_public_mesh m) (case ms of Inl e \<Rightarrow> [] | Inr xs \<Rightarrow> xs)) 200) } })"

definition inactive_node :: node_status where
  "inactive_node = \<lparr>ns_active = False, ns_ip = [], ns_mesh = None, ns_public_ip = [], ns_peers = []\<rparr>"

fun first_node :: "uuid \<Rightarrow> mesh list \<Rightarrow> ('w, node_status) op" where
  "first_node user [] = answer inactive_node"
| "first_node user (m # ms) =
     (if \<not> me_active m then first_node user ms
      else do {
        r \<leftarrow> db_op (mesh_member (me_id m) user);
        case r of
          Inl e \<Rightarrow> first_node user ms
        | Inr mm \<Rightarrow> do {
            xs \<leftarrow> db_op (mesh_list_members (me_id m));
            answer \<lparr>ns_active = True, ns_ip = mm_ip mm, ns_mesh = Some (me_id m), ns_public_ip = me_public_ip m,
                    ns_peers = map (\<lambda>p. (mm_ip p, mm_name p))
                      (filter (\<lambda>p. mm_user p \<noteq> user) (case xs of Inl e \<Rightarrow> [] | Inr xs \<Rightarrow> xs))\<rparr> } })"

definition node_status_for_user :: "uuid \<Rightarrow> ('w, node_status) op" where
  "node_status_for_user user =
     do { r \<leftarrow> db_op (mesh_list_by_user user);
          case r of Inl e \<Rightarrow> answer inactive_node | Inr ms \<Rightarrow> first_node user ms }"

definition node_status :: "user \<Rightarrow> ('w, ctl_data response) op" where
  "node_status u = do { n \<leftarrow> node_status_for_user (us_id u); answer (JsonOK (NodeData n) 200) }"

section \<open>Leaving\<close>

definition member_user_ids :: "uuid \<Rightarrow> ('w, uuid list) op" where
  "member_user_ids mesh =
     do { r \<leftarrow> db_op (mesh_list_members mesh);
          answer (case r of Inl e \<Rightarrow> [] | Inr ms \<Rightarrow> map mm_user ms) }"

text \<open>Take the mesh route of a membership's peer down, where there is a local manager.\<close>

definition unroute_member :: "'w env \<Rightarrow> member \<Rightarrow> ('w, unit) op" where
  "unroute_member env mm =
     (case bk_remove_mesh_ip (en_backend env) of
        None \<Rightarrow> answer ()
      | Some f \<Rightarrow>
          (case mm_peer mm of
             None \<Rightarrow> answer ()
           | Some i \<Rightarrow> do {
               r \<leftarrow> db_op (peer_by_id i);
               case r of Inl e \<Rightarrow> answer () | Inr p \<Rightarrow> do { _ \<leftarrow> world_op (f (pe_key p)); answer () } }))"

definition unroute_members :: "'w env \<Rightarrow> uuid \<Rightarrow> ('w, unit) op" where
  "unroute_members env mesh =
     (case bk_remove_mesh_ip (en_backend env) of
        None \<Rightarrow> answer ()
      | Some f \<Rightarrow> do {
          r \<leftarrow> db_op (mesh_list_members mesh);
          case r of
            Inl e \<Rightarrow> answer ()
          | Inr ms \<Rightarrow> do { _ \<leftarrow> State_Monad.traverse_list (unroute_member env) ms; answer () } })"

definition delete_own_mesh :: "'w env \<Rightarrow> user \<Rightarrow> uuid \<Rightarrow> string \<Rightarrow> ('w, ctl_data response) op" where
  "delete_own_mesh env u i remote =
     do { ids \<leftarrow> (if en_hub env then member_user_ids i else answer []);
          _ \<leftarrow> unroute_members env i;
          r \<leftarrow> db_op (mesh_delete i);
          case r of
            Inl e \<Rightarrow> answer (JsonError ''failed to delete mesh'' 500)
          | Inr _ \<Rightarrow> do {
              _ \<leftarrow> audit_entry env (us_id u) ''mesh.delete'' [(''mesh_id'', MetaId i)] remote;
              _ \<leftarrow> (if ids \<noteq> [] then emit env (BroadcastToUsers ids (MeshDeleted i)) else answer ());
              answer (JsonOK (DeletedData i) 200) } }"

definition leave_as_member :: "'w env \<Rightarrow> user \<Rightarrow> uuid \<Rightarrow> string \<Rightarrow> ('w, ctl_data response) op" where
  "leave_as_member env u i remote =
     do { r \<leftarrow> db_op (mesh_member i (us_id u));
          case r of
            Inl e \<Rightarrow> answer (JsonError ''not a member of this mesh'' 404)
          | Inr mm \<Rightarrow> do {
              _ \<leftarrow> unroute_member env mm;
              rm \<leftarrow> db_op (mesh_remove_member i (us_id u));
              case rm of
                Inl e \<Rightarrow> answer (JsonError ''failed to leave mesh'' 500)
              | Inr _ \<Rightarrow> do {
                  _ \<leftarrow> audit_entry env (us_id u) ''mesh.leave'' [(''mesh_id'', MetaId i)] remote;
                  _ \<leftarrow> (if en_hub env
                        then do { ids \<leftarrow> member_user_ids i; emit env (BroadcastToUsers ids (MemberLeft i (us_id u))) }
                        else answer ());
                  answer (JsonOK (LeftData i) 200) } } }"

definition leave_mesh :: "'w env \<Rightarrow> user \<Rightarrow> uuid option \<Rightarrow> string \<Rightarrow> ('w, ctl_data response) op" where
  "leave_mesh env u i remote =
     (case i of
        None \<Rightarrow> answer (JsonError ''invalid mesh id'' 400)
      | Some i \<Rightarrow> do {
          r \<leftarrow> db_op (mesh_by_id i);
          case r of
            Inl e \<Rightarrow> answer (JsonError ''mesh not found'' 404)
          | Inr m \<Rightarrow> if me_owner m = us_id u then delete_own_mesh env u i remote else leave_as_member env u i remote })"

text \<open>The session meshes of a user are deleted one by one; the answer counts the deletions.\<close>

definition delete_session :: "'w env \<Rightarrow> user \<Rightarrow> mesh \<Rightarrow> ('w, nat) op" where
  "delete_session env u m =
     (if \<not> me_session m \<or> me_owner m \<noteq> us_id u then answer 0
      else do {
        _ \<leftarrow> unroute_members env (me_id m);
        r \<leftarrow> db_op (mesh_delete (me_id m));
        answer (case r of Inl e \<Rightarrow> 0 | Inr _ \<Rightarrow> 1) })"

definition delete_auto_mesh :: "'w env \<Rightarrow> user \<Rightarrow> string \<Rightarrow> ('w, ctl_data response) op" where
  "delete_auto_mesh env u remote =
     do { r \<leftarrow> db_op (mesh_list_by_user (us_id u));
          case r of
            Inl e \<Rightarrow> answer (JsonError ''failed to list meshes'' 500)
          | Inr ms \<Rightarrow> do {
              ns \<leftarrow> State_Monad.traverse_list (delete_session env u) ms;
              _ \<leftarrow> audit_entry env (us_id u) ''mesh.auto.delete'' [(''deleted'', MetaInt (int (sum_list ns)))] remote;
              _ \<leftarrow> (if 0 < sum_list ns then broadcast_mesh_list_changed env else answer ());
              answer (JsonOK (DeletedCount (sum_list ns)) 200) } }"

definition quit_mesh :: "'w env \<Rightarrow> user \<Rightarrow> mesh \<Rightarrow> ('w, unit) op" where
  "quit_mesh env u m =
     do { r \<leftarrow> db_op (mesh_member (me_id m) (us_id u));
          case r of
            Inl e \<Rightarrow> answer ()
          | Inr mm \<Rightarrow> do {
              _ \<leftarrow> unroute_member env mm;
              _ \<leftarrow> (if me_owner m = us_id u then db_op (mesh_delete (me_id m))
                    else db_op (mesh_remove_member (me_id m) (us_id u)));
              answer () } }"

definition deactivate_node :: "'w env \<Rightarrow> user \<Rightarrow> string \<Rightarrow> ('w, ctl_data response) op" where
  "deactivate_node env u remote =
     do { r \<leftarrow> db_op (mesh_list_by_user (us_id u));
          case r of
            Inl e \<Rightarrow> answer (JsonError ''failed to list meshes'' 500)
          | Inr ms \<Rightarrow> do {
              _ \<leftarrow> State_Monad.traverse_list (quit_mesh env u) ms;
              _ \<leftarrow> audit_entry env (us_id u) ''mesh.node.deactivate'' [] remote;
              _ \<leftarrow> broadcast_mesh_list_changed env;
              answer (JsonOK (NodeData inactive_node) 200) } }"

section \<open>Exit nodes\<close>

definition normalize_proxy_scheme :: "string \<Rightarrow> string" where
  "normalize_proxy_scheme raw =
     (let s = to_lower (trim_space raw) in
      if s = [] then ''http-connect'' else if s \<in> {''http-connect'', ''socks5''} then s else [])"

record exit_request =
  xr_mesh :: uuid
  xr_ip :: string
  xr_scheme :: string
  xr_port :: int
  xr_tcp :: bool
  xr_udp :: bool

definition register_exit_node :: "user option \<Rightarrow> exit_request option \<Rightarrow> ('w, ctl_data response) op" where
  "register_exit_node user body =
     (case user of
        None \<Rightarrow> answer (JsonError ''unauthorized'' 401)
      | Some u \<Rightarrow>
          (case body of
             None \<Rightarrow> answer (JsonError ''invalid request body'' 400)
           | Some req \<Rightarrow>
               if xr_port req \<le> 0 \<or> 65535 < xr_port req then answer (JsonError ''proxy_port must be 1-65535'' 400)
               else if xr_mesh req = 0 then answer (JsonError ''mesh_id required'' 400)
               else let scheme = normalize_proxy_scheme (xr_scheme req) in
                 if scheme = [] then answer (JsonError ''proxy_scheme must be socks5 or http-connect'' 400)
                 else if \<not> xr_tcp req then answer (JsonError ''supports_tcp is required for exit nodes'' 400)
                 else do {
                   r \<leftarrow> db_op (exit_register (us_id u) (xr_mesh req) scheme (xr_port req) (xr_tcp req) (xr_udp req));
                   answer (case r of
                       Inl e \<Rightarrow> JsonError ''failed to register exit node'' 500
                     | Inr _ \<Rightarrow> JsonOK (StatusData ''registered'') 200) }))"

definition deregister_exit_node :: "user option \<Rightarrow> exit_request option \<Rightarrow> ('w, ctl_data response) op" where
  "deregister_exit_node user body =
     (case user of
        None \<Rightarrow> answer (JsonError ''unauthorized'' 401)
      | Some u \<Rightarrow>
          (case body of
             None \<Rightarrow> answer (JsonError ''invalid request body'' 400)
           | Some req \<Rightarrow>
               if xr_mesh req = 0 then answer (JsonError ''mesh_id required'' 400)
               else do {
                 r \<leftarrow> db_op (exit_deregister (us_id u) (xr_mesh req));
                 answer (case r of
                     Inl e \<Rightarrow> JsonError ''failed to deregister exit node'' 500
                   | Inr _ \<Rightarrow> JsonOK (StatusData ''deregistered'') 200) }))"

definition list_exit_nodes :: "user option \<Rightarrow> ('w, ctl_data response) op" where
  "list_exit_nodes user =
     (case user of
        None \<Rightarrow> answer (JsonError ''unauthorized'' 401)
      | Some u \<Rightarrow> do {
          r \<leftarrow> db_op (exit_list (us_id u));
          answer (case r of
              Inl e \<Rightarrow> JsonError ''failed to list exit nodes'' 500
            | Inr ns \<Rightarrow> JsonOK (ExitNodes ns) 200) })"

definition set_exit_node :: "user option \<Rightarrow> exit_request option \<Rightarrow> ('w, ctl_data response) op" where
  "set_exit_node user body =
     (case user of
        None \<Rightarrow> answer (JsonError ''unauthorized'' 401)
      | Some u \<Rightarrow>
          (case body of
             None \<Rightarrow> answer (JsonError ''invalid request body'' 400)
           | Some req \<Rightarrow>
               if xr_ip req = [] \<or> xr_port req \<le> 0 then answer (JsonError ''mesh_ip and proxy_port required'' 400)
               else let scheme = normalize_proxy_scheme (xr_scheme req) in
                 if scheme = [] then answer (JsonError ''proxy_scheme must be socks5 or http-connect'' 400)
                 else do {
                   r \<leftarrow> db_op (exit_list (us_id u));
                   case r of
                     Inl e \<Rightarrow> answer (JsonError ''failed to verify exit node'' 500)
                   | Inr ns \<Rightarrow>
                       (case find (\<lambda>n. mm_ip n = xr_ip req \<and> mm_proxy_port n = xr_port req \<and> mm_proxy_scheme n = scheme) ns of
                          None \<Rightarrow> answer (JsonError ''exit node is not available for full tunnel mesh'' 400)
                        | Some n \<Rightarrow> do {
                            w \<leftarrow> db_op (exit_set (us_id u) (xr_ip req) scheme (xr_port req) (mm_tcp n) (mm_udp n));
                            answer (case w of
                                Inl e \<Rightarrow> JsonError ''failed to set exit node'' 500
                              | Inr _ \<Rightarrow> JsonOK (StatusData ''ok'') 200) }) }))"

definition clear_exit_node :: "user option \<Rightarrow> ('w, ctl_data response) op" where
  "clear_exit_node user =
     (case user of
        None \<Rightarrow> answer (JsonError ''unauthorized'' 401)
      | Some u \<Rightarrow> do {
          r \<leftarrow> db_op (exit_clear (us_id u));
          answer (case r of
              Inl e \<Rightarrow> if e \<noteq> NoRows then JsonError ''failed to clear exit node'' 500 else JsonOK (StatusData ''cleared'') 200
            | Inr _ \<Rightarrow> JsonOK (StatusData ''cleared'') 200) })"

section \<open>Leaving never touches what belongs to others\<close>

text \<open>Outside the meshes \<open>I\<close> all meshes stay, and all memberships of users other than \<open>u\<close>.\<close>

definition kept_outside :: "uuid set \<Rightarrow> uuid \<Rightarrow> 'w sys \<Rightarrow> 'w sys \<Rightarrow> bool" where
  "kept_outside I u s t \<longleftrightarrow>
     (\<forall>m \<in> set (db_meshes (sy_db s)). me_id m \<notin> I \<longrightarrow> m \<in> set (db_meshes (sy_db t))) \<and>
     (\<forall>x \<in> set (db_members (sy_db s)). mm_user x \<noteq> u \<and> mm_mesh x \<notin> I \<longrightarrow> x \<in> set (db_members (sy_db t)))"

interpretation outside: step_relation "kept_outside I u"
  by unfold_locales (auto simp: kept_outside_def)

definition kept_rows :: "uuid set \<Rightarrow> uuid \<Rightarrow> db \<Rightarrow> db \<Rightarrow> bool" where
  "kept_rows I u d d' \<longleftrightarrow>
     (\<forall>m \<in> set (db_meshes d). me_id m \<notin> I \<longrightarrow> m \<in> set (db_meshes d')) \<and>
     (\<forall>x \<in> set (db_members d). mm_user x \<noteq> u \<and> mm_mesh x \<notin> I \<longrightarrow> x \<in> set (db_members d'))"

lemma kept_db_op: "(\<And>d. kept_rows I u d (snd (q d))) \<Longrightarrow> state_io_rel (kept_outside I u) (db_op q)"
  by (auto simp: state_io_rel_def kept_outside_def kept_rows_def split: prod.split) (metis snd_conv)+

lemma kept_db_call:
  assumes "\<And>d. kept_rows I u d (snd (q d))"
  shows "kept_rows I u d (snd (db_call q d))"
proof (cases rule: db_call_cases [of d q])
  case (down bs)
  then show ?thesis by (simp add: kept_rows_def)
next
  case (runs bs)
  then show ?thesis using assms [of "d\<lparr>db_faults := bs\<rparr>"] by (simp add: kept_rows_def)
qed

lemma kept_calls:
  "state_io_rel (kept_outside I u) (db_op (mesh_list_by_user i))"
  "state_io_rel (kept_outside I u) (db_op (mesh_list_members i))"
  "state_io_rel (kept_outside I u) (db_op (mesh_by_id i))"
  "state_io_rel (kept_outside I u) (db_op (mesh_member i j))"
  "state_io_rel (kept_outside I u) (db_op (peer_by_id i))"
  "state_io_rel (kept_outside I u) (db_op (mesh_remove_member i u))"
  "state_io_rel (kept_outside I u) (db_op (audit_log sha v act metadata ip))"
  unfolding mesh_list_by_user_def mesh_list_members_def mesh_by_id_def mesh_member_def peer_by_id_def mesh_remove_member_def
    audit_log_def
  by (rule kept_db_op, rule kept_db_call, force simp: kept_rows_def Let_def split: option.split)+

lemma kept_delete: "i \<in> I \<Longrightarrow> state_io_rel (kept_outside I u) (db_op (mesh_delete i))"
  unfolding mesh_delete_def
  by (rule kept_db_op, rule kept_db_call) (auto simp: kept_rows_def drop_meshes_def)

lemma kept_world: "state_io_rel (kept_outside I u) (world_op f)" "state_io_rel (kept_outside I u) (emit env e)"
  by (auto simp: state_io_rel_def kept_outside_def split: prod.split)

lemmas kept_intros = outside.io_return outside.io_bind outside.io_traverse kept_calls kept_world

lemma kept_parts:
  "state_io_rel (kept_outside I u) (unroute_member env mm)"
  "state_io_rel (kept_outside I u) (member_user_ids i)"
  "state_io_rel (kept_outside I u) (audit_entry env v act metadata ip)"
  "state_io_rel (kept_outside I u) (broadcast_mesh_list_changed env)"
  unfolding unroute_member_def member_user_ids_def audit_entry_def broadcast_mesh_list_changed_def
  by (auto intro!: kept_intros split: sum.split option.split)

lemma kept_unroute_members: "state_io_rel (kept_outside I u) (unroute_members env i)"
  unfolding unroute_members_def by (auto intro!: kept_intros kept_parts split: sum.split option.split)

text \<open>The meshes of a user.\<close>

definition owned :: "uuid \<Rightarrow> db \<Rightarrow> uuid set" where
  "owned u d = me_id ` {m \<in> set (db_meshes d). me_owner m = u}"

lemma scan_mesh_keys [simp]: "me_id (scan_mesh d m) = me_id m" "me_owner (scan_mesh d m) = me_owner m"
    "me_session (scan_mesh d m) = me_session m"
  by (simp_all add: scan_mesh_def normalize_public_mesh_name_def Let_def)

lemma listed_owned:
  assumes "mesh_list_by_user i d = (Inr ms, d1)" and "m \<in> set ms" and "me_owner m = u"
  shows "me_id m \<in> owned u d"
proof -
  obtain n d2 where "n \<in> set (db_meshes d)" "m = scan_mesh d2 n"
    using db_call_Inr [OF assms(1) [unfolded mesh_list_by_user_def]] assms(2) by (auto simp: newest_first_def)
  then show ?thesis using assms(3) by (force simp: owned_def)
qed

lemma found_owned:
  assumes "mesh_by_id i d = (Inr m, d1)" and "me_owner m = u"
  shows "i \<in> owned u d"
proof -
  obtain bs n where "find (\<lambda>m. me_id m = i) (db_meshes d) = Some n" "m = scan_mesh (d\<lparr>db_faults := bs\<rparr>) n"
    using db_call_Inr [OF assms(1) [unfolded mesh_by_id_def]] by (auto simp: one_row_def split: option.splits)
  then show ?thesis using assms(2) by (auto simp: owned_def dest: find_SomeD)
qed

lemma kept_after:
  assumes "state_io_rel (kept_outside I u) m" shows "kept_outside I u s (snd (run_state m s))"
  using assms by (metis state_io_rel_def surj_pair)

lemma kept_own:
  "us_id v = u \<Longrightarrow> i \<in> I \<Longrightarrow> state_io_rel (kept_outside I u) (delete_own_mesh env v i ip)"
  "us_id v = u \<Longrightarrow> state_io_rel (kept_outside I u) (leave_as_member env v i ip)"
  "us_id v = u \<Longrightarrow> (me_owner m = u \<Longrightarrow> me_id m \<in> I) \<Longrightarrow> state_io_rel (kept_outside I u) (delete_session env v m)"
  "us_id v = u \<Longrightarrow> (me_owner m = u \<Longrightarrow> me_id m \<in> I) \<Longrightarrow> state_io_rel (kept_outside I u) (quit_mesh env v m)"
  unfolding delete_own_mesh_def leave_as_member_def delete_session_def quit_mesh_def
  by (auto intro!: kept_intros kept_parts kept_unroute_members kept_delete split: sum.split)

lemma kept_then:
  fixes s :: "'w sys" and m :: "('w, 'r) op"
  assumes "state_io_rel (kept_outside I u) (db_op q :: ('w, 'q) op)" and "q (sy_db s) = (r, d)" and "state_io_rel (kept_outside I u) m"
  shows "kept_outside I u s (snd (run_state m (s\<lparr>sy_db := d\<rparr>)))"
  using kept_after [OF assms(1), of s] kept_after [OF assms(3), of "s\<lparr>sy_db := d\<rparr>"] assms(2)
  by (auto intro: outside.R_trans)

lemma leave_mesh_keeps:
  "kept_outside (owned (us_id v) (sy_db s)) (us_id v) s (snd (run_state (leave_mesh env v (Some i) ip) s))"
proof -
  obtain r d where r: "mesh_by_id i (sy_db s) = (r, d)" by (meson surj_pair)
  note after = kept_then [OF kept_calls(3) r]
  show ?thesis
  proof (cases r)
    case (Inl e)
    then show ?thesis using after [OF outside.io_return] by (simp add: leave_mesh_def r)
  next
    case (Inr m)
    then have "me_owner m = us_id v \<Longrightarrow> i \<in> owned (us_id v) (sy_db s)" using found_owned r by blast
    then show ?thesis using after [OF kept_own(1)] after [OF kept_own(2)] Inr by (simp add: leave_mesh_def r)
  qed
qed

lemma kept_sessions:
  assumes "\<And>m. m \<in> set ms \<Longrightarrow> me_owner m = us_id v \<Longrightarrow> me_id m \<in> I"
  shows "state_io_rel (kept_outside I (us_id v)) (State_Monad.traverse_list (delete_session env v) ms)"
    "state_io_rel (kept_outside I (us_id v)) (State_Monad.traverse_list (quit_mesh env v) ms)"
  using assms by (auto intro!: outside.io_traverse kept_own(3,4))

lemma delete_all_keeps:
  "kept_outside (owned (us_id v) (sy_db s)) (us_id v) s (snd (run_state (delete_auto_mesh env v ip) s))"
  "kept_outside (owned (us_id v) (sy_db s)) (us_id v) s (snd (run_state (deactivate_node env v ip) s))"
proof -
  let ?I = "owned (us_id v) (sy_db s)"
  obtain r d where r: "mesh_list_by_user (us_id v) (sy_db s) = (r, d)" by (meson surj_pair)
  note after = kept_then [OF kept_calls(1) r]
  have own: "me_id m \<in> ?I" if "r = Inr ms" "m \<in> set ms" "me_owner m = us_id v" for ms m
    using listed_owned r that by blast
  have "state_io_rel (kept_outside ?I (us_id v)) (case r of Inl e \<Rightarrow> answer (JsonError ''failed to list meshes'' 500)
     | Inr ms \<Rightarrow> do {
              ns \<leftarrow> State_Monad.traverse_list (delete_session env v) ms;
              _ \<leftarrow> audit_entry env (us_id v) ''mesh.auto.delete'' [(''deleted'', MetaInt (int (sum_list ns)))] ip;
              _ \<leftarrow> (if 0 < sum_list ns then broadcast_mesh_list_changed env else answer ());
              answer (JsonOK (DeletedCount (sum_list ns)) 200) })"
    by (auto intro!: kept_intros kept_sessions kept_parts own split: sum.split)
  from after [OF this] show "kept_outside ?I (us_id v) s (snd (run_state (delete_auto_mesh env v ip) s))"
    by (simp add: delete_auto_mesh_def r)
  have "state_io_rel (kept_outside ?I (us_id v)) (case r of Inl e \<Rightarrow> answer (JsonError ''failed to list meshes'' 500)
     | Inr ms \<Rightarrow> do {
              _ \<leftarrow> State_Monad.traverse_list (quit_mesh env v) ms;
              _ \<leftarrow> audit_entry env (us_id v) ''mesh.node.deactivate'' [] ip;
              _ \<leftarrow> broadcast_mesh_list_changed env;
              answer (JsonOK (NodeData inactive_node) 200) })"
    by (auto intro!: kept_intros kept_sessions kept_parts own split: sum.split)
  from after [OF this] show "kept_outside ?I (us_id v) s (snd (run_state (deactivate_node env v ip) s))"
    by (simp add: deactivate_node_def r)
qed

text \<open>C23: leaving a mesh, deleting one's session meshes and deactivating one's node keep, whatever calls to the
  database fail, every mesh that somebody else owns and every membership of the other users in those meshes.\<close>

theorem leaving_keeps_others:
  assumes "distinct (map me_id (db_meshes (sy_db s)))"
    and "h \<in> {leave_mesh env user (Some i) remote, delete_auto_mesh env user remote, deactivate_node env user remote}"
    and "m \<in> set (db_meshes (sy_db s))" and "me_owner m \<noteq> us_id user"
  shows "m \<in> set (db_meshes (sy_db (snd (run_state h s)))) \<and>
    {x \<in> set (db_members (sy_db s)). mm_mesh x = me_id m \<and> mm_user x \<noteq> us_id user}
      \<subseteq> set (db_members (sy_db (snd (run_state h s))))"
proof -
  have "kept_outside (owned (us_id user) (sy_db s)) (us_id user) s (snd (run_state h s))"
    using assms(2) leave_mesh_keeps delete_all_keeps by auto
  moreover have "me_id m \<notin> owned (us_id user) (sy_db s)"
    using assms(1,3,4) by (auto simp: owned_def distinct_map dest: inj_onD)
  ultimately show ?thesis using assms(3) by (auto simp: kept_outside_def)
qed

definition mesh_sys :: "unit sys" where
  "mesh_sys = demo_sys\<lparr>sy_db := mesh_db\<rparr>"

theorem leaving_keeps_others_witness:
  "demo_mesh \<in> set (db_meshes (sy_db (snd (run_state (leave_mesh demo_env (demo_user\<lparr>us_id := 8\<rparr>) (Some 3) []) mesh_sys))))"
  by (rule leaving_keeps_others [where i = 3 and env = demo_env and remote = "[]" and user = "demo_user\<lparr>us_id := 8\<rparr>",
        THEN conjunct1])
     (simp_all add: mesh_sys_def demo_sys_def mesh_db_def demo_mesh_def)

section \<open>Choosing an exit node\<close>

lemma exit_list_ok: "db_faults d = [] \<Longrightarrow> exit_list u d = (Inr (filter (exit_usable d u) (sort_key mm_ip (db_members d))), d)"
  by (simp add: exit_list_def db_call_ok)

lemma find_map_where_const:
  assumes "f c = k"
  shows "find (\<lambda>x. f x = k) (map_where (\<lambda>x. f x = k) (\<lambda>x. c) xs) = (if list_ex (\<lambda>x. f x = k) xs then Some c else None)"
  using assms by (induction xs) auto

lemma find_append_last: "\<not> list_ex P xs \<Longrightarrow> P y \<Longrightarrow> find P (xs @ [y]) = Some y"
  by (induction xs) auto

lemma exit_set_get:
  assumes "db_faults d = []"
  shows "\<exists>d1. exit_set u ip sch port tcp udp d = (Inr (), d1) \<and>
    exit_get u d1 = (Inr \<lparr>se_user = u, se_ip = ip, se_scheme = sch, se_port = port, se_tcp = tcp, se_udp = udp,
                         se_updated = db_now d\<rparr>, d1)"
  using assms
  by (auto simp: exit_set_def exit_get_def db_call_ok Let_def one_row_def find_append_last
      find_map_where_const [where f = se_user])

text \<open>\<^verbatim>\<open>SetExitNode\<close> answers 200 only when some member of a mesh the user belongs to offers exactly the
  requested address, port and scheme as a usable exit (SOCKS5, TCP and UDP); then that node is what the selection of
  the user reads afterwards. Every other answer leaves the selections as they were.\<close>

lemma set_exit_node_outcome:
  assumes "db_faults (sy_db s) = []" and "run_state (set_exit_node user body) s = (resp, t)"
  shows "if status resp = 200 then
      (\<exists>u req n. user = Some u \<and> body = Some req \<and> n \<in> set (db_members (sy_db s)) \<and> exit_usable (sy_db s) (us_id u) n \<and>
         mm_ip n = xr_ip req \<and> mm_proxy_port n = xr_port req \<and> normalize_proxy_scheme (xr_scheme req) = ''socks5'' \<and>
         (\<exists>sel. exit_get (us_id u) (sy_db t) = (Inr sel, sy_db t) \<and> se_ip sel = mm_ip n \<and> se_port sel = mm_proxy_port n \<and>
            se_scheme sel = ''socks5'' \<and> se_tcp sel \<and> se_udp sel))
    else sy_db t = sy_db s"
proof (cases "status resp \<noteq> 200 \<and> t = s")
  case False
  then obtain u req where ur: "user = Some u" "body = Some req" "\<not> (xr_ip req = [] \<or> xr_port req \<le> 0)"
      and sch: "normalize_proxy_scheme (xr_scheme req) \<noteq> []"
    using assms(2) by (auto simp: set_exit_node_def Let_def split: option.splits if_splits)
  let ?sch = "normalize_proxy_scheme (xr_scheme req)"
  let ?ns = "filter (exit_usable (sy_db s) (us_id u)) (sort_key mm_ip (db_members (sy_db s)))"
  let ?p = "\<lambda>n. mm_ip n = xr_ip req \<and> mm_proxy_port n = xr_port req \<and> mm_proxy_scheme n = ?sch"
  obtain n where n: "find ?p ?ns = Some n"
    using False assms ur sch by (cases "find ?p ?ns") (auto simp: set_exit_node_def Let_def exit_list_ok)
  then have nP: "n \<in> set (db_members (sy_db s))" "exit_usable (sy_db s) (us_id u) n" "?p n"
    by (auto dest: find_SomeD)
  then have s5: "?sch = ''socks5''" "mm_tcp n" "mm_udp n" by (simp_all add: exit_usable_def)
  obtain d1 where set: "exit_set (us_id u) (xr_ip req) ?sch (xr_port req) (mm_tcp n) (mm_udp n) (sy_db s) = (Inr (), d1)"
    and get: "exit_get (us_id u) d1 = (Inr \<lparr>se_user = us_id u, se_ip = xr_ip req, se_scheme = ?sch, se_port = xr_port req,
                se_tcp = mm_tcp n, se_udp = mm_udp n, se_updated = db_now (sy_db s)\<rparr>, d1)"
    using exit_set_get [OF assms(1)] by blast
  have "resp = JsonOK (StatusData ''ok'') 200" "sy_db t = d1"
    using assms ur sch n set by (auto simp: set_exit_node_def Let_def exit_list_ok)
  then show ?thesis using ur nP s5 get by auto
qed auto

definition exit_db :: db where
  "exit_db = mesh_db\<lparr>db_members :=
     [\<lparr>mm_id = 5, mm_mesh = 3, mm_user = 7, mm_peer = None, mm_ip = ''10.200.1.2'', mm_name = [], mm_joined = 0,
       mm_exit = True, mm_proxy_port = 1080, mm_proxy_scheme = ''socks5'', mm_tcp = True, mm_udp = True\<rparr>]\<rparr>"

definition exit_choice :: exit_request where
  "exit_choice = \<lparr>xr_mesh = 3, xr_ip = ''10.200.1.2'', xr_scheme = ''socks5'', xr_port = 1080, xr_tcp = True, xr_udp = True\<rparr>"

section \<open>Provisioning after a failed listing\<close>

lemma next_mesh_ip_reads: "db_faults d = [] \<Longrightarrow> snd (next_mesh_ip mesh s d) = d"
  by (simp add: next_mesh_ip_def db_call_ok split: option.split prod.split)

lemma insert_member_again:
  "db_faults d = [] \<Longrightarrow> list_ex (\<lambda>x. mm_mesh x = mesh \<and> mm_user x = user) (db_members d) \<Longrightarrow>
    insert_member mesh user peer ip d = (Inl UniqueViolation, d)"
  by (auto simp: insert_member_def db_call_ok list_ex_iff)

lemma add_member_again:
  assumes "db_faults d = []" and "list_ex (\<lambda>x. mm_mesh x = mesh \<and> mm_user x = user) (db_members d)"
  shows "\<exists>e. mesh_add_member mesh user peer d = (Inl e, d)"
proof -
  have u: "d\<lparr>db_faults := []\<rparr> = d" using assms(1) by simp
  obtain s where l: "lock_mesh mesh d = (s, d)" by (simp add: lock_mesh_def db_call_ok assms(1))
  show ?thesis
  proof (cases s)
    case (Inl e)
    then show ?thesis using assms(1) l u
      by (auto simp: mesh_add_member_def then_query_def of_db_def nothing_def db_call_ok)
  next
    case (Inr n)
    obtain ip where "next_mesh_ip mesh n d = (ip, d)" using next_mesh_ip_reads [OF assms(1)] by (metis surj_pair snd_conv)
    then show ?thesis using assms(1) l u Inr insert_member_again [OF assms]
      by (cases ip) (auto simp: mesh_add_member_def then_query_def of_db_def nothing_def db_call_ok)
  qed
qed

lemma next_subnet_ok:
  assumes "db_faults d = []" and "\<exists>i\<in>{1..254}. subnet_candidate i \<notin> me_subnet ` set (db_meshes d)"
  shows "\<exists>x. next_available_subnet d = (Inr x, d)"
proof -
  obtain i where "first_from 1 254 (\<lambda>i. subnet_candidate i \<notin> set (map me_subnet (db_meshes d))) = Some i"
    using assms(2) by (cases "first_from 1 254 (\<lambda>i. subnet_candidate i \<notin> set (map me_subnet (db_meshes d)))")
      (auto simp: first_from_None)
  then show ?thesis using assms(1) by (auto simp: next_available_subnet_def db_call_ok)
qed

lemma create_session_again:
  assumes "db_faults d = []" and "length (me_country m0) \<le> 2"
    and "find (\<lambda>m. me_owner m = me_owner m0 \<and> me_session m) (db_meshes d) = Some m"
  shows "mesh_create_session (Some invite) m0 d = (Inr (scan_mesh d m), d)"
proof -
  have "list_ex (\<lambda>x. me_session x \<and> me_owner x = me_owner m0) (db_meshes d)"
    using assms(3) by (auto simp: list_ex_iff dest: find_SomeD)
  then show ?thesis using assms
    by (simp add: mesh_create_session_def mesh_create_def insert_mesh_def db_call_ok of_db_def mesh_session_by_owner_def
        one_row_def)
qed

text \<open>C39: one failed call is enough to lose a session mesh. When \<^verbatim>\<open>ListByUser\<close> fails, activation goes on to create
  a mesh; the unique index makes \<^verbatim>\<open>CreateSession\<close> return the mesh the user already has, \<^verbatim>\<open>AddMember\<close> refuses
  the existing member, and the rollback of the "new" mesh deletes the old one with all its memberships.\<close>

theorem failed_listing_deletes_mesh:
  assumes "db_faults (sy_db s) = [True]"
    and "find (\<lambda>m. me_owner m = us_id u \<and> me_session m) (db_meshes (sy_db s)) = Some m"
    and "list_ex (\<lambda>x. mm_mesh x = me_id m \<and> mm_user x = us_id u) (db_members (sy_db s))"
    and "parse_ip (mesh_real_ip h) = Some a" and "\<not> is_loopback a" and "\<not> is_private a"
    and "sy_countries s (mesh_real_ip h) = Some (cc, expires)" and "db_now (sy_db s) < expires" and "length cc = 2"
    and "\<exists>i\<in>{1..254}. subnet_candidate i \<notin> me_subnet ` set (db_meshes (sy_db s))"
  shows "\<exists>t. run_state (activate_node env (Some invite) h u) s = (JsonError ''failed to initialize mesh'' 422, t) \<and>
    db_meshes (sy_db t) = filter (\<lambda>x. me_id x \<noteq> me_id m) (db_meshes (sy_db s)) \<and>
    db_members (sy_db t) = filter (\<lambda>x. mm_mesh x \<noteq> me_id m) (db_members (sy_db s))"
proof -
  let ?d = "(sy_db s)\<lparr>db_faults := []\<rparr>" and ?ip = "mesh_real_ip h"
  obtain sub where sub: "next_available_subnet ?d = (Inr sub, ?d)" using next_subnet_ok [of ?d] assms(10) by auto
  have cr: "mesh_create_session (Some invite) (new_session u cc sub ?ip) ?d = (Inr (scan_mesh ?d m), ?d)"
    by (rule create_session_again) (use assms(2,9) in \<open>simp_all add: new_session_def\<close>)
  obtain e where am: "mesh_add_member (me_id m) (us_id u) None ?d = (Inl e, ?d)"
    using add_member_again [of ?d "me_id m" "us_id u" None] assms(3) by auto
  have l: "mesh_list_by_user (us_id u) (sy_db s) = (Inl DbDown, ?d)"
    by (simp add: mesh_list_by_user_def db_call_def assms(1))
  have ct: "run_state (country_from_ip env ?ip) (s\<lparr>sy_db := ?d\<rparr>) = (Some cc, s\<lparr>sy_db := ?d\<rparr>)"
    using assms(4-8) by (simp add: country_from_ip_def cached_country_def)
  have ids: "(\<lambda>x. me_id m) ` {x \<in> set (db_meshes (sy_db s)). me_id x = me_id m} = {me_id m}"
    using assms(2) by (auto dest: find_SomeD)
  show ?thesis
    using sub cr am l ct
    by (simp add: ids activate_node_def ensure_auto_mesh_def create_session_mesh_def mesh_delete_def db_call_ok drop_meshes_def)
qed

definition lost_sys :: "unit sys" where
  "lost_sys = demo_sys\<lparr>sy_db := exit_db\<lparr>db_faults := [True]\<rparr>, sy_countries := [''203.0.113.5'' \<mapsto> (''DE'', db_now exit_db + 1)]\<rparr>"

definition demo_headers :: origin_headers where
  "demo_headers = \<lparr>oh_cf = ''203.0.113.5'', oh_real_ip = [], oh_forwarded = [], oh_remote = ''192.0.2.1:1''\<rparr>"

lemma demo_origin: "mesh_real_ip demo_headers = ''203.0.113.5''"
  by code_simp

theorem failed_listing_deletes_mesh_witness:
  "\<exists>t. run_state (activate_node demo_env (Some ''x'') demo_headers demo_user) lost_sys
       = (JsonError ''failed to initialize mesh'' 422, t) \<and> db_meshes (sy_db lost_sys) = [demo_mesh] \<and> db_meshes (sy_db t) = []"
proof -
  obtain a where a: "parse_ip ''203.0.113.5'' = Some a" "\<not> is_loopback a" "\<not> is_private a"
    by (simp add: net_eval is_loopback_def is_private_def octet_def)
  have sub: "\<exists>i\<in>{1..254}. subnet_candidate i \<notin> me_subnet ` set (db_meshes (sy_db lost_sys))"
  proof (rule bexI [of _ 2])
    have "subnet_candidate 2 \<noteq> ''10.200.1.0/24''" by code_simp
    then show "subnet_candidate 2 \<notin> me_subnet ` set (db_meshes (sy_db lost_sys))"
      by (simp add: lost_sys_def exit_db_def mesh_db_def demo_mesh_def)
  qed simp
  have db: "db_faults (sy_db lost_sys) = [True]" "db_meshes (sy_db lost_sys) = [demo_mesh]"
      "list_ex (\<lambda>x. mm_mesh x = me_id demo_mesh \<and> mm_user x = us_id demo_user) (db_members (sy_db lost_sys))"
    by (simp_all add: lost_sys_def exit_db_def mesh_db_def demo_mesh_def demo_user_def new_user_def)
  from failed_listing_deletes_mesh [OF db(1) _ db(3), of demo_headers a "''DE''" "db_now exit_db + 1" demo_env "''x''"] a sub db(2)
  show ?thesis
    by (auto simp: demo_origin lost_sys_def demo_mesh_def demo_user_def new_user_def exit_db_def mesh_db_def)
qed

section \<open>Countries\<close>

text \<open>What the process remembers is what \<^verbatim>\<open>isValidCountryCode\<close> accepts.\<close>

definition countries_valid :: "'w sys \<Rightarrow> bool" where
  "countries_valid s \<longleftrightarrow> (\<forall>ip c expires. sy_countries s ip = Some (c, expires) \<longrightarrow> valid_mesh_country_code c)"

lemma countries_valid_db [simp]: "countries_valid (s\<lparr>sy_db := d\<rparr>) = countries_valid s"
  by (simp add: countries_valid_def)

lemma countries_valid_world [simp]: "countries_valid (s\<lparr>sy_world := w\<rparr>) = countries_valid s"
  by (simp add: countries_valid_def)

lemma countries_valid_upd [intro]:
  "countries_valid s \<Longrightarrow> valid_mesh_country_code c \<Longrightarrow> countries_valid (s\<lparr>sy_countries := (sy_countries s)(ip \<mapsto> (c, x))\<rparr>)"
  unfolding countries_valid_def by auto

lemma countries_valid_hit: "countries_valid s \<Longrightarrow> sy_countries s ip = Some (c, x) \<Longrightarrow> valid_mesh_country_code c"
  unfolding countries_valid_def by blast

lemma ask_country_valid:
  assumes "run_state (ask_country env ip) s = (r, t)" and "countries_valid s"
  shows "countries_valid t \<and> (\<forall>c. r = Some c \<longrightarrow> valid_mesh_country_code c)"
proof -
  obtain a w where g: "bk_geo (en_backend env) ip (sy_world s) = (a, w)" by (meson surj_pair)
  have "countries_valid (s\<lparr>sy_world := w\<rparr>)" using assms(2) by simp
  then have upd: "countries_valid (s\<lparr>sy_world := w, sy_countries := (sy_countries s)(ip \<mapsto> (c, x))\<rparr>)"
    if "valid_mesh_country_code c" for c x
    using countries_valid_upd [of "s\<lparr>sy_world := w\<rparr>" c ip x] that by simp
  show ?thesis
    using assms upd by (auto simp: ask_country_def cache_country_def Let_def g split: prod.splits option.splits if_splits)
qed



end
