(* ===== verification/ProxyServer.thy ===== *)
theory ProxyServer
  imports OAuthFlow MeshAPI "HOL-Library.Multiset"
begin

text \<open>
  \<^verbatim>\<open>internal/proxy/proxy.go\<close>: the HTTP CONNECT proxy. Name resolution, dialling, the exchange with an upstream
  proxy, \<^verbatim>\<open>uuid.Parse\<close> and hijacking are parameters. A request goes through two stages: \<open>proxy_admit\<close> checks the
  method and the credentials and takes a slot of the user under the mutex, \<open>proxy_establish\<close> checks the
  target and dials; the slot is given back when \<^verbatim>\<open>ServeHTTP\<close> returns, for a tunnel when it is closed. The
  copying of the bytes and the two-hour deadline are left out.
\<close>

section \<open>The server\<close>

record proxy =
  px_cfg :: config
  px_pool :: bool
  px_max :: int

definition new_proxy :: "config \<Rightarrow> proxy" where
  "new_proxy cfg = \<lparr>px_cfg = cfg, px_pool = False, px_max = ProxyMaxConnsPerUser cfg\<rparr>"

definition new_proxy_with_db :: "config \<Rightarrow> proxy" where
  "new_proxy_with_db cfg = (new_proxy cfg)\<lparr>px_pool := True\<rparr>"

text \<open>The open requests of each user; a count that falls to zero is deleted from the map, which reads as zero.\<close>

type_synonym slots_in_use = "string \<Rightarrow> int"

datatype hijack = Hijacked | NotSupported | HijackFailed

record 'w proxy_net =
  pn_lookup :: "string \<Rightarrow> 'w \<Rightarrow> ip list option \<times> 'w"
  pn_dial :: "string \<Rightarrow> 'w \<Rightarrow> bool \<times> 'w"
  pn_exchange :: "string \<Rightarrow> string \<Rightarrow> 'w \<Rightarrow> int option \<times> 'w"
  pn_uuid :: "string \<Rightarrow> uuid option"
  pn_hijack :: "'w \<Rightarrow> hijack"

section \<open>Credentials\<close>

datatype proxy_auth_error =
    MissingHeader | BadFormat | BadEncoding | BadBasic | EmptyBasicToken | UnsupportedScheme string
  | JWEFailed intro_error | MissingSubject | InvalidToken | IssuerMismatch string string

definition bytes_text :: "u8 list \<Rightarrow> string" where
  "bytes_text bs = map (\<lambda>b. char_of (unat b)) bs"

definition proxy_credentials :: "string \<Rightarrow> proxy_auth_error + string" where
  "proxy_credentials header =
     (if header = [] then Inl MissingHeader
      else case cut header (CHR '' '') of
        None \<Rightarrow> Inl BadFormat
      | Some (scheme, rest) \<Rightarrow>
          if equal_fold scheme ''bearer'' then Inr rest
          else if equal_fold scheme ''basic'' then
            (case b64_decode rest of
               None \<Rightarrow> Inl BadEncoding
             | Some bs \<Rightarrow>
                 (case index_byte (bytes_text bs) (CHR '':'') of
                    None \<Rightarrow> Inl BadBasic
                  | Some i \<Rightarrow>
                      let token = drop (i + 1) (bytes_text bs) in
                      if token = [] then Inl EmptyBasicToken else Inr token))
          else Inl (UnsupportedScheme scheme))"

definition authenticate ::
    "'w auth_net \<Rightarrow> config \<Rightarrow> jwt_parser \<Rightarrow> string \<Rightarrow> intro_cache \<times> 'w \<Rightarrow> (proxy_auth_error + string) \<times> intro_cache \<times> 'w" where
  "authenticate an cfg parse header x =
     (case proxy_credentials header of
        Inl e \<Rightarrow> (Inl e, x)
      | Inr token \<Rightarrow>
          if count_byte token (CHR ''.'') = 4 then
            (case introspect_cached an cfg token x of
               (Inl e, x1) \<Rightarrow> (Inl (JWEFailed e), x1)
             | (Inr c, x1) \<Rightarrow> (if ic_sub c = [] then Inl MissingSubject else Inr (ic_sub c), x1))
          else
            ((case parse token of
                None \<Rightarrow> Inl InvalidToken
              | Some t \<Rightarrow>
                  let expected = authentik_token_issuer cfg in
                  if expected \<noteq> [] \<and> trim_right (jt_iss t) ''/'' \<noteq> trim_right expected ''/''
                  then Inl (IssuerMismatch (trim_right (jt_iss t) ''/'') (trim_right expected ''/''))
                  else if jt_sub t = [] then Inl MissingSubject else Inr (jt_sub t)), x))"

section \<open>Slots\<close>

definition acquire_slot :: "int \<Rightarrow> string \<Rightarrow> slots_in_use \<Rightarrow> bool \<times> slots_in_use" where
  "acquire_slot limit sub active =
     (if limit \<le> active sub then (False, active) else (True, active(sub := active sub + 1)))"

definition proxy_release :: "string \<Rightarrow> slots_in_use \<Rightarrow> slots_in_use" where
  "proxy_release sub active = active(sub := (if active sub - 1 \<le> 0 then 0 else active sub - 1))"

section \<open>Targets\<close>

definition mesh_subnet :: "ipnet option" where
  "mesh_subnet = map_option snd (parse_cidr ''10.200.0.0/16'')"

definition is_mesh_ip :: "ip \<Rightarrow> bool" where
  "is_mesh_ip a = (case mesh_subnet of None \<Rightarrow> False | Some n \<Rightarrow> net_contains n a)"

definition forbidden_ip :: "ip \<Rightarrow> bool" where
  "forbidden_ip a \<longleftrightarrow>
     is_loopback a \<or> is_private a \<or> is_link_local_unicast a \<or> is_link_local_multicast a \<or> is_unspecified a \<or>
     (case to4 a of None \<Rightarrow> False | Some w \<Rightarrow> octet 3 w = 127)"

definition is_private_target :: "'w proxy_net \<Rightarrow> string \<Rightarrow> 'w \<Rightarrow> bool \<times> 'w" where
  "is_private_target pn host w =
     (let low = to_lower host in
      if low = ''localhost'' \<or> has_suffix low ''.local'' then (True, w)
      else case pn_lookup pn host w of
        (None, w1) \<Rightarrow> (False, w1)
      | (Some ips, w1) \<Rightarrow> (list_ex (\<lambda>a. \<not> is_mesh_ip a \<and> forbidden_ip a) ips, w1))"

section \<open>Dialling\<close>

text \<open>A connection to the target, or to an upstream proxy that was asked for it.\<close>

datatype route = Direct string | Chained string string

definition dial_via_proxy :: "'w proxy_net \<Rightarrow> string \<Rightarrow> int \<Rightarrow> string \<Rightarrow> 'w \<Rightarrow> route option \<times> 'w" where
  "dial_via_proxy pn host port target w =
     (let upstream = join_host_port host (itoa port) in
      case pn_dial pn upstream w of
        (False, w1) \<Rightarrow> (None, w1)
      | (True, w1) \<Rightarrow>
          (let crlf = [CHR 0x0D, CHR 0x0A] in
           case pn_exchange pn upstream (''CONNECT '' @ target @ '' HTTP/1.1'' @ crlf @ ''Host: '' @ target @ crlf @ crlf) w1 of
             (st, w2) \<Rightarrow> (if st = Some 200 then Some (Chained upstream target) else None, w2)))"

definition dial_direct :: "'w proxy_net \<Rightarrow> string \<Rightarrow> 'w \<Rightarrow> route option \<times> 'w" where
  "dial_direct pn target w = (case pn_dial pn target w of (ok, w1) \<Rightarrow> (if ok then Some (Direct target) else None, w1))"

definition chains_through :: "selection \<Rightarrow> bool" where
  "chains_through sel \<longleftrightarrow> se_ip sel \<noteq> [] \<and> 0 < se_port sel \<and> se_scheme sel = ''http-connect''"

definition dial_target :: "'w proxy_net \<Rightarrow> proxy \<Rightarrow> string \<Rightarrow> string \<Rightarrow> ('w, route option) op" where
  "dial_target pn px sub target =
     (case (if px_pool px then pn_uuid pn sub else None) of
        None \<Rightarrow> world_op (dial_direct pn target)
      | Some user \<Rightarrow> do {
          r \<leftarrow> db_op (exit_get user);
          case r of
            Inr sel \<Rightarrow>
              if chains_through sel then world_op (dial_via_proxy pn (se_ip sel) (se_port sel) target)
              else world_op (dial_direct pn target)
          | Inl e \<Rightarrow> world_op (dial_direct pn target) })"

section \<open>\<^verbatim>\<open>ServeHTTP\<close>\<close>

record proxy_request =
  pq_method :: string
  pq_auth :: string
  pq_target :: string

text \<open>\<open>Aborted\<close>: the connection was hijacked without success and nothing is written.\<close>

datatype proxy_answer = Refused nat string | Tunnel route | Aborted

definition proxy_admit ::
    "'w auth_net \<Rightarrow> proxy \<Rightarrow> jwt_parser \<Rightarrow> proxy_request \<Rightarrow> slots_in_use \<times> intro_cache \<times> 'w sys \<Rightarrow>
     (proxy_answer + string) \<times> slots_in_use \<times> intro_cache \<times> 'w sys" where
  "proxy_admit an px parse req x =
     (case x of (active, c, s) \<Rightarrow>
        if pq_method req \<noteq> ''CONNECT'' then (Inl (Refused 405 ''only CONNECT is supported''), active, c, s)
        else case authenticate an (px_cfg px) parse (pq_auth req) (c, sy_world s) of
          (Inl e, c1, w1) \<Rightarrow> (Inl (Refused 407 ''proxy authentication required''), active, c1, s\<lparr>sy_world := w1\<rparr>)
        | (Inr sub, c1, w1) \<Rightarrow>
            (case acquire_slot (px_max px) sub active of
               (False, active1) \<Rightarrow> (Inl (Refused 429 ''too many concurrent connections''), active1, c1, s\<lparr>sy_world := w1\<rparr>)
             | (True, active1) \<Rightarrow> (Inr sub, active1, c1, s\<lparr>sy_world := w1\<rparr>)))"

definition proxy_establish :: "'w proxy_net \<Rightarrow> proxy \<Rightarrow> string \<Rightarrow> string \<Rightarrow> ('w, proxy_answer) op" where
  "proxy_establish pn px sub target =
     (case split_host_port target of
        None \<Rightarrow> answer (Refused 400 ''invalid target address'')
      | Some (host, port) \<Rightarrow> do {
          private \<leftarrow> world_op (is_private_target pn host);
          if private then answer (Refused 403 ''forbidden target'')
          else do {
            conn \<leftarrow> dial_target pn px sub target;
            case conn of
              None \<Rightarrow> answer (Refused 502 ''failed to connect to target'')
            | Some route \<Rightarrow> do {
                h \<leftarrow> world_op (\<lambda>w. (pn_hijack pn w, w));
                answer (case h of
                    Hijacked \<Rightarrow> Tunnel route
                  | NotSupported \<Rightarrow> Refused 500 ''hijacking not supported''
                  | HijackFailed \<Rightarrow> Aborted) } } })"

text \<open>The answer and the state when it is given; the slot of a tunnel is released when the tunnel is closed.\<close>

definition serve_http ::
    "'w auth_net \<Rightarrow> 'w proxy_net \<Rightarrow> proxy \<Rightarrow> jwt_parser \<Rightarrow> proxy_request \<Rightarrow> slots_in_use \<times> intro_cache \<times> 'w sys \<Rightarrow>
     proxy_answer \<times> slots_in_use \<times> intro_cache \<times> 'w sys" where
  "serve_http an pn px parse req x =
     (case proxy_admit an px parse req x of
        (Inl ans, active, c, s) \<Rightarrow> (ans, active, c, s)
      | (Inr sub, active, c, s) \<Rightarrow>
          (case run_state (proxy_establish pn px sub (pq_target req)) s of
             (Tunnel route, s1) \<Rightarrow> (Tunnel route, active, c, s1)
           | (ans, s1) \<Rightarrow> (ans, proxy_release sub active, c, s1)))"

section \<open>Slots count the open requests\<close>

text \<open>The users holding a slot are a multiset: an admitted request until its \<^verbatim>\<open>ServeHTTP\<close> returns.\<close>

inductive proxy_step :: "'w auth_net \<Rightarrow> 'w proxy_net \<Rightarrow> proxy \<Rightarrow> jwt_parser \<Rightarrow>
    (slots_in_use \<times> intro_cache \<times> 'w sys) \<times> string multiset \<Rightarrow> (slots_in_use \<times> intro_cache \<times> 'w sys) \<times> string multiset \<Rightarrow> bool"
    for an pn px parse where
  admit: "proxy_admit an px parse req x = (Inr sub, y) \<Longrightarrow> proxy_step an pn px parse (x, H) (y, add_mset sub H)"
| refuse: "proxy_admit an px parse req x = (Inl ans, y) \<Longrightarrow> proxy_step an pn px parse (x, H) (y, H)"
| establish: "sub \<in># H \<Longrightarrow> run_state (proxy_establish pn px sub target) s = (ans, s1) \<Longrightarrow>
    proxy_step an pn px parse ((active, c, s), H) ((active, c, s1), H)"
| finish: "sub \<in># H \<Longrightarrow> proxy_step an pn px parse ((active, c, s), H) ((proxy_release sub active, c, s), H - {#sub#})"

definition slots_exact :: "proxy \<Rightarrow> slots_in_use \<Rightarrow> string multiset \<Rightarrow> bool" where
  "slots_exact px active H \<longleftrightarrow> (\<forall>sub. active sub = int (count H sub) \<and> (count H sub = 0 \<or> active sub \<le> px_max px))"

lemma admit_cases:
  assumes "proxy_admit an px parse req (active, c, s) = (r, active', c', s')"
  shows "(\<exists>st msg. r = Inl (Refused st msg) \<and> st \<in> {405, 407, 429} \<and> active' = active) \<or>
    (\<exists>sub. r = Inr sub \<and> pq_method req = ''CONNECT'' \<and> active sub < px_max px \<and> active' = active(sub := active sub + 1))"
  using assms by (auto simp: proxy_admit_def acquire_slot_def split: if_splits prod.splits sum.splits)

lemma slots_exact_release: "slots_exact px active H \<Longrightarrow> sub \<in># H \<Longrightarrow> slots_exact px (proxy_release sub active) (H - {#sub#})"
  by (fastforce simp: slots_exact_def proxy_release_def not_in_iff [symmetric])

lemma slots_exact_step:
  assumes "proxy_step an pn px parse (x, H) (y, H')" and "slots_exact px (fst x) H"
  shows "slots_exact px (fst y) H'"
  using assms(1)
proof cases
  case (admit req sub)
  then show ?thesis using assms(2) admit_cases [of an px parse req "fst x" "fst (snd x)" "snd (snd x)" "Inr sub" "fst y" "fst (snd y)" "snd (snd y)"]
    by (auto simp: slots_exact_def)
next
  case (refuse req ans)
  then show ?thesis using assms(2) admit_cases [of an px parse req "fst x" "fst (snd x)" "snd (snd x)" "Inl ans" "fst y" "fst (snd y)" "snd (snd y)"]
    by auto
next
  case (establish sub target s ans s1 active c)
  then show ?thesis using assms(2) by simp
next
  case (finish sub active c s)
  then show ?thesis using assms(2) by (simp add: slots_exact_release)
qed

lemma slots_exact_run:
  assumes "rtranclp (proxy_step an pn px parse) p q" and "slots_exact px (fst (fst p)) (snd p)"
  shows "slots_exact px (fst (fst q)) (snd q)"
  using assms
proof (induction rule: rtranclp_induct)
  case (step q1 q2)
  then show ?case using slots_exact_step [of an pn px parse "fst q1" "snd q1" "fst q2" "snd q2"] by simp
qed

text \<open>C29: however requests interleave, the count of a user is the number of the user's requests that hold a slot, open
  tunnels included, and never exceeds the limit; so a slot is granted exactly while fewer requests than the limit are open
  and none is ever lost.\<close>

theorem proxy_slots_exact:
  assumes "rtranclp (proxy_step an pn px parse) ((\<lambda>u. 0, c, s), {#}) ((active, c', s'), H)"
  shows "active sub = int (count H sub) \<and> (0 < count H sub \<longrightarrow> int (count H sub) \<le> px_max px) \<and>
         fst (acquire_slot (px_max px) sub active) = (int (count H sub) < px_max px)"
proof -
  have "slots_exact px (\<lambda>u. 0) {#}" by (simp add: slots_exact_def)
  then have "slots_exact px active H" using slots_exact_run [OF assms] by simp
  then have "active sub = int (count H sub)" "count H sub = 0 \<or> active sub \<le> px_max px"
    by (auto simp: slots_exact_def)
  then show ?thesis by (auto simp: acquire_slot_def simp del: count_greater_zero_iff)
qed

section \<open>What a tunnel has passed\<close>

text \<open>The issuer is compared for locally verified tokens only.\<close>

definition proxy_vouched :: "config \<Rightarrow> jwt_parser \<Rightarrow> string \<Rightarrow> time \<Rightarrow> string \<Rightarrow> bool" where
  "proxy_vouched cfg parse token now sub \<longleftrightarrow> sub \<noteq> [] \<and>
     (if is_jwe token then \<exists>c. live now c \<and> ic_sub c = sub
      else \<exists>t. parse token = Some t \<and> jt_sub t = sub \<and>
        (authentik_token_issuer cfg = [] \<or> same_issuer (jt_iss t) (authentik_token_issuer cfg)))"

lemma authenticate_vouched:
  assumes "cache_ok c" and "authenticate an cfg parse header (c, w) = (Inr sub, c1, w1)"
  shows "cache_ok c1 \<and> (\<exists>token. proxy_credentials header = Inr token \<and> proxy_vouched cfg parse token (an_now an w1) sub)"
proof -
  obtain token where t: "proxy_credentials header = Inr token"
    using assms(2) by (auto simp: authenticate_def split: sum.splits)
  show ?thesis
  proof (cases "is_jwe token")
    case True
    obtain r c0 w0 where i: "introspect_cached an cfg token (c, w) = (r, c0, w0)" by (metis prod_cases3)
    then have "\<exists>cl. r = Inr cl \<and> ic_sub cl = sub \<and> sub \<noteq> [] \<and> c0 = c1 \<and> w0 = w1"
      using assms(2) t True by (auto simp: authenticate_def is_jwe_def split: sum.splits if_splits)
    then show ?thesis using cached_live [OF assms(1) i] t True by (auto simp: proxy_vouched_def)
  next
    case False
    then show ?thesis using assms t
      by (auto simp: authenticate_def is_jwe_def proxy_vouched_def same_issuer_def Let_def split: option.splits if_splits)
  qed
qed

definition blocked_name :: "string \<Rightarrow> bool" where
  "blocked_name host \<longleftrightarrow> to_lower host = ''localhost'' \<or> has_suffix (to_lower host) ''.local''"

lemma not_private:
  "is_private_target pn host w = (False, w1) \<Longrightarrow> \<not> blocked_name host \<and>
    (\<exists>found. pn_lookup pn host w = (found, w1) \<and>
       (\<forall>ips a. found = Some ips \<longrightarrow> a \<in> set ips \<longrightarrow> is_mesh_ip a \<or> \<not> forbidden_ip a))"
  by (auto simp: is_private_target_def blocked_name_def Let_def list_ex_iff split: if_splits prod.splits option.splits)

lemma dial_target_route:
  assumes "run_state (dial_target pn px sub target) s = (Some route, t)"
  shows "route = Direct target \<or>
    (\<exists>user sel d. px_pool px \<and> pn_uuid pn sub = Some user \<and> exit_get user (sy_db s) = (Inr sel, d) \<and> chains_through sel \<and>
       route = Chained (join_host_port (se_ip sel) (itoa (se_port sel))) target)"
proof (cases "\<exists>user sel d. px_pool px \<and> pn_uuid pn sub = Some user \<and> exit_get user (sy_db s) = (Inr sel, d) \<and> chains_through sel")
  case True
  then show ?thesis using assms
    by (auto simp: dial_target_def dial_via_proxy_def Let_def split: if_splits prod.splits bool.splits)
next
  case False
  obtain r d where "exit_get (the (pn_uuid pn sub)) (sy_db s) = (r, d)" by (meson surj_pair)
  then show ?thesis using assms False
    by (cases "pn_uuid pn sub"; cases r) (auto simp: dial_target_def dial_direct_def split: if_splits prod.splits)
qed

lemma establish_tunnel:
  assumes "run_state (proxy_establish pn px sub target) s = (Tunnel route, t)"
  obtains host port found w1 where "split_host_port target = Some (host, port)" "\<not> blocked_name host"
    "pn_lookup pn host (sy_world s) = (found, w1)"
    "\<forall>ips a. found = Some ips \<longrightarrow> a \<in> set ips \<longrightarrow> is_mesh_ip a \<or> \<not> forbidden_ip a"
    "\<exists>u. run_state (dial_target pn px sub target) (s\<lparr>sy_world := w1\<rparr>) = (Some route, u)"
proof -
  obtain host port where hp: "split_host_port target = Some (host, port)"
    using assms by (auto simp: proxy_establish_def split: option.splits)
  obtain b w1 where b: "is_private_target pn host (sy_world s) = (b, w1)" by (meson surj_pair)
  have nb: "\<not> b" using assms hp b by (auto simp: proxy_establish_def)
  obtain conn u where d: "run_state (dial_target pn px sub target) (s\<lparr>sy_world := w1\<rparr>) = (conn, u)" by (meson surj_pair)
  have "conn = Some route"
    using assms hp b nb d by (auto simp: proxy_establish_def split: option.splits hijack.splits)
  with d not_private [of pn host "sy_world s" w1] b nb hp that show thesis by auto
qed


section \<open>Exit nodes\<close>

text \<open>C31: a selection made through \<^verbatim>\<open>SetExitNode\<close> never takes effect in the proxy: the handler accepts only SOCKS5 exits,
  the proxy chains only through \<^verbatim>\<open>http-connect\<close> ones, so after an answered selection the proxy dials the
  target itself for that user.\<close>

theorem selected_exit_not_chained:
  assumes "db_faults (sy_db s) = []" and "run_state (set_exit_node (Some u) (Some req)) s = (resp, t)" and "status resp = 200"
    and "pn_uuid pn sub = Some (us_id u)"
  shows "run_state (dial_target pn px sub target) t = run_state (world_op (dial_direct pn target)) t"
proof -
  obtain sel where "exit_get (us_id u) (sy_db t) = (Inr sel, sy_db t)" "se_scheme sel = ''socks5''"
    using set_exit_node_outcome [OF assms(1,2)] assms(3) by (auto split: if_splits)
  then have "(case exit_get (us_id u) (sy_db t) of (r, d) \<Rightarrow> (r, t\<lparr>sy_db := d\<rparr>)) = (Inr sel, t)" "\<not> chains_through sel"
    by (simp_all add: chains_through_def)
  then show ?thesis using assms(4) by (simp add: dial_target_def split: option.split)
qed

text \<open>A proxy with one slot per user, a name that resolves to a public address, and a token of the issuer.\<close>

definition demo_proxy :: proxy where
  "demo_proxy = \<lparr>px_cfg = demo_issuer, px_pool = True, px_max = 1\<rparr>"

definition demo_proxy_net :: "unit proxy_net" where
  "demo_proxy_net = \<lparr>pn_lookup = (\<lambda>h w. (Some [IP4 0x08080808], w)), pn_dial = (\<lambda>a w. (True, w)),
     pn_exchange = (\<lambda>a r w. (Some 200, w)), pn_uuid = (\<lambda>s. if s = ''uid'' then Some 7 else None), pn_hijack = (\<lambda>w. Hijacked)\<rparr>"

definition demo_proxy_request :: proxy_request where
  "demo_proxy_request = \<lparr>pq_method = ''CONNECT'', pq_auth = ''Bearer abc'', pq_target = ''a.org:443''\<rparr>"

lemma demo_admit:
  "proxy_admit demo_auth demo_proxy (\<lambda>s. Some demo_token) demo_proxy_request ((\<lambda>u. 0), [], s) =
     (Inr ''uid'', (\<lambda>u. 0)(''uid'' := 1), [], s)"
proof -
  have "proxy_credentials ''Bearer abc'' = Inr ''abc''" "count_byte ''abc'' (CHR ''.'') = 0" by code_simp+
  then show ?thesis
    by (simp add: proxy_admit_def demo_proxy_request_def authenticate_def demo_token_def demo_proxy_def acquire_slot_def Let_def)
qed

theorem proxy_slots_exact_witness:
  "fst (acquire_slot (px_max demo_proxy) ''uid'' ((\<lambda>u. 0)(''uid'' := 1))) = False"
proof -
  have "proxy_step demo_auth demo_proxy_net demo_proxy (\<lambda>s. Some demo_token)
      (((\<lambda>u. 0), [], demo_sys), {#}) (((\<lambda>u. 0)(''uid'' := 1), [], demo_sys), add_mset ''uid'' {#})"
    by (rule proxy_step.admit [OF demo_admit])
  from proxy_slots_exact [OF r_into_rtranclp [of "proxy_step demo_auth demo_proxy_net demo_proxy (\<lambda>s. Some demo_token)", OF this]]
  show ?thesis by (simp add: demo_proxy_def)
qed


theorem selected_exit_not_chained_witness:
  "\<exists>t. run_state (set_exit_node (Some demo_user) (Some exit_choice)) (demo_sys\<lparr>sy_db := exit_db\<rparr>) = (JsonOK (StatusData ''ok'') 200, t) \<and>
     run_state (dial_target demo_proxy_net demo_proxy ''uid'' ''a.org:443'') t =
     run_state (world_op (dial_direct demo_proxy_net ''a.org:443'')) t"
proof -
  let ?s = "demo_sys\<lparr>sy_db := exit_db\<rparr>"
  obtain resp t where r: "run_state (set_exit_node (Some demo_user) (Some exit_choice)) ?s = (resp, t)"
    by (meson surj_pair)
  have f: "db_faults (sy_db ?s) = []" by (simp add: exit_db_def mesh_db_def demo_db_def)
  have sch: "normalize_proxy_scheme ''socks5'' = ''socks5''" by code_simp
  have e: "exit_list 7 exit_db = (Inr (db_members exit_db), exit_db)"
    by (simp add: exit_list_def db_call_ok exit_db_def mesh_db_def demo_db_def exit_usable_def)
  have "resp = JsonOK (StatusData ''ok'') 200"
    using r by (simp add: set_exit_node_def exit_choice_def sch Let_def e demo_user_def new_user_def)
      (auto simp: exit_db_def exit_set_def db_call_ok mesh_db_def demo_db_def)
  moreover have "pn_uuid demo_proxy_net ''uid'' = Some (us_id demo_user)"
    by (simp add: demo_proxy_net_def demo_user_def new_user_def)
  ultimately show ?thesis using selected_exit_not_chained [OF f r] r by auto
qed

end
