(* ===== verification/Routes.thy ===== *)
theory Routes
  imports OAuthFlow MeshAPI
begin

text \<open>
  \<^verbatim>\<open>internal/api/router.go\<close>: the CORS middleware, the background-job switch and the control-plane part of
  the route table with its middleware chains, which puts the handlers of the other theories together. A
  constructor of an endpoint type is a line of the table, with the path parameter and the decoded body as
  its arguments; matching paths is chi's. The world of the handlers has the connect limiter of
  \<^verbatim>\<open>NewHandlerWithMesh\<close> in front. The core API has its own routing in \<open>CoreAPI\<close>, the WebSocket endpoint in \<open>WSHub\<close>.
\<close>

section \<open>CORS\<close>

definition parse_allowed_origins :: "string \<Rightarrow> string list" where
  "parse_allowed_origins raw = filter (\<lambda>p. p \<noteq> []) (map trim_space (split_on (CHR '','') raw))"

text \<open>\<^verbatim>\<open>strings.Replace(pattern, "*", "_wc_", 1)\<close>.\<close>

definition mark_wildcard :: "string \<Rightarrow> string" where
  "mark_wildcard p = takeWhile (\<lambda>c. c \<noteq> CHR ''*'') p @
     (if CHR ''*'' \<in> set p then ''_wc_'' @ tl (dropWhile (\<lambda>c. c \<noteq> CHR ''*'') p) else [])"

definition cors_pattern_matches :: "string \<Rightarrow> url \<Rightarrow> string \<Rightarrow> bool" where
  "cors_pattern_matches origin u pattern =
     (if pattern = origin then True
      else if CHR ''*'' \<notin> set pattern then False
      else case url_parse (mark_wildcard pattern) of
        None \<Rightarrow> False
      | Some v \<Rightarrow>
          if url_host v = [] \<or> url_scheme v = [] then False
          else if url_scheme u \<noteq> url_scheme v then False
          else let base = trim_prefix (hostname v) ''_wc_'' in
            has_prefix base ''.'' \<and> has_suffix (hostname u) base \<and> length base < length (hostname u))"

definition is_origin_allowed :: "string \<Rightarrow> string list \<Rightarrow> bool" where
  "is_origin_allowed origin allowed =
     (if has_prefix origin ''moz-extension://'' \<or> has_prefix origin ''chrome-extension://'' then True
      else case url_parse origin of
        None \<Rightarrow> False
      | Some u \<Rightarrow>
          if url_host u = [] \<or> url_scheme u = [] then False
          else list_ex (cors_pattern_matches origin u) allowed)"

definition cors_headers :: "config \<Rightarrow> string \<Rightarrow> (string \<times> string) list" where
  "cors_headers cfg origin =
     (''Vary'', ''Origin'') #
     (if origin \<noteq> [] \<and> is_origin_allowed origin (parse_allowed_origins (CORSAllowedOrigins cfg)) then
        [(''Access-Control-Allow-Origin'', origin), (''Access-Control-Allow-Credentials'', ''true''),
         (''Access-Control-Allow-Headers'', ''Content-Type, Authorization, X-Core-Token''),
         (''Access-Control-Allow-Methods'', ''GET, POST, PUT, DELETE, OPTIONS'')]
      else [])"

text \<open>A preflight request is answered 204 before anything else; \<open>preflight\<close> is that answer.\<close>

definition cors_middleware ::
    "'r \<Rightarrow> config \<Rightarrow> string \<Rightarrow> string \<Rightarrow> ('s \<Rightarrow> 'r \<times> 's) \<Rightarrow> 's \<Rightarrow> ('r \<times> (string \<times> string) list) \<times> 's" where
  "cors_middleware preflight cfg method origin next s =
     (if method = ''OPTIONS'' then ((preflight, cors_headers cfg origin), s)
      else case next s of (r, s1) \<Rightarrow> ((r, cors_headers cfg origin), s1))"

section \<open>The switch of the background jobs\<close>

text \<open>The stored cancel function is the number of the jobs it cancels; the answer lists those cancelled.\<close>

definition set_job_cancel :: "nat \<Rightarrow> nat option \<Rightarrow> nat list \<times> nat option" where
  "set_job_cancel cancel old = ((case old of None \<Rightarrow> [] | Some j \<Rightarrow> [j]), Some cancel)"

definition cancel_jobs :: "nat option \<Rightarrow> nat list \<times> nat option" where
  "cancel_jobs old = ((case old of None \<Rightarrow> [] | Some j \<Rightarrow> [j]), None)"

section \<open>Endpoints\<close>

datatype user_endpoint =
    GetMe
  | PostUserKeypair "string + key"
  | GetServers
  | GetServersPing
  | PostConnection "connect_request option"
  | GetConnections
  | EndConnection "uuid option"
  | EraseConnection "uuid option"
  | GetConnectionConfig "uuid option"
  | GetConnectionQR "uuid option"
  | GetAuditLogs
  | PostMesh
  | GetMeshes
  | PostMeshJoin
  | PostMeshAuto "string option"
  | DropMeshAuto
  | GetNode
  | PostNode "string option"
  | DropNode
  | GetExitNodes
  | PostExitNode "exit_request option"
  | DropExitNode "exit_request option"
  | PutExitChoice "exit_request option"
  | DropExitChoice
  | GetMesh "uuid option"
  | DropMesh "uuid option"
  | PostMeshInvite

datatype admin_endpoint =
    GetDashboard
  | GetUsers string string
  | PostUser "user_request option"
  | GetUser "uuid option"
  | PutUser "uuid option" "user_request option"
  | DropUser "uuid option"
  | PostBan "uuid option" "string option"
  | DropBan "uuid option"
  | GetAllServers
  | GetAllServersPing
  | PostServer "server_request option"
  | PutServer "uuid option" "server_request option"
  | DropServer "uuid option"
  | GetAllPeers string string
  | DropPeer "uuid option"
  | GetAllMeshes "uuid \<Rightarrow> bool"
  | GetAllAudit string string string

datatype api_request =
    PostCallback "callback_request option"
  | PostRefresh "string option" "string option"
  | PostLogout "logout_request option"
  | GetAuthConfig
  | UserRoute user_endpoint
  | AdminRoute admin_endpoint

text \<open>What the router and its handlers are made of.\<close>

record ('b, 'v) api =
  ai_env :: "('b user_limiter \<times> 'v) env"
  ai_auth :: "('b user_limiter \<times> 'v) auth_net"
  ai_oauth :: "('b user_limiter \<times> 'v) oauth_net"
  ai_parse :: jwt_parser
  ai_rate :: "'b rate_ops"
  ai_uuid :: "uuid \<Rightarrow> string"
  ai_qr :: "string \<Rightarrow> string option"
  ai_x25519 :: "key \<Rightarrow> key \<Rightarrow> string + key"
  ai_error :: "admin_error \<Rightarrow> string"

record http_headers =
  hh_method :: string
  hh_browser :: browser_headers
  hh_auth :: string
  hh_client :: client_headers
  hh_origin :: origin_headers

abbreviation remote_of :: "http_headers \<Rightarrow> string" where
  "remote_of h \<equiv> ch_remote (hh_client h)"

text \<open>\<^verbatim>\<open>Connect\<close> asks the limiter of the handler, if there is one, with the user's id as the key.\<close>

definition connect_limited :: "('b, 'v) api \<Rightarrow> time \<Rightarrow> user \<Rightarrow> ('b user_limiter \<times> 'v, bool) op" where
  "connect_limited ai now u =
     (if 0 < ConnectRateLimitRPS (en_cfg (ai_env ai))
      then world_op (\<lambda>(l, v). case user_allow (ai_rate ai) now (ai_uuid ai (us_id u)) l of (ok, l1) \<Rightarrow> (\<not> ok, (l1, v)))
      else answer False)"

definition user_handler ::
    "('b, 'v) api \<Rightarrow> time \<Rightarrow> http_headers \<Rightarrow> user \<Rightarrow> user_endpoint \<Rightarrow> ('b user_limiter \<times> 'v, ctl_data response) op" where
  "user_handler ai now h u ep =
     (let env = ai_env ai; remote = remote_of h in
      case ep of
        GetMe \<Rightarrow> answer (me (Some u))
      | PostUserKeypair rnd \<Rightarrow> answer (user_keypair (ai_x25519 ai) rnd)
      | GetServers \<Rightarrow> list_servers
      | GetServersPing \<Rightarrow> ping_servers env
      | PostConnection body \<Rightarrow> do { limited \<leftarrow> connect_limited ai now u; connect env limited u body remote }
      | GetConnections \<Rightarrow> list_my_connections u
      | EndConnection i \<Rightarrow> disconnect env u i remote
      | EraseConnection i \<Rightarrow> delete_connection env u i remote
      | GetConnectionConfig i \<Rightarrow> export_config env u i
      | GetConnectionQR i \<Rightarrow> export_qr env (ai_qr ai) u i
      | GetAuditLogs \<Rightarrow> my_audit_logs u
      | PostMesh \<Rightarrow> answer create_mesh
      | GetMeshes \<Rightarrow> list_my_meshes
      | PostMeshJoin \<Rightarrow> answer join_mesh
      | PostMeshAuto rnd \<Rightarrow> auto_mesh env rnd (hh_origin h) u
      | DropMeshAuto \<Rightarrow> delete_auto_mesh env u remote
      | GetNode \<Rightarrow> node_status u
      | PostNode rnd \<Rightarrow> activate_node env rnd (hh_origin h) u
      | DropNode \<Rightarrow> deactivate_node env u remote
      | GetExitNodes \<Rightarrow> list_exit_nodes (Some u)
      | PostExitNode body \<Rightarrow> register_exit_node (Some u) body
      | DropExitNode body \<Rightarrow> deregister_exit_node (Some u) body
      | PutExitChoice body \<Rightarrow> set_exit_node (Some u) body
      | DropExitChoice \<Rightarrow> clear_exit_node (Some u)
      | GetMesh i \<Rightarrow> get_mesh i
      | DropMesh i \<Rightarrow> leave_mesh env u i remote
      | PostMeshInvite \<Rightarrow> answer regenerate_invite)"

definition admin_handler ::
    "('b, 'v) api \<Rightarrow> http_headers \<Rightarrow> user \<Rightarrow> admin_endpoint \<Rightarrow> ('b user_limiter \<times> 'v, ctl_data response) op" where
  "admin_handler ai h u ep =
     (let env = ai_env ai; remote = remote_of h in
      case ep of
        GetDashboard \<Rightarrow> admin_dashboard_stats
      | GetUsers limit offset \<Rightarrow> admin_list_users limit offset
      | PostUser body \<Rightarrow> admin_create_user env u body remote
      | GetUser i \<Rightarrow> admin_get_user i
      | PutUser i body \<Rightarrow> admin_update_user env u i body remote
      | DropUser i \<Rightarrow> admin_delete_user env u i remote
      | PostBan i reason \<Rightarrow> admin_ban_user env u i reason remote
      | DropBan i \<Rightarrow> admin_unban_user env u i remote
      | GetAllServers \<Rightarrow> admin_list_servers
      | GetAllServersPing \<Rightarrow> admin_ping_servers env
      | PostServer body \<Rightarrow> admin_create_server env (ai_error ai) u body remote
      | PutServer i body \<Rightarrow> admin_update_server env (ai_error ai) u i body remote
      | DropServer i \<Rightarrow> admin_delete_server env u i remote
      | GetAllPeers limit offset \<Rightarrow> admin_list_peers limit offset
      | DropPeer i \<Rightarrow> admin_force_disconnect_peer env u i remote
      | GetAllMeshes lost \<Rightarrow> admin_list_meshes lost
      | GetAllAudit limit offset action \<Rightarrow> admin_list_audit_logs limit offset action)"

section \<open>The middleware chains\<close>

datatype api_reply = NoContent | Control "ctl_data response" | SignIn oauth_reply

fun reply_status :: "api_reply \<Rightarrow> int" where
  "reply_status NoContent = 204"
| "reply_status (Control r) = int (status r)"
| "reply_status (SignIn (Reply r)) = int (status r)"
| "reply_status (SignIn (RetryLater r after)) = int (status r)"
| "reply_status (SignIn (PassedOn st body)) = st"

record ('b, 'v) api_state =
  as_ip :: "'b ip_limiter"
  as_refresh :: "'b refresh_limiter"
  as_cache :: intro_cache
  as_sys :: "('b user_limiter \<times> 'v) sys"

definition new_api_state :: "config \<Rightarrow> ('b user_limiter \<times> 'v) sys \<Rightarrow> ('b, 'v) api_state" where
  "new_api_state cfg s =
     \<lparr>as_ip = new_ip_limiter (rat_of_int (RateLimitRPS cfg)) (RateLimitBurst cfg), as_refresh = new_refresh_limiter (1 / 30) 10,
      as_cache = [], as_sys = s\<rparr>"

definition signed_in ::
    "('b, 'v) api \<Rightarrow> http_headers \<Rightarrow> (user \<Rightarrow> ('b user_limiter \<times> 'v, ctl_data response) op) \<Rightarrow>
     intro_cache \<times> ('b user_limiter \<times> 'v) sys \<Rightarrow> api_reply \<times> intro_cache \<times> ('b user_limiter \<times> 'v) sys" where
  "signed_in ai h next x =
     (case jwt_middleware (ai_auth ai) (en_cfg (ai_env ai)) (ai_parse ai) (hh_auth h) next x of (r, y) \<Rightarrow> (Control r, y))"

text \<open>The handlers behind the limits; the refresh limiter and the handler decode the body each for itself.\<close>

definition route_request ::
    "('b, 'v) api \<Rightarrow> time \<Rightarrow> http_headers \<Rightarrow> api_request \<Rightarrow> ('b, 'v) api_state \<Rightarrow> api_reply \<times> ('b, 'v) api_state" where
  "route_request ai now h req x =
     (let cfg = en_cfg (ai_env ai);
          oa = new_oauth_handler cfg True;
          sign_in = (\<lambda>m. case run_state m (as_sys x) of (r, s) \<Rightarrow> (SignIn r, x\<lparr>as_sys := s\<rparr>));
          cached = (\<lambda>(r, c, s). (r, x\<lparr>as_cache := c, as_sys := s\<rparr>)) in
      case req of
        PostCallback body \<Rightarrow> sign_in (callback (ai_oauth ai) oa (hh_browser h) body)
      | PostRefresh unmarshalled decoded \<Rightarrow>
          (case refresh_rate_limit_middleware (\<lambda>e. SignIn (Reply e)) (ai_rate ai) (an_sha (ai_auth ai)) now unmarshalled
                  (\<lambda>s. case run_state (refresh (ai_oauth ai) oa (hh_browser h) decoded) s of (r, s1) \<Rightarrow> (SignIn r, s1))
                  (as_refresh x, as_sys x) of
             (r, l, s) \<Rightarrow> (r, x\<lparr>as_refresh := l, as_sys := s\<rparr>))
      | PostLogout body \<Rightarrow>
          cached (case logout (ai_auth ai) (ai_oauth ai) oa (hh_browser h) body (as_cache x, as_sys x) of (r, y) \<Rightarrow> (SignIn r, y))
      | GetAuthConfig \<Rightarrow> (SignIn (oidc_config oa), x)
      | UserRoute ep \<Rightarrow>
          cached (signed_in ai h (\<lambda>u. banned_check u (user_handler ai now h u ep)) (as_cache x, as_sys x))
      | AdminRoute ep \<Rightarrow>
          cached (signed_in ai h (\<lambda>u. admin_only (Some u) (admin_handler ai h u ep)) (as_cache x, as_sys x)))"

definition serve_api ::
    "('b, 'v) api \<Rightarrow> time \<Rightarrow> http_headers \<Rightarrow> api_request \<Rightarrow> ('b, 'v) api_state \<Rightarrow>
     (api_reply \<times> (string \<times> string) list) \<times> ('b, 'v) api_state" where
  "serve_api ai now h req =
     (let cfg = en_cfg (ai_env ai) in
      cors_middleware NoContent cfg (hh_method h) (bh_origin (hh_browser h))
        (\<lambda>x. if 0 < RateLimitRPS cfg
             then (case rate_limit_middleware Control (ai_rate ai) (parse_trusted_proxies (TrustedProxies cfg)) now (hh_client h)
                     (\<lambda>y. route_request ai now h req y) (as_ip x, x) of
                 (r, l, y) \<Rightarrow> (r, y\<lparr>as_ip := l\<rparr>))
             else route_request ai now h req x))"

section \<open>No handler without a caller who may call it\<close>

text \<open>What a chain has established when the handler of the request runs as the user.\<close>

definition runs_as :: "('b, 'v) api \<Rightarrow> http_headers \<Rightarrow> db \<Rightarrow> user \<Rightarrow> ('b user_limiter \<times> 'v) sys \<Rightarrow> bool" where
  "runs_as ai h d u s \<longleftrightarrow>
     (\<exists>token. bearer_token (hh_auth h) = Inr token \<and>
        vouched (en_cfg (ai_env ai)) (ai_parse ai) token (an_now (ai_auth ai) (sy_world s)) (us_uid u)) \<and>
     same_but_users d (sy_db s)"

lemma signed_in_outcome:
  assumes "cache_ok c"
    and "signed_in ai h (\<lambda>u. if ok u then handler u else answer (JsonError msg 403)) (c, s) = (reply, c', t)"
  shows "cache_ok c' \<and>
    ((\<exists>u s2 r. ok u \<and> runs_as ai h (sy_db s) u s2 \<and> run_state (handler u) s2 = (r, t) \<and> reply = Control r) \<or>
     (reply_status reply \<in> {401, 403, 500} \<and> same_but_users (sy_db s) (sy_db t)))"
proof -
  let ?next = "\<lambda>u. if ok u then handler u else answer (JsonError msg 403)"
  obtain r where r: "jwt_middleware (ai_auth ai) (en_cfg (ai_env ai)) (ai_parse ai) (hh_auth h) ?next (c, s) = (r, c', t)"
      "reply = Control r"
    using assms(2) by (auto simp: signed_in_def split: prod.splits)
  from middleware_outcome [OF assms(1) r(1)] consider
      (passed) token sub u s2 where "bearer_token (hh_auth h) = Inr token"
        "vouched (en_cfg (ai_env ai)) (ai_parse ai) token (an_now (ai_auth ai) (sy_world s2)) sub" "us_uid u = sub"
        "run_state (?next u) s2 = (r, t)" "same_but_users (sy_db s) (sy_db s2)" "cache_ok c'"
    | (refused) "status r \<in> {401, 500}" "same_but_users (sy_db s) (sy_db t)" "cache_ok c'" by blast
  then show ?thesis
  proof cases
    case passed
    then have as: "runs_as ai h (sy_db s) u s2" by (auto simp: runs_as_def)
    show ?thesis
    proof (cases "ok u")
      case True
      then have "run_state (handler u) s2 = (r, t)" using passed(4) by simp
      then show ?thesis using as True r(2) passed(6) by blast
    next
      case False
      then show ?thesis using passed(4-6) r(2) by auto
    qed
  next
    case refused
    then show ?thesis using r(2) by auto
  qed
qed

lemma guards_as_if:
  "banned_check u next = (if \<not> us_banned u then next else answer (JsonError ''account is banned'' 403))"
  "admin_only (Some u) next = (if is_admin u then next else answer (JsonError ''admin access required'' 403))"
  by (simp_all add: banned_check_def admin_only_def)

definition handled :: "('b, 'v) api \<Rightarrow> time \<Rightarrow> http_headers \<Rightarrow> api_request \<Rightarrow> user \<Rightarrow> ('b user_limiter \<times> 'v, ctl_data response) op option" where
  "handled ai now h req u =
     (case req of
        UserRoute ep \<Rightarrow> if us_banned u then None else Some (user_handler ai now h u ep)
      | AdminRoute ep \<Rightarrow> if is_admin u then Some (admin_handler ai h u ep) else None
      | _ \<Rightarrow> None)"

lemma route_outcome:
  assumes "cache_ok (as_cache x)" and "route_request ai now h req x = (reply, y)"
    and "(\<exists>ep. req = UserRoute ep) \<or> (\<exists>ep. req = AdminRoute ep)"
  shows "cache_ok (as_cache y) \<and> as_ip y = as_ip x \<and>
    ((\<exists>u s m r. handled ai now h req u = Some m \<and> runs_as ai h (sy_db (as_sys x)) u s \<and> run_state m s = (r, as_sys y) \<and> reply = Control r) \<or>
     (reply_status reply \<in> {401, 403, 500} \<and> same_but_users (sy_db (as_sys x)) (sy_db (as_sys y))))"
  using assms(3)
proof (elim disjE exE)
  fix ep assume req: "req = UserRoute ep"
  obtain r c s where run: "signed_in ai h (\<lambda>u. banned_check u (user_handler ai now h u ep)) (as_cache x, as_sys x) = (r, c, s)"
    using prod_cases3 by blast
  have y: "reply = r" "y = x\<lparr>as_cache := c, as_sys := s\<rparr>"
    using assms(2) run by (simp_all add: route_request_def req Let_def)
  from signed_in_outcome [OF assms(1) run [unfolded guards_as_if]] show ?thesis
  proof (elim conjE disjE exE)
    fix u s2 r0
    assume a: "\<not> us_banned u" "runs_as ai h (sy_db (as_sys x)) u s2" "run_state (user_handler ai now h u ep) s2 = (r0, s)" "r = Control r0" "cache_ok c"
    have "handled ai now h req u = Some (user_handler ai now h u ep)" using a(1) by (simp add: handled_def req)
    moreover have "cache_ok (as_cache y)" "as_ip y = as_ip x" "as_sys y = s" "reply = Control r0" using a(4,5) y by simp_all
    ultimately show ?thesis using a(2,3) by blast
  qed (simp_all add: y)
next
  fix ep assume req: "req = AdminRoute ep"
  obtain r c s where run: "signed_in ai h (\<lambda>u. admin_only (Some u) (admin_handler ai h u ep)) (as_cache x, as_sys x) = (r, c, s)"
    using prod_cases3 by blast
  have y: "reply = r" "y = x\<lparr>as_cache := c, as_sys := s\<rparr>"
    using assms(2) run by (simp_all add: route_request_def req Let_def)
  from signed_in_outcome [OF assms(1) run [unfolded guards_as_if]] show ?thesis
  proof (elim conjE disjE exE)
    fix u s2 r0
    assume a: "is_admin u" "runs_as ai h (sy_db (as_sys x)) u s2" "run_state (admin_handler ai h u ep) s2 = (r0, s)" "r = Control r0" "cache_ok c"
    have "handled ai now h req u = Some (admin_handler ai h u ep)" using a(1) by (simp add: handled_def req)
    moreover have "cache_ok (as_cache y)" "as_ip y = as_ip x" "as_sys y = s" "reply = Control r0" using a(4,5) y by simp_all
    ultimately show ?thesis using a(2,3) by blast
  qed (simp_all add: y)
qed


text \<open>A body with anything behind its first JSON value is none for the limiter and one for the handler: it is not counted.\<close>

lemma refresh_limit_bypassed:
  "route_request ai now h (PostRefresh None (Some token)) x =
     (case run_state (refresh (ai_oauth ai) (new_oauth_handler (en_cfg (ai_env ai)) True) (hh_browser h) (Some token)) (as_sys x) of
        (r, s) \<Rightarrow> (SignIn r, x\<lparr>as_sys := s\<rparr>))"
  by (simp add: route_request_def refresh_rate_limit_middleware_def Let_def split: prod.split)

text \<open>A control plane whose cores are down and whose tokens all verify.\<close>

definition down_backend :: "'w backend" where
  "down_backend = \<lparr>bk_add_peer = (\<lambda>s k w. (Inl BadCoreData, w)), bk_remove_peer = (\<lambda>s k w. (Inl BadCoreData, w)),
     bk_server_stats = (\<lambda>s w. (Inl BadCoreData, w)), bk_list_peers = (\<lambda>s w. (Inl BadCoreData, w)), bk_health = (\<lambda>s w. (None, w)),
     bk_geo = (\<lambda>ip w. (None, w)), bk_add_mesh_ip = None, bk_remove_mesh_ip = None\<rparr>"

definition demo_api :: "(rat \<times> rat \<times> rat \<times> time, unit) api" where
  "demo_api = \<lparr>ai_env = \<lparr>en_cfg = demo_issuer\<lparr>RateLimitRPS := 0\<rparr>, en_backend = down_backend, en_hub = False, en_sha = (\<lambda>s. [1])\<rparr>,
     ai_auth = \<lparr>an_post = (\<lambda>u f w. (None, w)), an_decode = (\<lambda>b. None), an_now = (\<lambda>w. 0), an_sha = (\<lambda>s. [1])\<rparr>,
     ai_oauth = \<lparr>on_post = (\<lambda>u f w. (NoResponse, w)), on_decode = (\<lambda>b. None)\<rparr>,
     ai_parse = (\<lambda>t. Some (demo_token\<lparr>jt_iss := authentik_token_issuer (demo_issuer\<lparr>RateLimitRPS := 0\<rparr>)\<rparr>)), ai_rate = token_bucket, ai_uuid = itoa_nat, ai_qr = (\<lambda>t. None),
     ai_x25519 = (\<lambda>k b. Inr k), ai_error = (\<lambda>e. [])\<rparr>"

definition demo_http :: http_headers where
  "demo_http = \<lparr>hh_method = ''GET'', hh_browser = \<lparr>bh_origin = [], bh_referer = []\<rparr>, hh_auth = ''Bearer abc'',
     hh_client = \<lparr>ch_remote = ''192.0.2.1:1'', ch_real_ip = [], ch_forwarded = []\<rparr>,
     hh_origin = \<lparr>oh_cf = [], oh_real_ip = [], oh_forwarded = [], oh_remote = ''192.0.2.1:1''\<rparr>\<rparr>"

definition demo_state :: "(rat \<times> rat \<times> rat \<times> time, unit) api_state" where
  "demo_state = new_api_state demo_issuer
     \<lparr>sy_db = demo_db, sy_servers = new_server_repo, sy_countries = Map.empty, sy_events = [], sy_world = (new_user_limiter 1 5, ())\<rparr>"


end
