(* ===== verification/Spec2Isabelle.thy ===== *)
theory Spec2Isabelle
  imports WGManager CoreAPI CoreClient Jobs RateLimit WSHub OAuthFlow ProxyServer Routes
begin

text \<open>
  MidoriVPN: a Go server (\<^verbatim>\<open>src/cmd/vpn-core\<close>, \<^verbatim>\<open>src/internal\<close>) that is two programs in one binary. The core
  manages one WireGuard interface and offers it under \<^verbatim>\<open>/api/v1\<close> behind a shared token. The control plane,
  present where a database is configured, signs users in through Authentik, keeps users, servers, connections
  (peers), meshes and audit rows in PostgreSQL, and calls the cores of its servers over HTTP. Beside the two run
  an HTTP CONNECT proxy, a WebSocket hub and three background jobs.

  Parts and theories, from the library up:

  \<^item> \<open>Prelude\<close>, \<open>GoStrings\<close>, \<open>GoBase64\<close>, \<open>GoNet\<close>, \<open>GoURL\<close>: times, bounded searches, lists and
    the functions of Go's standard library the code calls, on byte strings, with their round trips.
  \<^item> \<open>IPPool\<close> (\<^verbatim>\<open>ippool/pool.go\<close>): the allocator as a bitset of 64-bit words with a scan hint; offsets are
    32-bit words. \<open>WGKeys\<close> (\<^verbatim>\<open>crypto/keypair.go\<close>), \<open>Config\<close> (\<^verbatim>\<open>config/config.go\<close>).
  \<^item> \<open>WGManager\<close> (\<^verbatim>\<open>wg/manager.go\<close>): the manager over an abstract operating system; \<open>CoreAPI\<close>
    (\<^verbatim>\<open>core/\<close>, \<^verbatim>\<open>respond/\<close>): its HTTP handlers behind the token check.
  \<^item> \<open>Models\<close> (\<^verbatim>\<open>models/\<close>), \<open>ServerHost\<close> (\<^verbatim>\<open>control/server_host.go\<close>), \<open>CoreClient\<close>
    (\<^verbatim>\<open>control/core_client.go\<close>): rows, input validation, and the client of the cores with its circuit breakers.
  \<^item> \<open>Database\<close>, \<open>MeshStore\<close> (\<^verbatim>\<open>repo/\<close>): every query of the repositories on an abstract database
    whose tables are lists; each call can fail, as the list \<open>db_faults\<close> decides.
  \<^item> \<open>Control\<close>: the state of the handlers (\<open>sys\<close>: database, server cache, country cache, sent events, world),
    with a handler being a \<open>State_Monad\<close> computation; \<open>Connections\<close>, \<open>AdminAPI\<close>, \<open>MeshAPI\<close>
    (\<^verbatim>\<open>control/handler.go\<close>, \<^verbatim>\<open>admin_mesh_handler.go\<close>, \<^verbatim>\<open>mesh_handler.go\<close>, \<^verbatim>\<open>exit_node_handler.go\<close>): the
    handlers; \<open>Accounting\<close>: what they do to connections and slots; \<open>Jobs\<close> (\<^verbatim>\<open>control/jobs.go\<close>): one tick of
    each background job.
  \<^item> \<open>RateLimit\<close> (\<^verbatim>\<open>api/ratelimit.go\<close>, \<^verbatim>\<open>api/refresh_ratelimit.go\<close>, \<^verbatim>\<open>control/user_ratelimit.go\<close>),
    \<open>AuthTokens\<close> (\<^verbatim>\<open>auth/\<close>), \<open>OAuthFlow\<close> (\<^verbatim>\<open>control/oauth.go\<close>), \<open>WSHub\<close> (\<^verbatim>\<open>control/ws_hub.go\<close>),
    \<open>ProxyServer\<close> (\<^verbatim>\<open>proxy/proxy.go\<close>) and \<open>Routes\<close> (\<^verbatim>\<open>api/router.go\<close>), which composes limiters, token
    check, guards and handlers into one function of a request.

  Conventions. Definitions carry the names of the code in snake case and its branches in its order. An error is the
  left of a sum or a response with its status; what the code only logs is left out. Times are integers in nanoseconds.
  A \<^verbatim>\<open>uuid\<close> is a natural number, a map with a zero default a total function. Parsed path parameters and decoded
  JSON bodies are arguments, \<open>None\<close> where parsing fails. What a mutex encloses is one step; goroutines whose
  result nobody awaits run where they are started. Code outside the repository (HTTP transport, JWT verification,
  Curve25519, SHA-256, the token bucket, name resolution, the kernel) is a field of a parameter record; the one place
  where a property needs a law of such code is \<open>refills\<close> in \<open>RateLimit\<close>, which a concrete token bucket satisfies.

  Interfaces. \<open>address_allocator\<close> (\<open>IPPool\<close>) states what the manager relies on when it allocates, releases and
  reserves, and is interpreted on the pool. \<open>step_relation\<close> (\<open>Control\<close>) proves once that a reflexive and transitive relation kept by every
  step is kept by a handler; it is interpreted on the frames the handler theories use. \<open>keyed_limiter\<close>
  (\<open>RateLimit\<close>) proves once that dropping idle buckets cannot be observed; it is interpreted on all three limiters.

  What the lemmas show. The pool hands out the lowest free address and the manager never gives two keys the same one
  (\<open>IPPool\<close>, \<open>WGManager\<close>); its persisted configuration parses back. Connecting, disconnecting and cleaning up keep
  the count of a server equal to its active connections and below its capacity (\<open>Accounting\<close>, \<open>Database\<close>,
  \<open>Jobs\<close>), with the cases in which the code does not (\<open>disconnect_counts_again\<close>,
  \<open>delete_user_leaves_servers\<close>). A handler runs only for a caller who may call it (\<open>AuthTokens\<close>,
  \<open>Routes\<close>, \<open>CoreAPI\<close>, \<open>ProxyServer\<close>) and touches only what is the caller's (\<open>Accounting\<close>,
  \<open>MeshAPI\<close>). Calls of a core are bounded, go to allowed hosts only and follow the breaker automaton
  (\<open>CoreClient\<close>). The limiters refine one bucket per key; the hub and the proxy respect their limits in every
  interleaving (\<open>WSHub\<close>, \<open>ProxyServer\<close>), the proxy without ever losing a slot, the hub not.

  Termination. The scan of the pool is a \<open>partial_function\<close>, so that not ending is a value: \<open>allocate_lowest_free\<close>
  proves that it ends on every well-formed pool, and \<open>core_api_guarded\<close> that every core request is answered. The
  suffix loop of \<^verbatim>\<open>buildWGConfig\<close> ends by \<open>exported_address_normalised\<close>. All other loops are structural
  or end by a measure; no fuel is used except for the three attempts the code itself allows a call of a core and the
  preloading of the key set.

  Not modelled: start-up and shutdown (\<^verbatim>\<open>cmd/vpn-core/main.go\<close>), the connection pool and the migrations
  (\<^verbatim>\<open>db/\<close>; the constraints of the schema are part of \<open>Database\<close> and \<open>MeshStore\<close>), the client
  \<^verbatim>\<open>api.go\<close> at the root, which nothing calls, the constant page of \<^verbatim>\<open>ExtensionCallback\<close>, the byte streams
  of tunnels and WebSockets, the tickers of the jobs, timeouts other than as failures, logging, and the path matching of the
  router, a constructor of the request types standing for a route.
\<close>

end
